(* ===== verification/Arb_Prelude.thy ===== *)
theory Arb_Prelude
  imports Complex_Main
begin

text \<open>
  Shared vocabulary of the development: the Python primitives the modelled
  modules of \<^verbatim>\<open>src/arb\<close> rely on (exceptions as values, dynamically typed
  payload values and their truthiness, \<^verbatim>\<open>int()\<close>, \<^verbatim>\<open>round()\<close>, a bounded
  \<^verbatim>\<open>deque\<close>), the named collections of facts the component theories feed to
  the simplifier, and the list and arithmetic lemmas several components share.

  Python \<^verbatim>\<open>float\<close> is modelled by \<^typ>\<open>real\<close> (exact arithmetic, no rounding,
  no infinities or NaN) and Python \<^verbatim>\<open>int\<close> by \<^typ>\<open>int\<close>.
\<close>

section \<open>Fact collections\<close>

named_theorems arb_unfold "definitions of the modelled operations, for evaluation on concrete inputs"
  and arb_inv "invariant establishment and preservation facts"
  and py_simps "evaluation rules of the Python primitives"

section \<open>Exceptions and results\<close>

datatype py_error =
    ValueError string
  | RuntimeError string
  | KeyError string
  | ZeroDivisionError
  | HTTPException int string
  | OperationalError string
  | IntegrityError string
  | AttributeError string
  | WebSocketDisconnect
  | TypeError string
  | IndexError string
  | ClientError string
  | MissingCredentials string
  | NotImplementedError

type_synonym 'a result = "py_error + 'a"

definition is_ok :: "'a result \<Rightarrow> bool" where
  "is_ok r = (case r of Inl _ \<Rightarrow> False | Inr _ \<Rightarrow> True)"

definition bind_result :: "'a result \<Rightarrow> ('a \<Rightarrow> 'b result) \<Rightarrow> 'b result" where
  "bind_result r f = (case r of Inl e \<Rightarrow> Inl e | Inr x \<Rightarrow> f x)"

lemma is_ok_simps [simp, py_simps]:
  "is_ok (Inr x) = True" "is_ok (Inl e) = False"
  by (simp_all add: is_ok_def)

lemma bind_result_simps [simp, py_simps]:
  "bind_result (Inr x) f = f x" "bind_result (Inl e) f = Inl e"
  by (simp_all add: bind_result_def)

lemma bind_result_eq_Inr:
  "bind_result r f = Inr y \<longleftrightarrow> (\<exists>x. r = Inr x \<and> f x = Inr y)"
  by (cases r) simp_all

lemma is_ok_iff: "is_ok r \<longleftrightarrow> (\<exists>x. r = Inr x)"
  by (cases r) simp_all

text \<open>
  \<^verbatim>\<open>try: r except Exception: h\<close> keeps the value of \<open>r\<close> and replaces an
  exception by the handler; \<open>map_result\<close> is a loop or comprehension that
  applies \<open>f\<close> to the elements in order and stops at the first exception.
\<close>

definition catch_result :: "'a result \<Rightarrow> (py_error \<Rightarrow> 'a result) \<Rightarrow> 'a result" where
  "catch_result r h = (case r of Inl e \<Rightarrow> h e | Inr x \<Rightarrow> Inr x)"

fun map_result :: "('a \<Rightarrow> 'b result) \<Rightarrow> 'a list \<Rightarrow> 'b list result" where
  "map_result f [] = Inr []"
| "map_result f (x # xs) = bind_result (f x) (\<lambda>y. bind_result (map_result f xs) (\<lambda>ys. Inr (y # ys)))"

lemma catch_result_simps [simp, py_simps]:
  "catch_result (Inr x) h = Inr x" "catch_result (Inl e) h = h e"
  by (simp_all add: catch_result_def)

lemma catch_result_total: "(\<And>e. is_ok (h e)) \<Longrightarrow> is_ok (catch_result r h)"
  by (cases r) simp_all

lemma bind_result_eq_Inl:
  "bind_result r f = Inl e \<longleftrightarrow> r = Inl e \<or> (\<exists>x. r = Inr x \<and> f x = Inl e)"
  by (cases r) simp_all

lemma bind_result_assoc:
  "bind_result (bind_result r f) g = bind_result r (\<lambda>x. bind_result (f x) g)"
  by (cases r) simp_all

lemma bind_result_Inr [simp]: "bind_result r Inr = r"
  by (cases r) simp_all

lemma map_result_eq_Inr:
  "map_result f xs = Inr ys \<longleftrightarrow> list_all2 (\<lambda>x y. f x = Inr y) xs ys"
  by (induction xs arbitrary: ys) (auto simp: bind_result_eq_Inr list_all2_Cons1)

lemma map_result_length: "map_result f xs = Inr ys \<Longrightarrow> length ys = length xs"
  by (simp add: map_result_eq_Inr list_all2_lengthD)

lemma map_result_map: "map_result (\<lambda>x. Inr (g x)) xs = Inr (map g xs)"
  by (induction xs) simp_all

lemma map_result_append:
  "map_result f (xs @ ys)
     = bind_result (map_result f xs) (\<lambda>us. bind_result (map_result f ys) (\<lambda>vs. Inr (us @ vs)))"
  by (induction xs) (simp_all add: bind_result_assoc)

lemma map_result_take:
  "map_result f xs = Inr ys \<Longrightarrow> map_result f (take n xs) = Inr (take n ys)"
  by (simp add: map_result_eq_Inr list_all2_takeI)

lemma map_result_cong_ok:
  "(\<And>x. x \<in> set xs \<Longrightarrow> f x = Inr (g x)) \<Longrightarrow> map_result f xs = Inr (map g xs)"
  by (induction xs) simp_all

section \<open>Optional numbers and Python truthiness\<close>

text \<open>
  \<^verbatim>\<open>if x:\<close> on an optional number is false for \<^verbatim>\<open>None\<close> and for zero.
\<close>

definition truthy :: "real option \<Rightarrow> bool" where
  "truthy v = (case v of None \<Rightarrow> False | Some x \<Rightarrow> x \<noteq> 0)"

lemma truthy_simps [simp, py_simps]:
  "truthy None = False" "truthy (Some x) = (x \<noteq> 0)"
  by (simp_all add: truthy_def)

definition or_else :: "real option \<Rightarrow> real \<Rightarrow> real" where
  "or_else v d = (if truthy v then the v else d)"

lemma or_else_simps [simp, py_simps]:
  "or_else None d = d" "or_else (Some x) d = (if x \<noteq> 0 then x else d)"
  by (simp_all add: or_else_def)

lemma or_else_zero [simp]: "or_else (Some x) 0 = x"
  by simp

section \<open>Conversions\<close>

text \<open>\<^verbatim>\<open>int(x)\<close> on a float truncates towards zero.\<close>

definition py_int :: "real \<Rightarrow> int" where
  "py_int x = (if 0 \<le> x then \<lfloor>x\<rfloor> else \<lceil>x\<rceil>)"

text \<open>\<^verbatim>\<open>round(x)\<close> rounds to the nearest integer, ties to the even one.\<close>

definition py_round :: "real \<Rightarrow> int" where
  "py_round x =
     (let f = \<lfloor>x\<rfloor>; d = x - real_of_int f
      in if d < 1 / 2 then f else if 1 / 2 < d then f + 1
         else if even f then f else f + 1)"

lemma py_int_of_int [simp]: "py_int (real_of_int i) = i"
  by (simp add: py_int_def)

lemma py_int_nonneg: "0 \<le> x \<Longrightarrow> 0 \<le> py_int x \<and> real_of_int (py_int x) \<le> x"
  by (simp add: py_int_def)

lemma py_int_gt: "0 \<le> x \<Longrightarrow> x < real_of_int (py_int x) + 1"
  by (simp add: py_int_def)

lemma py_round_of_int [simp]: "py_round (real_of_int i) = i"
  by (simp add: py_round_def)

lemma py_round_bounds:
  "real_of_int (py_round x) \<le> x + 1 / 2 \<and> x - 1 / 2 \<le> real_of_int (py_round x)"
  unfolding py_round_def Let_def by (auto; linarith)

lemma py_round_mono_nonneg: "0 \<le> x \<Longrightarrow> 0 \<le> py_round x"
  unfolding py_round_def Let_def by (auto simp: zero_le_floor intro: add_nonneg_nonneg)

lemma py_round_floor: "\<lfloor>x\<rfloor> \<le> py_round x \<and> py_round x \<le> \<lfloor>x\<rfloor> + 1"
  by (simp add: py_round_def Let_def)

lemma py_round_mono:
  assumes "x \<le> y"
  shows "py_round x \<le> py_round y"
proof (cases "\<lfloor>x\<rfloor> = \<lfloor>y\<rfloor>")
  case True
  with assms show ?thesis by (auto simp: py_round_def Let_def)
next
  case False
  with assms have "\<lfloor>x\<rfloor> + 1 \<le> \<lfloor>y\<rfloor>" using floor_mono [OF assms] by linarith
  with py_round_floor [of x] py_round_floor [of y] show ?thesis by linarith
qed

section \<open>A bounded deque\<close>

text \<open>
  \<^verbatim>\<open>collections.deque(maxlen=n).append(x)\<close>: nothing is stored when
  \<open>n = 0\<close>; otherwise the element is added on the right and, if that
  exceeds \<open>n\<close> elements, the leftmost one is dropped.
\<close>

definition deque_append :: "int \<Rightarrow> 'a list \<Rightarrow> 'a \<Rightarrow> 'a list" where
  "deque_append maxlen xs x =
     (if maxlen = 0 then xs
      else let ys = xs @ [x] in if maxlen < int (length ys) then tl ys else ys)"

definition last_n :: "nat \<Rightarrow> 'a list \<Rightarrow> 'a list" where
  "last_n n xs = drop (length xs - n) xs"

lemma last_n_simps [simp]:
  "last_n n [] = []" "last_n 0 xs = []" "length xs \<le> n \<Longrightarrow> last_n n xs = xs"
  by (simp_all add: last_n_def)

lemma length_last_n [simp]: "length (last_n n xs) = min n (length xs)"
  by (simp add: last_n_def)

lemma last_n_snoc: "0 < n \<Longrightarrow> last_n n (xs @ [x]) = last_n (n - 1) xs @ [x]"
  by (cases "length xs < n") (simp_all add: last_n_def Suc_diff_le)

lemma last_n_pred_eq_tl:
  "length xs = n \<Longrightarrow> 0 < n \<Longrightarrow> last_n (n - 1) xs = tl xs"
  by (cases xs) (simp_all add: last_n_def)

lemma last_n_last_n: "m \<le> n \<Longrightarrow> last_n m (last_n n xs) = last_n m xs"
  by (simp add: last_n_def min_def) (cases "length xs \<le> n"; simp)

lemma last_n_append:
  "last_n n (ys @ xs) = last_n (n - length xs) ys @ last_n n xs"
  by (cases "n \<le> length xs") (simp_all add: last_n_def)

lemma last_n_append_last_n: "last_n n (last_n n ys @ xs) = last_n n (ys @ xs)"
  by (simp add: last_n_append last_n_last_n)

lemma deque_append_length:
  "0 < maxlen \<Longrightarrow> int (length xs) \<le> maxlen \<Longrightarrow>
     int (length (deque_append maxlen xs x)) \<le> maxlen \<and> deque_append maxlen xs x \<noteq> []"
  by (cases xs) (auto simp: deque_append_def Let_def)

lemma deque_append_last [simp]:
  "maxlen \<noteq> 0 \<Longrightarrow> xs \<noteq> [] \<or> 1 \<le> maxlen \<Longrightarrow> last (deque_append maxlen xs x) = x"
  by (cases xs) (auto simp: deque_append_def Let_def)

lemma deque_append_last_n:
  assumes "0 < maxlen" "int (length xs) \<le> maxlen"
  shows "deque_append maxlen xs x = last_n (nat maxlen) (xs @ [x])"
proof (cases "int (length xs) = maxlen")
  case True
  with assms have "last_n (nat maxlen - 1) xs = tl xs"
    by (intro last_n_pred_eq_tl) auto
  moreover from True assms have "xs \<noteq> []" by auto
  ultimately show ?thesis using True assms
    by (simp add: deque_append_def Let_def last_n_snoc)
next
  case False
  with assms have "length (xs @ [x]) \<le> nat maxlen" "\<not> maxlen < int (length (xs @ [x]))"
    by simp_all
  with assms show ?thesis
    by (simp add: deque_append_def Let_def del: length_append)
qed

section \<open>Sums and means of lists of reals\<close>

definition mean :: "real list \<Rightarrow> real" where
  "mean xs = sum_list xs / real (length xs)"

lemma sum_list_ge_const:
  "\<forall>x\<in>set xs. lo \<le> x \<Longrightarrow> real (length xs) * lo \<le> sum_list xs"
  by (induction xs) (auto simp: algebra_simps)

lemma sum_list_le_const:
  "\<forall>x\<in>set xs. x \<le> hi \<Longrightarrow> sum_list xs \<le> real (length xs) * hi"
  by (induction xs) (auto simp: algebra_simps)

lemma mean_bounds:
  assumes "xs \<noteq> []" "\<forall>x\<in>set xs. lo \<le> x \<and> x \<le> hi"
  shows "lo \<le> mean xs \<and> mean xs \<le> hi"
proof -
  from assms(1) have n: "0 < real (length xs)" by simp
  from assms(2) have "real (length xs) * lo \<le> sum_list xs" "sum_list xs \<le> real (length xs) * hi"
    by (simp_all add: sum_list_ge_const sum_list_le_const)
  with n show ?thesis
    by (simp add: mean_def field_simps)
qed

lemma sum_list_diff_const:
  "(\<Sum>x\<leftarrow>xs. x - c) = sum_list xs - real (length xs) * (c::real)"
  by (induction xs) (simp_all add: algebra_simps)

lemma sum_list_dev_mean [simp]: "xs \<noteq> [] \<Longrightarrow> (\<Sum>x\<leftarrow>xs. x - mean xs) = 0"
  by (simp add: sum_list_diff_const mean_def)

lemma sum_list_squares_nonneg [simp]: "0 \<le> (\<Sum>x\<leftarrow>xs. (f x :: real)\<^sup>2)"
  by (induction xs) simp_all

lemma sum_list_squares_eq_0_iff:
  "(\<Sum>x\<leftarrow>xs. (f x :: real)\<^sup>2) = 0 \<longleftrightarrow> (\<forall>x\<in>set xs. f x = 0)"
proof (induction xs)
  case Nil
  show ?case by simp
next
  case (Cons a xs)
  have "0 \<le> (f a)\<^sup>2" "0 \<le> (\<Sum>x\<leftarrow>xs. (f x)\<^sup>2)" by simp_all
  then have "(f a)\<^sup>2 + (\<Sum>x\<leftarrow>xs. (f x)\<^sup>2) = 0 \<longleftrightarrow> (f a)\<^sup>2 = 0 \<and> (\<Sum>x\<leftarrow>xs. (f x)\<^sup>2) = 0"
    by (rule add_nonneg_eq_0_iff)
  with Cons.IH show ?case by simp
qed

lemma mean_replicate [simp]: "0 < n \<Longrightarrow> mean (replicate n c) = c"
  by (simp add: mean_def sum_list_replicate)

section \<open>Convex combinations\<close>

lemma convex_bounds:
  fixes a x y :: real
  assumes "0 \<le> a" "a \<le> 1"
  shows "min x y \<le> a * x + (1 - a) * y \<and> a * x + (1 - a) * y \<le> max x y"
proof -
  have l: "a * min x y \<le> a * x" "(1 - a) * min x y \<le> (1 - a) * y"
    using assms by (simp_all add: mult_left_mono)
  have u: "a * x \<le> a * max x y" "(1 - a) * y \<le> (1 - a) * max x y"
    using assms by (simp_all add: mult_left_mono)
  have "min x y = a * min x y + (1 - a) * min x y" "max x y = a * max x y + (1 - a) * max x y"
    by (simp_all add: algebra_simps)
  with l u show ?thesis by linarith
qed

lemma convex_in_interval:
  fixes a x y lo hi :: real
  assumes "0 \<le> a" "a \<le> 1" "lo \<le> x" "x \<le> hi" "lo \<le> y" "y \<le> hi"
  shows "lo \<le> a * x + (1 - a) * y \<and> a * x + (1 - a) * y \<le> hi"
  using convex_bounds [OF assms(1,2), of x y] assms(3-) by (auto simp: min_def max_def split: if_splits)


section \<open>Sorting by a key\<close>

lemma insort_key_snoc_max:
  "f x \<le> f r \<Longrightarrow> insort_key f x (ys @ [r]) = insort_key f x ys @ [r]"
  by (induction ys) simp_all

lemma sort_key_snoc_max:
  "\<forall>x\<in>set xs. f x \<le> f r \<Longrightarrow> sort_key f (xs @ [r]) = sort_key f xs @ [r]"
  by (induction xs) (simp_all add: sort_key_def insort_key_snoc_max)

lemma sorted_rev_take_rev:
  "sorted xs \<Longrightarrow> sorted (rev (take n (rev xs)))"
  by (simp add: take_rev sorted_wrt_drop)

lemma take_rev_sorted_le:
  assumes "sorted (map f ys)" "x \<in> set ys" "x \<notin> set (take n (rev ys))" "y \<in> set (take n (rev ys))"
  shows "f x \<le> f y"
proof -
  let ?k = "length ys - n"
  have t: "take n (rev ys) = rev (drop ?k ys)" by (simp add: take_rev)
  from assms(2,3) have "x \<in> set (take ?k ys)"
    unfolding t by (metis Un_iff append_take_drop_id set_append set_rev)
  moreover from assms(4) have "y \<in> set (drop ?k ys)" unfolding t by simp
  moreover from assms(1) have "sorted (map f (take ?k ys) @ map f (drop ?k ys))"
    by (metis append_take_drop_id map_append)
  ultimately show ?thesis
    by (auto simp: sorted_append)
qed

end
