(* ===== verification/ZScore.thy ===== *)
theory ZScore
  imports Arb_Prelude
begin

text \<open>
  The statistical signals of \<^verbatim>\<open>src/arb/signal/zscore.py\<close>: the class
  \<^verbatim>\<open>RollingZScore\<close> (a window of the last \<open>window\<close> spreads with their
  mean, sample standard deviation and z-score) and the class \<^verbatim>\<open>EMA\<close>.
  Each class is a record of its attributes, each constructor a function into
  \<^typ>\<open>'a result\<close> (the \<^verbatim>\<open>ValueError\<close> of a bad window is \<open>Inl\<close>), each
  \<^verbatim>\<open>update\<close> a function from the object and the new value to the returned
  value and the updated object.
\<close>

section \<open>RollingZScore\<close>

record RollingZScore =
  window :: int
  buf :: "real list"

definition RollingZScore_init :: "int \<Rightarrow> RollingZScore result" where
  "RollingZScore_init w =
     (if w \<le> 1 then Inl (ValueError ''window must be > 1'')
      else Inr \<lparr>window = w, buf = []\<rparr>)"

definition sample_std :: "real list \<Rightarrow> real" where
  "sample_std b =
     (let n = length b; m = sum_list b / real n
      in if 1 < n then sqrt (max ((\<Sum>x\<leftarrow>b. (x - m)\<^sup>2) / real (n - 1)) 0) else 0)"

definition RollingZScore_update ::
  "RollingZScore \<Rightarrow> real \<Rightarrow> ((real \<times> real \<times> real) \<times> RollingZScore) result" where
  "RollingZScore_update s v =
     (let b = deque_append (window s) (buf s) v; n = length b
      in if n = 0 then Inl ZeroDivisionError
         else let m = sum_list b / real n;
                  std = sample_std b;
                  z = (if 0 < std then (v - m) / std else 0)
              in Inr ((z, m, std), s\<lparr>buf := b\<rparr>))"

text \<open>Feeding a stream of values, as the poller does tick after tick.\<close>

fun RollingZScore_feed ::
  "RollingZScore \<Rightarrow> real list \<Rightarrow> ((real \<times> real \<times> real) list \<times> RollingZScore) result" where
  "RollingZScore_feed s [] = Inr ([], s)"
| "RollingZScore_feed s (x # xs) =
     bind_result (RollingZScore_update s x) (\<lambda>(r, s').
       bind_result (RollingZScore_feed s' xs) (\<lambda>(rs, s''). Inr (r # rs, s'')))"

definition rz_inv :: "RollingZScore \<Rightarrow> bool" where
  "rz_inv s \<longleftrightarrow> 1 < window s \<and> int (length (buf s)) \<le> window s"

section \<open>EMA\<close>

record EMA =
  ema_window :: int
  alpha :: real
  ema_value :: "real option"

definition EMA_init :: "int \<Rightarrow> EMA result" where
  "EMA_init w =
     (if w \<le> 0 then Inl (ValueError ''window must be > 0'')
      else Inr \<lparr>ema_window = w, alpha = 2 / (real_of_int w + 1), ema_value = None\<rparr>)"

definition EMA_update :: "EMA \<Rightarrow> real \<Rightarrow> real \<times> EMA" where
  "EMA_update e x =
     (let v = (case ema_value e of None \<Rightarrow> x
               | Some old \<Rightarrow> alpha e * x + (1 - alpha e) * old)
      in (v, e\<lparr>ema_value := Some v\<rparr>))"

fun EMA_feed :: "EMA \<Rightarrow> real list \<Rightarrow> real list \<times> EMA" where
  "EMA_feed e [] = ([], e)"
| "EMA_feed e (x # xs) =
     (let (v, e') = EMA_update e x; (vs, e'') = EMA_feed e' xs in (v # vs, e''))"

definition ema_inv :: "EMA \<Rightarrow> bool" where
  "ema_inv e \<longleftrightarrow> 0 < alpha e \<and> alpha e \<le> 1"

definition ema_within :: "real \<Rightarrow> real \<Rightarrow> EMA \<Rightarrow> bool" where
  "ema_within lo hi e \<longleftrightarrow> (case ema_value e of None \<Rightarrow> True | Some v \<Rightarrow> lo \<le> v \<and> v \<le> hi)"

lemmas zscore_defs [arb_unfold] =
  RollingZScore_init_def RollingZScore_update_def sample_std_def deque_append_def
  EMA_init_def EMA_update_def

section \<open>Properties of RollingZScore\<close>

lemma RollingZScore_init_inv [arb_inv]: "RollingZScore_init w = Inr s \<Longrightarrow> rz_inv s \<and> window s = w \<and> buf s = []"
  by (auto simp: RollingZScore_init_def rz_inv_def split: if_splits)

lemma sample_std_nonneg [simp]: "0 \<le> sample_std b"
  by (simp add: sample_std_def Let_def)

lemma sample_std_sq:
  assumes "1 < length b"
  shows "(sample_std b)\<^sup>2 * real (length b - 1) = (\<Sum>x\<leftarrow>b. (x - mean b)\<^sup>2)"
proof -
  let ?v = "(\<Sum>x\<leftarrow>b. (x - mean b)\<^sup>2) / real (length b - 1)"
  have v: "0 \<le> ?v" by simp
  then have "max ?v 0 = ?v" by (rule max_absorb1)
  with assms have "sample_std b = sqrt ?v"
    by (simp add: sample_std_def Let_def mean_def)
  with v have "(sample_std b)\<^sup>2 = ?v" by simp
  with assms show ?thesis by simp
qed

lemma sample_std_eq_0_iff:
  "1 < length b \<Longrightarrow> sample_std b = 0 \<longleftrightarrow> (\<forall>x\<in>set b. x = mean b)"
proof -
  assume n: "1 < length b"
  have "sample_std b = 0 \<longleftrightarrow> (sample_std b)\<^sup>2 * real (length b - 1) = 0"
    using n by simp
  also have "\<dots> \<longleftrightarrow> (\<forall>x\<in>set b. x - mean b = 0)"
    using n by (simp only: sample_std_sq sum_list_squares_eq_0_iff)
  finally show ?thesis by simp
qed

lemma RollingZScore_update_ok:
  assumes "rz_inv s"
  shows "RollingZScore_update s v =
    Inr (((if 0 < sample_std (deque_append (window s) (buf s) v)
           then (v - mean (deque_append (window s) (buf s) v)) / sample_std (deque_append (window s) (buf s) v)
           else 0),
          mean (deque_append (window s) (buf s) v),
          sample_std (deque_append (window s) (buf s) v)),
         s\<lparr>buf := deque_append (window s) (buf s) v\<rparr>)"
proof -
  from assms have "deque_append (window s) (buf s) v \<noteq> []"
    using deque_append_length [of "window s" "buf s" v] by (simp add: rz_inv_def)
  then show ?thesis
    by (simp add: RollingZScore_update_def Let_def mean_def)
qed

lemma RollingZScore_update_buf:
  "rz_inv s \<Longrightarrow> RollingZScore_update s v = Inr (r, s') \<Longrightarrow>
     buf s' = last_n (nat (window s)) (buf s @ [v]) \<and> window s' = window s"
  by (auto simp: RollingZScore_update_ok deque_append_last_n rz_inv_def)

lemma RollingZScore_update_inv [arb_inv]:
  "rz_inv s \<Longrightarrow> RollingZScore_update s v = Inr (r, s') \<Longrightarrow> rz_inv s'"
  using deque_append_length [of "window s" "buf s" v]
  by (auto simp: RollingZScore_update_ok rz_inv_def)

lemma RollingZScore_feed_inv [arb_inv]:
  "rz_inv s \<Longrightarrow> RollingZScore_feed s xs = Inr (rs, s') \<Longrightarrow> rz_inv s' \<and> window s' = window s"
proof (induction xs arbitrary: s rs)
  case Nil
  then show ?case by simp
next
  case (Cons x xs)
  from Cons.prems(2) obtain r s1 rs1 where
    u: "RollingZScore_update s x = Inr (r, s1)" and f: "RollingZScore_feed s1 xs = Inr (rs1, s')"
    by (auto simp: bind_result_eq_Inr)
  from Cons.prems(1) u have "rz_inv s1" "window s1 = window s"
    by (simp_all add: RollingZScore_update_inv RollingZScore_update_buf)
  with Cons.IH [OF _ f] show ?case by simp
qed

lemma RollingZScore_feed_buf:
  "rz_inv s \<Longrightarrow> RollingZScore_feed s xs = Inr (rs, s') \<Longrightarrow>
     buf s' = last_n (nat (window s)) (buf s @ xs) \<and> length rs = length xs"
proof (induction xs arbitrary: s rs)
  case Nil
  then have "length (buf s) \<le> nat (window s)" by (auto simp: rz_inv_def le_nat_iff)
  with Nil show ?case by simp
next
  case (Cons x xs)
  from Cons.prems(2) obtain r s1 rs1 where
    u: "RollingZScore_update s x = Inr (r, s1)" and f: "RollingZScore_feed s1 xs = Inr (rs1, s')"
    and rs: "rs = r # rs1"
    by (auto simp: bind_result_eq_Inr)
  from Cons.prems(1) u have s1: "rz_inv s1" "window s1 = window s"
    "buf s1 = last_n (nat (window s)) (buf s @ [x])"
    by (simp_all add: RollingZScore_update_inv RollingZScore_update_buf)
  from Cons.IH [OF s1(1) f] s1(2,3) rs show ?case
    by (simp add: last_n_append_last_n)
qed

lemma RollingZScore_feed_total:
  "rz_inv s \<Longrightarrow> \<exists>rs s'. RollingZScore_feed s xs = Inr (rs, s')"
proof (induction xs arbitrary: s)
  case Nil
  show ?case by simp
next
  case (Cons x xs)
  let ?s1 = "s\<lparr>buf := deque_append (window s) (buf s) x\<rparr>"
  from Cons.prems obtain r where u: "RollingZScore_update s x = Inr (r, ?s1)"
    by (simp add: RollingZScore_update_ok)
  with Cons.prems have "rz_inv ?s1" by (rule RollingZScore_update_inv)
  from Cons.IH [OF this] u show ?case by auto
qed


lemma RollingZScore_update_result:
  assumes "rz_inv s" and "RollingZScore_update s v = Inr ((z, m, sd), s')"
  shows "m = mean (buf s') \<and> 0 \<le> sd
    \<and> (1 < length (buf s') \<longrightarrow> sd\<^sup>2 * real (length (buf s') - 1) = (\<Sum>x\<leftarrow>buf s'. (x - m)\<^sup>2))
    \<and> (length (buf s') \<le> 1 \<longrightarrow> sd = 0)
    \<and> (0 < sd \<longrightarrow> z = (v - m) / sd) \<and> (sd = 0 \<longrightarrow> z = 0)"
proof -
  from assms have b: "buf s' = deque_append (window s) (buf s) v"
    and m: "m = mean (buf s')" and sd: "sd = sample_std (buf s')"
    and z: "z = (if 0 < sd then (v - m) / sd else 0)"
    by (auto simp: RollingZScore_update_ok)
  from sd have small: "length (buf s') \<le> 1 \<longrightarrow> sd = 0"
    by (simp add: sample_std_def Let_def)
  from sd m have sq: "1 < length (buf s') \<longrightarrow>
      sd\<^sup>2 * real (length (buf s') - 1) = (\<Sum>x\<leftarrow>buf s'. (x - m)\<^sup>2)"
    using sample_std_sq [of "buf s'"] by blast
  from sd have "0 \<le> sd" by simp
  with m z small sq show ?thesis by simp
qed

text \<open>
  C1 (refinement): a \<^verbatim>\<open>RollingZScore(w)\<close> that has been fed the stream \<open>xs\<close>
  holds exactly the last \<open>w\<close> values of the stream, oldest first, and has
  returned one result per value. The abstract specification of the window is
  \<open>last_n\<close> on the list of all values seen.
\<close>

theorem RollingZScore_window_refines:
  assumes "RollingZScore_init w = Inr s0"
  shows "\<exists>rs s. RollingZScore_feed s0 xs = Inr (rs, s) \<and> buf s = last_n (nat w) xs
           \<and> window s = w \<and> length rs = length xs"
proof -
  from assms have s0: "rz_inv s0" "window s0 = w" "buf s0 = []"
    by (simp_all add: RollingZScore_init_inv)
  from s0(1) obtain rs s where f: "RollingZScore_feed s0 xs = Inr (rs, s)"
    using RollingZScore_feed_total by blast
  with s0 show ?thesis
    using RollingZScore_feed_buf [OF s0(1) f] RollingZScore_feed_inv [OF s0(1) f] by simp
qed

theorem RollingZScore_window_refines_witness:
  "RollingZScore_init 3 = Inr \<lparr>window = 3, buf = []\<rparr> \<and>
   (\<exists>rs s. RollingZScore_feed \<lparr>window = 3, buf = []\<rparr> [1, 2, 3, 4, 5] = Inr (rs, s)
      \<and> buf s = [3, 4, 5] \<and> window s = 3 \<and> length rs = length [1, 2, 3, 4, 5 :: real])"
  using RollingZScore_window_refines [of 3 "\<lparr>window = 3, buf = []\<rparr>" "[1, 2, 3, 4, 5]"]
  by (simp add: RollingZScore_init_def last_n_def del: RollingZScore_feed.simps)

text \<open>
  C21 (functional): on a well-formed object \<^verbatim>\<open>update(v)\<close> returns
  \<open>(z, mean, std)\<close> where \<open>mean\<close> is the mean of the new window, \<open>std\<close> is
  its non-negative sample standard deviation (\<open>std\<^sup>2 (n - 1)\<close> is the sum of
  squared deviations; \<open>std = 0\<close> for a single value), and \<open>z\<close> is
  \<open>(v - mean) / std\<close> when \<open>std > 0\<close> and \<open>0\<close> otherwise.
\<close>

theorem RollingZScore_update_zscore:
  assumes "rz_inv s" and "RollingZScore_update s v = Inr ((z, m, sd), s')"
  shows "m = mean (buf s') \<and> 0 \<le> sd
    \<and> (1 < length (buf s') \<longrightarrow> sd\<^sup>2 * real (length (buf s') - 1) = (\<Sum>x\<leftarrow>buf s'. (x - m)\<^sup>2))
    \<and> (length (buf s') \<le> 1 \<longrightarrow> sd = 0)
    \<and> (0 < sd \<longrightarrow> z = (v - m) / sd) \<and> (sd = 0 \<longrightarrow> z = 0)"
  using assms by (rule RollingZScore_update_result)

theorem RollingZScore_update_zscore_witness:
  "rz_inv \<lparr>window = 3, buf = [1, 2]\<rparr> \<and>
   RollingZScore_update \<lparr>window = 3, buf = [1, 2]\<rparr> 3 = Inr ((1, 2, 1), \<lparr>window = 3, buf = [1, 2, 3]\<rparr>) \<and>
   (2::real) = mean [1, 2, 3] \<and> (1::real)\<^sup>2 * real (3 - 1) = (\<Sum>x\<leftarrow>[1, 2, 3]. (x - 2)\<^sup>2)"
proof -
  have i: "rz_inv \<lparr>window = 3, buf = [1, 2]\<rparr>" by (simp add: rz_inv_def)
  have u: "RollingZScore_update \<lparr>window = 3, buf = [1, 2]\<rparr> 3
      = Inr ((1, 2, 1), \<lparr>window = 3, buf = [1, 2, 3]\<rparr>)"
    by (simp add: zscore_defs Let_def)
  from RollingZScore_update_zscore [OF i u] i u show ?thesis by simp
qed

text \<open>
  The worked example of the specification. A window of 3 fed
  1, 2, 3, 4, 5 returns the means 1, 3/2, 2, 3, 4 and the sample standard
  deviations 0, \<open>\<surd>(1/2)\<close>, 1, 1, 1, and ends holding 3, 4, 5.
\<close>

theorem RollingZScore_spec_example:
  "RollingZScore_feed \<lparr>window = 3, buf = []\<rparr> [1, 2, 3, 4, 5] =
     Inr ([(0, 1, 0), ((1 / 2) / sqrt (1 / 2), 3 / 2, sqrt (1 / 2)), (1, 2, 1), (1, 3, 1), (1, 4, 1)],
          \<lparr>window = 3, buf = [3, 4, 5]\<rparr>)"
  by (simp add: zscore_defs Let_def power2_eq_square)

text \<open>
  C37 (error): the \<^verbatim>\<open>ValueError\<close> guard of the constructor is what keeps
  \<^verbatim>\<open>update\<close> from dividing by zero. The constructor fails exactly for
  \<open>w \<le> 1\<close>; an object it returned never raises, whatever stream it is fed;
  and an object with \<open>window = 0\<close> (which the constructor refuses) raises
  \<^verbatim>\<open>ZeroDivisionError\<close> on its first update.
\<close>

theorem RollingZScore_guard_prevents_errors:
  "(RollingZScore_init w = Inl (ValueError ''window must be > 1'') \<longleftrightarrow> w \<le> 1)
   \<and> (\<forall>s xs. RollingZScore_init w = Inr s \<longrightarrow> is_ok (RollingZScore_feed s xs))
   \<and> RollingZScore_update \<lparr>window = 0, buf = []\<rparr> v = Inl ZeroDivisionError"
proof -
  have "is_ok (RollingZScore_feed s xs)" if "RollingZScore_init w = Inr s" for s xs
    using RollingZScore_feed_total [of s xs] that by (auto simp: RollingZScore_init_inv)
  then show ?thesis
    by (auto simp: zscore_defs Let_def)
qed

theorem RollingZScore_guard_prevents_errors_witness:
  "RollingZScore_init 2 = Inr \<lparr>window = 2, buf = []\<rparr>
   \<and> is_ok (RollingZScore_feed \<lparr>window = 2, buf = []\<rparr> [5, 5, 7])
   \<and> RollingZScore_init 1 = Inl (ValueError ''window must be > 1'')"
  using RollingZScore_guard_prevents_errors [of 2 0] RollingZScore_guard_prevents_errors [of 1 0]
  by (simp add: RollingZScore_init_def del: RollingZScore_feed.simps)

section \<open>Properties of EMA\<close>

lemma EMA_init_inv [arb_inv]:
  "EMA_init w = Inr e \<Longrightarrow> ema_inv e \<and> ema_value e = None \<and> alpha e = 2 / (real_of_int w + 1)"
  by (auto simp: EMA_init_def ema_inv_def split: if_splits)

lemma EMA_update_value [simp]: "ema_value (snd (EMA_update e x)) = Some (fst (EMA_update e x))"
  by (simp add: EMA_update_def Let_def)

lemma EMA_update_alpha [simp]: "alpha (snd (EMA_update e x)) = alpha e"
  by (simp add: EMA_update_def Let_def)

lemma EMA_update_within:
  assumes "ema_inv e" "ema_within lo hi e" "lo \<le> x" "x \<le> hi"
  shows "lo \<le> fst (EMA_update e x) \<and> fst (EMA_update e x) \<le> hi"
proof (cases "ema_value e")
  case None
  with assms show ?thesis by (simp add: EMA_update_def)
next
  case (Some old)
  with assms have "lo \<le> old" "old \<le> hi" "0 \<le> alpha e" "alpha e \<le> 1"
    by (simp_all add: ema_within_def ema_inv_def)
  with assms(3,4) Some show ?thesis
    using convex_in_interval [of "alpha e" lo x hi old] by (simp add: EMA_update_def Let_def)
qed

lemma EMA_feed_within:
  assumes "ema_inv e" "ema_within lo hi e" "\<forall>x\<in>set xs. lo \<le> x \<and> x \<le> hi"
  shows "(\<forall>v\<in>set (fst (EMA_feed e xs)). lo \<le> v \<and> v \<le> hi)
    \<and> ema_inv (snd (EMA_feed e xs)) \<and> ema_within lo hi (snd (EMA_feed e xs))"
  using assms
proof (induction xs arbitrary: e)
  case Nil
  then show ?case by simp
next
  case (Cons x xs)
  let ?e' = "snd (EMA_update e x)"
  from Cons.prems have v: "lo \<le> fst (EMA_update e x) \<and> fst (EMA_update e x) \<le> hi"
    by (intro EMA_update_within) simp_all
  with Cons.prems(1) have "ema_inv ?e'" "ema_within lo hi ?e'"
    by (simp_all add: ema_inv_def ema_within_def)
  with Cons.IH [of ?e'] Cons.prems(3) v show ?case
    by (simp add: split_beta)
qed

lemma EMA_feed_length [simp]: "length (fst (EMA_feed e xs)) = length xs"
  by (induction xs arbitrary: e) (simp_all add: split_beta)

lemma EMA_feed_value:
  "xs \<noteq> [] \<Longrightarrow> ema_value (snd (EMA_feed e xs)) = Some (last (fst (EMA_feed e xs)))"
proof (induction xs arbitrary: e)
  case Nil
  then show ?case by simp
next
  case (Cons x xs)
  show ?case
  proof (cases "xs = []")
    case True
    then show ?thesis by (simp add: split_beta)
  next
    case False
    then have "fst (EMA_feed (snd (EMA_update e x)) xs) \<noteq> []"
      by (metis EMA_feed_length length_0_conv)
    with Cons.IH [OF False] show ?thesis by (simp add: split_beta)
  qed
qed

text \<open>
  C40 (bounds): an \<^verbatim>\<open>EMA(w)\<close> built by the constructor has \<open>0 < \<alpha> \<le> 1\<close>,
  so every value it returns lies between the least and the greatest input
  seen; it is undefined (\<^verbatim>\<open>None\<close>) only until the first update, after which
  it holds the value it returned last.
\<close>

theorem EMA_feed_bounds:
  assumes "EMA_init w = Inr e" and "xs \<noteq> []" and "\<forall>x\<in>set xs. lo \<le> x \<and> x \<le> hi"
  shows "(\<forall>v\<in>set (fst (EMA_feed e xs)). lo \<le> v \<and> v \<le> hi)
    \<and> ema_value e = None
    \<and> ema_value (snd (EMA_feed e xs)) = Some (last (fst (EMA_feed e xs)))"
proof -
  from assms(1) have "ema_inv e" "ema_value e = None"
    by (simp_all add: EMA_init_inv)
  then show ?thesis
    using EMA_feed_within [of e lo hi xs] EMA_feed_value [OF assms(2), of e] assms(3)
    by (simp add: ema_within_def)
qed

theorem EMA_feed_bounds_witness:
  "EMA_init 4 = Inr \<lparr>ema_window = 4, alpha = 2 / 5, ema_value = None\<rparr>
   \<and> 10 \<le> last (fst (EMA_feed \<lparr>ema_window = 4, alpha = 2 / 5, ema_value = None\<rparr> [10, 13, 11]))
   \<and> last (fst (EMA_feed \<lparr>ema_window = 4, alpha = 2 / 5, ema_value = None\<rparr> [10, 13, 11])) \<le> 13
   \<and> ema_value (snd (EMA_feed \<lparr>ema_window = 4, alpha = 2 / 5, ema_value = None\<rparr> [10, 13, 11]))
       = Some (last (fst (EMA_feed \<lparr>ema_window = 4, alpha = 2 / 5, ema_value = None\<rparr> [10, 13, 11])))"
  using EMA_feed_bounds [of 4 "\<lparr>ema_window = 4, alpha = 2 / 5, ema_value = None\<rparr>" "[10, 13, 11]" 10 13]
  by (simp add: EMA_init_def EMA_update_def Let_def)

text \<open>
  The worked example of the specification, as the code
  computes it. \<^verbatim>\<open>EMA(4)\<close> has \<open>\<alpha> = 2/5\<close> and, fed 10, 11, 12, 13, returns
  10, 10.4, 11.04, 11.824. The specification lists 10.96 and 11.776 for the
  last two values; \<^verbatim>\<open>0.4 * 12 + 0.6 * 10.4\<close> is 11.04, so the third and fourth
  values of the specification's example are not what \<^verbatim>\<open>update\<close> returns.
\<close>

theorem EMA_spec_example:
  "EMA_init 4 = Inr \<lparr>ema_window = 4, alpha = 2 / 5, ema_value = None\<rparr> \<and>
   fst (EMA_feed \<lparr>ema_window = 4, alpha = 2 / 5, ema_value = None\<rparr> [10, 11, 12, 13])
     = [10, 104 / 10, 1104 / 100, 11824 / 1000] \<and>
   fst (EMA_feed \<lparr>ema_window = 4, alpha = 2 / 5, ema_value = None\<rparr> [10, 11, 12, 13])
     \<noteq> [10, 104 / 10, 1096 / 100, 11776 / 1000]"
  by (simp add: EMA_init_def EMA_update_def Let_def)

end
