(* ===== verification/Rate_Limiter.thy ===== *)
theory Rate_Limiter
  imports Arb_Prelude
begin

text \<open>
  The token buckets of \<^verbatim>\<open>src/arb/rate_limiter.py\<close>. A \<^verbatim>\<open>TokenBucket\<close> is a
  record of its attributes (the lock is not a field: \<^verbatim>\<open>consume\<close> holds it
  from entry to return, so the model runs one \<^verbatim>\<open>consume\<close> at a time). The
  monotonic clock is an argument: \<open>now\<close> is the reading at entry, and the
  \<open>k\<close>-th \<^verbatim>\<open>asyncio.sleep(d)\<close> of a call advances the clock by
  \<open>d + lag k\<close>, where \<open>lag\<close> is the scheduling delay chosen by the
  environment. The wait loop may run forever, so it is a
  \<^theory_text>\<open>partial_function (option)\<close>: \<open>None\<close> means that \<^verbatim>\<open>consume\<close> never
  returns. \<^verbatim>\<open>RateLimiter\<close> is a record holding the dictionary of buckets as
  a map from the key string.
\<close>

section \<open>TokenBucket\<close>

record TokenBucket =
  capacity :: int
  refill_rate :: real
  tokens :: real
  last_t :: real

definition TokenBucket_init :: "int \<Rightarrow> real \<Rightarrow> real \<Rightarrow> TokenBucket" where
  "TokenBucket_init cap rate now =
     \<lparr>capacity = cap, refill_rate = rate, tokens = real_of_int cap, last_t = now\<rparr>"

definition refill :: "TokenBucket \<Rightarrow> real \<Rightarrow> TokenBucket" where
  "refill b now = b\<lparr>last_t := now,
      tokens := min (real_of_int (capacity b)) (tokens b + (now - last_t b) * refill_rate b)\<rparr>"

definition sleep_time :: "TokenBucket \<Rightarrow> real \<Rightarrow> real" where
  "sleep_time b need =
     max (if 0 < refill_rate b then (need - tokens b) / refill_rate b else 5 / 100) (1 / 100)"

partial_function (option) wait_tokens ::
  "(nat \<Rightarrow> real) \<Rightarrow> nat \<Rightarrow> real \<Rightarrow> TokenBucket \<Rightarrow> real \<Rightarrow> (TokenBucket \<times> real \<times> nat) option" where
  "wait_tokens lag k need b now =
     (if tokens b < need then
        let now2 = now + sleep_time b need + lag k
        in wait_tokens lag (Suc k) need (refill b now2) now2
      else Some (b, now, k))"

definition consume ::
  "(nat \<Rightarrow> real) \<Rightarrow> TokenBucket \<Rightarrow> int \<Rightarrow> real \<Rightarrow> (TokenBucket \<times> real) option" where
  "consume lag b weight now =
     (let b1 = refill b now; need = real_of_int weight
      in case wait_tokens lag 0 need b1 now of
           None \<Rightarrow> None
         | Some (b2, t, k) \<Rightarrow> Some (b2\<lparr>tokens := tokens b2 - need\<rparr>, t))"

definition tb_inv :: "TokenBucket \<Rightarrow> bool" where
  "tb_inv b \<longleftrightarrow> 0 \<le> refill_rate b \<and> 0 \<le> tokens b \<and> tokens b \<le> real_of_int (capacity b)"

definition consume_time :: "(nat \<Rightarrow> real) \<Rightarrow> TokenBucket \<Rightarrow> int \<Rightarrow> real \<Rightarrow> real" where
  "consume_time lag b weight now =
     (if real_of_int weight \<le> tokens (refill b now) then now
      else now + sleep_time (refill b now) (real_of_int weight) + lag 0)"

lemmas bucket_defs [arb_unfold] =
  TokenBucket_init_def refill_def sleep_time_def consume_def wait_tokens.simps

section \<open>The refill step\<close>

lemma refill_fields [simp]:
  "capacity (refill b now) = capacity b" "refill_rate (refill b now) = refill_rate b"
  "last_t (refill b now) = now"
  by (simp_all add: refill_def)

lemma refill_tokens_le_capacity [simp]: "tokens (refill b now) \<le> real_of_int (capacity b)"
  by (simp add: refill_def)

lemma refill_inv [arb_inv]:
  assumes "tb_inv b" "last_t b \<le> now"
  shows "tb_inv (refill b now)" "tokens b \<le> tokens (refill b now)"
proof -
  from assms have "0 \<le> (now - last_t b) * refill_rate b"
    by (simp add: tb_inv_def)
  with assms(1) show "tb_inv (refill b now)" "tokens b \<le> tokens (refill b now)"
    by (simp_all add: tb_inv_def refill_def)
qed

lemma refill_saturates:
  assumes "0 \<le> refill_rate b" "real_of_int (capacity b) - tokens b \<le> (now - last_t b) * refill_rate b"
  shows "tokens (refill b now) = real_of_int (capacity b)"
  using assms by (simp add: refill_def min_def)

lemma TokenBucket_init_inv [arb_inv]: "0 \<le> cap \<Longrightarrow> 0 \<le> rate \<Longrightarrow> tb_inv (TokenBucket_init cap rate now)"
  by (simp add: tb_inv_def TokenBucket_init_def)

section \<open>The wait loop\<close>

lemma wait_tokens_enough:
  "need \<le> tokens b \<Longrightarrow> wait_tokens lag k need b now = Some (b, now, k)"
  by (simp add: wait_tokens.simps)

lemma sleep_time_covers:
  assumes "0 < refill_rate b"
  shows "need - tokens b \<le> sleep_time b need * refill_rate b" "0 < sleep_time b need"
proof -
  from assms have "(need - tokens b) / refill_rate b \<le> sleep_time b need"
    by (simp add: sleep_time_def)
  with assms show "need - tokens b \<le> sleep_time b need * refill_rate b"
    by (simp add: pos_divide_le_eq)
  show "0 < sleep_time b need"
    by (simp add: sleep_time_def max_def)
qed

lemma refill_after_sleep:
  assumes "0 < refill_rate b" "need \<le> real_of_int (capacity b)" "last_t b \<le> now" "0 \<le> lg"
  shows "need \<le> tokens (refill b (now + sleep_time b need + lg))"
proof -
  let ?t = "now + sleep_time b need + lg"
  have "sleep_time b need * refill_rate b \<le> (?t - last_t b) * refill_rate b"
    using assms(1,3,4) by (intro mult_right_mono) simp_all
  with sleep_time_covers(1) [OF assms(1), of need]
  have "need \<le> tokens b + (?t - last_t b) * refill_rate b" by linarith
  with assms(2) show ?thesis
    by (simp add: refill_def)
qed

lemma wait_tokens_one_sleep:
  assumes "0 < refill_rate b" "need \<le> real_of_int (capacity b)" "tokens b < need"
    and "last_t b \<le> now" "0 \<le> lag k"
  shows "wait_tokens lag k need b now =
    Some (refill b (now + sleep_time b need + lag k), now + sleep_time b need + lag k, Suc k)"
proof -
  let ?t = "now + sleep_time b need + lag k"
  from assms(1,2,4,5) have "need \<le> tokens (refill b ?t)"
    by (rule refill_after_sleep)
  then have "wait_tokens lag (Suc k) need (refill b ?t) ?t = Some (refill b ?t, ?t, Suc k)"
    by (rule wait_tokens_enough)
  with assms(3) show ?thesis
    by (subst wait_tokens.simps) (simp add: Let_def)
qed

lemma wait_tokens_over_capacity:
  assumes "real_of_int (capacity b) < need" "tokens b \<le> real_of_int (capacity b)"
  shows "wait_tokens lag k need b now = None"
proof (rule ccontr)
  assume "wait_tokens lag k need b now \<noteq> None"
  then obtain r where ret: "wait_tokens lag k need b now = Some r" by blast
  have "\<not> (real_of_int (capacity b) < need \<and> tokens b \<le> real_of_int (capacity b))"
  proof (rule wait_tokens.raw_induct
      [where P = "\<lambda>lag k need b now r. \<not> (real_of_int (capacity b) < need \<and> tokens b \<le> real_of_int (capacity b))",
       OF _ ret])
    fix f lag k need b now r
    assume IH: "\<And>lag k need b now r. f lag k need b now = Some r \<Longrightarrow>
        \<not> (real_of_int (capacity b) < need \<and> tokens b \<le> real_of_int (capacity b))"
      and eq: "(if tokens b < need
          then let now2 = now + sleep_time b need + lag k in f lag (Suc k) need (refill b now2) now2
          else Some (b, now, k)) = Some r"
    show "\<not> (real_of_int (capacity b) < need \<and> tokens b \<le> real_of_int (capacity b))"
    proof
      assume stuck: "real_of_int (capacity b) < need \<and> tokens b \<le> real_of_int (capacity b)"
      let ?t = "now + sleep_time b need + lag k"
      from stuck eq have "f lag (Suc k) need (refill b ?t) ?t = Some r"
        by (simp add: Let_def)
      from IH [OF this] stuck show False by simp
    qed
  qed
  with assms show False by simp
qed

lemma wait_tokens_no_refill:
  assumes "refill_rate b \<le> 0" "tokens b < need" "last_t b \<le> now" "\<forall>k. 0 \<le> lag k"
  shows "wait_tokens lag k need b now = None"
proof (rule ccontr)
  let ?stuck = "\<lambda>lag (k::nat) need b now (r :: TokenBucket \<times> real \<times> nat).
     refill_rate b \<le> 0 \<and> tokens b < need \<and> last_t b \<le> now \<and> (\<forall>k. 0 \<le> lag k)"
  assume "wait_tokens lag k need b now \<noteq> None"
  then obtain r where ret: "wait_tokens lag k need b now = Some r" by blast
  have "\<not> ?stuck lag k need b now r"
  proof (rule wait_tokens.raw_induct [where P = "\<lambda>lag k need b now r. \<not> ?stuck lag k need b now r", OF _ ret])
    fix f lag k need b now r
    assume IH: "\<And>lag k need b now r. f lag k need b now = Some r \<Longrightarrow> \<not> ?stuck lag k need b now r"
      and eq: "(if tokens b < need
          then let now2 = now + sleep_time b need + lag k in f lag (Suc k) need (refill b now2) now2
          else Some (b, now, k)) = Some r"
    show "\<not> ?stuck lag k need b now r"
    proof
      assume stuck: "?stuck lag k need b now r"
      let ?t = "now + sleep_time b need + lag k"
      have "0 \<le> sleep_time b need" by (simp add: sleep_time_def max_def)
      moreover from stuck have "0 \<le> lag k" "last_t b \<le> now" by simp_all
      ultimately have t: "last_t b \<le> ?t" by linarith
      with stuck have "(?t - last_t b) * refill_rate b \<le> 0"
        by (simp add: mult_nonneg_nonpos)
      with stuck have "tokens (refill b ?t) < need"
        by (simp add: refill_def min_def)
      moreover from stuck eq have "f lag (Suc k) need (refill b ?t) ?t = Some r"
        by (simp add: Let_def)
      ultimately show False using IH stuck by fastforce
    qed
  qed
  with assms show False by simp
qed


text \<open>What the loop guarantees when it returns, whatever the parameters.\<close>

definition wait_post :: "real \<Rightarrow> TokenBucket \<Rightarrow> real \<Rightarrow> TokenBucket \<times> real \<times> nat \<Rightarrow> bool" where
  "wait_post need b now r =
     (case r of (b2, t, k2) \<Rightarrow>
        need \<le> tokens b2 \<and> last_t b2 = t \<and> now \<le> t \<and> tb_inv b2
        \<and> capacity b2 = capacity b \<and> refill_rate b2 = refill_rate b
        \<and> tokens b2 \<le> tokens b + refill_rate b * (t - now))"

lemma wait_tokens_post:
  assumes ret: "wait_tokens lag k need b now = Some r"
    and pre: "tb_inv b" "last_t b = now" "\<forall>k. 0 \<le> lag k"
  shows "wait_post need b now r"
proof -
  let ?P = "\<lambda>lag (k::nat) need b now r.
     tb_inv b \<and> last_t b = now \<and> (\<forall>k. 0 \<le> lag k) \<longrightarrow> wait_post need b now r"
  have "?P lag k need b now r"
  proof (rule wait_tokens.raw_induct [where P = ?P, OF _ ret])
    fix f lag k need b now r
    assume IH: "\<And>lag k need b now r. f lag k need b now = Some r \<Longrightarrow> ?P lag k need b now r"
      and eq: "(if tokens b < need
          then let now2 = now + sleep_time b need + lag k in f lag (Suc k) need (refill b now2) now2
          else Some (b, now, k)) = Some r"
    show "?P lag k need b now r"
    proof (intro impI, elim conjE)
      assume inv: "tb_inv b" "last_t b = now" "\<forall>k. 0 \<le> lag k"
      show "wait_post need b now r"
      proof (cases "tokens b < need")
        case False
        with eq inv show ?thesis by (auto simp: wait_post_def)
      next
        case True
        let ?t = "now + sleep_time b need + lag k"
        have "0 \<le> sleep_time b need" by (simp add: sleep_time_def max_def)
        with inv have t: "now \<le> ?t" by (simp add: add_nonneg_nonneg add.assoc)
        with inv have b1: "tb_inv (refill b ?t)" by (simp add: refill_inv)
        from True eq have "f lag (Suc k) need (refill b ?t) ?t = Some r"
          by (simp add: Let_def)
        from IH [OF this] b1 inv have post: "wait_post need (refill b ?t) ?t r" by simp
        have "tokens (refill b ?t) \<le> tokens b + refill_rate b * (?t - now)"
          using inv by (simp add: refill_def mult.commute)
        with post t show ?thesis
          by (auto simp: wait_post_def algebra_simps)
      qed
    qed
  qed
  with pre show ?thesis by simp
qed

section \<open>consume\<close>

lemma consume_no_wait:
  "real_of_int weight \<le> tokens (refill b now) \<Longrightarrow>
     consume lag b weight now =
       Some ((refill b now)\<lparr>tokens := tokens (refill b now) - real_of_int weight\<rparr>, now)"
  by (simp add: consume_def wait_tokens_enough Let_def)

lemma consume_one_wait:
  assumes "0 < refill_rate b" "weight \<le> capacity b" "tokens (refill b now) < real_of_int weight"
    and "0 \<le> lag 0"
  shows "consume lag b weight now =
    Some ((refill (refill b now) (consume_time lag b weight now))
            \<lparr>tokens := tokens (refill (refill b now) (consume_time lag b weight now)) - real_of_int weight\<rparr>,
          consume_time lag b weight now)"
proof -
  from assms have "wait_tokens lag 0 (real_of_int weight) (refill b now) now =
      Some (refill (refill b now) (now + sleep_time (refill b now) (real_of_int weight) + lag 0),
            now + sleep_time (refill b now) (real_of_int weight) + lag 0, Suc 0)"
    by (intro wait_tokens_one_sleep) simp_all
  with assms(3) show ?thesis
    by (simp add: consume_def consume_time_def Let_def)
qed

lemma consume_post:
  assumes "consume lag b weight now = Some (b', t)"
    and "tb_inv b" "last_t b \<le> now" "\<forall>k. 0 \<le> lag k"
  shows "last_t b' = t" "now \<le> t" "0 \<le> tokens b'"
    "capacity b' = capacity b" "refill_rate b' = refill_rate b"
    "real_of_int weight \<le> tokens b - tokens b' + refill_rate b * (t - last_t b)"
    "0 \<le> weight \<Longrightarrow> tb_inv b'"
proof -
  from assms(1) obtain b2 k where w: "wait_tokens lag 0 (real_of_int weight) (refill b now) now = Some (b2, t, k)"
    and b': "b' = b2\<lparr>tokens := tokens b2 - real_of_int weight\<rparr>"
    by (auto simp: consume_def Let_def split: option.splits)
  from assms(2,3) have "tb_inv (refill b now)" by (simp add: refill_inv)
  with wait_tokens_post [OF w] assms(4)
  have post: "wait_post (real_of_int weight) (refill b now) now (b2, t, k)" by simp
  have "tokens (refill b now) \<le> tokens b + refill_rate b * (now - last_t b)"
    by (simp add: refill_def mult.commute)
  with post b' show "real_of_int weight \<le> tokens b - tokens b' + refill_rate b * (t - last_t b)"
    by (simp add: wait_post_def algebra_simps)
  from post b' show "last_t b' = t" "now \<le> t" "0 \<le> tokens b'"
    "capacity b' = capacity b" "refill_rate b' = refill_rate b"
    by (simp_all add: wait_post_def)
  from post b' show "tb_inv b'" if "0 \<le> weight"
    using that by (simp add: wait_post_def tb_inv_def)
qed


text \<open>
  C7 (liveness): on a bucket with a positive refill rate, a request for at
  most \<open>capacity\<close> tokens returns, after at most one sleep: at once when the
  refilled bucket holds enough tokens, otherwise after
  \<open>max ((need - tokens) / rate) 0.01\<close> seconds plus the scheduling delay. The
  bucket it leaves satisfies the invariant \<open>0 \<le> tokens \<le> capacity\<close>.
\<close>

theorem consume_returns:
  assumes "tb_inv b" "0 < refill_rate b" "0 \<le> weight" "weight \<le> capacity b"
    and "last_t b \<le> now" "0 \<le> lag 0"
  shows "\<exists>b'. consume lag b weight now = Some (b', consume_time lag b weight now)
    \<and> tb_inv b' \<and> last_t b' = consume_time lag b weight now
    \<and> now \<le> consume_time lag b weight now
    \<and> consume_time lag b weight now \<le> now + max (real_of_int weight / refill_rate b) (1 / 100) + lag 0"
proof -
  let ?b1 = "refill b now" and ?need = "real_of_int weight" and ?t = "consume_time lag b weight now"
  from assms have b1: "tb_inv ?b1" by (simp add: refill_inv)
  have sl: "0 < sleep_time ?b1 ?need" "sleep_time ?b1 ?need \<le> max (?need / refill_rate b) (1 / 100)"
    using assms(2) b1 by (auto simp: sleep_time_def tb_inv_def divide_right_mono max_def)
  with assms(6) have t: "now \<le> ?t" "?t \<le> now + max (?need / refill_rate b) (1 / 100) + lag 0"
    by (auto simp: consume_time_def max_def split: if_splits)
  show ?thesis
  proof (cases "?need \<le> tokens ?b1")
    case True
    moreover have "tokens ?b1 - ?need \<le> real_of_int (capacity b)"
      using refill_tokens_le_capacity [of b now] assms(3) by linarith
    ultimately show ?thesis
      using b1 t by (simp add: consume_no_wait consume_time_def tb_inv_def)
  next
    case False
    then have t_eq: "?t = now + sleep_time ?b1 ?need + lag 0" by (simp add: consume_time_def)
    from assms(2,4,6) have "?need \<le> tokens (refill ?b1 ?t)"
      unfolding t_eq by (intro refill_after_sleep) simp_all
    moreover from b1 t(1) have "tb_inv (refill ?b1 ?t)" by (simp add: refill_inv)
    moreover have "tokens (refill ?b1 ?t) - ?need \<le> real_of_int (capacity b)"
      using refill_tokens_le_capacity [of ?b1 ?t] assms(3) by simp
    ultimately show ?thesis
      using False assms(2,3,4,6) t by (simp add: consume_one_wait tb_inv_def)
  qed
qed

theorem consume_returns_witness:
  "tb_inv \<lparr>capacity = 5, refill_rate = 5, tokens = 0, last_t = 0\<rparr>
   \<and> consume (\<lambda>_. 0) \<lparr>capacity = 5, refill_rate = 5, tokens = 0, last_t = 0\<rparr> 1 0
       = Some (\<lparr>capacity = 5, refill_rate = 5, tokens = 0, last_t = 1 / 5\<rparr>, 1 / 5)
   \<and> consume_time (\<lambda>_. 0) \<lparr>capacity = 5, refill_rate = 5, tokens = 0, last_t = 0\<rparr> 1 0 = 1 / 5"
  using consume_returns [of "\<lparr>capacity = 5, refill_rate = 5, tokens = 0, last_t = 0\<rparr>" 1 0 "\<lambda>_. 0"]
  by (simp add: tb_inv_def consume_time_def bucket_defs Let_def)

text \<open>
  C15 (liveness): \<^verbatim>\<open>consume\<close> never returns when the request is larger than
  the capacity, and never returns when the refill rate is not positive and the
  refilled bucket holds too few tokens: the wait loop sleeps forever. The
  caller, and every later caller of the same bucket, stays blocked.
\<close>

theorem consume_never_returns:
  assumes "capacity b < weight
    \<or> (refill_rate b \<le> 0 \<and> tokens (refill b now) < real_of_int weight \<and> (\<forall>k. 0 \<le> lag k))"
  shows "consume lag b weight now = None"
proof -
  have "wait_tokens lag 0 (real_of_int weight) (refill b now) now = None"
    using assms
  proof
    assume "capacity b < weight"
    then show ?thesis by (intro wait_tokens_over_capacity) simp_all
  next
    assume "refill_rate b \<le> 0 \<and> tokens (refill b now) < real_of_int weight \<and> (\<forall>k. 0 \<le> lag k)"
    then show ?thesis by (intro wait_tokens_no_refill) simp_all
  qed
  then show ?thesis by (simp add: consume_def Let_def)
qed

theorem consume_never_returns_witness:
  "consume (\<lambda>_. 0) \<lparr>capacity = 5, refill_rate = 5, tokens = 5, last_t = 0\<rparr> 6 0 = None
   \<and> consume (\<lambda>_. 0) \<lparr>capacity = 5, refill_rate = 0, tokens = 0, last_t = 0\<rparr> 1 3 = None"
  using consume_never_returns [of "\<lparr>capacity = 5, refill_rate = 5, tokens = 5, last_t = 0\<rparr>" 6 0 "\<lambda>_. 0"]
    consume_never_returns [of "\<lparr>capacity = 5, refill_rate = 0, tokens = 0, last_t = 0\<rparr>" 1 3 "\<lambda>_. 0"]
  by (simp add: refill_def)

section \<open>Callers queued on the lock\<close>

text \<open>
  \<^verbatim>\<open>async with self._lock\<close> admits the callers of one bucket one at a time,
  in the order they asked. A request is its arrival time, its weight and the
  scheduling delays of its sleeps; it starts when it has arrived and the
  previous holder has returned.
\<close>

type_synonym request = "real \<times> int \<times> (nat \<Rightarrow> real)"

fun serve :: "TokenBucket \<Rightarrow> real \<Rightarrow> request list \<Rightarrow> (real list \<times> TokenBucket) option" where
  "serve b free [] = Some ([], b)"
| "serve b free ((arrival, weight, lag) # rs) =
     (case consume lag b weight (max arrival free) of
        None \<Rightarrow> None
      | Some (b', t) \<Rightarrow>
          (case serve b' t rs of None \<Rightarrow> None | Some (ts, b'') \<Rightarrow> Some (t # ts, b'')))"

definition total_weight :: "request list \<Rightarrow> real" where
  "total_weight rs = (\<Sum>(a, w, l)\<leftarrow>rs. real_of_int w)"

definition fair_requests :: "request list \<Rightarrow> bool" where
  "fair_requests rs = list_all (\<lambda>(a, w, l). 0 \<le> w \<and> (\<forall>k. 0 \<le> l k)) rs"

lemma serve_bound_aux:
  assumes "serve b free rs = Some (ts, b')" "tb_inv b" "last_t b \<le> free" "fair_requests rs"
  shows "total_weight rs \<le> tokens b - tokens b' + refill_rate b * (last_t b' - last_t b)
    \<and> tb_inv b' \<and> last_t b \<le> last_t b' \<and> refill_rate b' = refill_rate b \<and> capacity b' = capacity b
    \<and> length ts = length rs \<and> (\<forall>t\<in>set ts. free \<le> t \<and> t \<le> last_t b') \<and> sorted ts"
  using assms
proof (induction rs arbitrary: b free ts)
  case Nil
  then show ?case by (simp add: total_weight_def)
next
  case (Cons r rs)
  obtain a w l where r: "r = (a, w, l)" by (cases r)
  with Cons.prems(1) obtain b1 t ts1 where
    c: "consume l b w (max a free) = Some (b1, t)" and s: "serve b1 t rs = Some (ts1, b')"
    and ts: "ts = t # ts1"
    by (auto split: option.splits)
  from Cons.prems r have w: "0 \<le> w" "\<forall>k. 0 \<le> l k" "fair_requests rs" and le: "last_t b \<le> max a free"
    by (simp_all add: fair_requests_def)
  note post = consume_post [OF c Cons.prems(2) le w(2)]
  from post(1,7) w(1) have "tb_inv b1" "last_t b1 \<le> t" by simp_all
  from Cons.IH [OF s this w(3)] post(1,5)
  have IH: "total_weight rs \<le> tokens b1 - tokens b' + refill_rate b * (last_t b' - t)"
    "tb_inv b'" "t \<le> last_t b'" "refill_rate b' = refill_rate b" "capacity b' = capacity b1"
    "length ts1 = length rs" "\<forall>u\<in>set ts1. t \<le> u \<and> u \<le> last_t b'" "sorted ts1"
    by simp_all
  have "total_weight (r # rs) = real_of_int w + total_weight rs"
    by (simp add: total_weight_def r)
  also have "\<dots> \<le> (tokens b - tokens b1 + refill_rate b * (t - last_t b))
      + (tokens b1 - tokens b' + refill_rate b * (last_t b' - t))"
    using post(6) IH(1) by (rule add_mono)
  also have "\<dots> = tokens b - tokens b' + refill_rate b * (last_t b' - last_t b)"
    by (simp add: algebra_simps)
  finally have "total_weight (r # rs) \<le> tokens b - tokens b' + refill_rate b * (last_t b' - last_t b)" .
  moreover from post(2) le IH(3) have "last_t b \<le> last_t b'" "free \<le> t" by arith+
  ultimately show ?case
    using IH post(4) ts by auto
qed

text \<open>
  C2 (safety): the rate limit. Whatever requests queue on a bucket, the tokens
  granted to those that have returned never exceed the capacity plus the
  refill rate times the time that has passed; the callers return in the order
  they asked, and the bucket keeps its invariant.
\<close>

theorem serve_rate_bound:
  assumes "serve b free rs = Some (ts, b')" "tb_inv b" "last_t b \<le> free" "fair_requests rs"
  shows "total_weight rs \<le> real_of_int (capacity b) + refill_rate b * (last_t b' - last_t b)
    \<and> tb_inv b' \<and> sorted ts \<and> length ts = length rs"
proof -
  from serve_bound_aux [OF assms]
  have "total_weight rs \<le> tokens b - tokens b' + refill_rate b * (last_t b' - last_t b)"
    and rest: "tb_inv b'" "sorted ts" "length ts = length rs"
    by simp_all
  moreover from assms(2) rest(1) have "tokens b - tokens b' \<le> real_of_int (capacity b)"
    by (simp add: tb_inv_def)
  ultimately show ?thesis by simp
qed


theorem serve_rate_bound_witness:
  "serve \<lparr>capacity = 2, refill_rate = 1, tokens = 2, last_t = 0\<rparr> 0
      [(0, 1, \<lambda>_. 0), (0, 1, \<lambda>_. 0), (0, 1, \<lambda>_. 0)]
     = Some ([0, 0, 1], \<lparr>capacity = 2, refill_rate = 1, tokens = 0, last_t = 1\<rparr>)
   \<and> tb_inv \<lparr>capacity = 2, refill_rate = 1, tokens = 2, last_t = 0\<rparr>
   \<and> fair_requests [(0, 1, \<lambda>_. 0), (0, 1, \<lambda>_. 0), (0, 1, \<lambda>_. 0)]
   \<and> total_weight [(0, 1, \<lambda>_. 0), (0, 1, \<lambda>_. 0), (0, 1, \<lambda>_. 0)] \<le> 2 + 1 * (1 - 0)"
proof -
  let ?b = "\<lparr>capacity = 2, refill_rate = 1, tokens = 2, last_t = 0\<rparr>"
  let ?rs = "[(0, 1, \<lambda>_. 0), (0, 1, \<lambda>_. 0), (0, 1, \<lambda>_. 0)] :: request list"
  have s: "serve ?b 0 ?rs = Some ([0, 0, 1], \<lparr>capacity = 2, refill_rate = 1, tokens = 0, last_t = 1\<rparr>)"
    by (simp add: bucket_defs Let_def)
  have i: "tb_inv ?b" "last_t ?b \<le> 0" "fair_requests ?rs"
    by (simp_all add: tb_inv_def fair_requests_def)
  from serve_rate_bound [OF s i] s i show ?thesis by simp
qed

text \<open>
  The worked example of the specification. A bucket of
  capacity 5 refilled at 5 tokens per second serves five requests at once;
  the sixth returns 200 ms later; after one more second without requests the
  bucket is full again, and not fuller.
\<close>

theorem TokenBucket_spec_example:
  "serve (TokenBucket_init 5 5 0) 0
      [(0, 1, \<lambda>_. 0), (0, 1, \<lambda>_. 0), (0, 1, \<lambda>_. 0), (0, 1, \<lambda>_. 0), (0, 1, \<lambda>_. 0), (0, 1, \<lambda>_. 0)]
     = Some ([0, 0, 0, 0, 0, 1 / 5], \<lparr>capacity = 5, refill_rate = 5, tokens = 0, last_t = 1 / 5\<rparr>)
   \<and> tokens (refill \<lparr>capacity = 5, refill_rate = 5, tokens = 0, last_t = 1 / 5\<rparr> (1 / 5 + 1)) = 5
   \<and> tokens (refill \<lparr>capacity = 5, refill_rate = 5, tokens = 0, last_t = 1 / 5\<rparr> (1 / 5 + 60)) = 5"
  by (simp add: bucket_defs Let_def)

section \<open>RateLimiter\<close>

record bucket_conf =
  conf_capacity :: "int option"
  conf_refill :: "real option"

type_synonym ratelimit_config = "(string \<times> (string \<times> bucket_conf) list) list"

record RateLimiter =
  buckets :: "string \<rightharpoonup> TokenBucket"

definition key :: "string \<Rightarrow> string \<Rightarrow> string" where
  "key exchange endpoint = exchange @ '':'' @ endpoint"

definition bucket_of_conf :: "bucket_conf \<Rightarrow> real \<Rightarrow> TokenBucket" where
  "bucket_of_conf conf now =
     TokenBucket_init (case conf_capacity conf of None \<Rightarrow> 10 | Some c \<Rightarrow> c)
                      (case conf_refill conf of None \<Rightarrow> 5 | Some r \<Rightarrow> r) now"

definition RateLimiter_update :: "RateLimiter \<Rightarrow> ratelimit_config \<Rightarrow> real \<Rightarrow> RateLimiter" where
  "RateLimiter_update rl config now =
     fold (\<lambda>(exch, cfg) rl.
        fold (\<lambda>(ep, conf) rl. rl\<lparr>buckets := (buckets rl)(key exch ep \<mapsto> bucket_of_conf conf now)\<rparr>) cfg rl)
       config rl"

definition RateLimiter_init :: "ratelimit_config option \<Rightarrow> real \<Rightarrow> RateLimiter" where
  "RateLimiter_init config now =
     (case config of
        None \<Rightarrow> \<lparr>buckets = Map.empty\<rparr>
      | Some c \<Rightarrow> if c = [] then \<lparr>buckets = Map.empty\<rparr>
                  else RateLimiter_update \<lparr>buckets = Map.empty\<rparr> c now)"

definition allow_key :: "RateLimiter \<Rightarrow> string \<Rightarrow> string \<Rightarrow> string" where
  "allow_key rl exchange endpoint =
     (if buckets rl (key exchange endpoint) \<noteq> None then key exchange endpoint
      else key exchange ''global'')"

definition allow_bucket :: "RateLimiter \<Rightarrow> string \<Rightarrow> string \<Rightarrow> real \<Rightarrow> TokenBucket" where
  "allow_bucket rl exchange endpoint now =
     (case buckets rl (key exchange endpoint) of
        Some b \<Rightarrow> b
      | None \<Rightarrow> (case buckets rl (key exchange ''global'') of
                   Some b \<Rightarrow> b
                 | None \<Rightarrow> TokenBucket_init 1000 1000 now))"

definition allow ::
  "(nat \<Rightarrow> real) \<Rightarrow> RateLimiter \<Rightarrow> string \<Rightarrow> string \<Rightarrow> int \<Rightarrow> real \<Rightarrow> (RateLimiter \<times> real) option" where
  "allow lag rl exchange endpoint weight now =
     (case consume lag (allow_bucket rl exchange endpoint now) weight now of
        None \<Rightarrow> None
      | Some (b', t) \<Rightarrow>
          Some (rl\<lparr>buckets := (buckets rl)(allow_key rl exchange endpoint \<mapsto> b')\<rparr>, t))"

definition rl_inv :: "RateLimiter \<Rightarrow> real \<Rightarrow> bool" where
  "rl_inv rl now \<longleftrightarrow> (\<forall>k b. buckets rl k = Some b \<longrightarrow> tb_inv b \<and> last_t b \<le> now)"

lemmas limiter_defs [arb_unfold] =
  key_def bucket_of_conf_def RateLimiter_update_def RateLimiter_init_def
  allow_key_def allow_bucket_def allow_def


section \<open>Keys\<close>

lemma split_at_first:
  assumes "c \<notin> set a" "c \<notin> set b" "a @ c # x = b @ c # y"
  shows "a = b \<and> x = y"
proof -
  from assms(1) have "takeWhile (\<lambda>z. z \<noteq> c) (a @ c # x) = a"
    by (subst takeWhile_append2) auto
  moreover from assms(2) have "takeWhile (\<lambda>z. z \<noteq> c) (b @ c # y) = b"
    by (subst takeWhile_append2) auto
  ultimately have "a = b" using assms(3) by simp
  with assms(3) show ?thesis by simp
qed

text \<open>
  Two (venue, endpoint) pairs share a bucket only if they are
  equal, provided the venue names contain no colon. Without that proviso the
  key \<^verbatim>\<open>f"{exchange}:{endpoint}"\<close> is ambiguous: venue \<^verbatim>\<open>a:b\<close> with endpoint
  \<^verbatim>\<open>c\<close> and venue \<^verbatim>\<open>a\<close> with endpoint \<^verbatim>\<open>b:c\<close> name the same bucket.
\<close>

theorem key_injective:
  "(CHR '':'' \<notin> set e1 \<and> CHR '':'' \<notin> set e2 \<longrightarrow> (key e1 p1 = key e2 p2 \<longleftrightarrow> e1 = e2 \<and> p1 = p2))
   \<and> key ''a:b'' ''c'' = key ''a'' ''b:c''"
  using split_at_first [of "CHR '':''" e1 e2 p1 p2] by (auto simp: key_def)

theorem key_injective_witness:
  "CHR '':'' \<notin> set ''aster'' \<and> CHR '':'' \<notin> set ''lighter''
   \<and> key ''aster'' ''global'' \<noteq> key ''lighter'' ''global''
   \<and> key ''aster'' ''global'' \<noteq> key ''aster'' ''depth''"
  using key_injective [of "''aster''" "''lighter''" "''global''" "''global''"]
    key_injective [of "''aster''" "''aster''" "''global''" "''depth''"]
  by simp

section \<open>update\<close>

definition flat_config :: "ratelimit_config \<Rightarrow> real \<Rightarrow> (string \<times> TokenBucket) list" where
  "flat_config config now =
     concat (map (\<lambda>(exch, cfg). map (\<lambda>(ep, conf). (key exch ep, bucket_of_conf conf now)) cfg) config)"

lemma fold_upd_map_of:
  "fold (\<lambda>(k, v) m. m(k \<mapsto> v)) xs m = m ++ map_of (rev xs)"
  by (induction xs arbitrary: m) (auto simp: map_add_def fun_eq_iff split: option.splits)

lemma update_inner:
  "buckets (fold (\<lambda>(ep, conf) rl. rl\<lparr>buckets := (buckets rl)(key exch ep \<mapsto> bucket_of_conf conf now)\<rparr>) cfg rl)
     = fold (\<lambda>(k, v) m. m(k \<mapsto> v)) (map (\<lambda>(ep, conf). (key exch ep, bucket_of_conf conf now)) cfg) (buckets rl)"
  by (induction cfg arbitrary: rl) (simp_all add: split_beta)

lemma update_buckets:
  "buckets (RateLimiter_update rl config now)
     = fold (\<lambda>(k, v) m. m(k \<mapsto> v)) (flat_config config now) (buckets rl)"
  unfolding RateLimiter_update_def flat_config_def
  by (induction config arbitrary: rl) (simp_all add: split_beta update_inner)

lemma bucket_of_conf_full [simp]:
  "tokens (bucket_of_conf conf now) = real_of_int (capacity (bucket_of_conf conf now))"
  "last_t (bucket_of_conf conf now) = now"
  by (simp_all add: bucket_of_conf_def TokenBucket_init_def)

text \<open>
  C37 (refinement): \<^verbatim>\<open>update(config)\<close> overrides the dictionary of buckets
  with one fresh bucket per configured (venue, endpoint), a later entry
  winning over an earlier one with the same key, and leaves every other
  bucket alone. Every bucket it installs is full, whatever the bucket it
  replaces held: tokens spent before the update are forgotten.
\<close>

theorem RateLimiter_update_overrides:
  "buckets (RateLimiter_update rl config now) = buckets rl ++ map_of (rev (flat_config config now))
   \<and> (\<forall>k b. map_of (rev (flat_config config now)) k = Some b \<longrightarrow>
         buckets (RateLimiter_update rl config now) k = Some b
         \<and> tokens b = real_of_int (capacity b) \<and> last_t b = now)"
proof -
  have "tokens b = real_of_int (capacity b) \<and> last_t b = now"
    if "map_of (rev (flat_config config now)) k = Some b" for k b
  proof -
    from that have "(k, b) \<in> set (flat_config config now)"
      by (auto dest: map_of_SomeD)
    then show ?thesis by (auto simp: flat_config_def)
  qed
  then show ?thesis
    by (auto simp: update_buckets fold_upd_map_of map_add_def)
qed

theorem RateLimiter_update_overrides_witness:
  "buckets (RateLimiter_update
       \<lparr>buckets = [''aster:global'' \<mapsto> \<lparr>capacity = 20, refill_rate = 10, tokens = 0, last_t = 3\<rparr>]\<rparr>
       [(''aster'', [(''global'', \<lparr>conf_capacity = Some 2, conf_refill = Some 1\<rparr>)])] 7) ''aster:global''
     = Some \<lparr>capacity = 2, refill_rate = 1, tokens = 2, last_t = 7\<rparr>"
  using RateLimiter_update_overrides
    [of "\<lparr>buckets = [''aster:global'' \<mapsto> \<lparr>capacity = 20, refill_rate = 10, tokens = 0, last_t = 3\<rparr>]\<rparr>"
        "[(''aster'', [(''global'', \<lparr>conf_capacity = Some 2, conf_refill = Some 1\<rparr>)])]" 7]
  by (simp add: flat_config_def key_def bucket_of_conf_def TokenBucket_init_def)

section \<open>allow\<close>

lemma allow_bucket_inv:
  "rl_inv rl now \<Longrightarrow> tb_inv (allow_bucket rl exchange endpoint now)
     \<and> last_t (allow_bucket rl exchange endpoint now) \<le> now"
  by (auto simp: rl_inv_def allow_bucket_def TokenBucket_init_def tb_inv_def split: option.splits)

lemma rl_inv_mono: "rl_inv rl now \<Longrightarrow> now \<le> t \<Longrightarrow> rl_inv rl t"
  by (fastforce simp: rl_inv_def)

text \<open>
  C36 (functional): \<^verbatim>\<open>allow\<close> charges the bucket of the (venue, endpoint)
  when there is one; else the venue's \<^verbatim>\<open>global\<close> bucket; else a new bucket
  of capacity 1000 refilled at 1000 tokens per second, which it installs as the
  venue's \<^verbatim>\<open>global\<close> bucket. No other bucket changes, and no bucket is
  created for the endpoint itself.
\<close>

theorem allow_fallback:
  assumes "allow lag rl exchange endpoint weight now = Some (rl', t)"
  shows "(\<forall>k. k \<noteq> allow_key rl exchange endpoint \<longrightarrow> buckets rl' k = buckets rl k)
    \<and> (\<forall>b. buckets rl (key exchange endpoint) = Some b \<longrightarrow>
          consume lag b weight now = Some (the (buckets rl' (key exchange endpoint)), t))
    \<and> (\<forall>g. buckets rl (key exchange endpoint) = None \<and> buckets rl (key exchange ''global'') = Some g \<longrightarrow>
          consume lag g weight now = Some (the (buckets rl' (key exchange ''global'')), t)
          \<and> (key exchange endpoint \<noteq> key exchange ''global'' \<longrightarrow> buckets rl' (key exchange endpoint) = None))
    \<and> (buckets rl (key exchange endpoint) = None \<and> buckets rl (key exchange ''global'') = None \<longrightarrow>
          consume lag (TokenBucket_init 1000 1000 now) weight now
            = Some (the (buckets rl' (key exchange ''global'')), t))"
  using assms by (auto simp: allow_def allow_key_def allow_bucket_def split: option.splits)

theorem allow_fallback_witness:
  "allow (\<lambda>_. 0) \<lparr>buckets = [''aster:global'' \<mapsto> \<lparr>capacity = 2, refill_rate = 1, tokens = 2, last_t = 0\<rparr>]\<rparr>
      ''aster'' ''depth'' 1 0
     = Some (\<lparr>buckets = [''aster:global'' \<mapsto> \<lparr>capacity = 2, refill_rate = 1, tokens = 1, last_t = 0\<rparr>]\<rparr>, 0)
   \<and> consume (\<lambda>_. 0) \<lparr>capacity = 2, refill_rate = 1, tokens = 2, last_t = 0\<rparr> 1 0
     = Some (\<lparr>capacity = 2, refill_rate = 1, tokens = 1, last_t = 0\<rparr>, 0)"
proof -
  let ?rl = "\<lparr>buckets = [''aster:global'' \<mapsto> \<lparr>capacity = 2, refill_rate = 1, tokens = 2, last_t = 0\<rparr>]\<rparr>"
  let ?rl' = "\<lparr>buckets = [''aster:global'' \<mapsto> \<lparr>capacity = 2, refill_rate = 1, tokens = 1, last_t = 0\<rparr>]\<rparr>"
  have a: "allow (\<lambda>_. 0) ?rl ''aster'' ''depth'' 1 0 = Some (?rl', 0)"
    by (simp add: limiter_defs bucket_defs Let_def)
  from allow_fallback [OF a] a show ?thesis
    by (simp add: key_def)
qed

text \<open>
  If every bucket of the limiter satisfies
  \<open>0 \<le> tokens \<le> capacity\<close> with a non-negative rate and was last refilled no
  later than now, the same holds when \<^verbatim>\<open>allow\<close> returns, at the time it
  returns, which is not earlier than the time it was called.
\<close>

theorem allow_preserves_inv:
  assumes "allow lag rl exchange endpoint weight now = Some (rl', t)"
    and "rl_inv rl now" "0 \<le> weight" "\<forall>k. 0 \<le> lag k"
  shows "rl_inv rl' t \<and> now \<le> t"
proof -
  let ?b = "allow_bucket rl exchange endpoint now"
  from assms(1) obtain b' where c: "consume lag ?b weight now = Some (b', t)"
    and rl': "buckets rl' = (buckets rl)(allow_key rl exchange endpoint \<mapsto> b')"
    by (auto simp: allow_def split: option.splits)
  from assms(2) have b: "tb_inv ?b" "last_t ?b \<le> now" by (simp_all add: allow_bucket_inv)
  from consume_post [OF c b assms(4)] assms(3) have "tb_inv b'" "last_t b' = t" "now \<le> t"
    by simp_all
  moreover from assms(2) \<open>now \<le> t\<close> have "rl_inv rl t" by (rule rl_inv_mono)
  ultimately show ?thesis
    using rl' by (auto simp: rl_inv_def)
qed

theorem allow_preserves_inv_witness:
  "allow (\<lambda>_. 0) \<lparr>buckets = Map.empty\<rparr> ''lighter'' ''global'' 1 4
     = Some (\<lparr>buckets = [''lighter:global'' \<mapsto> \<lparr>capacity = 1000, refill_rate = 1000, tokens = 999, last_t = 4\<rparr>]\<rparr>, 4)
   \<and> rl_inv \<lparr>buckets = Map.empty\<rparr> 4
   \<and> rl_inv \<lparr>buckets = [''lighter:global'' \<mapsto> \<lparr>capacity = 1000, refill_rate = 1000, tokens = 999, last_t = 4\<rparr>]\<rparr> 4"
proof -
  let ?rl' = "\<lparr>buckets = [''lighter:global'' \<mapsto> \<lparr>capacity = 1000, refill_rate = 1000, tokens = 999, last_t = 4\<rparr>]\<rparr>"
  have a: "allow (\<lambda>_. 0) \<lparr>buckets = Map.empty\<rparr> ''lighter'' ''global'' 1 4 = Some (?rl', 4)"
    by (simp add: limiter_defs bucket_defs Let_def)
  have i: "rl_inv \<lparr>buckets = Map.empty\<rparr> 4" by (simp add: rl_inv_def)
  from allow_preserves_inv [OF a i] a i show ?thesis by simp
qed

end
