(* ===== verification/Json.thy ===== *)
theory Json
  imports Arb_Prelude
begin

text \<open>
  The JSON documents the venues answer with, as Python sees them after
  \<^verbatim>\<open>await resp.json()\<close>, and the operations the connectors apply to them:
  \<^verbatim>\<open>d.get(k, default)\<close>, \<^verbatim>\<open>x[k]\<close>, \<^verbatim>\<open>x[i]\<close>, \<^verbatim>\<open>x[:n]\<close>, truthiness,
  \<^verbatim>\<open>float()\<close>, \<^verbatim>\<open>int()\<close> and \<^verbatim>\<open>str()\<close>. Every operation raises on the
  values Python raises on, so a malformed answer is an error value of the
  model and never an unspecified one. The grammar of numeric literals is not
  modelled: the functions that read a number from a string and that write
  one as text are the record \<open>py_conv\<close>, an argument of every operation
  that converts: \<^verbatim>\<open>float(s)\<close>, \<^verbatim>\<open>int(s)\<close>, \<^verbatim>\<open>str(v)\<close>, and the text SQLite
  stores for a number written to a column of \<^verbatim>\<open>TEXT\<close> affinity.
\<close>

section \<open>Values\<close>

datatype json =
    JNull
  | JBool bool
  | JInteger int
  | JFloat real
  | JString string
  | JArray "json list"
  | JObject "(string \<times> json) list"

record py_conv =
  conv_float :: "string \<Rightarrow> real option"
  conv_int :: "string \<Rightarrow> int option"
  conv_repr :: "json \<Rightarrow> string"
  conv_text :: "json \<Rightarrow> string"

section \<open>Truthiness and access\<close>

definition truthy_json :: "json \<Rightarrow> bool" where
  "truthy_json v =
     (case v of
        JNull \<Rightarrow> False
      | JBool b \<Rightarrow> b
      | JInteger i \<Rightarrow> i \<noteq> 0
      | JFloat x \<Rightarrow> x \<noteq> 0
      | JString s \<Rightarrow> s \<noteq> []
      | JArray xs \<Rightarrow> xs \<noteq> []
      | JObject kvs \<Rightarrow> kvs \<noteq> [])"

text \<open>\<^verbatim>\<open>d.get(k, default)\<close>: only a dictionary has the method.\<close>

definition get_or :: "json \<Rightarrow> string \<Rightarrow> json \<Rightarrow> json result" where
  "get_or d k dflt =
     (case d of
        JObject kvs \<Rightarrow> Inr (case map_of kvs k of None \<Rightarrow> dflt | Some v \<Rightarrow> v)
      | _ \<Rightarrow> Inl (AttributeError ''get''))"

text \<open>\<^verbatim>\<open>x[k]\<close> with a string key and \<^verbatim>\<open>x[i]\<close> with an index \<open>i \<ge> 0\<close>.\<close>

definition subscr :: "json \<Rightarrow> string \<Rightarrow> json result" where
  "subscr x k =
     (case x of
        JObject kvs \<Rightarrow> (case map_of kvs k of None \<Rightarrow> Inl (KeyError k) | Some v \<Rightarrow> Inr v)
      | _ \<Rightarrow> Inl (TypeError ''indices must be integers''))"

definition item :: "json \<Rightarrow> nat \<Rightarrow> json result" where
  "item x i =
     (case x of
        JArray xs \<Rightarrow> if i < length xs then Inr (xs ! i) else Inl (IndexError ''list index out of range'')
      | JString s \<Rightarrow> if i < length s then Inr (JString [s ! i]) else Inl (IndexError ''string index out of range'')
      | JObject kvs \<Rightarrow> Inl (KeyError ''integer key'')
      | _ \<Rightarrow> Inl (TypeError ''object is not subscriptable''))"

text \<open>
  \<^verbatim>\<open>xs[:n]\<close>: the first \<open>n\<close> elements, and for a negative \<open>n\<close> all but the
  last \<open>-n\<close>. \<open>elems_to\<close> is the sequence a \<^verbatim>\<open>for\<close> loop over \<^verbatim>\<open>x[:n]\<close>
  visits: the elements of a list, the characters of a string.
\<close>

definition slice_to :: "'a list \<Rightarrow> int \<Rightarrow> 'a list" where
  "slice_to xs n = (if 0 \<le> n then take (nat n) xs else take (length xs - nat (- n)) xs)"

definition elems_to :: "json \<Rightarrow> int \<Rightarrow> json list result" where
  "elems_to x n =
     (case x of
        JArray xs \<Rightarrow> Inr (slice_to xs n)
      | JString s \<Rightarrow> Inr (map (\<lambda>c. JString [c]) (slice_to s n))
      | _ \<Rightarrow> Inl (TypeError ''object is not subscriptable''))"

text \<open>What a \<^verbatim>\<open>for\<close> loop over a value visits.\<close>

definition iter_json :: "json \<Rightarrow> json list result" where
  "iter_json x =
     (case x of
        JArray xs \<Rightarrow> Inr xs
      | JString s \<Rightarrow> Inr (map (\<lambda>c. JString [c]) s)
      | JObject kvs \<Rightarrow> Inr (map (\<lambda>kv. JString (fst kv)) kvs)
      | _ \<Rightarrow> Inl (TypeError ''object is not iterable''))"

section \<open>Conversions\<close>

definition py_float :: "py_conv \<Rightarrow> json \<Rightarrow> real result" where
  "py_float cv v =
     (case v of
        JInteger i \<Rightarrow> Inr (real_of_int i)
      | JFloat x \<Rightarrow> Inr x
      | JBool b \<Rightarrow> Inr (if b then 1 else 0)
      | JString s \<Rightarrow> (case conv_float cv s of
                        None \<Rightarrow> Inl (ValueError ''could not convert string to float'')
                      | Some x \<Rightarrow> Inr x)
      | _ \<Rightarrow> Inl (TypeError ''float() argument must be a string or a real number''))"

definition py_int_of :: "py_conv \<Rightarrow> json \<Rightarrow> int result" where
  "py_int_of cv v =
     (case v of
        JInteger i \<Rightarrow> Inr i
      | JFloat x \<Rightarrow> Inr (py_int x)
      | JBool b \<Rightarrow> Inr (if b then 1 else 0)
      | JString s \<Rightarrow> (case conv_int cv s of
                        None \<Rightarrow> Inl (ValueError ''invalid literal for int()'')
                      | Some i \<Rightarrow> Inr i)
      | _ \<Rightarrow> Inl (TypeError ''int() argument must be a string or a real number''))"

definition py_str :: "py_conv \<Rightarrow> json \<Rightarrow> string" where
  "py_str cv v =
     (case v of
        JString s \<Rightarrow> s
      | JNull \<Rightarrow> ''None''
      | JBool b \<Rightarrow> (if b then ''True'' else ''False'')
      | _ \<Rightarrow> conv_repr cv v)"

text \<open>\<^verbatim>\<open>float(v) if v is not None else None\<close>.\<close>

definition float_opt :: "py_conv \<Rightarrow> json \<Rightarrow> real option result" where
  "float_opt cv v = (if v = JNull then Inr None else bind_result (py_float cv v) (\<lambda>x. Inr (Some x)))"

lemmas json_defs [arb_unfold] =
  truthy_json_def get_or_def subscr_def item_def slice_to_def elems_to_def iter_json_def
  py_float_def py_int_of_def py_str_def float_opt_def

section \<open>Evaluation rules\<close>

lemma truthy_json_simps [simp, py_simps]:
  "truthy_json JNull = False" "truthy_json (JBool b) = b"
  "truthy_json (JInteger i) = (i \<noteq> 0)" "truthy_json (JFloat x) = (x \<noteq> 0)"
  "truthy_json (JString s) = (s \<noteq> [])" "truthy_json (JArray xs) = (xs \<noteq> [])"
  "truthy_json (JObject kvs) = (kvs \<noteq> [])"
  by (simp_all add: truthy_json_def)

lemma get_or_simps [simp, py_simps]:
  "get_or (JObject kvs) k d = Inr (case map_of kvs k of None \<Rightarrow> d | Some v \<Rightarrow> v)"
  "get_or JNull k d = Inl (AttributeError ''get'')"
  "get_or (JArray xs) k d = Inl (AttributeError ''get'')"
  "get_or (JString s) k d = Inl (AttributeError ''get'')"
  by (simp_all add: get_or_def)

lemma get_or_ok: "is_ok (get_or d k dflt) \<longleftrightarrow> (\<exists>kvs. d = JObject kvs)"
  by (cases d) (simp_all add: get_or_def)

lemma subscr_simps [simp, py_simps]:
  "subscr (JObject kvs) k = (case map_of kvs k of None \<Rightarrow> Inl (KeyError k) | Some v \<Rightarrow> Inr v)"
  "subscr (JArray xs) k = Inl (TypeError ''indices must be integers'')"
  "subscr (JString s) k = Inl (TypeError ''indices must be integers'')"
  by (simp_all add: subscr_def)

lemma item_simps [simp, py_simps]:
  "item (JArray (x # xs)) 0 = Inr x"
  "item (JArray []) i = Inl (IndexError ''list index out of range'')"
  "i < length xs \<Longrightarrow> item (JArray xs) i = Inr (xs ! i)"
  by (simp_all add: item_def)

lemma slice_to_nonneg [simp]: "0 \<le> n \<Longrightarrow> slice_to xs n = take (nat n) xs"
  by (simp add: slice_to_def)

lemma slice_to_prefix: "\<exists>k. slice_to xs n = take k xs"
  by (auto simp: slice_to_def)

lemma length_slice_to: "length (slice_to xs n) \<le> length xs"
  by (simp add: slice_to_def)

lemma slice_to_all: "int (length xs) \<le> n \<Longrightarrow> slice_to xs n = xs"
  by (simp add: slice_to_def)

lemma slice_to_Nil [simp]: "slice_to [] n = []"
  by (simp add: slice_to_def)

lemma elems_to_simps [simp, py_simps]:
  "elems_to (JArray xs) n = Inr (slice_to xs n)"
  "elems_to JNull n = Inl (TypeError ''object is not subscriptable'')"
  by (simp_all add: elems_to_def)

lemma iter_json_simps [simp, py_simps]:
  "iter_json (JArray xs) = Inr xs" "iter_json JNull = Inl (TypeError ''object is not iterable'')"
  by (simp_all add: iter_json_def)

lemma py_float_simps [simp, py_simps]:
  "py_float cv (JInteger i) = Inr (real_of_int i)" "py_float cv (JFloat x) = Inr x"
  "py_float cv (JString s) = (case conv_float cv s of
      None \<Rightarrow> Inl (ValueError ''could not convert string to float'') | Some x \<Rightarrow> Inr x)"
  "py_float cv JNull = Inl (TypeError ''float() argument must be a string or a real number'')"
  by (simp_all add: py_float_def)

lemma py_int_of_simps [simp, py_simps]:
  "py_int_of cv (JInteger i) = Inr i" "py_int_of cv (JFloat x) = Inr (py_int x)"
  "py_int_of cv (JString s) = (case conv_int cv s of
      None \<Rightarrow> Inl (ValueError ''invalid literal for int()'') | Some i \<Rightarrow> Inr i)"
  "py_int_of cv JNull = Inl (TypeError ''int() argument must be a string or a real number'')"
  by (simp_all add: py_int_of_def)

lemma py_str_simps [simp, py_simps]:
  "py_str cv (JString s) = s" "py_str cv JNull = ''None''"
  by (simp_all add: py_str_def)

lemma float_opt_simps [simp, py_simps]:
  "float_opt cv JNull = Inr None"
  "float_opt cv (JFloat x) = Inr (Some x)" "float_opt cv (JInteger i) = Inr (Some (real_of_int i))"
  by (simp_all add: float_opt_def)

end
