(* ===== verification/Models.thy ===== *)
theory Models
  imports Arb_Prelude Json
begin

text \<open>
  The data model of \<^verbatim>\<open>src/arb/models.py\<close> and the value types the
  components exchange. The dataclasses \<^verbatim>\<open>Market\<close> and \<^verbatim>\<open>Pair\<close> are records
  (the fields \<^verbatim>\<open>name\<close>, \<^verbatim>\<open>a\<close> and \<^verbatim>\<open>b\<close> of \<^verbatim>\<open>Pair\<close> are called
  \<open>pair_name\<close>, \<open>leg_a\<close> and \<open>leg_b\<close>, so that one-letter names stay
  variables). The four action strings are the datatype \<open>action\<close>. A value
  of a payload or of a table row is a \<open>jvalue\<close>: null, an integer, a float
  or a string, which are the values the poller writes and SQLite stores; a
  payload dictionary or a row is an association list from keys to such
  values, in the order the code writes them. Payloads that carry booleans,
  lists or objects are outside this type. \<^verbatim>\<open>float()\<close> and \<^verbatim>\<open>int()\<close> on a
  payload value are those of \<open>Json\<close>: a string is converted by the
  functions of \<open>py_conv\<close>, \<^verbatim>\<open>None\<close> raises \<^verbatim>\<open>TypeError\<close>.
\<close>

section \<open>Markets and pairs\<close>

record Market =
  exchange :: string
  symbol :: string
  market_id :: "int option"

record Pair =
  pair_name :: string
  leg_a :: Market
  leg_b :: Market

section \<open>Actions\<close>

datatype action = Enter_short_A_long_B | Enter_long_A_short_B | Exit | Hold

definition action_str :: "action \<Rightarrow> string" where
  "action_str act =
     (case act of
        Enter_short_A_long_B \<Rightarrow> ''enter_short_A_long_B''
      | Enter_long_A_short_B \<Rightarrow> ''enter_long_A_short_B''
      | Exit \<Rightarrow> ''exit''
      | Hold \<Rightarrow> ''hold'')"

lemma action_str_inj: "action_str x = action_str y \<longleftrightarrow> x = y"
  by (cases x; cases y) (simp_all add: action_str_def)

section \<open>Dynamically typed values\<close>

datatype jvalue = JNone | JInt int | JNum real | JStr string

type_synonym payload = "(string \<times> jvalue) list"

definition jnum :: "real option \<Rightarrow> jvalue" where
  "jnum v = (case v of None \<Rightarrow> JNone | Some x \<Rightarrow> JNum x)"

definition jstr :: "string option \<Rightarrow> jvalue" where
  "jstr v = (case v of None \<Rightarrow> JNone | Some x \<Rightarrow> JStr x)"

text \<open>\<^verbatim>\<open>d.get(k)\<close>: the value of the key, \<^verbatim>\<open>None\<close> when the key is missing.\<close>

definition dict_get :: "payload \<Rightarrow> string \<Rightarrow> jvalue" where
  "dict_get d k = (case map_of d k of None \<Rightarrow> JNone | Some v \<Rightarrow> v)"

text \<open>A payload value as the JSON value it is.\<close>

definition to_json :: "jvalue \<Rightarrow> json" where
  "to_json v = (case v of JNone \<Rightarrow> JNull | JInt i \<Rightarrow> JInteger i | JNum x \<Rightarrow> JFloat x | JStr s \<Rightarrow> JString s)"

text \<open>\<^verbatim>\<open>float(v)\<close> and \<^verbatim>\<open>int(v)\<close> on a payload value.\<close>

definition jfloat :: "py_conv \<Rightarrow> jvalue \<Rightarrow> real result" where
  "jfloat cv v = py_float cv (to_json v)"

definition jint :: "py_conv \<Rightarrow> jvalue \<Rightarrow> int result" where
  "jint cv v = py_int_of cv (to_json v)"

lemma jnum_simps [simp, py_simps]: "jnum None = JNone" "jnum (Some x) = JNum x"
  by (simp_all add: jnum_def)

lemma jstr_simps [simp, py_simps]: "jstr None = JNone" "jstr (Some s) = JStr s"
  by (simp_all add: jstr_def)

lemma to_json_simps [simp, py_simps]:
  "to_json JNone = JNull" "to_json (JInt i) = JInteger i" "to_json (JNum x) = JFloat x"
  "to_json (JStr s) = JString s"
  by (simp_all add: to_json_def)

lemma jfloat_simps [simp, py_simps]:
  "jfloat cv (JInt i) = Inr (real_of_int i)" "jfloat cv (JNum x) = Inr x"
  "jfloat cv JNone = Inl (TypeError ''float() argument must be a string or a real number'')"
  "jfloat cv (JStr s) = (case conv_float cv s of
      None \<Rightarrow> Inl (ValueError ''could not convert string to float'') | Some x \<Rightarrow> Inr x)"
  by (simp_all add: jfloat_def py_float_def)

lemma jint_simps [simp, py_simps]:
  "jint cv (JInt i) = Inr i" "jint cv (JNum x) = Inr (py_int x)"
  "jint cv JNone = Inl (TypeError ''int() argument must be a string or a real number'')"
  "jint cv (JStr s) = (case conv_int cv s of
      None \<Rightarrow> Inl (ValueError ''invalid literal for int()'') | Some i \<Rightarrow> Inr i)"
  by (simp_all add: jint_def py_int_of_def)

lemma dict_get_Cons [simp, py_simps]:
  "dict_get ((k, v) # d) k' = (if k = k' then v else dict_get d k')"
  "dict_get [] k' = JNone"
  by (simp_all add: dict_get_def)

lemma dict_get_map_keys:
  "dict_get (map (\<lambda>c. (c, h c)) cs) k = (if k \<in> set cs then h k else JNone)"
  by (induction cs) auto

lemma dict_get_append:
  "dict_get (xs @ ys) k = (if k \<in> fst ` set xs then dict_get xs k else dict_get ys k)"
  by (induction xs) force+

lemma dict_get_in_keys: "dict_get d k \<noteq> JNone \<Longrightarrow> k \<in> fst ` set d"
  by (auto simp: dict_get_def split: option.splits dest: map_of_SomeD intro: rev_image_eqI)

section \<open>Order-book summary returned by the connectors\<close>

record ob_summary =
  best_bid :: real
  best_ask :: real
  spread_abs :: real
  spread_pct :: real
  depth_qty :: real
  depth_notional :: real


section \<open>The arguments of a storage write\<close>

text \<open>
  \<^verbatim>\<open>insert_spread(db, pair, ts_ms, price_a, price_b, spread, z, mean, std,
  **extras)\<close>: eight required values and a dictionary of keyword arguments.
\<close>

record insert_args =
  st_pair :: string
  st_ts_ms :: int
  st_price_a :: real
  st_price_b :: real
  st_spread :: real
  st_z :: real
  st_mean :: real
  st_std :: real
  st_extras :: payload

end
