(* ===== verification/Reversion.thy ===== *)
theory Reversion
  imports ZScore
begin

text \<open>
  The AR(1) reversion estimator \<^verbatim>\<open>estimate_reversion_times\<close> of
  \<^verbatim>\<open>src/arb/runner_reminder.py\<close>. It reads the window of the rolling
  z-score, regresses each value on its predecessor, and turns the slope
  \<open>\<phi>\<close> into a half-life and a time to reach the exit threshold. The
  function is wrapped in \<^verbatim>\<open>try ... except Exception: return None, None\<close>; the
  only operation of its body that can raise on real numbers is the division
  by \<^verbatim>\<open>half_life_s\<close>, which is zero exactly when \<^verbatim>\<open>poll_ms\<close> is zero, and
  the model returns \<open>(None, None)\<close> there.
\<close>

section \<open>Definitions\<close>

definition ols_den :: "real list \<Rightarrow> real" where
  "ols_den x = (let mean_x = sum_list x / real (length x) in (\<Sum>xi\<leftarrow>x. (xi - mean_x)\<^sup>2))"

definition ols_num :: "real list \<Rightarrow> real list \<Rightarrow> real" where
  "ols_num x y =
     (let mean_x = sum_list x / real (length x); mean_y = sum_list y / real (length y)
      in (\<Sum>(xi, yi)\<leftarrow>zip x y. (xi - mean_x) * (yi - mean_y)))"

definition estimate_reversion_times ::
  "RollingZScore \<Rightarrow> real \<Rightarrow> real \<Rightarrow> int \<Rightarrow> real option \<times> real option" where
  "estimate_reversion_times z current_z exit_z poll_ms =
     (let series = buf z; n = length series
      in if n < 10 then (None, None)
         else let x = butlast series; y = tl series;
                  num = ols_num x y; den = ols_den x
              in if den = 0 then (None, None)
                 else let phi = num / den
                      in if phi \<le> 0 \<or> 9999 / 10000 \<le> phi then (None, None)
                         else let half_life_samples = ln 2 / - ln phi;
                                  half_life_s = half_life_samples * (real_of_int poll_ms / 1000)
                              in if exit_z \<le> 0 \<or> \<bar>current_z\<bar> \<le> exit_z
                                 then (Some half_life_s, Some 0)
                                 else if half_life_s = 0 then (None, None)
                                 else let k = ln 2 / half_life_s
                                      in (Some half_life_s, Some (ln (\<bar>current_z\<bar> / exit_z) / k)))"

text \<open>The slope the estimator uses, for stating what it returns.\<close>

definition ar1_phi :: "real list \<Rightarrow> real" where
  "ar1_phi series = ols_num (butlast series) (tl series) / ols_den (butlast series)"

definition usable_phi :: "real list \<Rightarrow> bool" where
  "usable_phi series \<longleftrightarrow>
     10 \<le> length series \<and> ols_den (butlast series) \<noteq> 0
     \<and> 0 < ar1_phi series \<and> ar1_phi series < 9999 / 10000"

lemmas reversion_defs [arb_unfold] = estimate_reversion_times_def ols_den_def ols_num_def

section \<open>The shape of the result\<close>

lemma estimate_unusable:
  "\<not> usable_phi (buf z) \<Longrightarrow> estimate_reversion_times z current_z exit_z poll_ms = (None, None)"
  by (auto simp: estimate_reversion_times_def usable_phi_def ar1_phi_def Let_def)

lemma half_life_pos:
  fixes phi :: real
  assumes "0 < phi" "phi < 1"
  shows "0 < ln 2 / - ln phi"
proof -
  from assms have "0 < - ln phi" by simp
  moreover have "0 < ln (2::real)" by simp
  ultimately show ?thesis by (rule divide_pos_pos [rotated])
qed

lemma estimate_usable:
  assumes "usable_phi (buf z)"
  shows "estimate_reversion_times z current_z exit_z poll_ms =
    (let h = ln 2 / - ln (ar1_phi (buf z)) * (real_of_int poll_ms / 1000)
     in if exit_z \<le> 0 \<or> \<bar>current_z\<bar> \<le> exit_z then (Some h, Some 0)
        else if poll_ms = 0 then (None, None)
        else (Some h, Some (h * (ln (\<bar>current_z\<bar> / exit_z) / ln 2))))"
proof -
  from assms have phi: "0 < ar1_phi (buf z)" "ar1_phi (buf z) < 1"
    by (simp_all add: usable_phi_def)
  then have "ln 2 / - ln (ar1_phi (buf z)) \<noteq> 0"
    using half_life_pos [of "ar1_phi (buf z)"] by simp
  with assms show ?thesis
    by (auto simp: estimate_reversion_times_def usable_phi_def ar1_phi_def Let_def)
qed


text \<open>
  C23 (functional): with a positive poll period the estimator returns either
  no estimate at all, exactly when the window is shorter than 10, constant, or
  has a slope outside \<open>(0, 0.9999)\<close>; or a positive half-life
  \<open>ln 2 / (- ln \<phi>)\<close> samples times the poll period in seconds, together with
  a non-negative exit time \<open>half_life \<cdot> log\<^sub>2 (|z| / exit_z)\<close>, which is \<open>0\<close>
  when \<open>exit_z \<le> 0\<close> or \<open>|z| \<le> exit_z\<close>.
\<close>

theorem estimate_reversion_times_result:
  assumes "0 < poll_ms"
  shows "(case estimate_reversion_times z current_z exit_z poll_ms of
            (None, None) \<Rightarrow> \<not> usable_phi (buf z)
          | (Some h, Some t) \<Rightarrow>
              usable_phi (buf z) \<and> 0 < h \<and> 0 \<le> t
              \<and> h = ln 2 / - ln (ar1_phi (buf z)) * (real_of_int poll_ms / 1000)
              \<and> t = (if exit_z \<le> 0 \<or> \<bar>current_z\<bar> \<le> exit_z then 0
                     else h * log 2 (\<bar>current_z\<bar> / exit_z))
          | _ \<Rightarrow> False)"
proof (cases "usable_phi (buf z)")
  case False
  then show ?thesis by (simp add: estimate_unusable)
next
  case True
  define h where "h = ln 2 / - ln (ar1_phi (buf z)) * (real_of_int poll_ms / 1000)"
  from True have "0 < ln 2 / - ln (ar1_phi (buf z))"
    by (intro half_life_pos) (simp_all add: usable_phi_def)
  with assms have h: "0 < h"
    unfolding h_def by (intro mult_pos_pos) simp_all
  have "0 \<le> ln (\<bar>current_z\<bar> / exit_z) / ln 2" if "0 < exit_z" "exit_z < \<bar>current_z\<bar>"
    using that by (intro divide_nonneg_pos) simp_all
  with h have t: "0 \<le> h * (ln (\<bar>current_z\<bar> / exit_z) / ln 2)"
    if "0 < exit_z" "exit_z < \<bar>current_z\<bar>"
    using that by (intro mult_nonneg_nonneg) simp_all
  from True assms have "estimate_reversion_times z current_z exit_z poll_ms =
      (if exit_z \<le> 0 \<or> \<bar>current_z\<bar> \<le> exit_z then (Some h, Some 0)
       else (Some h, Some (h * (ln (\<bar>current_z\<bar> / exit_z) / ln 2))))"
    by (simp add: estimate_usable Let_def h_def)
  with True h t show ?thesis
    by (auto simp: log_def not_le h_def)
qed

lemma ln_4: "ln (4::real) = 2 * ln 2"
  using ln_realpow [of "2::real" 2] by simp

theorem estimate_reversion_times_result_witness:
  "(0::int) < 1000 \<and>
   estimate_reversion_times
     \<lparr>window = 60, buf = [1, 1 / 2, 1 / 4, 1 / 8, 1 / 16, 1 / 32, 1 / 64, 1 / 128, 1 / 256, 1 / 512]\<rparr>
     2 (1 / 2) 1000 = (Some 1, Some 2)"
proof -
  let ?z = "\<lparr>window = 60, buf = [1, 1 / 2, 1 / 4, 1 / 8, 1 / 16, 1 / 32, 1 / 64, 1 / 128, 1 / 256, 1 / 512 :: real]\<rparr>"
  have e: "estimate_reversion_times ?z 2 (1 / 2) 1000 = (Some 1, Some 2)"
    by (simp add: reversion_defs Let_def power2_eq_square ln_div ln_4)
  from estimate_reversion_times_result [of 1000 ?z 2 "1 / 2"] e show ?thesis by simp
qed

section \<open>Exact decay is recovered\<close>

lemma ols_num_scaled: "ols_num x (map ((*) c) x) = c * ols_den x"
proof -
  let ?m = "sum_list x / real (length x)"
  have ms: "sum_list (map ((*) c) x) = c * sum_list x"
    by (simp add: sum_list_const_mult)
  have "ols_num x (map ((*) c) x) = (\<Sum>xi\<leftarrow>x. (xi - ?m) * (c * xi - c * ?m))"
    by (simp add: ols_num_def Let_def zip_map2 zip_same_conv_map o_def ms)
  also have "\<dots> = (\<Sum>xi\<leftarrow>x. c * (xi - ?m)\<^sup>2)"
  proof -
    have "(a - m) * (c * a - c * m) = c * (a - m)\<^sup>2" for a m :: real
      by (simp add: power2_eq_square algebra_simps)
    then show ?thesis by (simp only:)
  qed
  also have "\<dots> = c * ols_den x"
    by (simp add: ols_den_def Let_def sum_list_const_mult)
  finally show ?thesis .
qed

lemma ols_den_eq_0_iff: "ols_den x = 0 \<longleftrightarrow> (\<forall>xi\<in>set x. xi = mean x)"
  by (simp add: ols_den_def Let_def mean_def sum_list_squares_eq_0_iff)

lemma decay_den_nonzero:
  assumes "tl s = map ((*) c) (butlast s)" "3 \<le> length s" "hd s \<noteq> 0" "c \<noteq> 1"
  shows "ols_den (butlast s) \<noteq> 0"
proof
  assume "ols_den (butlast s) = 0"
  then have all: "\<forall>xi\<in>set (butlast s). xi = mean (butlast s)"
    by (simp add: ols_den_eq_0_iff)
  from assms(2) obtain x0 x1 r where s: "s = x0 # x1 # r" "r \<noteq> []"
    by (cases s; cases "tl s"; cases "tl (tl s)") auto
  with assms(1) have "x1 = c * x0" by simp
  moreover from s all have "x0 = mean (butlast s)" "x1 = mean (butlast s)" by simp_all
  ultimately have "x0 = c * x0" by simp
  with assms(3,4) s show False by simp
qed

text \<open>
  C38 (functional): on a window that decays exactly geometrically,
  \<open>x\<^bsub>t+1\<^esub> = c \<cdot> x\<^bsub>t\<^esub>\<close> with \<open>0 < c < 0.9999\<close> and a non-zero first value, the
  estimated slope is \<open>c\<close> and the half-life is \<open>ln 2 / (- ln c)\<close> poll
  periods; for \<open>c = 1/2\<close> it is one poll period.
\<close>

theorem estimate_recovers_decay:
  assumes "tl (buf z) = map ((*) c) (butlast (buf z))" "10 \<le> length (buf z)" "hd (buf z) \<noteq> 0"
    and "0 < c" "c < 9999 / 10000" "poll_ms \<noteq> 0"
  shows "ar1_phi (buf z) = c \<and> usable_phi (buf z)
    \<and> fst (estimate_reversion_times z current_z exit_z poll_ms)
        = Some (ln 2 / - ln c * (real_of_int poll_ms / 1000))"
proof -
  from assms have den: "ols_den (butlast (buf z)) \<noteq> 0"
    by (intro decay_den_nonzero [of _ c]) simp_all
  with assms(1) have phi: "ar1_phi (buf z) = c"
    by (simp add: ar1_phi_def ols_num_scaled)
  with den assms have u: "usable_phi (buf z)"
    by (simp add: usable_phi_def)
  from u phi assms(6) show ?thesis
    by (simp add: estimate_usable Let_def)
qed

theorem estimate_recovers_decay_witness:
  "ar1_phi [1, 1 / 2, 1 / 4, 1 / 8, 1 / 16, 1 / 32, 1 / 64, 1 / 128, 1 / 256, 1 / 512] = 1 / 2
   \<and> fst (estimate_reversion_times
       \<lparr>window = 60, buf = [1, 1 / 2, 1 / 4, 1 / 8, 1 / 16, 1 / 32, 1 / 64, 1 / 128, 1 / 256, 1 / 512]\<rparr>
       3 (1 / 2) 1000) = Some 1"
  using estimate_recovers_decay
    [of "\<lparr>window = 60, buf = [1, 1 / 2, 1 / 4, 1 / 8, 1 / 16, 1 / 32, 1 / 64, 1 / 128, 1 / 256, 1 / 512]\<rparr>"
        "1 / 2" 1000 3 "1 / 2"]
  by (simp add: ln_div)

text \<open>
  The cases without an estimate. Fewer than 10 values, or a
  constant window, give \<open>(None, None)\<close>. A poll period of \<open>0\<close> ms makes
  the half-life \<open>0\<close>: the division by it raises, the \<^verbatim>\<open>except\<close> clause
  returns \<open>(None, None)\<close> when \<open>|z| > exit_z > 0\<close>, but \<open>(0, 0)\<close> is
  returned when the exit time is clamped and the division is never reached.
\<close>

theorem estimate_reversion_times_none:
  "(length (buf z) < 10 \<longrightarrow> estimate_reversion_times z current_z exit_z poll_ms = (None, None))
   \<and> ((\<forall>x\<in>set (buf z). x = v) \<longrightarrow> estimate_reversion_times z current_z exit_z poll_ms = (None, None))
   \<and> (usable_phi (buf z) \<and> 0 < exit_z \<and> exit_z < \<bar>current_z\<bar> \<longrightarrow>
         estimate_reversion_times z current_z exit_z 0 = (None, None))
   \<and> (usable_phi (buf z) \<and> \<bar>current_z\<bar> \<le> exit_z \<longrightarrow>
         estimate_reversion_times z current_z exit_z 0 = (Some 0, Some 0))"
proof -
  have "ols_den (butlast (buf z)) = 0" if "\<forall>x\<in>set (buf z). x = v"
  proof -
    from that have "\<forall>x\<in>set (butlast (buf z)). x = v"
      by (auto dest: in_set_butlastD)
    then have "butlast (buf z) = replicate (length (butlast (buf z))) v"
      by (metis replicate_length_same)
    then obtain n where "butlast (buf z) = replicate n v" ..
    then show ?thesis
      by (cases "n = 0") (simp_all add: ols_den_eq_0_iff)
  qed
  then have "\<not> usable_phi (buf z)" if "\<forall>x\<in>set (buf z). x = v"
    using that by (simp add: usable_phi_def)
  moreover have "\<not> usable_phi (buf z)" if "length (buf z) < 10"
    using that by (simp add: usable_phi_def)
  ultimately show ?thesis
    by (auto simp: estimate_unusable estimate_usable Let_def)
qed

theorem estimate_reversion_times_none_witness:
  "estimate_reversion_times \<lparr>window = 60, buf = [1, 2, 3]\<rparr> 2 (1 / 2) 1000 = (None, None)
   \<and> estimate_reversion_times \<lparr>window = 10, buf = replicate 10 7\<rparr> 2 (1 / 2) 1000 = (None, None)"
  using estimate_reversion_times_none [of "\<lparr>window = 60, buf = [1, 2, 3]\<rparr>" 2 "1 / 2" 1000 0]
    estimate_reversion_times_none [of "\<lparr>window = 10, buf = replicate 10 7\<rparr>" 2 "1 / 2" 1000 7]
  by simp


end
