(* ===== verification/Poller.thy ===== *)
theory Poller
  imports Models ZScore Reversion
begin

text \<open>
  The pair poller \<^verbatim>\<open>poll_pair_with_store\<close> of \<^verbatim>\<open>src/arb/runner_reminder.py\<close>.
  One iteration of its \<^verbatim>\<open>while True\<close> loop is the function \<open>tick\<close>: it takes
  the configuration, the pair, the poller's objects (the rolling z-score and
  the EMA) and the answers of the outside world during this iteration (the
  two timed price fetches, the enrichment calls, the storage write, the
  funding calls), and returns what the iteration stored and posted, or the
  exception caught at the tick boundary, together with the poller's objects
  afterwards. The blocks of the loop body are separate definitions, composed
  in the order of the code. The two price fetches are awaited together
  (\<^verbatim>\<open>asyncio.gather\<close>): when both raise, the code reports the exception
  raised first and \<open>tick\<close> the one of leg A; the poller's objects are the
  same in both cases.
\<close>

section \<open>Configuration and state\<close>

record poller_cfg =
  enter_z :: real
  exit_z :: real
  poll_ms :: int
  depth_levels :: int
  stale_ms_th :: int
  skew_ms_th :: int
  notional_usd :: real
  cycle_hours_lighter :: int
  fees_aster :: "real option \<times> real option"
  panel_ingest_url :: "string option"

record poller =
  rz :: RollingZScore
  ema_calc :: EMA

section \<open>Signals of a tick\<close>

definition timed :: "int \<Rightarrow> int \<Rightarrow> 'a \<Rightarrow> 'a \<times> int \<times> int" where
  "timed t0 t1 val = (val, t1, t1 - t0)"

record stats =
  spread :: real
  zscore :: real
  z_mean :: real
  z_std :: real
  ema :: real
  center_dev :: real

definition signals :: "poller \<Rightarrow> real \<Rightarrow> real \<Rightarrow> (stats \<times> poller) result" where
  "signals p price_a price_b =
     (let spread = price_a - price_b
      in bind_result (RollingZScore_update (rz p) spread) (\<lambda>((zscore, mean, std), z').
           let (ema, e') = EMA_update (ema_calc p) spread;
               center_dev = (if 1 / 10 ^ 12 < std then (spread - ema) / std else 0)
           in Inr (\<lparr>spread = spread, zscore = zscore, z_mean = mean, z_std = std,
                     ema = ema, center_dev = center_dev\<rparr>,
                   \<lparr>rz = z', ema_calc = e'\<rparr>)))"

record freshness =
  age_a_ms :: int
  age_b_ms :: int
  skew_ms :: int
  latency_ms :: int
  stale :: int

definition freshness_of :: "poller_cfg \<Rightarrow> int \<Rightarrow> int \<Rightarrow> int \<Rightarrow> int \<Rightarrow> int \<times> freshness" where
  "freshness_of cfg ts_a ts_b dur_a dur_b =
     (let ts = max ts_a ts_b;
          age_a = ts - ts_a;
          age_b = ts - ts_b;
          skew = \<bar>ts_a - ts_b\<bar>;
          latency = max dur_a dur_b
      in (ts, \<lparr>age_a_ms = age_a, age_b_ms = age_b, skew_ms = skew, latency_ms = latency,
               stale = (if stale_ms_th cfg < age_a \<or> stale_ms_th cfg < age_b \<or> skew_ms_th cfg < skew
                        then 1 else 0)\<rparr>))"

definition decide_action :: "real \<Rightarrow> real \<Rightarrow> real \<Rightarrow> action" where
  "decide_action z enter ex =
     (if enter \<le> z then Enter_short_A_long_B
      else if z \<le> - enter then Enter_long_A_short_B
      else if \<bar>z\<bar> \<le> ex then Exit
      else Hold)"

definition final_action :: "int \<Rightarrow> action \<Rightarrow> action" where
  "final_action stale_flag act = (if stale_flag \<noteq> 0 then Hold else act)"

lemmas poller_signal_defs [arb_unfold] =
  timed_def signals_def freshness_of_def decide_action_def final_action_def

section \<open>Properties of the signals\<close>

lemma signals_ok:
  assumes "rz_inv (rz p)" "signals p price_a price_b = Inr (s, p')"
  shows "spread s = price_a - price_b"
    "RollingZScore_update (rz p) (price_a - price_b) = Inr ((zscore s, z_mean s, z_std s), rz p')"
    "EMA_update (ema_calc p) (price_a - price_b) = (ema s, ema_calc p')"
    "center_dev s = (if 1 / 10 ^ 12 < z_std s then (spread s - ema s) / z_std s else 0)"
  using assms
  by (auto simp: signals_def Let_def bind_result_eq_Inr split_beta)

lemma signals_total:
  "rz_inv (rz p) \<Longrightarrow> \<exists>s p'. signals p price_a price_b = Inr (s, p') \<and> rz_inv (rz p')"
  using RollingZScore_update_inv [of "rz p" "price_a - price_b"]
  by (auto simp: signals_def Let_def RollingZScore_update_ok split_beta)

lemma signals_window:
  assumes "rz_inv (rz p)" "signals p price_a price_b = Inr (s, p')"
  shows "window (rz p') = window (rz p)"
    "buf (rz p') = last_n (nat (window (rz p))) (buf (rz p) @ [price_a - price_b])"
    "z_mean s = mean (buf (rz p'))" "z_std s = sample_std (buf (rz p'))"
    "zscore s = (if 0 < z_std s then (spread s - z_mean s) / z_std s else 0)"
proof -
  note ok = signals_ok [OF assms]
  let ?b = "deque_append (window (rz p)) (buf (rz p)) (price_a - price_b)"
  from RollingZScore_update_buf [OF assms(1) ok(2)]
  show "window (rz p') = window (rz p)"
    "buf (rz p') = last_n (nat (window (rz p))) (buf (rz p) @ [price_a - price_b])" by simp_all
  from ok(2) have r: "rz p' = (rz p)\<lparr>buf := ?b\<rparr>" "z_mean s = mean ?b" "z_std s = sample_std ?b"
    "zscore s = (if 0 < sample_std ?b then (price_a - price_b - mean ?b) / sample_std ?b else 0)"
    by (auto simp: RollingZScore_update_ok [OF assms(1)])
  with ok(1) show "z_mean s = mean (buf (rz p'))" "z_std s = sample_std (buf (rz p'))"
    "zscore s = (if 0 < z_std s then (spread s - z_mean s) / z_std s else 0)"
    by simp_all
qed

lemma signals_ema:
  assumes "rz_inv (rz p)" "signals p price_a price_b = Inr (s, p')"
  shows "ema s = (case ema_value (ema_calc p) of None \<Rightarrow> spread s
                  | Some old \<Rightarrow> alpha (ema_calc p) * spread s + (1 - alpha (ema_calc p)) * old)"
    "ema_calc p' = (ema_calc p)\<lparr>ema_value := Some (ema s)\<rparr>"
  using signals_ok(1,3) [OF assms] by (auto simp: EMA_update_def Let_def split: option.splits)

text \<open>
  C22 (functional): the statistics of a tick are those of the spread in the
  poller's window. Every tick that gets both prices succeeds and yields
  \<open>spread = price_a - price_b\<close>; the window afterwards holds the last
  \<open>window\<close> spreads, the new one last; \<open>mean\<close> is the mean of that window
  and \<open>std\<close> its sample standard deviation (\<open>std\<^sup>2 (n - 1)\<close> is the sum of
  the squared deviations from \<open>mean\<close>, and \<open>std = 0\<close> for a single value);
  \<open>z = (spread - mean) / std\<close> when \<open>std > 0\<close> and \<open>0\<close> otherwise; \<open>ema\<close>
  is the spread itself on the first tick and \<open>\<alpha> spread + (1 - \<alpha>) old\<close>
  afterwards, and it is the value the poller keeps for the next tick;
  \<open>center_dev = (spread - ema) / std\<close> when \<open>std > 10\<^sup>-\<^sup>1\<^sup>2\<close> and \<open>0\<close>
  otherwise.
\<close>

theorem signals_invariants:
  assumes "rz_inv (rz p)"
  shows "\<exists>s p'. signals p price_a price_b = Inr (s, p') \<and> rz_inv (rz p')
    \<and> spread s = price_a - price_b
    \<and> window (rz p') = window (rz p)
    \<and> buf (rz p') = last_n (nat (window (rz p))) (buf (rz p) @ [spread s])
    \<and> z_mean s = mean (buf (rz p')) \<and> 0 \<le> z_std s
    \<and> (1 < length (buf (rz p')) \<longrightarrow>
          (z_std s)\<^sup>2 * real (length (buf (rz p')) - 1) = (\<Sum>x\<leftarrow>buf (rz p'). (x - z_mean s)\<^sup>2))
    \<and> (length (buf (rz p')) \<le> 1 \<longrightarrow> z_std s = 0)
    \<and> (0 < z_std s \<longrightarrow> zscore s = (spread s - z_mean s) / z_std s)
    \<and> (z_std s = 0 \<longrightarrow> zscore s = 0)
    \<and> ema s = (case ema_value (ema_calc p) of None \<Rightarrow> spread s
                | Some old \<Rightarrow> alpha (ema_calc p) * spread s + (1 - alpha (ema_calc p)) * old)
    \<and> ema_calc p' = (ema_calc p)\<lparr>ema_value := Some (ema s)\<rparr>
    \<and> center_dev s = (if 1 / 10 ^ 12 < z_std s then (spread s - ema s) / z_std s else 0)"
proof -
  from signals_total [OF assms] obtain s p' where
    sg: "signals p price_a price_b = Inr (s, p')" and inv: "rz_inv (rz p')" by blast
  note ok = signals_ok [OF assms sg] and w = signals_window [OF assms sg] and e = signals_ema [OF assms sg]
  from RollingZScore_update_result [OF assms ok(2)]
  have "0 \<le> z_std s" "0 < z_std s \<longrightarrow> zscore s = (price_a - price_b - z_mean s) / z_std s"
    "z_std s = 0 \<longrightarrow> zscore s = 0" "length (buf (rz p')) \<le> 1 \<longrightarrow> z_std s = 0"
    "1 < length (buf (rz p')) \<longrightarrow>
       (z_std s)\<^sup>2 * real (length (buf (rz p')) - 1) = (\<Sum>x\<leftarrow>buf (rz p'). (x - z_mean s)\<^sup>2)"
    by simp_all
  with sg inv ok(1,4) w(1-3) e show ?thesis by (intro exI [of _ s] exI [of _ p']) simp
qed

theorem signals_invariants_witness:
  "rz_inv \<lparr>window = 3, buf = [1, 2]\<rparr>
   \<and> signals \<lparr>rz = \<lparr>window = 3, buf = [1, 2]\<rparr>, ema_calc = \<lparr>ema_window = 4, alpha = 2 / 5, ema_value = Some 2\<rparr>\<rparr> 103 100
     = Inr (\<lparr>spread = 3, zscore = 1, z_mean = 2, z_std = 1, ema = 12 / 5, center_dev = 3 / 5\<rparr>,
            \<lparr>rz = \<lparr>window = 3, buf = [1, 2, 3]\<rparr>,
             ema_calc = \<lparr>ema_window = 4, alpha = 2 / 5, ema_value = Some (12 / 5)\<rparr>\<rparr>)
   \<and> last_n 3 ([1, 2] @ [103 - 100 :: real]) = [1, 2, 3] \<and> mean [1, 2, 3] = 2
   \<and> (1::real)\<^sup>2 * real (3 - 1) = (\<Sum>x\<leftarrow>[1, 2, 3]. (x - 2)\<^sup>2)
   \<and> (2 / 5) * 3 + (1 - 2 / 5) * 2 = (12 / 5 :: real)"
proof -
  let ?p = "\<lparr>rz = \<lparr>window = 3, buf = [1, 2]\<rparr>, ema_calc = \<lparr>ema_window = 4, alpha = 2 / 5, ema_value = Some 2\<rparr>\<rparr>"
  have i: "rz_inv (rz ?p)" by (simp add: rz_inv_def)
  from signals_invariants [OF i, of 103 100] i show ?thesis
    by (simp add: signals_def zscore_defs Let_def last_n_def mean_def)
qed

section \<open>Freshness and the action\<close>

lemma freshness_of_fields:
  "fst (freshness_of cfg ts_a ts_b dur_a dur_b) = max ts_a ts_b"
  "age_a_ms (snd (freshness_of cfg ts_a ts_b dur_a dur_b)) = max ts_a ts_b - ts_a"
  "age_b_ms (snd (freshness_of cfg ts_a ts_b dur_a dur_b)) = max ts_a ts_b - ts_b"
  "skew_ms (snd (freshness_of cfg ts_a ts_b dur_a dur_b)) = \<bar>ts_a - ts_b\<bar>"
  "latency_ms (snd (freshness_of cfg ts_a ts_b dur_a dur_b)) = max dur_a dur_b"
  by (simp_all add: freshness_of_def Let_def)

text \<open>
  The stale flag of a tick is \<open>1\<close> exactly when a leg is
  older than the staleness threshold or the legs differ by more than the skew
  threshold, and \<open>0\<close> otherwise; a stale tick's action is \<^verbatim>\<open>hold\<close>. Because
  the tick time is the later of the two leg times, one leg always has age
  \<open>0\<close> and the other has age \<open>skew\<close>: the flag is \<open>1\<close> exactly when the
  skew exceeds the smaller of the two thresholds.
\<close>

theorem stale_flag_correct:
  "(let f = snd (freshness_of cfg ts_a ts_b dur_a dur_b)
    in (stale f = 1 \<longleftrightarrow> stale_ms_th cfg < age_a_ms f \<or> stale_ms_th cfg < age_b_ms f \<or> skew_ms_th cfg < skew_ms f)
     \<and> (stale f = 0 \<or> stale f = 1)
     \<and> final_action (stale f) act = (if stale f = 1 then Hold else act)
     \<and> min (age_a_ms f) (age_b_ms f) = 0 \<and> max (age_a_ms f) (age_b_ms f) = skew_ms f
     \<and> (stale f = 1 \<longleftrightarrow> min (stale_ms_th cfg) (skew_ms_th cfg) < skew_ms f))"
  by (auto simp: freshness_of_def final_action_def Let_def max_def min_def)

text \<open>
  With \<open>0 \<le> exit_z < enter_z\<close> the four actions partition
  the z axis: short A / long B for \<open>z \<ge> enter_z\<close>, long A / short B for
  \<open>z \<le> - enter_z\<close>, exit for \<open>|z| \<le> exit_z\<close>, hold in between.
\<close>

theorem decide_action_partition:
  assumes "0 \<le> ex" "ex < enter"
  shows "(decide_action z enter ex = Enter_short_A_long_B \<longleftrightarrow> enter \<le> z)
    \<and> (decide_action z enter ex = Enter_long_A_short_B \<longleftrightarrow> z \<le> - enter)
    \<and> (decide_action z enter ex = Exit \<longleftrightarrow> \<bar>z\<bar> \<le> ex)
    \<and> (decide_action z enter ex = Hold \<longleftrightarrow> ex < \<bar>z\<bar> \<and> \<bar>z\<bar> < enter)"
  using assms by (auto simp: decide_action_def)

theorem decide_action_partition_witness:
  "(0::real) \<le> 1 / 2 \<and> (1 / 2 :: real) < 2
   \<and> decide_action 2 2 (1 / 2) = Enter_short_A_long_B
   \<and> decide_action (- 5 / 2) 2 (1 / 2) = Enter_long_A_short_B
   \<and> decide_action (1 / 4) 2 (1 / 2) = Exit
   \<and> decide_action 1 2 (1 / 2) = Hold"
  using decide_action_partition [of "1 / 2" 2 2] decide_action_partition [of "1 / 2" 2 "- 5 / 2"]
    decide_action_partition [of "1 / 2" 2 "1 / 4"] decide_action_partition [of "1 / 2" 2 1]
  by simp

section \<open>Enrichment\<close>

record leg_extras =
  x_ob_spread :: "real option"
  x_ob_spread_pct :: "real option"
  x_vol :: "real option"
  x_depth_qty :: "real option"
  x_depth_notional :: "real option"
  x_maker :: "real option"
  x_taker :: "real option"

record enrich_io =
  io_summary :: "ob_summary result"
  io_stats :: "real result"
  io_fees :: "(real option \<times> real option) result"

definition no_extras :: leg_extras where
  "no_extras = \<lparr>x_ob_spread = None, x_ob_spread_pct = None, x_vol = None, x_depth_qty = None,
                 x_depth_notional = None, x_maker = None, x_taker = None\<rparr>"

definition extras_of :: "ob_summary \<Rightarrow> real \<Rightarrow> real option \<Rightarrow> real option \<Rightarrow> leg_extras" where
  "extras_of ob vol maker taker =
     \<lparr>x_ob_spread = Some (spread_abs ob), x_ob_spread_pct = Some (spread_pct ob), x_vol = Some vol,
      x_depth_qty = Some (depth_qty ob), x_depth_notional = Some (depth_notional ob),
      x_maker = maker, x_taker = taker\<rparr>"

definition enrich_leg :: "poller_cfg \<Rightarrow> Market \<Rightarrow> enrich_io \<Rightarrow> leg_extras result" where
  "enrich_leg cfg m io =
     (if exchange m = ''lighter'' then
        bind_result (io_summary io) (\<lambda>ob.
        bind_result (io_stats io) (\<lambda>vol.
        bind_result (io_fees io) (\<lambda>(maker, taker). Inr (extras_of ob vol maker taker))))
      else if exchange m = ''aster'' then
        bind_result (io_summary io) (\<lambda>ob.
        bind_result (io_stats io) (\<lambda>vol.
          Inr (extras_of ob vol (fst (fees_aster cfg)) (snd (fees_aster cfg)))))
      else Inr no_extras)"

section \<open>Funding and advice\<close>

datatype advice = Converges_before_funding | Spans_next_funding

record funding_hint =
  fr_a :: "real option"
  fr_b :: "real option"
  fr_countdown_ms :: "real option"
  half_life_s :: "real option"
  t_exit_s :: "real option"
  advice_of :: "advice option"
  net_funding_cycle_usd :: "real option"
  expect_funding_next_usd :: "real option"

definition funding_info :: "(real option \<times> real option) result \<Rightarrow> real option \<times> real option" where
  "funding_info r = (case r of Inl e \<Rightarrow> (None, None) | Inr (rate, next_time) \<Rightarrow> (rate, next_time))"

definition countdown_of :: "real option \<Rightarrow> real option \<Rightarrow> int \<Rightarrow> real option" where
  "countdown_of next_a next_b now =
     (let nexts = map the (filter truthy [next_a, next_b])
      in if nexts \<noteq> [] then Some (Min (set nexts) - real_of_int now) else None)"

definition net_rate_of :: "action \<Rightarrow> real option \<Rightarrow> real option \<Rightarrow> real option" where
  "net_rate_of act fa fb =
     (case (fa, fb) of
        (Some ra, Some rb) \<Rightarrow>
          (if act = Enter_short_A_long_B then Some (ra - rb)
           else if act = Enter_long_A_short_B then Some (rb - ra)
           else None)
      | _ \<Rightarrow> None)"

definition advise ::
  "real \<Rightarrow> action \<Rightarrow> real option \<Rightarrow> real option \<Rightarrow> real option \<Rightarrow> real option
     \<Rightarrow> advice option \<times> real option \<times> real option" where
  "advise notional act fa fb countdown t_exit =
     (if truthy countdown \<and> truthy t_exit then
        (case net_rate_of act fa fb of
           None \<Rightarrow> (None, None, None)
         | Some net_rate \<Rightarrow>
             let time_to_funding_s = real_of_int (max 0 (py_int (the countdown / 1000)));
                 net_funding = notional * net_rate
             in ((if the t_exit < time_to_funding_s then Some Converges_before_funding
                  else Some Spans_next_funding),
                 Some net_funding,
                 Some (if time_to_funding_s \<le> the t_exit then net_funding else 0)))
      else (None, None, None))"

definition funding_of ::
  "poller_cfg \<Rightarrow> poller \<Rightarrow> real \<Rightarrow> action \<Rightarrow> int
     \<Rightarrow> (real option \<times> real option) result \<Rightarrow> (real option \<times> real option) result \<Rightarrow> funding_hint" where
  "funding_of cfg p zs act ts fund_a fund_b =
     (let (fr_a_rate, next_a) = funding_info fund_a;
          (fr_b_rate, next_b) = funding_info fund_b;
          countdown = countdown_of next_a next_b ts;
          (half_life, t_exit) = estimate_reversion_times (rz p) zs (exit_z cfg) (poll_ms cfg);
          (adv, net_funding, expect_funding) = advise (notional_usd cfg) act fr_a_rate fr_b_rate countdown t_exit
      in \<lparr>fr_a = fr_a_rate, fr_b = fr_b_rate, fr_countdown_ms = countdown,
          half_life_s = half_life, t_exit_s = t_exit, advice_of = adv,
          net_funding_cycle_usd = net_funding, expect_funding_next_usd = expect_funding\<rparr>)"

lemmas poller_funding_defs [arb_unfold] =
  funding_info_def countdown_of_def net_rate_of_def advise_def funding_of_def
  enrich_leg_def extras_of_def no_extras_def


section \<open>What a tick writes\<close>

text \<open>
  The two advice literals of the source are Chinese sentences; the theory is
  ASCII, so \<open>advice_str\<close> renders them by their English wording in the
  specification.
\<close>

definition advice_str :: "advice \<Rightarrow> string" where
  "advice_str adv =
     (case adv of
        Converges_before_funding \<Rightarrow> ''convergence expected before next funding; funding avoidable''
      | Spans_next_funding \<Rightarrow> ''position likely to span next funding; evaluate net funding'')"

definition store_extras :: "stats \<Rightarrow> leg_extras \<Rightarrow> leg_extras \<Rightarrow> freshness \<Rightarrow> payload" where
  "store_extras s xa xb f =
     [(''ema'', JNum (ema s)),
      (''center_dev'', JNum (center_dev s)),
      (''ob_spread_a'', jnum (x_ob_spread xa)),
      (''ob_spread_b'', jnum (x_ob_spread xb)),
      (''ob_spread_pct_a'', jnum (x_ob_spread_pct xa)),
      (''ob_spread_pct_b'', jnum (x_ob_spread_pct xb)),
      (''vol_a'', jnum (x_vol xa)),
      (''vol_b'', jnum (x_vol xb)),
      (''depth_qty_a'', jnum (x_depth_qty xa)),
      (''depth_qty_b'', jnum (x_depth_qty xb)),
      (''depth_notional_a'', jnum (x_depth_notional xa)),
      (''depth_notional_b'', jnum (x_depth_notional xb)),
      (''maker_fee_a'', jnum (x_maker xa)),
      (''taker_fee_a'', jnum (x_taker xa)),
      (''maker_fee_b'', jnum (x_maker xb)),
      (''taker_fee_b'', jnum (x_taker xb)),
      (''age_a_ms'', JInt (age_a_ms f)),
      (''age_b_ms'', JInt (age_b_ms f)),
      (''skew_ms'', JInt (skew_ms f)),
      (''latency_ms'', JInt (latency_ms f)),
      (''stale'', JInt (stale f))]"

definition store_args ::
  "Pair \<Rightarrow> int \<Rightarrow> real \<Rightarrow> real \<Rightarrow> stats \<Rightarrow> leg_extras \<Rightarrow> leg_extras \<Rightarrow> freshness \<Rightarrow> insert_args" where
  "store_args pr ts price_a price_b s xa xb f =
     \<lparr>st_pair = pair_name pr, st_ts_ms = ts, st_price_a = price_a, st_price_b = price_b,
      st_spread = spread s, st_z = zscore s, st_mean = z_mean s, st_std = z_std s,
      st_extras = store_extras s xa xb f\<rparr>"

definition payload_of ::
  "Pair \<Rightarrow> int \<Rightarrow> real \<Rightarrow> real \<Rightarrow> stats \<Rightarrow> leg_extras \<Rightarrow> leg_extras \<Rightarrow> freshness
     \<Rightarrow> funding_hint \<Rightarrow> payload" where
  "payload_of pr ts price_a price_b s xa xb f h =
     [(''pair'', JStr (pair_name pr)),
      (''ts_ms'', JInt ts),
      (''price_a'', JNum price_a),
      (''price_b'', JNum price_b),
      (''spread'', JNum (spread s)),
      (''z'', JNum (zscore s)),
      (''mean'', JNum (z_mean s)),
      (''std'', JNum (z_std s)),
      (''ema'', JNum (ema s)),
      (''center_dev'', JNum (center_dev s)),
      (''ob_spread_a'', jnum (x_ob_spread xa)),
      (''ob_spread_b'', jnum (x_ob_spread xb)),
      (''ob_spread_pct_a'', jnum (x_ob_spread_pct xa)),
      (''ob_spread_pct_b'', jnum (x_ob_spread_pct xb)),
      (''vol_a'', jnum (x_vol xa)),
      (''vol_b'', jnum (x_vol xb)),
      (''depth_qty_a'', jnum (x_depth_qty xa)),
      (''depth_qty_b'', jnum (x_depth_qty xb)),
      (''depth_notional_a'', jnum (x_depth_notional xa)),
      (''depth_notional_b'', jnum (x_depth_notional xb)),
      (''maker_fee_a'', jnum (x_maker xa)),
      (''taker_fee_a'', jnum (x_taker xa)),
      (''maker_fee_b'', jnum (x_maker xb)),
      (''taker_fee_b'', jnum (x_taker xb)),
      (''fr_a'', jnum (fr_a h)),
      (''fr_b'', jnum (fr_b h)),
      (''fr_countdown_ms'', jnum (fr_countdown_ms h)),
      (''half_life_s'', jnum (half_life_s h)),
      (''t_exit_s'', jnum (t_exit_s h)),
      (''advice'', jstr (map_option advice_str (advice_of h))),
      (''net_funding_cycle_usd'', jnum (net_funding_cycle_usd h)),
      (''expect_funding_next_usd'', jnum (expect_funding_next_usd h)),
      (''age_a_ms'', JInt (age_a_ms f)),
      (''age_b_ms'', JInt (age_b_ms f)),
      (''skew_ms'', JInt (skew_ms f)),
      (''latency_ms'', JInt (latency_ms f)),
      (''stale'', JInt (stale f))]"

section \<open>One iteration of the loop\<close>

record tick_io =
  mid_a :: "(real \<times> int \<times> int) result"
  mid_b :: "(real \<times> int \<times> int) result"
  enr_a :: enrich_io
  enr_b :: enrich_io
  io_insert :: "unit result"
  fund_a :: "(real option \<times> real option) result"
  fund_b :: "(real option \<times> real option) result"

datatype tick_result = Tick_failed py_error | Tick_ok insert_args "payload option" action

definition known_exchange :: "string \<Rightarrow> bool" where
  "known_exchange e \<longleftrightarrow> e = ''lighter'' \<or> e = ''aster''"

definition posting :: "poller_cfg \<Rightarrow> bool" where
  "posting cfg = (case panel_ingest_url cfg of None \<Rightarrow> False | Some u \<Rightarrow> u \<noteq> [])"

definition tick :: "poller_cfg \<Rightarrow> Pair \<Rightarrow> poller \<Rightarrow> tick_io \<Rightarrow> tick_result \<times> poller" where
  "tick cfg pr p io =
     (if \<not> known_exchange (exchange (leg_a pr)) then (Tick_failed (KeyError (exchange (leg_a pr))), p)
      else if \<not> known_exchange (exchange (leg_b pr)) then (Tick_failed (KeyError (exchange (leg_b pr))), p)
      else case mid_a io of Inl e \<Rightarrow> (Tick_failed e, p) | Inr (price_a, ts_a, dur_a) \<Rightarrow>
           case mid_b io of Inl e \<Rightarrow> (Tick_failed e, p) | Inr (price_b, ts_b, dur_b) \<Rightarrow>
           case signals p price_a price_b of Inl e \<Rightarrow> (Tick_failed e, p) | Inr (s, p') \<Rightarrow>
             let (ts, f) = freshness_of cfg ts_a ts_b dur_a dur_b;
                 act = final_action (stale f) (decide_action (zscore s) (enter_z cfg) (exit_z cfg))
             in case enrich_leg cfg (leg_a pr) (enr_a io) of Inl e \<Rightarrow> (Tick_failed e, p') | Inr xa \<Rightarrow>
                case enrich_leg cfg (leg_b pr) (enr_b io) of Inl e \<Rightarrow> (Tick_failed e, p') | Inr xb \<Rightarrow>
                case io_insert io of Inl e \<Rightarrow> (Tick_failed e, p') | Inr u \<Rightarrow>
                  (Tick_ok (store_args pr ts price_a price_b s xa xb f)
                     (if posting cfg
                      then Some (payload_of pr ts price_a price_b s xa xb f
                                   (funding_of cfg p' (zscore s) act ts (fund_a io) (fund_b io)))
                      else None)
                     act,
                   p'))"

fun run_ticks :: "poller_cfg \<Rightarrow> Pair \<Rightarrow> poller \<Rightarrow> tick_io list \<Rightarrow> tick_result list \<times> poller" where
  "run_ticks cfg pr p [] = ([], p)"
| "run_ticks cfg pr p (io # ios) =
     (let (r, p') = tick cfg pr p io; (rs, p'') = run_ticks cfg pr p' ios in (r # rs, p''))"

lemmas poller_tick_defs [arb_unfold] =
  tick_def known_exchange_def posting_def store_args_def store_extras_def payload_of_def advice_str_def


section \<open>Properties of a tick\<close>

lemma freshness_of_pair:
  "freshness_of cfg ts_a ts_b dur_a dur_b = (max ts_a ts_b, snd (freshness_of cfg ts_a ts_b dur_a dur_b))"
  by (simp add: freshness_of_def Let_def)

lemma tick_after_signals:
  assumes "known_exchange (exchange (leg_a pr))" "known_exchange (exchange (leg_b pr))"
    and "mid_a io = Inr (price_a, ts_a, dur_a)" "mid_b io = Inr (price_b, ts_b, dur_b)"
    and "signals p price_a price_b = Inr (s, p1)"
  shows "tick cfg pr p io =
    (let ts = max ts_a ts_b; f = snd (freshness_of cfg ts_a ts_b dur_a dur_b);
         act = final_action (stale f) (decide_action (zscore s) (enter_z cfg) (exit_z cfg))
     in case enrich_leg cfg (leg_a pr) (enr_a io) of Inl e \<Rightarrow> (Tick_failed e, p1) | Inr xa \<Rightarrow>
        case enrich_leg cfg (leg_b pr) (enr_b io) of Inl e \<Rightarrow> (Tick_failed e, p1) | Inr xb \<Rightarrow>
        case io_insert io of Inl e \<Rightarrow> (Tick_failed e, p1) | Inr u \<Rightarrow>
          (Tick_ok (store_args pr ts price_a price_b s xa xb f)
             (if posting cfg
              then Some (payload_of pr ts price_a price_b s xa xb f
                           (funding_of cfg p1 (zscore s) act ts (fund_a io) (fund_b io)))
              else None)
             act,
           p1))"
  unfolding tick_def
  by (subst freshness_of_pair) (simp add: assms Let_def)

lemma tick_ok_answers:
  assumes "tick cfg pr p io = (Tick_ok a post act, p')"
  shows "known_exchange (exchange (leg_a pr))" "known_exchange (exchange (leg_b pr))"
    "is_ok (mid_a io)" "is_ok (mid_b io)"
    "is_ok (signals p (fst (projr (mid_a io))) (fst (projr (mid_b io))))"
    "is_ok (enrich_leg cfg (leg_a pr) (enr_a io))" "is_ok (enrich_leg cfg (leg_b pr) (enr_b io))"
    "is_ok (io_insert io)"
  using assms by (auto simp: tick_def Let_def split: if_splits sum.splits prod.splits)

lemma tick_okI:
  assumes "known_exchange (exchange (leg_a pr))" "known_exchange (exchange (leg_b pr))"
    and "is_ok (mid_a io)" "is_ok (mid_b io)"
    and "is_ok (signals p (fst (projr (mid_a io))) (fst (projr (mid_b io))))"
    and "is_ok (enrich_leg cfg (leg_a pr) (enr_a io))" "is_ok (enrich_leg cfg (leg_b pr) (enr_b io))"
    and "is_ok (io_insert io)"
  shows "\<exists>a post act p'. tick cfg pr p io = (Tick_ok a post act, p')"
  using assms by (auto simp: tick_def Let_def is_ok_iff split: prod.splits)

lemma tick_okE:
  assumes t: "tick cfg pr p io = (Tick_ok a post act, p')"
  obtains price_a ts_a dur_a price_b ts_b dur_b s xa xb where
    "mid_a io = Inr (price_a, ts_a, dur_a)" "mid_b io = Inr (price_b, ts_b, dur_b)"
    "signals p price_a price_b = Inr (s, p')"
    "enrich_leg cfg (leg_a pr) (enr_a io) = Inr xa" "enrich_leg cfg (leg_b pr) (enr_b io) = Inr xb"
    "a = store_args pr (max ts_a ts_b) price_a price_b s xa xb (snd (freshness_of cfg ts_a ts_b dur_a dur_b))"
    "act = final_action (stale (snd (freshness_of cfg ts_a ts_b dur_a dur_b)))
             (decide_action (zscore s) (enter_z cfg) (exit_z cfg))"
    "post = (if posting cfg
             then Some (payload_of pr (max ts_a ts_b) price_a price_b s xa xb
                          (snd (freshness_of cfg ts_a ts_b dur_a dur_b))
                          (funding_of cfg p' (zscore s) act (max ts_a ts_b) (fund_a io) (fund_b io)))
             else None)"
proof -
  from t have k: "known_exchange (exchange (leg_a pr))" "known_exchange (exchange (leg_b pr))"
    by (auto simp: tick_def split: if_splits)
  from t k obtain price_a ts_a dur_a where ma: "mid_a io = Inr (price_a, ts_a, dur_a)"
    by (cases "mid_a io") (auto simp: tick_def)
  from t k ma obtain price_b ts_b dur_b where mb: "mid_b io = Inr (price_b, ts_b, dur_b)"
    by (cases "mid_b io") (auto simp: tick_def)
  from t k ma mb obtain s p1 where sg: "signals p price_a price_b = Inr (s, p1)"
    by (cases "signals p price_a price_b") (auto simp: tick_def)
  note start = t [unfolded tick_after_signals [OF k ma mb sg] Let_def]
  from start obtain xa where ea: "enrich_leg cfg (leg_a pr) (enr_a io) = Inr xa"
    by (cases "enrich_leg cfg (leg_a pr) (enr_a io)") auto
  from start ea obtain xb where eb: "enrich_leg cfg (leg_b pr) (enr_b io) = Inr xb"
    by (cases "enrich_leg cfg (leg_b pr) (enr_b io)") auto
  from start ea eb obtain u where ins: "io_insert io = Inr u"
    by (cases "io_insert io") auto
  from start ea eb ins have
    "p1 = p'"
    "a = store_args pr (max ts_a ts_b) price_a price_b s xa xb (snd (freshness_of cfg ts_a ts_b dur_a dur_b))"
    "act = final_action (stale (snd (freshness_of cfg ts_a ts_b dur_a dur_b)))
             (decide_action (zscore s) (enter_z cfg) (exit_z cfg))"
    "post = (if posting cfg
             then Some (payload_of pr (max ts_a ts_b) price_a price_b s xa xb
                          (snd (freshness_of cfg ts_a ts_b dur_a dur_b))
                          (funding_of cfg p' (zscore s) act (max ts_a ts_b) (fund_a io) (fund_b io)))
             else None)"
    by auto
  with ma mb sg ea eb that show thesis by blast
qed

lemma store_extras_keys:
  "dict_get (store_extras s xa xb f) k \<noteq> JNone \<Longrightarrow>
     k \<in> {''ema'', ''center_dev'', ''ob_spread_a'', ''ob_spread_b'', ''ob_spread_pct_a'',
          ''ob_spread_pct_b'', ''vol_a'', ''vol_b'', ''depth_qty_a'', ''depth_qty_b'',
          ''depth_notional_a'', ''depth_notional_b'', ''maker_fee_a'', ''taker_fee_a'',
          ''maker_fee_b'', ''taker_fee_b'', ''age_a_ms'', ''age_b_ms'', ''skew_ms'',
          ''latency_ms'', ''stale''}"
  by (drule dict_get_in_keys) (simp add: store_extras_def)

lemma payload_extras:
  "dict_get (payload_of pr ts price_a price_b s xa xb f h) ''ema'' = dict_get (store_extras s xa xb f) ''ema''"
  "dict_get (payload_of pr ts price_a price_b s xa xb f h) ''center_dev'' = dict_get (store_extras s xa xb f) ''center_dev''"
  "dict_get (payload_of pr ts price_a price_b s xa xb f h) ''ob_spread_a'' = dict_get (store_extras s xa xb f) ''ob_spread_a''"
  "dict_get (payload_of pr ts price_a price_b s xa xb f h) ''ob_spread_b'' = dict_get (store_extras s xa xb f) ''ob_spread_b''"
  "dict_get (payload_of pr ts price_a price_b s xa xb f h) ''ob_spread_pct_a'' = dict_get (store_extras s xa xb f) ''ob_spread_pct_a''"
  "dict_get (payload_of pr ts price_a price_b s xa xb f h) ''ob_spread_pct_b'' = dict_get (store_extras s xa xb f) ''ob_spread_pct_b''"
  "dict_get (payload_of pr ts price_a price_b s xa xb f h) ''vol_a'' = dict_get (store_extras s xa xb f) ''vol_a''"
  "dict_get (payload_of pr ts price_a price_b s xa xb f h) ''vol_b'' = dict_get (store_extras s xa xb f) ''vol_b''"
  "dict_get (payload_of pr ts price_a price_b s xa xb f h) ''depth_qty_a'' = dict_get (store_extras s xa xb f) ''depth_qty_a''"
  "dict_get (payload_of pr ts price_a price_b s xa xb f h) ''depth_qty_b'' = dict_get (store_extras s xa xb f) ''depth_qty_b''"
  "dict_get (payload_of pr ts price_a price_b s xa xb f h) ''depth_notional_a'' = dict_get (store_extras s xa xb f) ''depth_notional_a''"
  "dict_get (payload_of pr ts price_a price_b s xa xb f h) ''depth_notional_b'' = dict_get (store_extras s xa xb f) ''depth_notional_b''"
  "dict_get (payload_of pr ts price_a price_b s xa xb f h) ''maker_fee_a'' = dict_get (store_extras s xa xb f) ''maker_fee_a''"
  "dict_get (payload_of pr ts price_a price_b s xa xb f h) ''taker_fee_a'' = dict_get (store_extras s xa xb f) ''taker_fee_a''"
  "dict_get (payload_of pr ts price_a price_b s xa xb f h) ''maker_fee_b'' = dict_get (store_extras s xa xb f) ''maker_fee_b''"
  "dict_get (payload_of pr ts price_a price_b s xa xb f h) ''taker_fee_b'' = dict_get (store_extras s xa xb f) ''taker_fee_b''"
  "dict_get (payload_of pr ts price_a price_b s xa xb f h) ''age_a_ms'' = dict_get (store_extras s xa xb f) ''age_a_ms''"
  "dict_get (payload_of pr ts price_a price_b s xa xb f h) ''age_b_ms'' = dict_get (store_extras s xa xb f) ''age_b_ms''"
  "dict_get (payload_of pr ts price_a price_b s xa xb f h) ''skew_ms'' = dict_get (store_extras s xa xb f) ''skew_ms''"
  "dict_get (payload_of pr ts price_a price_b s xa xb f h) ''latency_ms'' = dict_get (store_extras s xa xb f) ''latency_ms''"
  "dict_get (payload_of pr ts price_a price_b s xa xb f h) ''stale'' = dict_get (store_extras s xa xb f) ''stale''"
  by (simp_all add: store_extras_def payload_of_def)

lemma payload_extends_store:
  assumes "dict_get (store_extras s xa xb f) k \<noteq> JNone"
  shows "dict_get (payload_of pr ts price_a price_b s xa xb f h) k = dict_get (store_extras s xa xb f) k"
  using store_extras_keys [OF assms] by (auto simp only: payload_extras insert_iff empty_iff)

lemma payload_required:
  "dict_get (payload_of pr ts price_a price_b s xa xb f h) ''pair'' = JStr (pair_name pr)"
  "dict_get (payload_of pr ts price_a price_b s xa xb f h) ''ts_ms'' = JInt ts"
  "dict_get (payload_of pr ts price_a price_b s xa xb f h) ''price_a'' = JNum price_a"
  "dict_get (payload_of pr ts price_a price_b s xa xb f h) ''price_b'' = JNum price_b"
  "dict_get (payload_of pr ts price_a price_b s xa xb f h) ''spread'' = JNum (spread s)"
  "dict_get (payload_of pr ts price_a price_b s xa xb f h) ''z'' = JNum (zscore s)"
  "dict_get (payload_of pr ts price_a price_b s xa xb f h) ''mean'' = JNum (z_mean s)"
  "dict_get (payload_of pr ts price_a price_b s xa xb f h) ''std'' = JNum (z_std s)"
  by (simp_all add: payload_of_def)


lemma signals_sample:
  assumes "rz_inv (rz p)" "signals p price_a price_b = Inr (s, p')"
  shows "spread s = price_a - price_b" "0 \<le> z_std s"
    "0 < z_std s \<longrightarrow> zscore s = (spread s - z_mean s) / z_std s"
    "z_std s = 0 \<longrightarrow> zscore s = 0" "rz_inv (rz p')"
    "buf (rz p') = last_n (nat (window (rz p))) (buf (rz p) @ [price_a - price_b])"
    "window (rz p') = window (rz p)"
proof -
  note ok = signals_ok [OF assms]
  from RollingZScore_update_result [OF assms(1) ok(2)] ok(1)
  show "spread s = price_a - price_b" "0 \<le> z_std s"
    "0 < z_std s \<longrightarrow> zscore s = (spread s - z_mean s) / z_std s" "z_std s = 0 \<longrightarrow> zscore s = 0"
    by simp_all
  from assms(1) ok(2) show "rz_inv (rz p')" by (rule RollingZScore_update_inv)
  from RollingZScore_update_buf [OF assms(1) ok(2)]
  show "buf (rz p') = last_n (nat (window (rz p))) (buf (rz p) @ [price_a - price_b])"
    "window (rz p') = window (rz p)" by simp_all
qed

lemma store_args_fields [simp]:
  "st_pair (store_args pr ts price_a price_b s xa xb f) = pair_name pr"
  "st_ts_ms (store_args pr ts price_a price_b s xa xb f) = ts"
  "st_price_a (store_args pr ts price_a price_b s xa xb f) = price_a"
  "st_price_b (store_args pr ts price_a price_b s xa xb f) = price_b"
  "st_spread (store_args pr ts price_a price_b s xa xb f) = spread s"
  "st_z (store_args pr ts price_a price_b s xa xb f) = zscore s"
  "st_mean (store_args pr ts price_a price_b s xa xb f) = z_mean s"
  "st_std (store_args pr ts price_a price_b s xa xb f) = z_std s"
  "st_extras (store_args pr ts price_a price_b s xa xb f) = store_extras s xa xb f"
  by (simp_all add: store_args_def)

lemma store_extras_stale [simp]: "dict_get (store_extras s xa xb f) ''stale'' = JInt (stale f)"
  by (simp add: store_extras_def)

lemma stale_hold:
  "stale (snd (freshness_of cfg ts_a ts_b dur_a dur_b)) = 1 \<Longrightarrow>
     final_action (stale (snd (freshness_of cfg ts_a ts_b dur_a dur_b))) act = Hold"
  by (simp add: final_action_def)

lemma stale_01:
  "stale (snd (freshness_of cfg ts_a ts_b dur_a dur_b)) = 0
   \<or> stale (snd (freshness_of cfg ts_a ts_b dur_a dur_b)) = 1"
  by (simp add: freshness_of_def Let_def)

text \<open>
  C3 (safety): every sample a tick stores obeys the invariants of the data
  model: \<open>spread = price_a - price_b\<close>; \<open>std \<ge> 0\<close>, \<open>z = (spread - mean) /
  std\<close> when \<open>std > 0\<close> and \<open>z = 0\<close> when \<open>std = 0\<close>; the stale flag is
  \<open>0\<close> or \<open>1\<close> and a stale sample's action is \<^verbatim>\<open>hold\<close>. The payload posted
  to the panel, when there is one, carries the same identity, prices and
  statistics, and the same value as the stored row under every key of the
  stored row.
\<close>

theorem tick_sample_invariants:
  assumes "rz_inv (rz p)" "tick cfg pr p io = (Tick_ok a post act, p')"
  shows "st_spread a = st_price_a a - st_price_b a \<and> 0 \<le> st_std a
    \<and> (0 < st_std a \<longrightarrow> st_z a = (st_spread a - st_mean a) / st_std a)
    \<and> (st_std a = 0 \<longrightarrow> st_z a = 0)
    \<and> (dict_get (st_extras a) ''stale'' = JInt 0 \<or> dict_get (st_extras a) ''stale'' = JInt 1)
    \<and> (dict_get (st_extras a) ''stale'' = JInt 1 \<longrightarrow> act = Hold)
    \<and> rz_inv (rz p')
    \<and> (\<forall>py. post = Some py \<longrightarrow>
          dict_get py ''pair'' = JStr (st_pair a) \<and> dict_get py ''ts_ms'' = JInt (st_ts_ms a)
          \<and> dict_get py ''price_a'' = JNum (st_price_a a) \<and> dict_get py ''price_b'' = JNum (st_price_b a)
          \<and> dict_get py ''spread'' = JNum (st_spread a) \<and> dict_get py ''z'' = JNum (st_z a)
          \<and> dict_get py ''mean'' = JNum (st_mean a) \<and> dict_get py ''std'' = JNum (st_std a)
          \<and> (\<forall>k. dict_get (st_extras a) k \<noteq> JNone \<longrightarrow> dict_get py k = dict_get (st_extras a) k))"
proof -
  from assms(2) obtain price_a ts_a dur_a price_b ts_b dur_b s xa xb where
    sg: "signals p price_a price_b = Inr (s, p')"
    and a: "a = store_args pr (max ts_a ts_b) price_a price_b s xa xb (snd (freshness_of cfg ts_a ts_b dur_a dur_b))"
    and act: "act = final_action (stale (snd (freshness_of cfg ts_a ts_b dur_a dur_b)))
        (decide_action (zscore s) (enter_z cfg) (exit_z cfg))"
    and post: "post = (if posting cfg
        then Some (payload_of pr (max ts_a ts_b) price_a price_b s xa xb
                     (snd (freshness_of cfg ts_a ts_b dur_a dur_b))
                     (funding_of cfg p' (zscore s) act (max ts_a ts_b) (fund_a io) (fund_b io)))
        else None)"
    by (rule tick_okE)
  note sm = signals_sample [OF assms(1) sg]
  from sm a have stat: "st_spread a = st_price_a a - st_price_b a" "0 \<le> st_std a"
    "0 < st_std a \<longrightarrow> st_z a = (st_spread a - st_mean a) / st_std a" "st_std a = 0 \<longrightarrow> st_z a = 0"
    by simp_all
  from a act have st: "dict_get (st_extras a) ''stale'' = JInt 0 \<or> dict_get (st_extras a) ''stale'' = JInt 1"
    "dict_get (st_extras a) ''stale'' = JInt 1 \<longrightarrow> act = Hold"
    using stale_01 [of cfg ts_a ts_b dur_a dur_b] stale_hold [of cfg ts_a ts_b dur_a dur_b]
    by auto
  from a post have py: "\<forall>py. post = Some py \<longrightarrow>
          dict_get py ''pair'' = JStr (st_pair a) \<and> dict_get py ''ts_ms'' = JInt (st_ts_ms a)
          \<and> dict_get py ''price_a'' = JNum (st_price_a a) \<and> dict_get py ''price_b'' = JNum (st_price_b a)
          \<and> dict_get py ''spread'' = JNum (st_spread a) \<and> dict_get py ''z'' = JNum (st_z a)
          \<and> dict_get py ''mean'' = JNum (st_mean a) \<and> dict_get py ''std'' = JNum (st_std a)
          \<and> (\<forall>k. dict_get (st_extras a) k \<noteq> JNone \<longrightarrow> dict_get py k = dict_get (st_extras a) k)"
    by (simp add: payload_required payload_extends_store split: if_splits)
  from stat st py sm(5) show ?thesis by blast
qed


section \<open>A worked tick\<close>

text \<open>
  The happy tick of the specification: prices 100 and 99.5 arrive 40 ms apart
  on a window seeded so that the new spread 0.5 has mean 0.3 and standard
  deviation 0.1, hence \<open>z = 2\<close>.
\<close>

definition demo_cfg :: poller_cfg where
  "demo_cfg = \<lparr>enter_z = 2, exit_z = 1 / 2, poll_ms = 1000, depth_levels = 5, stale_ms_th = 3000,
     skew_ms_th = 500, notional_usd = 1000, cycle_hours_lighter = 8, fees_aster = (None, None),
     panel_ingest_url = None\<rparr>"

definition demo_pair :: Pair where
  "demo_pair = \<lparr>pair_name = ''BTCUSDT'',
     leg_a = \<lparr>exchange = ''lighter'', symbol = ''BTC'', market_id = Some 1\<rparr>,
     leg_b = \<lparr>exchange = ''aster'', symbol = ''BTCUSDT'', market_id = None\<rparr>\<rparr>"

definition demo_poller :: poller where
  "demo_poller = \<lparr>rz = \<lparr>window = 60, buf = [1 / 4, 1 / 4, 1 / 4, 1 / 4, 3 / 10]\<rparr>,
     ema_calc = \<lparr>ema_window = 30, alpha = 2 / 31, ema_value = Some (3 / 10)\<rparr>\<rparr>"

definition demo_ob :: ob_summary where
  "demo_ob = \<lparr>best_bid = 99, best_ask = 101, spread_abs = 2, spread_pct = 1 / 50,
     depth_qty = 10, depth_notional = 1000\<rparr>"

definition demo_io :: tick_io where
  "demo_io = \<lparr>mid_a = Inr (100, 1000, 30), mid_b = Inr (199 / 2, 1040, 70),
     enr_a = \<lparr>io_summary = Inr demo_ob, io_stats = Inr 5000, io_fees = Inr (Some (1 / 1000), None)\<rparr>,
     enr_b = \<lparr>io_summary = Inr demo_ob, io_stats = Inr 7000, io_fees = Inr (None, None)\<rparr>,
     io_insert = Inr (), fund_a = Inr (None, None), fund_b = Inr (None, None)\<rparr>"

definition demo_stats :: stats where
  "demo_stats = \<lparr>spread = 1 / 2, zscore = 2, z_mean = 3 / 10, z_std = 1 / 10,
     ema = 97 / 310, center_dev = 58 / 31\<rparr>"

definition demo_fresh :: freshness where
  "demo_fresh = \<lparr>age_a_ms = 40, age_b_ms = 0, skew_ms = 40, latency_ms = 70, stale = 0\<rparr>"

lemmas demo_defs = demo_cfg_def demo_pair_def demo_poller_def demo_ob_def demo_io_def
  demo_stats_def demo_fresh_def

lemma sqrt_hundredth: "sqrt (1 / 100) = 1 / 10"
  using real_sqrt_abs2 [of "1 / 10"] by (simp add: power2_eq_square)

lemma demo_signals:
  "signals demo_poller 100 (199 / 2) =
     Inr (demo_stats, \<lparr>rz = \<lparr>window = 60, buf = [1 / 4, 1 / 4, 1 / 4, 1 / 4, 3 / 10, 1 / 2]\<rparr>,
                       ema_calc = \<lparr>ema_window = 30, alpha = 2 / 31, ema_value = Some (97 / 310)\<rparr>\<rparr>)"
  by (simp add: demo_defs signals_def zscore_defs Let_def power2_eq_square sqrt_hundredth)

lemma demo_tick:
  "tick demo_cfg demo_pair demo_poller demo_io =
     (Tick_ok (store_args demo_pair 1040 100 (199 / 2) demo_stats
                 (extras_of demo_ob 5000 (Some (1 / 1000)) None) (extras_of demo_ob 7000 None None)
                 demo_fresh)
        None Enter_short_A_long_B,
      \<lparr>rz = \<lparr>window = 60, buf = [1 / 4, 1 / 4, 1 / 4, 1 / 4, 3 / 10, 1 / 2]\<rparr>,
       ema_calc = \<lparr>ema_window = 30, alpha = 2 / 31, ema_value = Some (97 / 310)\<rparr>\<rparr>)"
proof -
  have f: "snd (freshness_of demo_cfg 1000 1040 30 70) = demo_fresh"
    by (simp add: freshness_of_def demo_defs Let_def)
  have k: "known_exchange (exchange (leg_a demo_pair))" "known_exchange (exchange (leg_b demo_pair))"
    by (simp_all add: known_exchange_def demo_pair_def)
  have m: "mid_a demo_io = Inr (100, 1000, 30)" "mid_b demo_io = Inr (199 / 2, 1040, 70)"
    by (simp_all add: demo_io_def)
  have e: "enrich_leg demo_cfg (leg_a demo_pair) (enr_a demo_io) = Inr (extras_of demo_ob 5000 (Some (1 / 1000)) None)"
    "enrich_leg demo_cfg (leg_b demo_pair) (enr_b demo_io) = Inr (extras_of demo_ob 7000 None None)"
    by (simp_all add: enrich_leg_def demo_pair_def demo_io_def demo_cfg_def)
  have c: "enter_z demo_cfg = 2" "exit_z demo_cfg = 1 / 2" "posting demo_cfg = False"
    "io_insert demo_io = Inr ()"
    by (simp_all add: demo_cfg_def posting_def demo_io_def)
  have a: "final_action (stale demo_fresh) (decide_action (zscore demo_stats) 2 (1 / 2))
      = Enter_short_A_long_B"
    by (simp add: final_action_def decide_action_def demo_defs)
  show ?thesis
    unfolding tick_after_signals [OF k m demo_signals]
    by (simp add: f e a c Let_def)
qed

theorem tick_sample_invariants_witness:
  "rz_inv (rz demo_poller)
   \<and> fst (tick demo_cfg demo_pair demo_poller demo_io)
       = Tick_ok (store_args demo_pair 1040 100 (199 / 2) demo_stats
                    (extras_of demo_ob 5000 (Some (1 / 1000)) None) (extras_of demo_ob 7000 None None)
                    demo_fresh)
           None Enter_short_A_long_B
   \<and> spread demo_stats = 100 - 199 / 2 \<and> zscore demo_stats = 2 \<and> stale demo_fresh = 0"
proof -
  have i: "rz_inv (rz demo_poller)" by (simp add: rz_inv_def demo_poller_def)
  from tick_sample_invariants [OF i demo_tick] i demo_tick show ?thesis
    by (simp add: demo_stats_def demo_fresh_def)
qed


section \<open>Failed ticks and the loop\<close>

definition tick_spread :: "tick_io \<Rightarrow> real option" where
  "tick_spread io =
     (case (mid_a io, mid_b io) of
        (Inr (price_a, ts_a, dur_a), Inr (price_b, ts_b, dur_b)) \<Rightarrow> Some (price_a - price_b)
      | _ \<Rightarrow> None)"

definition aborts_after_update :: "poller_cfg \<Rightarrow> Pair \<Rightarrow> tick_io \<Rightarrow> py_error \<Rightarrow> bool" where
  "aborts_after_update cfg pr io e \<longleftrightarrow>
     enrich_leg cfg (leg_a pr) (enr_a io) = Inl e
     \<or> (is_ok (enrich_leg cfg (leg_a pr) (enr_a io)) \<and> enrich_leg cfg (leg_b pr) (enr_b io) = Inl e)
     \<or> (is_ok (enrich_leg cfg (leg_a pr) (enr_a io)) \<and> is_ok (enrich_leg cfg (leg_b pr) (enr_b io))
          \<and> io_insert io = Inl e)"

lemma tick_fetch_failed:
  assumes "known_exchange (exchange (leg_a pr))" "known_exchange (exchange (leg_b pr))"
    and "tick_spread io = None"
  shows "snd (tick cfg pr p io) = p" "\<exists>e. fst (tick cfg pr p io) = Tick_failed e"
  using assms
  by (auto simp: tick_def tick_spread_def split: sum.splits prod.splits)

lemma tick_state:
  assumes "known_exchange (exchange (leg_a pr))" "known_exchange (exchange (leg_b pr))"
    and "mid_a io = Inr (price_a, ts_a, dur_a)" "mid_b io = Inr (price_b, ts_b, dur_b)"
    and "signals p price_a price_b = Inr (s, p1)"
  shows "snd (tick cfg pr p io) = p1"
    "aborts_after_update cfg pr io e \<Longrightarrow> fst (tick cfg pr p io) = Tick_failed e"
  unfolding tick_after_signals [OF assms] Let_def aborts_after_update_def
  by (auto simp: is_ok_iff split: sum.splits)

lemma tick_window:
  assumes "known_exchange (exchange (leg_a pr))" "known_exchange (exchange (leg_b pr))" "rz_inv (rz p)"
  shows "rz_inv (rz (snd (tick cfg pr p io)))"
    "window (rz (snd (tick cfg pr p io))) = window (rz p)"
    "buf (rz (snd (tick cfg pr p io)))
       = last_n (nat (window (rz p))) (buf (rz p) @ (case tick_spread io of None \<Rightarrow> [] | Some x \<Rightarrow> [x]))"
proof -
  have "rz_inv (rz (snd (tick cfg pr p io))) \<and> window (rz (snd (tick cfg pr p io))) = window (rz p)
    \<and> buf (rz (snd (tick cfg pr p io)))
       = last_n (nat (window (rz p))) (buf (rz p) @ (case tick_spread io of None \<Rightarrow> [] | Some x \<Rightarrow> [x]))"
  proof (cases "tick_spread io")
    case None
    from assms(3) have "length (buf (rz p)) \<le> nat (window (rz p))"
      by (auto simp: rz_inv_def le_nat_iff)
    with None assms show ?thesis by (simp add: tick_fetch_failed)
  next
    case (Some x)
    then obtain price_a ts_a dur_a price_b ts_b dur_b where
      m: "mid_a io = Inr (price_a, ts_a, dur_a)" "mid_b io = Inr (price_b, ts_b, dur_b)"
      and x: "x = price_a - price_b"
      by (auto simp: tick_spread_def split: sum.splits prod.splits)
    from signals_total [OF assms(3)] obtain s p1 where sg: "signals p price_a price_b = Inr (s, p1)"
      by blast
    from tick_state(1) [OF assms(1,2) m sg] signals_sample(5-7) [OF assms(3) sg] Some x
    show ?thesis by simp
  qed
  then show "rz_inv (rz (snd (tick cfg pr p io)))"
    "window (rz (snd (tick cfg pr p io))) = window (rz p)"
    "buf (rz (snd (tick cfg pr p io)))
       = last_n (nat (window (rz p))) (buf (rz p) @ (case tick_spread io of None \<Rightarrow> [] | Some x \<Rightarrow> [x]))"
    by simp_all
qed

text \<open>
  C14 (error): a tick whose price fetch fails leaves the poller's window and
  EMA untouched. A tick that has both prices and then fails in the enrichment
  calls or in the storage write is abandoned as well, with nothing stored or
  posted, but the rolling window has already taken the new spread and the EMA
  has already moved: the statistics of later ticks count a sample that was
  never emitted. (The specification isolates enrichment failures: the tick
  should proceed with nulls.)
\<close>

theorem tick_failure_state:
  assumes "known_exchange (exchange (leg_a pr))" "known_exchange (exchange (leg_b pr))" "rz_inv (rz p)"
  shows "(tick_spread io = None \<longrightarrow>
            snd (tick cfg pr p io) = p \<and> (\<exists>e. fst (tick cfg pr p io) = Tick_failed e))
    \<and> (\<forall>x e. tick_spread io = Some x \<and> aborts_after_update cfg pr io e \<longrightarrow>
          fst (tick cfg pr p io) = Tick_failed e
          \<and> buf (rz (snd (tick cfg pr p io))) = last_n (nat (window (rz p))) (buf (rz p) @ [x])
          \<and> ema_value (ema_calc (snd (tick cfg pr p io))) \<noteq> None)"
proof -
  have "fst (tick cfg pr p io) = Tick_failed e
      \<and> buf (rz (snd (tick cfg pr p io))) = last_n (nat (window (rz p))) (buf (rz p) @ [x])
      \<and> ema_value (ema_calc (snd (tick cfg pr p io))) \<noteq> None"
    if x: "tick_spread io = Some x" and ab: "aborts_after_update cfg pr io e" for x e
  proof -
    from x obtain price_a ts_a dur_a price_b ts_b dur_b where
      m: "mid_a io = Inr (price_a, ts_a, dur_a)" "mid_b io = Inr (price_b, ts_b, dur_b)"
      by (auto simp: tick_spread_def split: sum.splits prod.splits)
    from signals_total [OF assms(3)] obtain s p1 where sg: "signals p price_a price_b = Inr (s, p1)"
      by blast
    note st = tick_state [OF assms(1,2) m sg]
    from signals_ok(3) [OF assms(3) sg] have "ema_value (ema_calc p1) \<noteq> None"
      by (metis EMA_update_value option.distinct(1) snd_conv)
    with st(1) st(2) [OF ab] tick_window(3) [OF assms, of cfg io] x show ?thesis by simp
  qed
  with assms show ?thesis
    by (auto simp: tick_fetch_failed)
qed

theorem tick_failure_state_witness:
  "tick demo_cfg demo_pair demo_poller
     (demo_io\<lparr>enr_a := \<lparr>io_summary = Inl (RuntimeError ''No bids/asks returned for market_id''),
                        io_stats = Inr 5000, io_fees = Inr (None, None)\<rparr>\<rparr>)
     = (Tick_failed (RuntimeError ''No bids/asks returned for market_id''),
        \<lparr>rz = \<lparr>window = 60, buf = [1 / 4, 1 / 4, 1 / 4, 1 / 4, 3 / 10, 1 / 2]\<rparr>,
         ema_calc = \<lparr>ema_window = 30, alpha = 2 / 31, ema_value = Some (97 / 310)\<rparr>\<rparr>)
   \<and> tick demo_cfg demo_pair demo_poller (demo_io\<lparr>mid_b := Inl (RuntimeError ''timeout'')\<rparr>)
     = (Tick_failed (RuntimeError ''timeout''), demo_poller)"
proof -
  let ?io = "demo_io\<lparr>enr_a := \<lparr>io_summary = Inl (RuntimeError ''No bids/asks returned for market_id''),
                        io_stats = Inr 5000, io_fees = Inr (None, None)\<rparr>\<rparr>"
  let ?io2 = "demo_io\<lparr>mid_b := Inl (RuntimeError ''timeout'')\<rparr>"
  have k: "known_exchange (exchange (leg_a demo_pair))" "known_exchange (exchange (leg_b demo_pair))"
    "rz_inv (rz demo_poller)"
    by (simp_all add: known_exchange_def demo_pair_def rz_inv_def demo_poller_def)
  have m: "mid_a ?io = Inr (100, 1000, 30)" "mid_b ?io = Inr (199 / 2, 1040, 70)"
    by (simp_all add: demo_io_def)
  have 1: "tick demo_cfg demo_pair demo_poller ?io
     = (Tick_failed (RuntimeError ''No bids/asks returned for market_id''),
        \<lparr>rz = \<lparr>window = 60, buf = [1 / 4, 1 / 4, 1 / 4, 1 / 4, 3 / 10, 1 / 2]\<rparr>,
         ema_calc = \<lparr>ema_window = 30, alpha = 2 / 31, ema_value = Some (97 / 310)\<rparr>\<rparr>)"
    unfolding tick_after_signals [OF k(1,2) m demo_signals]
    by (simp add: Let_def enrich_leg_def demo_pair_def demo_io_def)
  have 2: "tick demo_cfg demo_pair demo_poller ?io2 = (Tick_failed (RuntimeError ''timeout''), demo_poller)"
    using k(1,2) by (simp add: tick_def demo_io_def)
  from tick_failure_state [OF k, of ?io demo_cfg] tick_failure_state [OF k, of ?io2 demo_cfg] 1 2
  show ?thesis by simp
qed

lemma run_ticks_window_aux:
  assumes "known_exchange (exchange (leg_a pr))" "known_exchange (exchange (leg_b pr))" "rz_inv (rz p)"
  shows "length (fst (run_ticks cfg pr p ios)) = length ios
    \<and> rz_inv (rz (snd (run_ticks cfg pr p ios)))
    \<and> window (rz (snd (run_ticks cfg pr p ios))) = window (rz p)
    \<and> buf (rz (snd (run_ticks cfg pr p ios)))
        = last_n (nat (window (rz p))) (buf (rz p) @ List.map_filter tick_spread ios)"
  using assms(3)
proof (induction ios arbitrary: p)
  case Nil
  then have "length (buf (rz p)) \<le> nat (window (rz p))"
    by (auto simp: rz_inv_def le_nat_iff)
  with Nil show ?case by (simp add: List.map_filter_simps)
next
  case (Cons io ios)
  let ?p1 = "snd (tick cfg pr p io)"
  note w = tick_window [OF assms(1,2) Cons.prems, of cfg io]
  from Cons.IH [OF w(1)] w(2,3) show ?case
    by (cases "tick_spread io")
       (simp_all add: split_beta Let_def List.map_filter_simps last_n_append_last_n)
qed

text \<open>
  C9 (refinement): the loop never leaves. Whatever the outside world answers,
  the poller works through every iteration, one result (a failure or a
  sample) per iteration, and after any number of iterations its window holds
  the last \<open>window\<close> spreads of the iterations that obtained both prices.
\<close>

theorem run_ticks_window:
  assumes "known_exchange (exchange (leg_a pr))" "known_exchange (exchange (leg_b pr))" "rz_inv (rz p)"
  shows "length (fst (run_ticks cfg pr p ios)) = length ios
    \<and> rz_inv (rz (snd (run_ticks cfg pr p ios)))
    \<and> buf (rz (snd (run_ticks cfg pr p ios)))
        = last_n (nat (window (rz p))) (buf (rz p) @ List.map_filter tick_spread ios)"
  using run_ticks_window_aux [OF assms] by simp

theorem run_ticks_window_witness:
  "known_exchange (exchange (leg_a demo_pair)) \<and> rz_inv (rz demo_poller)
   \<and> length (fst (run_ticks demo_cfg demo_pair demo_poller
        [demo_io, demo_io\<lparr>mid_b := Inl (RuntimeError ''timeout'')\<rparr>, demo_io])) = 3
   \<and> buf (rz (snd (run_ticks demo_cfg demo_pair demo_poller
        [demo_io, demo_io\<lparr>mid_b := Inl (RuntimeError ''timeout'')\<rparr>, demo_io])))
       = [1 / 4, 1 / 4, 1 / 4, 1 / 4, 3 / 10, 1 / 2, 1 / 2]"
proof -
  have k: "known_exchange (exchange (leg_a demo_pair))" "known_exchange (exchange (leg_b demo_pair))"
    "rz_inv (rz demo_poller)"
    by (simp_all add: known_exchange_def demo_pair_def rz_inv_def demo_poller_def)
  have s: "tick_spread demo_io = Some (1 / 2)"
    "tick_spread (demo_io\<lparr>mid_b := Inl (RuntimeError ''timeout'')\<rparr>) = None"
    by (simp_all add: tick_spread_def demo_io_def)
  from run_ticks_window [OF k, of demo_cfg "[demo_io, demo_io\<lparr>mid_b := Inl (RuntimeError ''timeout'')\<rparr>, demo_io]"]
    k s show ?thesis
    by (simp add: List.map_filter_simps demo_poller_def del: run_ticks.simps)
qed


section \<open>The funding advice\<close>

lemma py_int_div_bounds:
  fixes c :: real
  shows "real_of_int (max 0 (py_int c)) \<le> max 0 c" "c - 1 < real_of_int (max 0 (py_int c))"
  by (auto simp: py_int_def max_def) linarith+

lemma advise_value:
  assumes "net_rate_of act fa fb = Some r" "c \<noteq> 0" "t \<noteq> 0"
  shows "advise n act fa fb (Some c) (Some t)
    = ((if t < real_of_int (max 0 (py_int (c / 1000))) then Some Converges_before_funding
        else Some Spans_next_funding),
       Some (n * r),
       Some (if t < real_of_int (max 0 (py_int (c / 1000))) then 0 else n * r))"
  using assms by (simp add: advise_def truthy_def Let_def not_less)

lemma net_rate_of_Some:
  "net_rate_of act fa fb \<noteq> None
    \<longleftrightarrow> fa \<noteq> None \<and> fb \<noteq> None \<and> (act = Enter_short_A_long_B \<or> act = Enter_long_A_short_B)"
  by (auto simp: net_rate_of_def split: option.splits)

text \<open>
  C33 (safety): the advice is conservative. When the poller advises that the
  spread converges before the next funding, the estimated exit time really is
  below the time to funding, and then no funding is expected; otherwise the
  whole net funding of one cycle, notional times the rate of the short leg
  minus the rate of the long leg, is expected. The time to funding is cut to
  whole seconds, so an exit estimated less than a second before the funding
  is reported as spanning it; an exit more than a second before it never is.
  The exit estimate is positive, as the estimator only returns such values.
\<close>

theorem advise_sound:
  assumes "net_rate_of act fa fb = Some r" "c \<noteq> 0" "0 < t"
    and "advise n act fa fb (Some c) (Some t) = (adv, net, expect)"
  shows "net = Some (n * r)
    \<and> (adv = Some Converges_before_funding \<longrightarrow> t < c / 1000 \<and> expect = Some 0)
    \<and> (adv \<noteq> Some Converges_before_funding \<longrightarrow> adv = Some Spans_next_funding \<and> expect = net)
    \<and> (t \<le> c / 1000 - 1 \<longrightarrow> adv = Some Converges_before_funding)"
proof -
  let ?ttf = "real_of_int (max 0 (py_int (c / 1000)))"
  from assms(3) have "t \<noteq> 0" by simp
  note v = assms(4) [unfolded advise_value [OF assms(1,2) this]]
  note b = py_int_div_bounds [of "c / 1000"]
  from v have 1: "net = Some (n * r)" by simp
  from v b(1) have 2: "adv = Some Converges_before_funding \<longrightarrow> t < c / 1000 \<and> expect = Some 0"
    by (cases "t < ?ttf") (use assms(3) in \<open>auto simp: max_def split: if_splits\<close>)
  from v have 3: "adv \<noteq> Some Converges_before_funding \<longrightarrow> adv = Some Spans_next_funding \<and> expect = net"
    by (cases "t < ?ttf") auto
  from v b(2) have 4: "t \<le> c / 1000 - 1 \<longrightarrow> adv = Some Converges_before_funding"
    by (cases "t < ?ttf") auto
  from 1 2 3 4 show ?thesis by blast
qed

theorem advise_sound_witness:
  "advise 1000 Enter_short_A_long_B (Some (3 / 10000)) (Some (1 / 10000)) (Some 3600000) (Some 600)
     = (Some Converges_before_funding, Some (2 / 10), Some 0)
   \<and> (600::real) < 3600000 / 1000"
proof -
  have r: "net_rate_of Enter_short_A_long_B (Some (3 / 10000)) (Some (1 / 10000)) = Some (2 / 10000)"
    by (simp add: net_rate_of_def)
  obtain adv net expect where
    a: "advise 1000 Enter_short_A_long_B (Some (3 / 10000)) (Some (1 / 10000)) (Some 3600000) (Some 600)
          = (adv, net, expect)"
    by (metis prod_cases3)
  from advise_sound [OF r _ _ a] show ?thesis unfolding a by simp
qed

text \<open>
  The truncation to whole seconds is visible. With
  3599.9 seconds to the next funding and an exit estimated at 3599.5 seconds
  the exit comes first, yet the poller reports that the position spans the
  funding and expects the full funding payment; with the time to funding
  taken exactly, as the specification words it, the advice would be the
  other one.
\<close>

theorem advise_truncates_seconds:
  "advise 1000 Enter_long_A_short_B (Some (1 / 10000)) (Some (3 / 10000)) (Some 3599900) (Some (7199 / 2))
     = (Some Spans_next_funding, Some (2 / 10), Some (2 / 10))
   \<and> (7199 / 2 :: real) < max 0 (3599900 / 1000)"
proof -
  have "py_int (3599900 / 1000 :: real) = 3599"
    by (simp add: py_int_def)
  then show ?thesis
    by (simp add: advise_def net_rate_of_def truthy_def Let_def)
qed

text \<open>
  Advice and funding estimates are produced exactly when
  the countdown and the exit estimate are both present and non-zero, both
  funding rates are known, and the action is an entry.
\<close>

theorem advise_defined_iff:
  "fst (advise n act fa fb countdown t_exit) \<noteq> None
    \<longleftrightarrow> truthy countdown \<and> truthy t_exit \<and> fa \<noteq> None \<and> fb \<noteq> None
        \<and> (act = Enter_short_A_long_B \<or> act = Enter_long_A_short_B)"
  using net_rate_of_Some [of act fa fb]
  by (auto simp: advise_def Let_def split: option.splits)

end
