(* ===== verification/Storage.thy ===== *)
theory Storage
  imports Models "HOL-Library.Char_ord" "HOL-Library.List_Lexorder"
begin

text \<open>
  The storage layer \<^verbatim>\<open>src/arb/storage/sqlite.py\<close>. The database is a record:
  the columns of the table \<^verbatim>\<open>spreads\<close> with their declared types (without
  the \<^verbatim>\<open>id\<close>, which is the position of a row), its rows in insertion order,
  each an association list from column names to values, and the single row
  of \<^verbatim>\<open>admin_config\<close>. A column that was added after a row was written is
  \<^verbatim>\<open>NULL\<close> in that row: \<open>dict_get\<close> of a missing key. The SQL statements
  are modelled by what SQLite computes for them: a \<^verbatim>\<open>SELECT\<close> of a column
  the table does not have fails with \<^verbatim>\<open>OperationalError\<close>; an integer
  written to a \<^verbatim>\<open>REAL\<close> column is converted to a float. Rows with equal
  \<^verbatim>\<open>ts_ms\<close> are ordered by \<^verbatim>\<open>ORDER BY ts_ms DESC\<close> newest insertion
  first, as the scan of the index \<^verbatim>\<open>(pair, ts_ms)\<close> returns them. The type of
  the admin configuration is a parameter; \<^verbatim>\<open>json.dumps\<close> followed by
  \<^verbatim>\<open>json.loads\<close> is the identity on it.

  Two choices of the model go beyond the text of the source. The Python set
  \<^verbatim>\<open>EXPECTED_COLUMNS\<close> is the list \<open>EXPECTED_COLUMNS\<close> in the order of the
  source text, while Python iterates a set in an order of its own: the order
  in which \<open>ensure_schema\<close> appends the missing columns is one of the
  orders the code may take. Every read and every theorem addresses columns
  by name, so nothing stated here depends on that order. The function
  \<open>affinity\<close> is the column affinity of the SQLite engine, which is not
  code of the repository, restricted to the conversions between numbers: an
  integer stored in a \<^verbatim>\<open>REAL\<close> column becomes a float, a float with an
  integral value stored in an \<^verbatim>\<open>INTEGER\<close> column an integer. The
  conversions between numbers and text are not modelled: a string that is a
  numeric literal stays a string in a \<^verbatim>\<open>REAL\<close> or \<^verbatim>\<open>INTEGER\<close> column,
  and a number stays a number in the \<^verbatim>\<open>TEXT\<close> column \<^verbatim>\<open>advice\<close>. The pollers
  never write such values; the ingestion endpoint of the panel passes the
  optional fields of a payload through unconverted, so for a payload with
  such a field the stored value of the model is the value before the
  engine's conversion. The constraint \<^verbatim>\<open>NOT NULL\<close> of the column \<^verbatim>\<open>pair\<close>
  is modelled where a null pair can arrive, in the panel.
\<close>

section \<open>The schema\<close>

datatype sql_type = TEXT | REAL | INTEGER

record 'c db =
  tbl_cols :: "(string \<times> sql_type) list"
  tbl_rows :: "payload list"
  admin_row :: "'c option"

definition CREATE_TABLE_SQL :: "(string \<times> sql_type) list" where
  "CREATE_TABLE_SQL =
    [(''pair'', TEXT), (''ts_ms'', INTEGER), (''price_a'', REAL),
     (''price_b'', REAL), (''spread'', REAL), (''z'', REAL),
     (''mean'', REAL), (''std'', REAL), (''ema'', REAL),
     (''center_dev'', REAL), (''ob_spread_a'', REAL), (''ob_spread_b'', REAL),
     (''ob_spread_pct_a'', REAL), (''ob_spread_pct_b'', REAL), (''vol_a'', REAL),
     (''vol_b'', REAL), (''depth_qty_a'', REAL), (''depth_qty_b'', REAL),
     (''depth_notional_a'', REAL), (''depth_notional_b'', REAL), (''maker_fee_a'', REAL),
     (''taker_fee_a'', REAL), (''maker_fee_b'', REAL), (''taker_fee_b'', REAL),
     (''fr_a'', REAL), (''fr_b'', REAL), (''fr_countdown_ms'', REAL),
     (''half_life_s'', REAL), (''t_exit_s'', REAL), (''advice'', TEXT)]"

definition open_db :: "'c db option \<Rightarrow> 'c db" where
  "open_db file =
     (case file of
        None \<Rightarrow> \<lparr>tbl_cols = CREATE_TABLE_SQL, tbl_rows = [], admin_row = None\<rparr>
      | Some db \<Rightarrow> db)"

definition EXPECTED_COLUMNS :: "string list" where
  "EXPECTED_COLUMNS =
    [''pair'', ''ts_ms'', ''price_a'', ''price_b'',
     ''spread'', ''z'', ''mean'', ''std'',
     ''ema'', ''center_dev'', ''ob_spread_a'', ''ob_spread_b'',
     ''ob_spread_pct_a'', ''ob_spread_pct_b'', ''vol_a'', ''vol_b'',
     ''depth_qty_a'', ''depth_qty_b'', ''depth_notional_a'', ''depth_notional_b'',
     ''maker_fee_a'', ''taker_fee_a'', ''maker_fee_b'', ''taker_fee_b'',
     ''fr_a'', ''fr_b'', ''fr_countdown_ms'', ''half_life_s'',
     ''t_exit_s'', ''advice'', ''net_funding_cycle_usd'', ''expect_funding_next_usd'',
     ''age_a_ms'', ''age_b_ms'', ''skew_ms'', ''latency_ms'',
     ''stale'']"

definition ensure_schema :: "'c db \<Rightarrow> 'c db" where
  "ensure_schema db =
     (let cols = map fst (tbl_cols db);
          missing = filter (\<lambda>c. c \<notin> set cols) EXPECTED_COLUMNS
      in db\<lparr>tbl_cols := tbl_cols db @ map (\<lambda>c. (c, if c = ''advice'' then TEXT else REAL)) missing\<rparr>)"

section \<open>Writing a sample\<close>

definition insert_columns :: "string list" where
  "insert_columns =
    [''pair'', ''ts_ms'', ''price_a'', ''price_b'',
     ''spread'', ''z'', ''mean'', ''std'',
     ''ema'', ''center_dev'', ''ob_spread_a'', ''ob_spread_b'',
     ''ob_spread_pct_a'', ''ob_spread_pct_b'', ''vol_a'', ''vol_b'',
     ''depth_qty_a'', ''depth_qty_b'', ''depth_notional_a'', ''depth_notional_b'',
     ''maker_fee_a'', ''taker_fee_a'', ''maker_fee_b'', ''taker_fee_b'',
     ''fr_a'', ''fr_b'', ''fr_countdown_ms'', ''half_life_s'',
     ''t_exit_s'', ''advice'', ''net_funding_cycle_usd'', ''expect_funding_next_usd'',
     ''age_a_ms'', ''age_b_ms'', ''skew_ms'', ''latency_ms'',
     ''stale'']"

definition insert_values :: "insert_args \<Rightarrow> jvalue list" where
  "insert_values a =
     [JStr (st_pair a),
      JInt (st_ts_ms a),
      JNum (st_price_a a),
      JNum (st_price_b a),
      JNum (st_spread a),
      JNum (st_z a),
      JNum (st_mean a),
      JNum (st_std a),
      dict_get (st_extras a) ''ema'',
      dict_get (st_extras a) ''center_dev'',
      dict_get (st_extras a) ''ob_spread_a'',
      dict_get (st_extras a) ''ob_spread_b'',
      dict_get (st_extras a) ''ob_spread_pct_a'',
      dict_get (st_extras a) ''ob_spread_pct_b'',
      dict_get (st_extras a) ''vol_a'',
      dict_get (st_extras a) ''vol_b'',
      dict_get (st_extras a) ''depth_qty_a'',
      dict_get (st_extras a) ''depth_qty_b'',
      dict_get (st_extras a) ''depth_notional_a'',
      dict_get (st_extras a) ''depth_notional_b'',
      dict_get (st_extras a) ''maker_fee_a'',
      dict_get (st_extras a) ''taker_fee_a'',
      dict_get (st_extras a) ''maker_fee_b'',
      dict_get (st_extras a) ''taker_fee_b'',
      dict_get (st_extras a) ''fr_a'',
      dict_get (st_extras a) ''fr_b'',
      dict_get (st_extras a) ''fr_countdown_ms'',
      dict_get (st_extras a) ''half_life_s'',
      dict_get (st_extras a) ''t_exit_s'',
      dict_get (st_extras a) ''advice'',
      dict_get (st_extras a) ''net_funding_cycle_usd'',
      dict_get (st_extras a) ''expect_funding_next_usd'',
      dict_get (st_extras a) ''age_a_ms'',
      dict_get (st_extras a) ''age_b_ms'',
      dict_get (st_extras a) ''skew_ms'',
      dict_get (st_extras a) ''latency_ms'',
      dict_get (st_extras a) ''stale'']"

definition affinity :: "sql_type option \<Rightarrow> jvalue \<Rightarrow> jvalue" where
  "affinity t v =
     (case (t, v) of
        (Some REAL, JInt i) \<Rightarrow> JNum (real_of_int i)
      | (Some INTEGER, JNum x) \<Rightarrow> (if real_of_int \<lfloor>x\<rfloor> = x then JInt \<lfloor>x\<rfloor> else v)
      | _ \<Rightarrow> v)"

definition insert_spread :: "'c db \<Rightarrow> insert_args \<Rightarrow> 'c db" where
  "insert_spread db a =
     (let db1 = ensure_schema db;
          row = map (\<lambda>(c, v). (c, affinity (map_of (tbl_cols db1) c) v)) (zip insert_columns (insert_values a))
      in db1\<lparr>tbl_rows := tbl_rows db1 @ [row]\<rparr>)"

section \<open>Reading\<close>

definition ts_of :: "payload \<Rightarrow> int" where
  "ts_of r = (case dict_get r ''ts_ms'' of JInt i \<Rightarrow> i | JNum x \<Rightarrow> \<lfloor>x\<rfloor> | _ \<Rightarrow> 0)"

definition pair_of :: "payload \<Rightarrow> string" where
  "pair_of r = (case dict_get r ''pair'' of JStr s \<Rightarrow> s | _ \<Rightarrow> [])"

definition has_columns :: "'c db \<Rightarrow> string list \<Rightarrow> bool" where
  "has_columns db cs \<longleftrightarrow> list_all (\<lambda>c. c \<in> fst ` set (tbl_cols db)) cs"

definition project :: "string list \<Rightarrow> payload \<Rightarrow> payload" where
  "project cs r = map (\<lambda>c. (c, dict_get r c)) cs"

definition spreads_columns :: "string list" where
  "spreads_columns =
    [''ts_ms'', ''price_a'', ''price_b'', ''spread'',
     ''z'', ''mean'', ''std'', ''ema'',
     ''center_dev'', ''ob_spread_a'', ''ob_spread_b'', ''ob_spread_pct_a'',
     ''ob_spread_pct_b'', ''vol_a'', ''vol_b'', ''depth_qty_a'',
     ''depth_qty_b'', ''depth_notional_a'', ''depth_notional_b'', ''maker_fee_a'',
     ''taker_fee_a'', ''maker_fee_b'', ''taker_fee_b'', ''fr_a'',
     ''fr_b'', ''fr_countdown_ms'', ''half_life_s'', ''t_exit_s'',
     ''advice'', ''net_funding_cycle_usd'', ''expect_funding_next_usd'', ''age_a_ms'',
     ''age_b_ms'', ''skew_ms'', ''latency_ms'', ''stale'']"

definition get_spreads :: "'c db \<Rightarrow> string \<Rightarrow> int \<Rightarrow> payload list result" where
  "get_spreads db pair limit =
     (if \<not> has_columns db (''pair'' # spreads_columns) then Inl (OperationalError ''no such column'')
      else
        let matching = filter (\<lambda>r. dict_get r ''pair'' = JStr pair) (tbl_rows db);
            ordered = rev (sort_key ts_of matching);
            limited = (if limit < 0 then ordered else take (nat limit) ordered)
        in Inr (map (project spreads_columns) limited))"

definition admin_get_config :: "'c db \<Rightarrow> 'c option" where
  "admin_get_config db = admin_row db"

definition admin_set_config :: "'c db \<Rightarrow> 'c \<Rightarrow> 'c db" where
  "admin_set_config db cfg = db\<lparr>admin_row := Some cfg\<rparr>"

definition get_pairs :: "'c db \<Rightarrow> string list result" where
  "get_pairs db =
     (if \<not> has_columns db [''pair''] then Inl (OperationalError ''no such column'')
      else Inr (sort (remdups (map pair_of (tbl_rows db)))))"

definition latest_columns :: "string list" where
  "latest_columns =
    [''pair'', ''ts_ms'', ''price_a'', ''price_b'',
     ''spread'', ''z'', ''mean'', ''std'',
     ''ema'', ''center_dev'', ''ob_spread_a'', ''ob_spread_b'',
     ''ob_spread_pct_a'', ''ob_spread_pct_b'', ''vol_a'', ''vol_b'',
     ''depth_qty_a'', ''depth_qty_b'', ''depth_notional_a'', ''depth_notional_b'',
     ''maker_fee_a'', ''taker_fee_a'', ''maker_fee_b'', ''taker_fee_b'',
     ''fr_a'', ''fr_b'', ''fr_countdown_ms'', ''half_life_s'',
     ''t_exit_s'', ''advice'', ''net_funding_cycle_usd'', ''expect_funding_next_usd'',
     ''age_a_ms'', ''age_b_ms'', ''skew_ms'', ''latency_ms'',
     ''stale'']"

definition is_latest :: "payload list \<Rightarrow> payload \<Rightarrow> bool" where
  "is_latest rs r \<longleftrightarrow> list_all (\<lambda>r'. pair_of r' = pair_of r \<longrightarrow> ts_of r' \<le> ts_of r) rs"

definition get_latest_all :: "'c db \<Rightarrow> payload list result" where
  "get_latest_all db =
     (if \<not> has_columns db latest_columns then Inl (OperationalError ''no such column'')
      else Inr (map (project latest_columns) (filter (is_latest (tbl_rows db)) (tbl_rows db))))"

lemmas storage_defs [arb_unfold] =
  open_db_def ensure_schema_def insert_spread_def get_spreads_def get_pairs_def
  get_latest_all_def admin_get_config_def admin_set_config_def has_columns_def project_def


section \<open>Well-formed databases\<close>

text \<open>
  The type a column has when the code creates it, by \<^verbatim>\<open>CREATE TABLE\<close> or by
  \<^verbatim>\<open>ALTER TABLE\<close>, and the invariant of a database that only this code has
  written: no column twice, the two key columns present, every column of its
  declared type, and every row with a pair name and an integer timestamp.
\<close>

definition declared_type :: "string \<Rightarrow> sql_type" where
  "declared_type c = (if c = ''pair'' \<or> c = ''advice'' then TEXT else if c = ''ts_ms'' then INTEGER else REAL)"

definition row_ok :: "payload \<Rightarrow> bool" where
  "row_ok r \<longleftrightarrow> dict_get r ''pair'' = JStr (pair_of r) \<and> dict_get r ''ts_ms'' = JInt (ts_of r)"

definition db_inv :: "'c db \<Rightarrow> bool" where
  "db_inv db \<longleftrightarrow> distinct (map fst (tbl_cols db))
     \<and> has_columns db [''pair'', ''ts_ms'']
     \<and> list_all (\<lambda>(c, t). t = declared_type c) (tbl_cols db)
     \<and> list_all row_ok (tbl_rows db)"

definition stored_row :: "insert_args \<Rightarrow> payload" where
  "stored_row a = map (\<lambda>(c, v). (c, affinity (Some (declared_type c)) v)) (zip insert_columns (insert_values a))"

lemma columns_eq: "insert_columns = EXPECTED_COLUMNS" "latest_columns = EXPECTED_COLUMNS"
  "''pair'' # spreads_columns = EXPECTED_COLUMNS"
  by (simp_all add: insert_columns_def EXPECTED_COLUMNS_def latest_columns_def spreads_columns_def)

lemma CREATE_TABLE_SQL_inv:
  "distinct (map fst CREATE_TABLE_SQL)" "list_all (\<lambda>(c, t). t = declared_type c) CREATE_TABLE_SQL"
  by (simp_all add: CREATE_TABLE_SQL_def declared_type_def)

lemma open_db_inv [arb_inv]: "db_inv (open_db None)"
  by (simp add: open_db_def db_inv_def CREATE_TABLE_SQL_inv has_columns_def)
    (simp add: CREATE_TABLE_SQL_def)

lemma ensure_schema_fields [simp]:
  "tbl_rows (ensure_schema db) = tbl_rows db" "admin_row (ensure_schema db) = admin_row db"
  by (simp_all add: ensure_schema_def Let_def)

lemma ensure_schema_cols:
  "fst ` set (tbl_cols (ensure_schema db)) = fst ` set (tbl_cols db) \<union> set EXPECTED_COLUMNS"
  by (auto simp: ensure_schema_def Let_def image_Un image_image)

lemma ensure_schema_prefix:
  "take (length (tbl_cols db)) (tbl_cols (ensure_schema db)) = tbl_cols db"
  by (simp add: ensure_schema_def Let_def)

lemma ensure_schema_idem [simp]: "ensure_schema (ensure_schema db) = ensure_schema db"
proof -
  have "filter (\<lambda>c. c \<notin> fst ` set (tbl_cols (ensure_schema db))) EXPECTED_COLUMNS = []"
    by (auto simp: ensure_schema_cols filter_empty_conv)
  then show ?thesis
    by (simp add: ensure_schema_def [of "ensure_schema db"] Let_def)
qed

lemma has_columns_ensure_schema:
  "set cs \<subseteq> set EXPECTED_COLUMNS \<Longrightarrow> has_columns (ensure_schema db) cs"
  by (auto simp: has_columns_def list_all_iff ensure_schema_cols)

lemma has_columns_expected [simp]:
  "has_columns (ensure_schema db) EXPECTED_COLUMNS"
  "has_columns (ensure_schema db) (''pair'' # spreads_columns)"
  "has_columns (ensure_schema db) latest_columns"
  "has_columns (ensure_schema db) [''pair'']"
  by (simp_all add: has_columns_ensure_schema columns_eq) (simp add: has_columns_ensure_schema EXPECTED_COLUMNS_def)

lemma distinct_EXPECTED_COLUMNS: "distinct EXPECTED_COLUMNS"
  by (simp add: EXPECTED_COLUMNS_def)

lemma ensure_schema_inv [arb_inv]:
  assumes "db_inv db"
  shows "db_inv (ensure_schema db)"
proof -
  let ?missing = "filter (\<lambda>c. c \<notin> set (map fst (tbl_cols db))) EXPECTED_COLUMNS"
  have "distinct (map fst (tbl_cols db) @ ?missing)"
    using assms distinct_EXPECTED_COLUMNS by (auto simp: db_inv_def)
  moreover have "list_all (\<lambda>(c, t). t = declared_type c)
      (map (\<lambda>c. (c, if c = ''advice'' then TEXT else REAL)) ?missing)"
  proof -
    have "(if c = ''advice'' then TEXT else REAL) = declared_type c" if "c \<in> set ?missing" for c
    proof -
      from assms have "''pair'' \<in> fst ` set (tbl_cols db)" "''ts_ms'' \<in> fst ` set (tbl_cols db)"
        by (simp_all add: db_inv_def has_columns_def)
      with that have "c \<noteq> ''pair''" "c \<noteq> ''ts_ms''" by auto
      then show ?thesis by (simp add: declared_type_def)
    qed
    then show ?thesis by (simp add: list_all_iff)
  qed
  moreover have "has_columns (ensure_schema db) [''pair'', ''ts_ms'']"
    by (rule has_columns_ensure_schema) (simp add: EXPECTED_COLUMNS_def)
  ultimately show ?thesis
    using assms by (simp add: db_inv_def ensure_schema_def [of db] Let_def comp_def)
qed


section \<open>Properties of a write\<close>

lemma column_type:
  assumes "db_inv db" "c \<in> fst ` set (tbl_cols db)"
  shows "map_of (tbl_cols db) c = Some (declared_type c)"
proof -
  from assms(2) obtain t where t: "(c, t) \<in> set (tbl_cols db)" by auto
  with assms(1) have "t = declared_type c" by (auto simp: db_inv_def list_all_iff)
  with t assms(1) show ?thesis by (simp add: db_inv_def)
qed

lemma insert_spread_row:
  assumes "db_inv db"
  shows "insert_spread db a = (ensure_schema db)\<lparr>tbl_rows := tbl_rows db @ [stored_row a]\<rparr>"
proof -
  have "map_of (tbl_cols (ensure_schema db)) c = Some (declared_type c)" if "c \<in> set insert_columns" for c
    using that by (intro column_type ensure_schema_inv assms) (simp add: ensure_schema_cols columns_eq)
  then have "map (\<lambda>(c, v). (c, affinity (map_of (tbl_cols (ensure_schema db)) c) v))
        (zip insert_columns (insert_values a)) = stored_row a"
    unfolding stored_row_def by (intro map_cong refl) (auto dest: set_zip_leftD)
  then show ?thesis by (simp add: insert_spread_def Let_def)
qed

lemma affinity_simps [simp, py_simps]:
  "affinity t JNone = JNone" "affinity t (JStr s) = JStr s"
  "affinity (Some REAL) (JNum x) = JNum x" "affinity (Some REAL) (JInt i) = JNum (real_of_int i)"
  "affinity (Some INTEGER) (JInt i) = JInt i" "affinity (Some TEXT) v = v"
  by (simp_all add: affinity_def split: option.splits sql_type.splits jvalue.splits)

lemma declared_type_extras:
  "c \<in> set (drop 8 insert_columns) \<Longrightarrow> declared_type c = (if c = ''advice'' then TEXT else REAL)"
  by (auto simp: insert_columns_def declared_type_def)

lemma insert_values_split:
  "insert_values a =
     [JStr (st_pair a), JInt (st_ts_ms a), JNum (st_price_a a), JNum (st_price_b a),
      JNum (st_spread a), JNum (st_z a), JNum (st_mean a), JNum (st_std a)]
     @ map (dict_get (st_extras a)) (drop 8 insert_columns)"
  by (simp add: insert_values_def insert_columns_def)

lemma stored_row_split:
  "stored_row a =
     [(''pair'', JStr (st_pair a)), (''ts_ms'', JInt (st_ts_ms a)),
      (''price_a'', JNum (st_price_a a)), (''price_b'', JNum (st_price_b a)),
      (''spread'', JNum (st_spread a)), (''z'', JNum (st_z a)),
      (''mean'', JNum (st_mean a)), (''std'', JNum (st_std a))]
     @ map (\<lambda>c. (c, affinity (Some (declared_type c)) (dict_get (st_extras a) c))) (drop 8 insert_columns)"
proof -
  have c: "insert_columns = take 8 insert_columns @ drop 8 insert_columns" by simp
  have t: "take 8 insert_columns
    = [''pair'', ''ts_ms'', ''price_a'', ''price_b'', ''spread'', ''z'', ''mean'', ''std'']"
    by (simp add: insert_columns_def)
  have "zip insert_columns (insert_values a)
    = zip (take 8 insert_columns) [JStr (st_pair a), JInt (st_ts_ms a), JNum (st_price_a a),
        JNum (st_price_b a), JNum (st_spread a), JNum (st_z a), JNum (st_mean a), JNum (st_std a)]
      @ zip (drop 8 insert_columns) (map (dict_get (st_extras a)) (drop 8 insert_columns))"
    by (subst c, subst insert_values_split, subst zip_append) (simp_all add: t)
  then show ?thesis
    by (simp add: stored_row_def t zip_map2 zip_same_conv_map comp_def declared_type_def)
qed

lemma stored_row_required:
  "dict_get (stored_row a) ''pair'' = JStr (st_pair a)"
  "dict_get (stored_row a) ''ts_ms'' = JInt (st_ts_ms a)"
  "dict_get (stored_row a) ''price_a'' = JNum (st_price_a a)"
  "dict_get (stored_row a) ''price_b'' = JNum (st_price_b a)"
  "dict_get (stored_row a) ''spread'' = JNum (st_spread a)"
  "dict_get (stored_row a) ''z'' = JNum (st_z a)"
  "dict_get (stored_row a) ''mean'' = JNum (st_mean a)"
  "dict_get (stored_row a) ''std'' = JNum (st_std a)"
  unfolding stored_row_split by (simp_all add: dict_get_append)

lemma stored_row_extras:
  assumes "k \<in> set (drop 8 insert_columns)"
  shows "dict_get (stored_row a) k = affinity (Some (declared_type k)) (dict_get (st_extras a) k)"
proof -
  from assms have "k \<notin> fst ` set [(''pair'', JStr (st_pair a)), (''ts_ms'', JInt (st_ts_ms a)),
      (''price_a'', JNum (st_price_a a)), (''price_b'', JNum (st_price_b a)),
      (''spread'', JNum (st_spread a)), (''z'', JNum (st_z a)),
      (''mean'', JNum (st_mean a)), (''std'', JNum (st_std a))]"
    by (auto simp: insert_columns_def)
  with assms show ?thesis
    unfolding stored_row_split by (simp only: dict_get_append dict_get_map_keys if_False if_True)
qed

lemma stored_row_ok [simp]:
  "row_ok (stored_row a)" "pair_of (stored_row a) = st_pair a" "ts_of (stored_row a) = st_ts_ms a"
  by (simp_all add: row_ok_def pair_of_def ts_of_def stored_row_required)

lemma insert_spread_inv [arb_inv]: "db_inv db \<Longrightarrow> db_inv (insert_spread db a)"
  using ensure_schema_inv [of db]
  by (simp add: insert_spread_row) (simp add: db_inv_def has_columns_def)

lemma admin_set_config_inv [arb_inv]: "db_inv (admin_set_config db cfg) = db_inv db"
  by (simp add: admin_set_config_def db_inv_def has_columns_def)

lemma insert_spread_fields:
  assumes "db_inv db"
  shows "tbl_rows (insert_spread db a) = tbl_rows db @ [stored_row a]"
    "tbl_cols (insert_spread db a) = tbl_cols (ensure_schema db)"
    "admin_row (insert_spread db a) = admin_row db"
    "has_columns (insert_spread db a) cs = has_columns (ensure_schema db) cs"
  by (simp_all add: insert_spread_row [OF assms] has_columns_def)


section \<open>Properties of the queries\<close>

lemma dict_get_project [simp]:
  "dict_get (project cs r) k = (if k \<in> set cs then dict_get r k else JNone)"
  by (simp add: project_def dict_get_map_keys)

lemma ts_of_project [simp]: "ts_of (project spreads_columns r) = ts_of r"
  by (simp add: ts_of_def) (simp add: spreads_columns_def)

lemma matching_rows:
  "list_all row_ok rs \<Longrightarrow> filter (\<lambda>r. dict_get r ''pair'' = JStr p) rs = filter (\<lambda>r. pair_of r = p) rs"
  by (intro filter_cong refl) (auto simp: list_all_iff row_ok_def)

lemma get_spreads_value:
  assumes "has_columns db (''pair'' # spreads_columns)"
  shows "get_spreads db p limit =
    Inr (map (project spreads_columns)
      ((if limit < 0 then id else take (nat limit))
         (rev (sort_key ts_of (filter (\<lambda>r. dict_get r ''pair'' = JStr p) (tbl_rows db))))))"
  using assms by (simp add: get_spreads_def Let_def)

text \<open>
  C10 (roundtrip): a sample written by \<^verbatim>\<open>insert_spread\<close> that is newer than the
  stored samples of its pair is the first row \<^verbatim>\<open>get_spreads\<close> returns for the
  pair, with the eight required values as written and every optional column
  as passed (integers as floats in the numeric columns, absent ones null).
\<close>

theorem insert_get_roundtrip:
  assumes "db_inv db" and "\<forall>r\<in>set (tbl_rows db). pair_of r = st_pair a \<longrightarrow> ts_of r < st_ts_ms a"
    and "limit \<noteq> 0"
  shows "\<exists>rest. get_spreads (insert_spread db a) (st_pair a) limit
            = Inr (project spreads_columns (stored_row a) # rest)
      \<and> dict_get (project spreads_columns (stored_row a)) ''ts_ms'' = JInt (st_ts_ms a)
      \<and> dict_get (project spreads_columns (stored_row a)) ''spread'' = JNum (st_spread a)
      \<and> dict_get (project spreads_columns (stored_row a)) ''z'' = JNum (st_z a)
      \<and> (\<forall>k\<in>set (drop 8 insert_columns).
            dict_get (project spreads_columns (stored_row a)) k
              = affinity (Some (if k = ''advice'' then TEXT else REAL)) (dict_get (st_extras a) k))"
proof -
  let ?old = "filter (\<lambda>r. dict_get r ''pair'' = JStr (st_pair a)) (tbl_rows db)"
  let ?lim = "if limit < 0 then id else take (nat limit)"
  from assms(1) have ok: "list_all row_ok (tbl_rows db)" by (simp add: db_inv_def)
  from assms(2) have "\<forall>r\<in>set ?old. ts_of r \<le> ts_of (stored_row a)"
    unfolding matching_rows [OF ok] by auto
  then have r: "rev (sort_key ts_of (?old @ [stored_row a])) = stored_row a # rev (sort_key ts_of ?old)"
    by (simp add: sort_key_snoc_max)
  have hc: "has_columns (insert_spread db a) (''pair'' # spreads_columns)"
    by (simp add: insert_spread_fields(4) [OF assms(1)])
  have f: "filter (\<lambda>r. dict_get r ''pair'' = JStr (st_pair a)) (tbl_rows (insert_spread db a))
      = ?old @ [stored_row a]"
    by (simp add: insert_spread_fields(1) [OF assms(1)] stored_row_required)
  from assms(3) have "\<exists>ys. ?lim (stored_row a # rev (sort_key ts_of ?old)) = stored_row a # ys"
    by (auto simp: take_Cons')
  then obtain ys where "?lim (stored_row a # rev (sort_key ts_of ?old)) = stored_row a # ys" ..
  with get_spreads_value [OF hc, of "st_pair a" limit]
  have "get_spreads (insert_spread db a) (st_pair a) limit
      = Inr (project spreads_columns (stored_row a) # map (project spreads_columns) ys)"
    unfolding f r by (simp only: list.map)
  then have "\<exists>rest. get_spreads (insert_spread db a) (st_pair a) limit
      = Inr (project spreads_columns (stored_row a) # rest)" ..
  moreover have "drop 8 insert_columns = drop 7 spreads_columns"
    by (simp add: insert_columns_def spreads_columns_def)
  then have "k \<in> set spreads_columns" if "k \<in> set (drop 8 insert_columns)" for k
    using that by (auto dest: in_set_dropD)
  moreover have "''ts_ms'' \<in> set spreads_columns" "''spread'' \<in> set spreads_columns"
    "''z'' \<in> set spreads_columns"
    by (simp_all add: spreads_columns_def)
  ultimately show ?thesis
    by (auto simp: stored_row_required stored_row_extras declared_type_extras)
qed

text \<open>
  C35 (functional): \<^verbatim>\<open>get_spreads\<close> returns rows of the pair only, newest
  first, at most \<open>limit\<close> of them (all of them for a negative limit), and a
  row it leaves out is not newer than any row it returns.
\<close>

theorem get_spreads_newest_first:
  assumes "get_spreads db p limit = Inr rs"
  shows "sorted (rev (map ts_of rs))
     \<and> (0 \<le> limit \<longrightarrow> length rs \<le> nat limit)
     \<and> (\<forall>r\<in>set rs. \<exists>r0\<in>set (tbl_rows db). dict_get r0 ''pair'' = JStr p \<and> r = project spreads_columns r0)
     \<and> (\<forall>r0\<in>set (tbl_rows db). dict_get r0 ''pair'' = JStr p \<and> project spreads_columns r0 \<notin> set rs
           \<longrightarrow> (\<forall>r\<in>set rs. ts_of r0 \<le> ts_of r))"
proof -
  let ?m = "filter (\<lambda>r. dict_get r ''pair'' = JStr p) (tbl_rows db)"
  let ?s = "sort_key ts_of ?m"
  define n where "n = (if limit < 0 then length ?s else nat limit)"
  from assms have rs: "rs = map (project spreads_columns) (take n (rev ?s))"
    by (auto simp: get_spreads_def Let_def n_def split: if_splits)
  have s: "sorted (map ts_of ?s)" by simp
  have "map ts_of rs = take n (rev (map ts_of ?s))"
    by (simp add: rs comp_def take_map rev_map)
  with s have 1: "sorted (rev (map ts_of rs))" by (simp add: sorted_rev_take_rev)
  have 2: "0 \<le> limit \<longrightarrow> length rs \<le> nat limit" by (simp add: rs n_def)
  have 3: "\<exists>r0\<in>set (tbl_rows db). dict_get r0 ''pair'' = JStr p \<and> r = project spreads_columns r0"
    if "r \<in> set rs" for r
    using that unfolding rs by (auto dest!: in_set_takeD)
  have 4: "ts_of r0 \<le> ts_of r"
    if "r0 \<in> set (tbl_rows db)" "dict_get r0 ''pair'' = JStr p" "project spreads_columns r0 \<notin> set rs"
      "r \<in> set rs" for r0 r
  proof -
    from that(4) obtain y where y: "y \<in> set (take n (rev ?s))" "r = project spreads_columns y"
      unfolding rs by auto
    from that(1,2) have a: "r0 \<in> set ?s" by simp
    from that(3) have b: "r0 \<notin> set (take n (rev ?s))" unfolding rs by auto
    from take_rev_sorted_le [OF s a b y(1)] y(2) show ?thesis by simp
  qed
  from 1 2 3 4 show ?thesis by blast
qed


lemma latest_project [simp]:
  "ts_of (project latest_columns r) = ts_of r" "pair_of (project latest_columns r) = pair_of r"
  by (simp_all add: ts_of_def pair_of_def) (simp_all add: latest_columns_def)

lemma newest_of_pair:
  assumes "r0 \<in> set rs"
  shows "\<exists>r\<in>set rs. pair_of r = pair_of r0 \<and> ts_of r0 \<le> ts_of r \<and> is_latest rs r"
proof -
  let ?S = "{r \<in> set rs. pair_of r = pair_of r0}"
  let ?m = "Max (ts_of ` ?S)"
  from assms have ne: "ts_of ` ?S \<noteq> {}" and fin: "finite (ts_of ` ?S)" by auto
  from Max_in [OF fin ne] obtain r where r: "r \<in> ?S" "ts_of r = ?m" by auto
  have "ts_of r' \<le> ts_of r" if "r' \<in> ?S" for r'
    using that fin unfolding r(2) by (intro Max_ge) auto
  with r(1) assms show ?thesis
    by (intro bexI [of _ r]) (auto simp: is_latest_def list_all_iff)
qed

text \<open>
  C36 (functional): \<^verbatim>\<open>get_latest_all\<close> returns, for every pair that has rows,
  the rows of the pair that carry its greatest timestamp, and nothing else.
  That is one row per pair only while the greatest timestamp of the pair is
  stored once: a sample stored twice (by the poller and again by the
  ingestion endpoint) is returned twice.
\<close>

theorem get_latest_all_newest:
  assumes "get_latest_all db = Inr rs"
  shows "(\<forall>r0\<in>set (tbl_rows db). \<exists>r\<in>set rs. pair_of r = pair_of r0 \<and> ts_of r0 \<le> ts_of r)
     \<and> (\<forall>r\<in>set rs. \<exists>r0\<in>set (tbl_rows db). r = project latest_columns r0 \<and> is_latest (tbl_rows db) r0)
     \<and> length (filter (\<lambda>r. pair_of r = p) rs)
         = length (filter (\<lambda>r. pair_of r = p \<and> is_latest (tbl_rows db) r) (tbl_rows db))"
proof -
  let ?rows = "tbl_rows db"
  from assms have rs: "rs = map (project latest_columns) (filter (is_latest ?rows) ?rows)"
    by (auto simp: get_latest_all_def split: if_splits)
  have 1: "\<exists>r\<in>set rs. pair_of r = pair_of r0 \<and> ts_of r0 \<le> ts_of r" if "r0 \<in> set ?rows" for r0
  proof -
    from newest_of_pair [OF that] obtain r where
      "r \<in> set ?rows" "pair_of r = pair_of r0" "ts_of r0 \<le> ts_of r" "is_latest ?rows r" by blast
    then show ?thesis unfolding rs by (intro bexI [of _ "project latest_columns r"]) auto
  qed
  have 2: "\<forall>r\<in>set rs. \<exists>r0\<in>set ?rows. r = project latest_columns r0 \<and> is_latest ?rows r0"
    unfolding rs by auto
  have 3: "length (filter (\<lambda>r. pair_of r = p) rs)
      = length (filter (\<lambda>r. pair_of r = p \<and> is_latest ?rows r) ?rows)"
    unfolding rs by (simp add: filter_map comp_def conj_commute)
  from 1 2 3 show ?thesis by blast
qed

text \<open>
  C29 (error): on a database that \<^verbatim>\<open>open_db\<close> has just created, the queries
  \<^verbatim>\<open>get_spreads\<close> and \<^verbatim>\<open>get_latest_all\<close> fail: they select the seven columns
  that only \<^verbatim>\<open>ensure_schema\<close> adds, and \<^verbatim>\<open>ensure_schema\<close> runs on the write
  path only. \<^verbatim>\<open>get_pairs\<close> works, and after the first write all of them do.
\<close>

theorem fresh_db_reads_fail:
  "get_spreads (open_db None :: 'c db) p limit = Inl (OperationalError ''no such column'')
   \<and> get_latest_all (open_db None :: 'c db) = Inl (OperationalError ''no such column'')
   \<and> get_pairs (open_db None :: 'c db) = Inr []
   \<and> is_ok (get_spreads (insert_spread (open_db None :: 'c db) a) p limit)
   \<and> is_ok (get_latest_all (insert_spread (open_db None :: 'c db) a))"
proof -
  have "''stale'' \<notin> fst ` set CREATE_TABLE_SQL" "''pair'' \<in> fst ` set CREATE_TABLE_SQL"
    by (simp_all add: CREATE_TABLE_SQL_def)
  moreover have "''stale'' \<in> set spreads_columns" "''stale'' \<in> set latest_columns"
    by (simp_all add: spreads_columns_def latest_columns_def)
  ultimately have "\<not> has_columns (open_db None :: 'c db) (''pair'' # spreads_columns)"
    "\<not> has_columns (open_db None :: 'c db) latest_columns" "has_columns (open_db None :: 'c db) [''pair'']"
    by (auto simp: has_columns_def open_db_def list_all_iff)
  then show ?thesis
    by (simp add: get_spreads_def get_latest_all_def get_pairs_def is_ok_def
        insert_spread_fields [OF open_db_inv] Let_def)
      (simp add: open_db_def)
qed

text \<open>
  C20 (invariant): self-migration. A write to a database of an older schema
  adds exactly the expected columns that are missing, \<^verbatim>\<open>advice\<close> as text and
  the others numeric, keeps the existing columns and rows where they are,
  appends the new row with all its columns, and leaves a schema that needs no
  further migration.
\<close>

theorem insert_spread_migrates:
  assumes "db_inv db"
  shows "db_inv (insert_spread db a)
     \<and> fst ` set (tbl_cols (insert_spread db a)) = fst ` set (tbl_cols db) \<union> set EXPECTED_COLUMNS
     \<and> take (length (tbl_cols db)) (tbl_cols (insert_spread db a)) = tbl_cols db
     \<and> tbl_rows (insert_spread db a) = tbl_rows db @ [stored_row a]
     \<and> (\<forall>c\<in>set EXPECTED_COLUMNS. map_of (tbl_cols (insert_spread db a)) c = Some (declared_type c))
     \<and> ensure_schema (insert_spread db a) = insert_spread db a"
proof -
  note f = insert_spread_fields [OF assms, of a]
  have "map_of (tbl_cols (ensure_schema db)) c = Some (declared_type c)" if "c \<in> set EXPECTED_COLUMNS" for c
    using that by (intro column_type ensure_schema_inv assms) (simp add: ensure_schema_cols)
  moreover have "ensure_schema (insert_spread db a) = insert_spread db a"
    by (simp add: insert_spread_row [OF assms] ensure_schema_def [of "_\<lparr>tbl_rows := _\<rparr>"] Let_def
        ensure_schema_cols filter_empty_conv)
  ultimately show ?thesis
    using insert_spread_inv [OF assms, of a]
    by (simp add: f ensure_schema_cols ensure_schema_prefix)
qed


section \<open>Worked examples\<close>

text \<open>
  A database written by an older release, without the columns \<^verbatim>\<open>advice\<close> and
  \<^verbatim>\<open>t_exit_s\<close>, a sample to write, and a database of the current schema
  holding a sample twice.
\<close>

definition old_db :: "unit db" where
  "old_db = \<lparr>tbl_cols = filter (\<lambda>(c, t). c \<noteq> ''advice'' \<and> c \<noteq> ''t_exit_s'') CREATE_TABLE_SQL,
      tbl_rows = [[(''pair'', JStr ''BTC''), (''ts_ms'', JInt 1000), (''spread'', JNum (1 / 4))]],
      admin_row = None\<rparr>"

definition demo_args :: insert_args where
  "demo_args = \<lparr>st_pair = ''BTC'', st_ts_ms = 1040, st_price_a = 100, st_price_b = 199 / 2,
      st_spread = 1 / 2, st_z = 2, st_mean = 3 / 10, st_std = 1 / 10,
      st_extras = [(''ema'', JNum (97 / 310)), (''advice'', JStr ''hold''), (''t_exit_s'', JNum 2),
                   (''stale'', JInt 0)]\<rparr>"

definition demo_row :: "string \<Rightarrow> int \<Rightarrow> payload" where
  "demo_row p t = [(''pair'', JStr p), (''ts_ms'', JInt t)]"

definition demo_db :: "unit db" where
  "demo_db = \<lparr>tbl_cols = map (\<lambda>c. (c, declared_type c)) EXPECTED_COLUMNS,
      tbl_rows = [demo_row ''BTC'' 1000, demo_row ''BTC'' 3000, demo_row ''ETH'' 500,
                  demo_row ''BTC'' 2000, demo_row ''BTC'' 3000],
      admin_row = None\<rparr>"

lemma old_db_inv: "db_inv old_db"
  by (simp add: db_inv_def old_db_def CREATE_TABLE_SQL_def declared_type_def has_columns_def
      row_ok_def pair_of_def ts_of_def)

lemma demo_row_simps [simp]:
  "pair_of (demo_row p t) = p" "ts_of (demo_row p t) = t"
  "dict_get (demo_row p t) ''pair'' = JStr p"
  by (simp_all add: demo_row_def pair_of_def ts_of_def)

lemma demo_db_columns: "has_columns demo_db EXPECTED_COLUMNS"
  by (simp add: has_columns_def demo_db_def list_all_iff image_image)

lemma demo_extras_columns:
  "''stale'' \<in> set (drop 8 insert_columns)" "''advice'' \<in> set (drop 8 insert_columns)"
  "''t_exit_s'' \<in> set (drop 8 insert_columns)" "''ema'' \<in> set (drop 8 insert_columns)"
  by (simp_all add: insert_columns_def)

theorem insert_get_roundtrip_witness:
  "(\<exists>rest. get_spreads (insert_spread old_db demo_args) ''BTC'' 500
             = Inr (project spreads_columns (stored_row demo_args) # rest))
   \<and> dict_get (project spreads_columns (stored_row demo_args)) ''spread'' = JNum (1 / 2)
   \<and> dict_get (project spreads_columns (stored_row demo_args)) ''stale'' = JNum 0
   \<and> dict_get (project spreads_columns (stored_row demo_args)) ''advice'' = JStr ''hold''
   \<and> dict_get (project spreads_columns (stored_row demo_args)) ''vol_a'' = JNone"
proof -
  have "\<forall>r\<in>set (tbl_rows old_db). pair_of r = st_pair demo_args \<longrightarrow> ts_of r < st_ts_ms demo_args"
    by (simp add: old_db_def demo_args_def ts_of_def)
  moreover have "''vol_a'' \<in> set (drop 8 insert_columns)" by (simp add: insert_columns_def)
  ultimately show ?thesis
    using insert_get_roundtrip [OF old_db_inv, of demo_args 500] demo_extras_columns
    by (auto simp: demo_args_def)
qed

lemma demo_get_spreads:
  "get_spreads demo_db ''BTC'' 2
     = Inr [project spreads_columns (demo_row ''BTC'' 3000), project spreads_columns (demo_row ''BTC'' 3000)]"
  using demo_db_columns
  by (simp add: get_spreads_value columns_eq) (simp add: demo_db_def)

theorem get_spreads_newest_first_witness:
  "get_spreads demo_db ''BTC'' 2
     = Inr [project spreads_columns (demo_row ''BTC'' 3000), project spreads_columns (demo_row ''BTC'' 3000)]
   \<and> sorted (rev (map ts_of [project spreads_columns (demo_row ''BTC'' 3000),
                              project spreads_columns (demo_row ''BTC'' 3000)]))"
  using get_spreads_newest_first [OF demo_get_spreads] demo_get_spreads by simp

lemma demo_get_latest_all:
  "get_latest_all demo_db
     = Inr [project latest_columns (demo_row ''BTC'' 3000), project latest_columns (demo_row ''ETH'' 500),
            project latest_columns (demo_row ''BTC'' 3000)]"
  using demo_db_columns
  by (simp add: get_latest_all_def columns_eq) (simp add: demo_db_def is_latest_def)

theorem get_latest_all_newest_witness:
  "get_latest_all demo_db
     = Inr [project latest_columns (demo_row ''BTC'' 3000), project latest_columns (demo_row ''ETH'' 500),
            project latest_columns (demo_row ''BTC'' 3000)]
   \<and> length (filter (\<lambda>r. pair_of r = ''BTC'' \<and> is_latest (tbl_rows demo_db) r) (tbl_rows demo_db)) = 2"
  using get_latest_all_newest [OF demo_get_latest_all, of "''BTC''"] demo_get_latest_all by simp

theorem insert_spread_migrates_witness:
  "db_inv old_db \<and> ''advice'' \<notin> fst ` set (tbl_cols old_db)
   \<and> map_of (tbl_cols (insert_spread old_db demo_args)) ''advice'' = Some TEXT
   \<and> map_of (tbl_cols (insert_spread old_db demo_args)) ''t_exit_s'' = Some REAL
   \<and> tbl_rows (insert_spread old_db demo_args) = tbl_rows old_db @ [stored_row demo_args]
   \<and> dict_get (stored_row demo_args) ''advice'' = JStr ''hold''
   \<and> dict_get (stored_row demo_args) ''t_exit_s'' = JNum 2"
proof -
  have "''advice'' \<in> set EXPECTED_COLUMNS" "''t_exit_s'' \<in> set EXPECTED_COLUMNS"
    by (simp_all add: EXPECTED_COLUMNS_def)
  moreover have "''advice'' \<notin> fst ` set (tbl_cols old_db)"
    by (simp add: old_db_def CREATE_TABLE_SQL_def)
  ultimately show ?thesis
    using insert_spread_migrates [OF old_db_inv, of demo_args] old_db_inv
    by (simp add: stored_row_extras demo_extras_columns declared_type_def) (simp add: demo_args_def)
qed

end
