(* ===== verification/Bin_Stats.thy ===== *)
theory Bin_Stats
  imports Storage
begin

text \<open>
  The bin statistics of the panel server: \<^verbatim>\<open>_parse_edges\<close> and
  \<^verbatim>\<open>api_stats_bins\<close> of \<^verbatim>\<open>src/arb/panel/server.py\<close>. For every bin of
  \<open>|z|\<close> the endpoint scans the stored samples of a pair for entries into the
  bin, measures the time until \<open>|z|\<close> falls to the exit threshold, and
  reports percentiles of these durations. The body of the scanning loop is
  \<open>scan_step\<close>; the loop itself, which does not always terminate, is the
  \<open>partial_function\<close> \<open>scan_bin\<close>, whose value \<open>None\<close> is a request that
  never answers. Python's \<^verbatim>\<open>float\<close> on a string is a parameter \<open>float_of\<close>
  of the model.
\<close>

section \<open>Bins from edges\<close>

type_synonym bin = "real \<times> real option"

definition split_commas :: "string \<Rightarrow> string list" where
  "split_commas s = foldr (\<lambda>c acc. if c = CHR '','' then [] # acc else (c # hd acc) # tl acc) s [[]]"

definition floats_of :: "(string \<Rightarrow> real option) \<Rightarrow> string list \<Rightarrow> real list option" where
  "floats_of float_of xs = those (map float_of xs)"

definition bins_of :: "real list \<Rightarrow> bin list" where
  "bins_of parts =
     map (\<lambda>i. (parts ! i, if i + 1 < length parts then Some (parts ! (i + 1)) else None))
       [0..<length parts]"

definition default_bins :: "bin list" where
  "default_bins = [(3 / 2, Some 2), (2, Some (5 / 2)), (5 / 2, Some 3), (3, None)]"

definition parse_edges :: "(string \<Rightarrow> real option) \<Rightarrow> string \<Rightarrow> bin list" where
  "parse_edges float_of edges =
     (case floats_of float_of (filter (\<lambda>x. x \<noteq> []) (split_commas edges)) of
        None \<Rightarrow> default_bins
      | Some parts \<Rightarrow> bins_of (sort parts))"

section \<open>The scan of one bin\<close>

record bin_env =
  lo :: real
  hi :: "real option"
  exit_z :: real
  absz :: "real list"
  tms :: "int list"
  countdown :: "real option list"

function first_exit :: "real list \<Rightarrow> real \<Rightarrow> nat \<Rightarrow> nat option" where
  "first_exit zs ez j =
     (if j < length zs then (if zs ! j \<le> ez then Some j else first_exit zs ez (j + 1)) else None)"
  by pat_completeness auto
termination by (relation "measure (\<lambda>(zs, ez, j). length zs - j)") auto

declare first_exit.simps [simp del]

definition enter :: "bin_env \<Rightarrow> nat \<Rightarrow> bool" where
  "enter env i \<longleftrightarrow>
     absz env ! (i - 1) < lo env \<and> lo env \<le> absz env ! i
     \<and> (case hi env of None \<Rightarrow> True | Some h \<Rightarrow> absz env ! i < h)"

definition scan_step :: "bin_env \<Rightarrow> nat \<Rightarrow> real list \<Rightarrow> real list \<Rightarrow> nat \<times> real list \<times> real list" where
  "scan_step env i samples prob_before_funding =
     (if enter env i then
        (case first_exit (absz env) (exit_z env) i of
           Some j \<Rightarrow>
             let dt_ms = tms env ! j - tms env ! i
             in (j, samples @ [real_of_int dt_ms / 1000],
                 (case countdown env ! i of
                    None \<Rightarrow> prob_before_funding
                  | Some c \<Rightarrow> prob_before_funding @ [if real_of_int dt_ms \<le> c then 1 else 0]))
         | None \<Rightarrow> (i + 1, samples, prob_before_funding))
      else (i + 1, samples, prob_before_funding))"

partial_function (option) scan_bin ::
  "bin_env \<Rightarrow> nat \<Rightarrow> real list \<Rightarrow> real list \<Rightarrow> (real list \<times> real list) option" where
  "scan_bin env i samples prob_before_funding =
     (if i < length (absz env)
      then (case scan_step env i samples prob_before_funding of
              (i', samples', prob') \<Rightarrow> scan_bin env i' samples' prob')
      else Some (samples, prob_before_funding))"

section \<open>Percentiles and the response\<close>

definition pct :: "real list \<Rightarrow> real \<Rightarrow> real option" where
  "pct samples p =
     (let cnt = int (length samples)
      in if cnt = 0 then None
         else Some (samples ! nat (max 0 (min (cnt - 1) (py_round (p * real_of_int (cnt - 1)))))))"

record bin_stats =
  bin_lo :: real
  bin_hi :: "real option"
  n_samples :: nat
  p25_s :: "real option"
  median_s :: "real option"
  p75_s :: "real option"
  p90_s :: "real option"
  prob_exit_before_funding :: "real option"

definition stats_of :: "bin \<Rightarrow> real list \<Rightarrow> real list \<Rightarrow> bin_stats" where
  "stats_of b samples prob_before_funding =
     (let sorted_samples = sort samples
      in \<lparr>bin_lo = fst b, bin_hi = snd b, n_samples = length sorted_samples,
          p25_s = pct sorted_samples (25 / 100), median_s = pct sorted_samples (5 / 10),
          p75_s = pct sorted_samples (75 / 100), p90_s = pct sorted_samples (90 / 100),
          prob_exit_before_funding =
            (if prob_before_funding \<noteq> []
             then Some (sum_list prob_before_funding / real (length prob_before_funding))
             else None)\<rparr>)"

definition num_field :: "payload \<Rightarrow> string \<Rightarrow> real option" where
  "num_field r k = (case dict_get r k of JNum x \<Rightarrow> Some x | JInt i \<Rightarrow> Some (real_of_int i) | _ \<Rightarrow> None)"

definition bin_stat :: "real \<Rightarrow> payload list \<Rightarrow> bin \<Rightarrow> bin_stats option" where
  "bin_stat ez seq b =
     map_option (\<lambda>(samples, prob). stats_of b samples prob)
       (scan_bin \<lparr>lo = fst b, hi = snd b, exit_z = ez,
                  absz = map (\<lambda>r. \<bar>or_else (num_field r ''z'') 0\<bar>) seq,
                  tms = map ts_of seq,
                  countdown = map (\<lambda>r. num_field r ''fr_countdown_ms'') seq\<rparr> 1 [] [])"

record stats_response =
  r_pair :: string
  r_days :: int
  r_exit_z :: real
  r_stats :: "bin_stats list"

definition api_stats_bins ::
  "'c db \<Rightarrow> (string \<Rightarrow> real option) \<Rightarrow> int \<Rightarrow> string \<Rightarrow> int \<Rightarrow> real \<Rightarrow> string
     \<Rightarrow> stats_response result option" where
  "api_stats_bins db float_of now pair days ez edges =
     (if pair = [] then Some (Inl (HTTPException 400 ''pair is required''))
      else case get_spreads db pair 10000 of
        Inl e \<Rightarrow> Some (Inl e)
      | Inr rows \<Rightarrow>
          let since_ms = now - days * 86400000;
              seq = sort_key ts_of (filter (\<lambda>r. since_ms \<le> ts_of r) rows);
              bins = parse_edges float_of edges
          in map_option (\<lambda>stats. Inr \<lparr>r_pair = pair, r_days = days, r_exit_z = ez, r_stats = stats\<rparr>)
               (those (map (bin_stat ez seq) bins)))"

lemmas bin_defs [arb_unfold] =
  bins_of_def parse_edges_def floats_of_def enter_def scan_step_def pct_def stats_of_def
  bin_stat_def num_field_def


section \<open>The inner search\<close>

lemma first_exit_here: "j < length zs \<Longrightarrow> zs ! j \<le> ez \<Longrightarrow> first_exit zs ez j = Some j"
  by (subst first_exit.simps) simp

lemma first_exit_skip:
  "j < length zs \<Longrightarrow> ez < zs ! j \<Longrightarrow> first_exit zs ez j = first_exit zs ez (Suc j)"
  by (subst first_exit.simps) simp

lemma first_exit_Some:
  "first_exit zs ez j = Some k \<Longrightarrow>
     j \<le> k \<and> k < length zs \<and> zs ! k \<le> ez \<and> (\<forall>m. j \<le> m \<and> m < k \<longrightarrow> ez < zs ! m)"
proof (induction zs ez j rule: first_exit.induct)
  case (1 zs ez j)
  show ?case
  proof (cases "j < length zs \<and> \<not> zs ! j \<le> ez")
    case True
    with "1.prems" have "first_exit zs ez (j + 1) = Some k"
      by (subst (asm) first_exit.simps) simp
    with "1.IH" True have *: "j + 1 \<le> k \<and> k < length zs \<and> zs ! k \<le> ez
        \<and> (\<forall>m. j + 1 \<le> m \<and> m < k \<longrightarrow> ez < zs ! m)" by simp
    have "ez < zs ! m" if "j \<le> m" "m < k" for m
      using that * True by (cases "m = j") auto
    with * show ?thesis by auto
  next
    case False
    with "1.prems" show ?thesis
      by (subst (asm) first_exit.simps) (auto split: if_splits)
  qed
qed

lemma first_exit_None:
  "first_exit zs ez j = None \<longleftrightarrow> (\<forall>m. j \<le> m \<and> m < length zs \<longrightarrow> ez < zs ! m)"
proof (induction zs ez j rule: first_exit.induct)
  case (1 zs ez j)
  show ?case
  proof (cases "j < length zs \<and> \<not> zs ! j \<le> ez")
    case True
    then have "first_exit zs ez j = first_exit zs ez (j + 1)"
      by (subst first_exit.simps) simp
    moreover have "(\<forall>m. j + 1 \<le> m \<and> m < length zs \<longrightarrow> ez < zs ! m)
        \<longleftrightarrow> (\<forall>m. j \<le> m \<and> m < length zs \<longrightarrow> ez < zs ! m)"
      using True by (metis Suc_eq_plus1 Suc_leI le_neq_implies_less not_le Suc_leD)
    ultimately show ?thesis using "1.IH" True by simp
  next
    case False
    then show ?thesis
      by (subst first_exit.simps) (auto simp: not_less)
  qed
qed

section \<open>One step of the scan\<close>

lemma scan_step_next:
  "fst (scan_step env i samples prob) = fst (scan_step env i [] [])"
  by (simp add: scan_step_def Let_def split: option.splits)

lemma scan_step_stuck:
  assumes "i < length (absz env)" "enter env i" "absz env ! i \<le> exit_z env"
  shows "fst (scan_step env i samples prob) = i"
  using assms by (simp add: scan_step_def first_exit_here Let_def)

lemma scan_step_progress:
  assumes "exit_z env < lo env" "i < length (absz env)"
  shows "i < fst (scan_step env i samples prob)" "fst (scan_step env i samples prob) \<le> length (absz env)"
proof -
  have "i < fst (scan_step env i samples prob) \<and> fst (scan_step env i samples prob) \<le> length (absz env)"
  proof (cases "enter env i")
    case False
    with assms(2) show ?thesis by (simp add: scan_step_def)
  next
    case True
    show ?thesis
    proof (cases "first_exit (absz env) (exit_z env) i")
      case None
      with True assms(2) show ?thesis by (simp add: scan_step_def)
    next
      case (Some j)
      from first_exit_Some [OF Some] True assms(1) have "j \<noteq> i" "i \<le> j" "j < length (absz env)"
        by (auto simp: enter_def)
      with True Some show ?thesis by (simp add: scan_step_def Let_def)
    qed
  qed
  then show "i < fst (scan_step env i samples prob)"
    "fst (scan_step env i samples prob) \<le> length (absz env)" by simp_all
qed

definition env_ok :: "bin_env \<Rightarrow> bool" where
  "env_ok env \<longleftrightarrow> sorted (tms env) \<and> length (tms env) = length (absz env)"

lemma scan_step_appends:
  assumes "scan_step env i samples prob = (i', samples', prob')"
  shows "\<exists>ds dp. samples' = samples @ ds \<and> prob' = prob @ dp \<and> length ds \<le> 1 \<and> length dp \<le> length ds
    \<and> set dp \<subseteq> {0, 1} \<and> (env_ok env \<longrightarrow> (\<forall>x\<in>set ds. 0 \<le> x))"
proof (cases "enter env i \<and> first_exit (absz env) (exit_z env) i \<noteq> None")
  case False
  with assms show ?thesis by (auto simp: scan_step_def split: option.splits)
next
  case True
  then obtain j where j: "first_exit (absz env) (exit_z env) i = Some j" by blast
  let ?dt = "tms env ! j - tms env ! i"
  from first_exit_Some [OF j] have "env_ok env \<Longrightarrow> 0 \<le> ?dt"
    by (auto simp: env_ok_def sorted_iff_nth_mono)
  moreover from True j assms have "samples' = samples @ [real_of_int ?dt / 1000]"
    "prob' = prob @ (case countdown env ! i of None \<Rightarrow> []
        | Some c \<Rightarrow> [if real_of_int ?dt \<le> c then 1 else 0])"
    by (auto simp: scan_step_def Let_def split: option.splits)
  ultimately show ?thesis
    by (auto split: option.splits)
qed


section \<open>Termination of the scan\<close>

definition scan_post :: "bin_env \<Rightarrow> nat \<Rightarrow> real list \<Rightarrow> real list \<Rightarrow> bool" where
  "scan_post env i ds dp \<longleftrightarrow>
     length ds \<le> length (absz env) - i \<and> length dp \<le> length ds \<and> set dp \<subseteq> {0, 1}
     \<and> (env_ok env \<longrightarrow> (\<forall>x\<in>set ds. 0 \<le> x))"

lemma scan_bin_total:
  assumes "exit_z env < lo env"
  shows "\<exists>ds dp. scan_bin env i samples prob = Some (samples @ ds, prob @ dp) \<and> scan_post env i ds dp"
proof (induction "length (absz env) - i" arbitrary: i samples prob rule: less_induct)
  case less
  show ?case
  proof (cases "i < length (absz env)")
    case False
    then show ?thesis
      by (subst scan_bin.simps) (simp add: scan_post_def)
  next
    case True
    obtain i' s' p' where st: "scan_step env i samples prob = (i', s', p')" by (metis prod_cases3)
    from scan_step_progress [OF assms True, of samples prob] st
    have i': "i < i'" "i' \<le> length (absz env)" by simp_all
    from scan_step_appends [OF st] obtain ds dp where
      d: "s' = samples @ ds" "p' = prob @ dp" "length ds \<le> 1" "length dp \<le> length ds"
        "set dp \<subseteq> {0, 1}" "env_ok env \<longrightarrow> (\<forall>x\<in>set ds. 0 \<le> x)" by blast
    from i' True have "length (absz env) - i' < length (absz env) - i" by simp
    from less [OF this, of s' p'] obtain es ep where
      e: "scan_bin env i' s' p' = Some (s' @ es, p' @ ep)" "scan_post env i' es ep" by blast
    from True st e(1) have "scan_bin env i samples prob = Some (samples @ (ds @ es), prob @ (dp @ ep))"
      by (subst scan_bin.simps) (simp add: d)
    moreover from d e(2) i' have "scan_post env i (ds @ es) (dp @ ep)"
      by (auto simp: scan_post_def)
    ultimately show ?thesis by blast
  qed
qed

text \<open>
  C11 (termination): when the exit threshold is below the lower edge of the
  bin, the scan of the bin returns. It records at most one duration per
  sample scanned, at most one funding flag per duration, every flag 0 or 1,
  and, the samples being in ascending time order, no negative duration.
\<close>

theorem scan_bin_terminates:
  assumes "exit_z env < lo env"
  shows "\<exists>samples prob. scan_bin env 1 [] [] = Some (samples, prob)
     \<and> length samples \<le> length (absz env) - 1 \<and> length prob \<le> length samples
     \<and> set prob \<subseteq> {0, 1} \<and> (env_ok env \<longrightarrow> (\<forall>x\<in>set samples. 0 \<le> x))"
  using scan_bin_total [OF assms, of 1 "[]" "[]"] by (auto simp: scan_post_def)

lemma scan_bin_stuck:
  assumes "i < length (absz env)" "fst (scan_step env i [] []) = i"
  shows "scan_bin env i samples prob = None"
proof (rule ccontr)
  let ?stuck = "\<lambda>env i. i < length (absz env) \<and> fst (scan_step env i [] []) = i"
  assume "scan_bin env i samples prob \<noteq> None"
  then obtain r where ret: "scan_bin env i samples prob = Some r" by blast
  have "\<not> ?stuck env i"
  proof (rule scan_bin.raw_induct [where P = "\<lambda>env i samples prob r. \<not> ?stuck env i", OF _ ret])
    fix f env i samples prob r
    assume IH: "\<And>env i samples prob r. f env i samples prob = Some r \<Longrightarrow> \<not> ?stuck env i"
      and eq: "(if i < length (absz env)
          then (case scan_step env i samples prob of (i', samples', prob') \<Rightarrow> f env i' samples' prob')
          else Some (samples, prob)) = Some r"
    show "\<not> ?stuck env i"
    proof
      assume stuck: "?stuck env i"
      obtain i' s' p' where st: "scan_step env i samples prob = (i', s', p')" by (metis prod_cases3)
      with stuck scan_step_next [of env i samples prob] have "i' = i" by simp
      with eq st stuck have "f env i s' p' = Some r" by simp
      from IH [OF this] stuck show False by simp
    qed
  qed
  with assms show False by simp
qed

text \<open>
  C16 (liveness): the scan does not return when a sample enters the bin while
  its \<open>|z|\<close> is already at or below the exit threshold, which needs an exit
  threshold at or above the lower edge of the bin: the search for the exit
  stops at the entry itself, the index does not advance, and the same entry
  is recorded again without end.
\<close>

theorem scan_bin_never_returns:
  assumes "i < length (absz env)" "enter env i" "absz env ! i \<le> exit_z env"
  shows "scan_bin env i samples prob = None"
  using assms by (intro scan_bin_stuck scan_step_stuck)


section \<open>Percentiles\<close>

definition pct_index :: "nat \<Rightarrow> real \<Rightarrow> nat" where
  "pct_index n p = nat (max 0 (min (int n - 1) (py_round (p * real_of_int (int n - 1)))))"

lemma pct_eq: "pct samples p = (if samples = [] then None else Some (samples ! pct_index (length samples) p))"
  by (simp add: pct_def pct_index_def Let_def)

lemma pct_index_less: "0 < n \<Longrightarrow> pct_index n p < n"
  by (simp add: pct_index_def)

lemma pct_index_mono: "p \<le> q \<Longrightarrow> 0 < n \<Longrightarrow> pct_index n p \<le> pct_index n q"
  unfolding pct_index_def
  by (intro nat_mono max.mono min.mono order_refl py_round_mono mult_right_mono) simp_all

lemma pct_mono:
  assumes "sorted samples" "p \<le> q" "samples \<noteq> []"
  shows "\<exists>x y. pct samples p = Some x \<and> pct samples q = Some y \<and> x \<le> y
     \<and> x \<in> set samples \<and> y \<in> set samples"
proof -
  from assms(3) have n: "0 < length samples" by simp
  from pct_index_mono [OF assms(2) n] pct_index_less [OF n, of q] assms(1)
  have "samples ! pct_index (length samples) p \<le> samples ! pct_index (length samples) q"
    by (simp add: sorted_iff_nth_mono)
  with assms(3) pct_index_less [OF n] show ?thesis
    by (simp add: pct_eq)
qed

text \<open>
  C39 (functional): the statistics of a bin. With no duration recorded the
  percentiles are null and the count is 0; otherwise the four percentiles are
  recorded durations with \<open>p25 \<le> median \<le> p75 \<le> p90\<close>. The probability
  of an exit before funding is the mean of the flags, between 0 and 1, and
  null when no entry carried a countdown.
\<close>

theorem stats_of_ordered:
  assumes "set prob \<subseteq> {0, 1}"
  shows "n_samples (stats_of b samples prob) = length samples
     \<and> (samples = [] \<longrightarrow> p25_s (stats_of b samples prob) = None \<and> median_s (stats_of b samples prob) = None
           \<and> p75_s (stats_of b samples prob) = None \<and> p90_s (stats_of b samples prob) = None)
     \<and> (samples \<noteq> [] \<longrightarrow> (\<exists>x25 x50 x75 x90.
           p25_s (stats_of b samples prob) = Some x25 \<and> median_s (stats_of b samples prob) = Some x50
           \<and> p75_s (stats_of b samples prob) = Some x75 \<and> p90_s (stats_of b samples prob) = Some x90
           \<and> x25 \<le> x50 \<and> x50 \<le> x75 \<and> x75 \<le> x90 \<and> {x25, x50, x75, x90} \<subseteq> set samples))
     \<and> (case prob_exit_before_funding (stats_of b samples prob) of
           None \<Rightarrow> prob = [] | Some q \<Rightarrow> prob \<noteq> [] \<and> 0 \<le> q \<and> q \<le> 1)"
proof -
  let ?s = "sort samples"
  have ord: "\<exists>x25 x50 x75 x90. pct ?s (25 / 100) = Some x25 \<and> pct ?s (5 / 10) = Some x50
      \<and> pct ?s (75 / 100) = Some x75 \<and> pct ?s (90 / 100) = Some x90
      \<and> x25 \<le> x50 \<and> x50 \<le> x75 \<and> x75 \<le> x90 \<and> {x25, x50, x75, x90} \<subseteq> set samples"
    if "samples \<noteq> []"
  proof -
    from that have ne: "?s \<noteq> []" by (metis length_sort length_0_conv)
    have s: "sorted ?s" by simp
    from pct_mono [OF s _ ne, of "25 / 100" "5 / 10"] pct_mono [OF s _ ne, of "5 / 10" "75 / 100"]
      pct_mono [OF s _ ne, of "75 / 100" "90 / 100"]
    show ?thesis by auto
  qed
  from assms have "\<forall>x\<in>set prob. 0 \<le> x" "\<forall>x\<in>set prob. x \<le> 1" by auto
  then have "0 \<le> sum_list prob" "sum_list prob \<le> real (length prob)"
    using sum_list_ge_const [of prob 0] sum_list_le_const [of prob 1] by simp_all
  then have "prob \<noteq> [] \<Longrightarrow> 0 \<le> sum_list prob / real (length prob) \<and> sum_list prob / real (length prob) \<le> 1"
    by (simp add: divide_le_eq)
  with ord show ?thesis
    by (simp add: stats_of_def Let_def pct_eq)
qed

theorem stats_of_ordered_witness:
  "stats_of (3 / 2, Some (5 / 2)) [4, 1, 3, 2] [1, 0, 1, 1]
     = \<lparr>bin_lo = 3 / 2, bin_hi = Some (5 / 2), n_samples = 4, p25_s = Some 2, median_s = Some 3,
        p75_s = Some 3, p90_s = Some 4, prob_exit_before_funding = Some (3 / 4)\<rparr>
   \<and> set [1, 0, 1, 1 :: real] \<subseteq> {0, 1}"
proof -
  have "py_round (3 / 4) = 1" "py_round (3 / 2) = 2" "py_round (9 / 4) = 2" "py_round (27 / 10) = 3"
    by (simp_all add: py_round_def Let_def)
  then have "stats_of (3 / 2, Some (5 / 2)) [4, 1, 3, 2] [1, 0, 1, 1]
     = \<lparr>bin_lo = 3 / 2, bin_hi = Some (5 / 2), n_samples = 4, p25_s = Some 2, median_s = Some 3,
        p75_s = Some 3, p90_s = Some 4, prob_exit_before_funding = Some (3 / 4)\<rparr>"
    by (simp add: stats_of_def pct_def Let_def)
  with stats_of_ordered [of "[1, 0, 1, 1]" "(3 / 2, Some (5 / 2))" "[4, 1, 3, 2]"] show ?thesis by simp
qed

text \<open>
  The nearest-rank percentile the specification names: the value of rank
  \<open>\<lceil>p \<cdot> n\<rceil>\<close> of the sorted list.
\<close>

definition nearest_rank :: "real list \<Rightarrow> real \<Rightarrow> real option" where
  "nearest_rank samples p =
     (if samples = [] then None else Some (samples ! (nat \<lceil>p * real (length samples)\<rceil> - 1)))"

text \<open>
  The percentile of the code is the element of index
  \<^verbatim>\<open>round(p * (n - 1))\<close>, not the nearest-rank percentile: of the four
  durations 1, 2, 3, 4 the code reports 2 as the 25th percentile and 3 as the
  median, where nearest rank gives 1 and 2.
\<close>

theorem pct_not_nearest_rank:
  "pct [1, 2, 3, 4] (25 / 100) = Some 2 \<and> nearest_rank [1, 2, 3, 4] (25 / 100) = Some 1
   \<and> pct [1, 2, 3, 4] (5 / 10) = Some 3 \<and> nearest_rank [1, 2, 3, 4] (5 / 10) = Some 2"
proof -
  have "py_round (3 / 4) = 1" "py_round (3 / 2) = 2"
    by (simp_all add: py_round_def Let_def)
  then show ?thesis
    by (simp add: pct_def nearest_rank_def Let_def)
qed


section \<open>Bins\<close>

lemma bins_of_nth:
  "length (bins_of ps) = length ps"
  "i < length ps \<Longrightarrow> bins_of ps ! i = (ps ! i, if i + 1 < length ps then Some (ps ! (i + 1)) else None)"
  by (simp_all add: bins_of_def)

lemma bins_of_fst: "map fst (bins_of ps) = ps"
  by (rule nth_equalityI) (simp_all add: bins_of_nth)

lemma bins_of_last:
  assumes "ps \<noteq> []"
  shows "snd (last (bins_of ps)) = None"
proof -
  from assms have "bins_of ps \<noteq> []" using bins_of_nth(1) [of ps] by (metis length_0_conv)
  then have "last (bins_of ps) = bins_of ps ! (length ps - 1)"
    by (simp add: last_conv_nth bins_of_nth(1))
  with assms show ?thesis by (simp add: bins_of_nth(2))
qed

text \<open>
  The bins of an edge list. When every non-empty token of
  the comma-separated string parses, there is one bin per token: the sorted
  edges are the lower bounds, each bin ends where the next begins, and the
  last bin is open. When a token does not parse the four default bins are
  used. A string without any token gives no bin at all.
\<close>

theorem parse_edges_bins:
  "(case floats_of float_of (filter (\<lambda>x. x \<noteq> []) (split_commas edges)) of
      None \<Rightarrow> parse_edges float_of edges = default_bins
    | Some parts \<Rightarrow>
        map fst (parse_edges float_of edges) = sort parts
        \<and> (\<forall>i. i + 1 < length parts \<longrightarrow>
              snd (parse_edges float_of edges ! i) = Some (fst (parse_edges float_of edges ! (i + 1)))
              \<and> fst (parse_edges float_of edges ! i) \<le> fst (parse_edges float_of edges ! (i + 1)))
        \<and> (parts \<noteq> [] \<longrightarrow> snd (last (parse_edges float_of edges)) = None)
        \<and> (parts = [] \<longrightarrow> parse_edges float_of edges = []))"
proof (cases "floats_of float_of (filter (\<lambda>x. x \<noteq> []) (split_commas edges))")
  case None
  then show ?thesis by (simp add: parse_edges_def)
next
  case (Some parts)
  let ?bs = "parse_edges float_of edges"
  from Some have b: "?bs = bins_of (sort parts)" by (simp add: parse_edges_def)
  have 1: "map fst ?bs = sort parts" by (simp add: b bins_of_fst)
  have 2: "snd (?bs ! i) = Some (fst (?bs ! (i + 1))) \<and> fst (?bs ! i) \<le> fst (?bs ! (i + 1))"
    if "i + 1 < length parts" for i
  proof -
    from that sorted_sort [of parts] have "sort parts ! i \<le> sort parts ! (i + 1)"
      by (simp add: sorted_iff_nth_mono del: sorted_sort)
    with that show ?thesis by (simp add: b bins_of_nth(2))
  qed
  have 3: "snd (last ?bs) = None" if "parts \<noteq> []"
  proof -
    from that have "sort parts \<noteq> []" by (metis length_sort length_0_conv)
    then show ?thesis unfolding b by (rule bins_of_last)
  qed
  have 4: "?bs = []" if "parts = []"
    using that by (simp add: b bins_of_def)
  from 1 2 3 4 show ?thesis unfolding Some by simp
qed

section \<open>The endpoint\<close>

lemma those_map_Some:
  assumes "\<And>x. x \<in> set xs \<Longrightarrow> \<exists>y. f x = Some y \<and> P x y"
  shows "\<exists>ys. those (map f xs) = Some ys \<and> list_all2 P xs ys"
  using assms
proof (induction xs)
  case Nil
  then show ?case by simp
next
  case (Cons x xs)
  from Cons.prems [of x] obtain y where y: "f x = Some y" "P x y" by auto
  from Cons.IH Cons.prems obtain ys where "those (map f xs) = Some ys" "list_all2 P xs ys"
    by (metis list.set_intros(2))
  with y show ?case by simp
qed

definition stats_ok :: "nat \<Rightarrow> bin \<Rightarrow> bin_stats \<Rightarrow> bool" where
  "stats_ok n b s \<longleftrightarrow> bin_lo s = fst b \<and> bin_hi s = snd b \<and> n_samples s \<le> n - 1
     \<and> (n_samples s = 0 \<longleftrightarrow> median_s s = None) \<and> (\<forall>m. median_s s = Some m \<longrightarrow> 0 \<le> m)
     \<and> (\<forall>q. prob_exit_before_funding s = Some q \<longrightarrow> 0 \<le> q \<and> q \<le> 1)"

lemma bin_stat_Some:
  assumes "ez < fst b" "sorted (map ts_of seq)"
  shows "\<exists>s. bin_stat ez seq b = Some s \<and> stats_ok (length seq) b s"
proof -
  let ?env = "\<lparr>lo = fst b, hi = snd b, exit_z = ez,
      absz = map (\<lambda>r. \<bar>or_else (num_field r ''z'') 0\<bar>) seq, tms = map ts_of seq,
      countdown = map (\<lambda>r. num_field r ''fr_countdown_ms'') seq\<rparr>"
  from assms(1) have "exit_z ?env < lo ?env" by simp
  from scan_bin_total [OF this, of 1 "[]" "[]"] assms(2) obtain ds dp where
    r: "scan_bin ?env 1 [] [] = Some (ds, dp)" and n: "length ds \<le> length seq - 1"
    and p: "set dp \<subseteq> {0, 1}" and d: "\<forall>x\<in>set ds. 0 \<le> x"
    by (auto simp: scan_post_def env_ok_def)
  have m: "\<exists>x\<in>set ds. median_s (stats_of b ds dp) = Some x" if "ds \<noteq> []"
  proof -
    from that have "sort ds \<noteq> []" by (metis length_sort length_0_conv)
    from pct_mono [OF sorted_sort order_refl this, of "5 / 10"] show ?thesis
      by (auto simp: stats_of_def Let_def)
  qed
  from p have "\<forall>x\<in>set dp. 0 \<le> x" "\<forall>x\<in>set dp. x \<le> 1" by auto
  then have "0 \<le> sum_list dp" "sum_list dp \<le> real (length dp)"
    using sum_list_ge_const [of dp 0] sum_list_le_const [of dp 1] by simp_all
  then have q: "dp \<noteq> [] \<Longrightarrow> 0 \<le> sum_list dp / real (length dp) \<and> sum_list dp / real (length dp) \<le> 1"
    by (simp add: divide_le_eq)
  have f: "bin_lo (stats_of b ds dp) = fst b" "bin_hi (stats_of b ds dp) = snd b"
    "n_samples (stats_of b ds dp) = length ds"
    "prob_exit_before_funding (stats_of b ds dp)
       = (if dp \<noteq> [] then Some (sum_list dp / real (length dp)) else None)"
    "ds = [] \<Longrightarrow> median_s (stats_of b ds dp) = None"
    by (simp_all add: stats_of_def Let_def pct_eq)
  have "median_s (stats_of b ds dp) = None \<longleftrightarrow> ds = []"
    "\<forall>x. median_s (stats_of b ds dp) = Some x \<longrightarrow> 0 \<le> x"
    using m d f(5) by (cases "ds = []"; force)+
  with n q have "stats_ok (length seq) b (stats_of b ds dp)"
    unfolding stats_ok_def f(1-4) by auto
  with r show ?thesis by (simp add: bin_stat_def)
qed

text \<open>
  C27 (termination): with an exit threshold below every lower edge (the
  defaults are 0.5 and 1.5) the endpoint answers: an error for an empty pair
  name or a failed query, else one entry per bin, in the order of the bins,
  each with at most \<open>n - 1\<close> durations out of \<open>n\<close> samples, a non-negative
  median exactly when a duration was recorded, and a probability in
  \<open>[0, 1]\<close>.
\<close>

theorem api_stats_bins_answers:
  assumes "\<forall>b\<in>set (parse_edges float_of edges). ez < fst b"
  shows "\<exists>r. api_stats_bins db float_of now pair days ez edges = Some r
     \<and> (case r of
          Inl e \<Rightarrow> (pair = [] \<and> e = HTTPException 400 ''pair is required'')
                     \<or> get_spreads db pair 10000 = Inl e
        | Inr resp \<Rightarrow> r_pair resp = pair \<and> r_days resp = days \<and> r_exit_z resp = ez
            \<and> (\<exists>rows. get_spreads db pair 10000 = Inr rows
                  \<and> list_all2 (stats_ok (length (filter (\<lambda>r. now - days * 86400000 \<le> ts_of r) rows)))
                       (parse_edges float_of edges) (r_stats resp)))"
proof (cases "pair = [] \<or> \<not> is_ok (get_spreads db pair 10000)")
  case True
  then show ?thesis by (auto simp: api_stats_bins_def is_ok_def split: sum.splits)
next
  case False
  then obtain rows where rows: "get_spreads db pair 10000 = Inr rows" by (auto simp: is_ok_iff)
  let ?seq = "sort_key ts_of (filter (\<lambda>r. now - days * 86400000 \<le> ts_of r) rows)"
  have "\<exists>y. bin_stat ez ?seq b = Some y \<and> stats_ok (length ?seq) b y"
    if "b \<in> set (parse_edges float_of edges)" for b
    using that assms by (intro bin_stat_Some) simp_all
  from those_map_Some [of "parse_edges float_of edges" "bin_stat ez ?seq" "stats_ok (length ?seq)", OF this]
  obtain ys where ys: "those (map (bin_stat ez ?seq) (parse_edges float_of edges)) = Some ys"
    "list_all2 (stats_ok (length ?seq)) (parse_edges float_of edges) ys" by blast
  from False rows have "api_stats_bins db float_of now pair days ez edges
      = Some (Inr \<lparr>r_pair = pair, r_days = days, r_exit_z = ez, r_stats = ys\<rparr>)"
    by (simp add: api_stats_bins_def Let_def ys(1))
  with rows ys(2) show ?thesis by simp
qed


section \<open>Worked examples\<close>

text \<open>
  A parser for the decimal literals the dashboard sends (\<^verbatim>\<open>1.5\<close>, \<^verbatim>\<open>2\<close>), to
  instantiate \<open>float_of\<close>; the series of the specification's round trip, one
  entry at \<open>|z| = 2\<close> that takes 3 s to fall to \<open>|z| \<le> 0.5\<close>; and a
  series of two samples on which a request with \<^verbatim>\<open>exit_z=2\<close> does not answer.
\<close>

definition digit_of :: "char \<Rightarrow> nat option" where
  "digit_of c = (let n = (of_char c :: nat) in if 48 \<le> n \<and> n \<le> 57 then Some (n - 48) else None)"

definition digits_of :: "string \<Rightarrow> nat option" where
  "digits_of s = map_option (foldl (\<lambda>a d. 10 * a + d) 0) (those (map digit_of s))"

definition decimal_of :: "string \<Rightarrow> real option" where
  "decimal_of s =
     (let a = takeWhile (\<lambda>c. c \<noteq> CHR ''.'') s; b = drop 1 (dropWhile (\<lambda>c. c \<noteq> CHR ''.'') s)
      in if a = [] \<and> b = [] then None
         else case (digits_of a, digits_of b) of
                (Some x, Some y) \<Rightarrow> Some (real x + real y / 10 ^ length b)
              | _ \<Rightarrow> None)"

definition zrow :: "string \<Rightarrow> int \<Rightarrow> real \<Rightarrow> payload" where
  "zrow p t z = [(''pair'', JStr p), (''ts_ms'', JInt t), (''z'', JNum z)]"

definition trip_db :: "unit db" where
  "trip_db = \<lparr>tbl_cols = map (\<lambda>c. (c, declared_type c)) EXPECTED_COLUMNS,
      tbl_rows = [zrow ''BTC'' 0 0, zrow ''BTC'' 1000 2, zrow ''BTC'' 2000 1, zrow ''BTC'' 4000 (2 / 5)],
      admin_row = None\<rparr>"

definition trip_env :: bin_env where
  "trip_env = \<lparr>lo = 3 / 2, hi = Some (5 / 2), exit_z = 1 / 2, absz = [0, 2, 1, 2 / 5],
      tms = [0, 1000, 2000, 4000], countdown = [None, None, None, None]\<rparr>"

definition hang_db :: "unit db" where
  "hang_db = \<lparr>tbl_cols = map (\<lambda>c. (c, declared_type c)) EXPECTED_COLUMNS,
      tbl_rows = [zrow ''BTC'' 0 0, zrow ''BTC'' 1000 (8 / 5)], admin_row = None\<rparr>"

definition hang_env :: bin_env where
  "hang_env = \<lparr>lo = 3 / 2, hi = Some 2, exit_z = 2, absz = [0, 8 / 5],
      tms = [0, 1000], countdown = [None, None]\<rparr>"

lemma decimal_of_examples:
  "decimal_of ''1.5'' = Some (3 / 2)" "decimal_of ''2'' = Some 2" "decimal_of ''2.5'' = Some (5 / 2)"
  "decimal_of ''3'' = Some 3" "decimal_of ''abc'' = None"
  by (simp_all add: decimal_of_def digits_of_def digit_of_def Let_def)

lemma split_commas_examples:
  "split_commas ''1.5,2,2.5,3'' = [''1.5'', ''2'', ''2.5'', ''3'']"
  "split_commas ''3,,1.5'' = [''3'', [], ''1.5'']" "split_commas [] = [[]]"
  "split_commas ''abc,2'' = [''abc'', ''2'']"
  by (simp_all add: split_commas_def)

lemma parse_edges_examples:
  "parse_edges decimal_of ''1.5,2,2.5,3'' = default_bins"
  "parse_edges decimal_of ''3,,1.5'' = [(3 / 2, Some 3), (3, None)]"
  "parse_edges decimal_of ''abc,2'' = default_bins"
  "parse_edges decimal_of [] = []"
  by (simp_all add: parse_edges_def floats_of_def split_commas_examples decimal_of_examples
      bins_of_def default_bins_def upt_rec)

theorem parse_edges_bins_witness:
  "parse_edges decimal_of ''3,,1.5'' = [(3 / 2, Some 3), (3, None)]
   \<and> floats_of decimal_of (filter (\<lambda>x. x \<noteq> []) (split_commas ''3,,1.5'')) = Some [3, 3 / 2]
   \<and> parse_edges decimal_of ''abc,2'' = default_bins"
  using parse_edges_bins [of decimal_of "''3,,1.5''"] parse_edges_bins [of decimal_of "''abc,2''"]
  by (simp add: parse_edges_examples floats_of_def split_commas_examples decimal_of_examples)


lemma trip_scan: "scan_bin trip_env 1 [] [] = Some ([3], [])"
proof -
  have e: "enter trip_env 1" "\<not> enter trip_env 3"
    by (simp_all add: enter_def trip_env_def)
  have "first_exit [0, 2, 1, 2 / 5] (1 / 2) (Suc 0) = Some (Suc (Suc (Suc 0)))"
    by (simp add: first_exit_skip first_exit_here)
  then have "first_exit (absz trip_env) (exit_z trip_env) 1 = Some 3"
    by (simp add: trip_env_def eval_nat_numeral)
  with e have s: "scan_step trip_env (Suc 0) [] [] = (3, [3], [])" "scan_step trip_env 3 [3] [] = (4, [3], [])"
    by (simp_all add: scan_step_def) (simp add: trip_env_def)
  have n: "length (absz trip_env) = 4" by (simp add: trip_env_def)
  have 4: "scan_bin trip_env 4 [3] [] = Some ([3], [])"
    by (subst scan_bin.simps) (simp add: n)
  have 3: "scan_bin trip_env 3 [3] [] = Some ([3], [])"
    by (subst scan_bin.simps) (simp add: n s 4)
  show ?thesis
    by (subst scan_bin.simps) (simp add: n s 3)
qed

theorem scan_bin_terminates_witness:
  "exit_z trip_env < lo trip_env \<and> scan_bin trip_env 1 [] [] = Some ([3], [])"
  using scan_bin_terminates [of trip_env] trip_scan by (simp add: trip_env_def)

theorem scan_bin_never_returns_witness:
  "enter hang_env 1 \<and> absz hang_env ! 1 \<le> exit_z hang_env \<and> scan_bin hang_env 1 [] [] = None"
proof -
  have "1 < length (absz hang_env)" "enter hang_env 1" "absz hang_env ! 1 \<le> exit_z hang_env"
    by (simp_all add: hang_env_def enter_def)
  with scan_bin_never_returns [of 1 hang_env "[]" "[]"] show ?thesis by simp
qed

lemma demo_rows:
  "get_spreads trip_db ''BTC'' 10000 = Inr (map (project spreads_columns)
     [zrow ''BTC'' 4000 (2 / 5), zrow ''BTC'' 2000 1, zrow ''BTC'' 1000 2, zrow ''BTC'' 0 0])"
  "get_spreads hang_db ''BTC'' 10000 = Inr (map (project spreads_columns)
     [zrow ''BTC'' 1000 (8 / 5), zrow ''BTC'' 0 0])"
proof -
  have t: "ts_of (zrow p t z) = t" "dict_get (zrow p t z) ''pair'' = JStr p" for p t z
    by (simp_all add: zrow_def ts_of_def)
  have "has_columns trip_db (''pair'' # spreads_columns)" "has_columns hang_db (''pair'' # spreads_columns)"
    by (simp_all add: columns_eq has_columns_def list_all_iff trip_db_def hang_db_def image_image)
  then show
    "get_spreads trip_db ''BTC'' 10000 = Inr (map (project spreads_columns)
       [zrow ''BTC'' 4000 (2 / 5), zrow ''BTC'' 2000 1, zrow ''BTC'' 1000 2, zrow ''BTC'' 0 0])"
    "get_spreads hang_db ''BTC'' 10000 = Inr (map (project spreads_columns)
       [zrow ''BTC'' 1000 (8 / 5), zrow ''BTC'' 0 0])"
    by (simp_all add: get_spreads_value) (simp_all add: trip_db_def hang_db_def t)
qed

lemma zrow_fields:
  "ts_of (project spreads_columns (zrow p t z)) = t"
  "num_field (project spreads_columns (zrow p t z)) ''z'' = Some z"
  "num_field (project spreads_columns (zrow p t z)) ''fr_countdown_ms'' = None"
proof -
  have "''z'' \<in> set spreads_columns" "''fr_countdown_ms'' \<in> set spreads_columns"
    by (simp_all add: spreads_columns_def)
  then show "ts_of (project spreads_columns (zrow p t z)) = t"
    "num_field (project spreads_columns (zrow p t z)) ''z'' = Some z"
    "num_field (project spreads_columns (zrow p t z)) ''fr_countdown_ms'' = None"
    by (simp_all add: num_field_def) (simp_all add: zrow_def ts_of_def)
qed


lemma scan_bin_no_entry:
  assumes "\<forall>x\<in>set (absz env). x < lo env"
  shows "scan_bin env i samples prob = Some (samples, prob)"
proof (induction "length (absz env) - i" arbitrary: i rule: less_induct)
  case less
  show ?case
  proof (cases "i < length (absz env)")
    case True
    with assms have "\<not> enter env i" by (auto simp: enter_def not_le)
    then have "scan_step env i samples prob = (i + 1, samples, prob)" by (simp add: scan_step_def)
    moreover from True have "scan_bin env (i + 1) samples prob = Some (samples, prob)"
      by (intro less) simp
    ultimately show ?thesis using True by (subst scan_bin.simps) simp
  next
    case False
    then show ?thesis by (subst scan_bin.simps) simp
  qed
qed

lemma trip_seq:
  "sort_key ts_of (filter (\<lambda>r. 5000 - 7 * 86400000 \<le> ts_of r) (map (project spreads_columns)
     [zrow ''BTC'' 4000 (2 / 5), zrow ''BTC'' 2000 1, zrow ''BTC'' 1000 2, zrow ''BTC'' 0 0]))
   = [project spreads_columns (zrow ''BTC'' 0 0), project spreads_columns (zrow ''BTC'' 1000 2),
      project spreads_columns (zrow ''BTC'' 2000 1), project spreads_columns (zrow ''BTC'' 4000 (2 / 5))]"
  by (simp add: zrow_fields(1) del: ts_of_project)

lemma trip_bin_stats:
  "bin_stat (1 / 2)
     [project spreads_columns (zrow ''BTC'' 0 0), project spreads_columns (zrow ''BTC'' 1000 2),
      project spreads_columns (zrow ''BTC'' 2000 1), project spreads_columns (zrow ''BTC'' 4000 (2 / 5))]
     (3 / 2, Some (5 / 2))
   = Some (stats_of (3 / 2, Some (5 / 2)) [3] [])"
  "bin_stat (1 / 2)
     [project spreads_columns (zrow ''BTC'' 0 0), project spreads_columns (zrow ''BTC'' 1000 2),
      project spreads_columns (zrow ''BTC'' 2000 1), project spreads_columns (zrow ''BTC'' 4000 (2 / 5))]
     (5 / 2, None)
   = Some (stats_of (5 / 2, None) [] [])"
  using trip_scan
  by (simp_all add: bin_stat_def zrow_fields scan_bin_no_entry trip_env_def del: ts_of_project)

theorem api_stats_bins_answers_witness:
  "api_stats_bins trip_db decimal_of 5000 ''BTC'' 7 (1 / 2) ''1.5,2.5''
     = Some (Inr \<lparr>r_pair = ''BTC'', r_days = 7, r_exit_z = 1 / 2,
         r_stats = [\<lparr>bin_lo = 3 / 2, bin_hi = Some (5 / 2), n_samples = 1, p25_s = Some 3,
                      median_s = Some 3, p75_s = Some 3, p90_s = Some 3, prob_exit_before_funding = None\<rparr>,
                    \<lparr>bin_lo = 5 / 2, bin_hi = None, n_samples = 0, p25_s = None,
                      median_s = None, p75_s = None, p90_s = None, prob_exit_before_funding = None\<rparr>]\<rparr>)"
proof -
  have b: "parse_edges decimal_of ''1.5,2.5'' = [(3 / 2, Some (5 / 2)), (5 / 2, None)]"
    by (simp add: parse_edges_def floats_of_def split_commas_def decimal_of_examples bins_of_def upt_rec)
  have "api_stats_bins trip_db decimal_of 5000 ''BTC'' 7 (1 / 2) ''1.5,2.5''
     = Some (Inr \<lparr>r_pair = ''BTC'', r_days = 7, r_exit_z = 1 / 2,
         r_stats = [stats_of (3 / 2, Some (5 / 2)) [3] [], stats_of (5 / 2, None) [] []]\<rparr>)"
    unfolding api_stats_bins_def demo_rows b Let_def sum.case trip_seq
    by (simp add: trip_bin_stats del: ts_of_project)
  with api_stats_bins_answers [of decimal_of "''1.5,2.5''" "1 / 2" trip_db 5000 "''BTC''" 7]
  show ?thesis by (simp add: stats_of_def pct_def Let_def b)
qed

text \<open>
  A request for the bin statistics with the default edges and
  \<^verbatim>\<open>exit_z=2\<close> does not answer when the series holds a sample with
  \<open>|z| = 1.6\<close> after one with \<open>|z| = 0\<close>: the sample enters the bin
  \<open>[1.5, 2)\<close> at or below the exit threshold.
\<close>

theorem api_stats_bins_hangs:
  "api_stats_bins hang_db decimal_of 5000 ''BTC'' 7 2 ''1.5,2,2.5,3'' = None"
proof -
  let ?seq = "[project spreads_columns (zrow ''BTC'' 0 0), project spreads_columns (zrow ''BTC'' 1000 (8 / 5))]"
  have seq: "sort_key ts_of (filter (\<lambda>r. 5000 - 7 * 86400000 \<le> ts_of r) (map (project spreads_columns)
     [zrow ''BTC'' 1000 (8 / 5), zrow ''BTC'' 0 0])) = ?seq"
    by (simp add: zrow_fields(1) del: ts_of_project)
  have "1 < length (absz hang_env)" "enter hang_env 1" "absz hang_env ! 1 \<le> exit_z hang_env"
    by (simp_all add: hang_env_def enter_def)
  then have "scan_bin hang_env 1 [] [] = None"
    by (intro scan_bin_stuck scan_step_stuck)
  then have bs: "bin_stat 2 ?seq (3 / 2, Some 2) = None"
    by (simp add: bin_stat_def zrow_fields hang_env_def del: ts_of_project)
  show ?thesis
    unfolding api_stats_bins_def demo_rows parse_edges_examples Let_def sum.case seq
    by (simp add: default_bins_def bs del: ts_of_project)
qed

end
