(* ===== verification/Simulator.thy ===== *)
theory Simulator
  imports Models
begin

text \<open>
  The execution simulator of the panel server: \<^verbatim>\<open>_avg_exec_price\<close> and
  \<^verbatim>\<open>api_simulate\<close> of \<^verbatim>\<open>src/arb/panel/server.py\<close>. A level of an order book
  is a pair of price and quantity. Everything the endpoint awaits (two mid
  prices, two books, the fees of the venue that serves them) is an argument,
  the record \<open>sim_io\<close>; the endpoint also writes the market ids it resolves
  back into the configured pairs, which are therefore returned with the
  answer.
\<close>

section \<open>Walking the book\<close>

type_synonym level = "real \<times> real"

datatype side = Buy | Sell

fun walk :: "level list \<Rightarrow> real \<Rightarrow> real \<Rightarrow> real \<Rightarrow> real \<times> real \<times> real" where
  "walk [] remaining total_quote filled = (remaining, total_quote, filled)"
| "walk ((price, qty) # seq) remaining total_quote filled =
     (if remaining \<le> 0 then (remaining, total_quote, filled)
      else let take = min remaining qty
           in walk seq (remaining - take) (total_quote + take * price) (filled + take))"

definition avg_exec_price :: "level list \<Rightarrow> real \<Rightarrow> side \<Rightarrow> real \<times> real" where
  "avg_exec_price levels base_qty sd =
     (let seq = (if sd = Buy then levels else levels);
          (remaining, total_quote, filled) = walk seq base_qty 0 0;
          avg = (if 0 < filled then total_quote / filled else 0)
      in (avg, filled))"

section \<open>The endpoint\<close>

record book =
  bids :: "level list"
  asks :: "level list"

record sim_io =
  sim_mid_a :: "real result"
  sim_mid_b :: "real result"
  sim_levels_a :: "book result"
  sim_levels_b :: "book result"
  sim_fees_a :: "real option result"
  sim_fees_b :: "real option result"

record sim_result =
  r_mid_a :: real
  r_mid_b :: real
  avg_a :: real
  avg_b :: real
  slip_a_pct :: real
  slip_b_pct :: real
  slip_a_usd :: real
  slip_b_usd :: real
  fee_a_usd :: real
  fee_b_usd :: real
  total_cost_usd :: real
  filled_base_a :: real
  filled_base_b :: real

definition find_pair :: "Pair list \<Rightarrow> string \<Rightarrow> Pair option" where
  "find_pair pairs name = find (\<lambda>p. pair_name p = name) pairs"

definition resolve_market :: "(string \<rightharpoonup> int) \<Rightarrow> Market \<Rightarrow> Market" where
  "resolve_market lighter_map m =
     (if exchange m = ''lighter'' \<and> market_id m = None
      then m\<lparr>market_id := lighter_map (symbol m)\<rparr> else m)"

fun store_pair :: "Pair list \<Rightarrow> Pair \<Rightarrow> Pair list" where
  "store_pair [] pd = []"
| "store_pair (p # ps) pd = (if pair_name p = pair_name pd then pd # ps else p # store_pair ps pd)"

definition sides_of :: "string \<Rightarrow> (side \<times> side) result" where
  "sides_of pattern =
     (if pattern = ''enter_short_A_long_B'' then Inr (Sell, Buy)
      else if pattern = ''enter_long_A_short_B'' then Inr (Buy, Sell)
      else Inl (HTTPException 400 ''invalid pattern''))"

definition slip_pct :: "real \<Rightarrow> real \<Rightarrow> real" where
  "slip_pct avg mid = (if 0 < avg then \<bar>avg - mid\<bar> / mid else 0)"

definition taker_of :: "real option \<Rightarrow> Market \<Rightarrow> real option result \<Rightarrow> real result" where
  "taker_of fees_aster m io_fees =
     (if exchange m = ''lighter''
      then bind_result io_fees (\<lambda>t. Inr (or_else t 0))
      else Inr (or_else fees_aster 0))"

definition py_div :: "real \<Rightarrow> real \<Rightarrow> real result" where
  "py_div x y = (if y = 0 then Inl ZeroDivisionError else Inr (x / y))"

definition sim_costs ::
  "real \<Rightarrow> real \<Rightarrow> real \<Rightarrow> book \<Rightarrow> book \<Rightarrow> side \<times> side \<Rightarrow> real \<Rightarrow> real \<Rightarrow> sim_result" where
  "sim_costs notional_usd mid_a mid_b levels_a levels_b sides taker_a taker_b =
     (let (side_a, side_b) = sides;
          base_qty_a = notional_usd / mid_a;
          base_qty_b = notional_usd / mid_b;
          (av_a, filled_a) = avg_exec_price (if side_a = Buy then asks levels_a else bids levels_a) base_qty_a side_a;
          (av_b, filled_b) = avg_exec_price (if side_b = Buy then asks levels_b else bids levels_b) base_qty_b side_b;
          sp_a = slip_pct av_a mid_a;
          sp_b = slip_pct av_b mid_b;
          su_a = sp_a * notional_usd;
          su_b = sp_b * notional_usd;
          fu_a = taker_a * notional_usd;
          fu_b = taker_b * notional_usd
      in \<lparr>r_mid_a = mid_a, r_mid_b = mid_b, avg_a = av_a, avg_b = av_b,
          slip_a_pct = sp_a, slip_b_pct = sp_b, slip_a_usd = su_a, slip_b_usd = su_b,
          fee_a_usd = fu_a, fee_b_usd = fu_b,
          total_cost_usd = su_a + su_b + fu_a + fu_b,
          filled_base_a = filled_a, filled_base_b = filled_b\<rparr>)"

definition simulate ::
  "real option \<Rightarrow> Pair \<Rightarrow> real \<Rightarrow> string \<Rightarrow> sim_io \<Rightarrow> sim_result result" where
  "simulate fees_aster pd notional_usd pattern io =
     (if exchange (leg_a pd) \<notin> {''lighter'', ''aster''} then Inl (KeyError (exchange (leg_a pd)))
      else bind_result (sim_mid_a io) (\<lambda>mid_a.
      if exchange (leg_b pd) \<notin> {''lighter'', ''aster''} then Inl (KeyError (exchange (leg_b pd)))
      else bind_result (sim_mid_b io) (\<lambda>mid_b.
      bind_result (py_div notional_usd mid_a) (\<lambda>base_qty_a.
      bind_result (py_div notional_usd mid_b) (\<lambda>base_qty_b.
      bind_result (sim_levels_a io) (\<lambda>levels_a.
      bind_result (sim_levels_b io) (\<lambda>levels_b.
      bind_result (sides_of pattern) (\<lambda>sides.
      bind_result (taker_of fees_aster (leg_a pd) (sim_fees_a io)) (\<lambda>taker_a.
      bind_result (taker_of fees_aster (leg_b pd) (sim_fees_b io)) (\<lambda>taker_b.
        Inr (sim_costs notional_usd mid_a mid_b levels_a levels_b sides taker_a taker_b)))))))))))"

definition api_simulate ::
  "Pair list \<Rightarrow> (string \<rightharpoonup> int) \<Rightarrow> real option \<Rightarrow> string \<Rightarrow> real \<Rightarrow> string \<Rightarrow> sim_io
     \<Rightarrow> sim_result result \<times> Pair list" where
  "api_simulate pairs lighter_map fees_aster pair notional_usd pattern io =
     (case find_pair pairs pair of
        None \<Rightarrow> (Inl (HTTPException 404 ''pair not configured''), pairs)
      | Some pdef \<Rightarrow>
          let pd = pdef\<lparr>leg_a := resolve_market lighter_map (leg_a pdef),
                        leg_b := resolve_market lighter_map (leg_b pdef)\<rparr>
          in (simulate fees_aster pd notional_usd pattern io, store_pair pairs pd))"

lemmas simulator_defs [arb_unfold] =
  avg_exec_price_def find_pair_def resolve_market_def sides_of_def slip_pct_def
  taker_of_def py_div_def sim_costs_def simulate_def api_simulate_def


section \<open>Properties of the walk\<close>

definition depth :: "level list \<Rightarrow> real" where
  "depth levels = (\<Sum>(price, qty)\<leftarrow>levels. qty)"

definition levels_ok :: "real \<Rightarrow> real \<Rightarrow> level list \<Rightarrow> bool" where
  "levels_ok pl pu levels \<longleftrightarrow> list_all (\<lambda>(price, qty). 0 \<le> qty \<and> pl \<le> price \<and> price \<le> pu) levels"

lemma depth_simps [simp]: "depth [] = 0" "depth ((price, qty) # seq) = qty + depth seq"
  by (simp_all add: depth_def)

lemma depth_nonneg: "levels_ok pl pu levels \<Longrightarrow> 0 \<le> depth levels"
  by (induction levels) (auto simp: levels_ok_def)

lemma walk_side [simp]: "avg_exec_price levels base_qty Sell = avg_exec_price levels base_qty Buy"
  by (simp add: avg_exec_price_def)

lemma walk_fill:
  assumes "levels_ok pl pu seq" "0 \<le> remaining" "walk seq remaining total_quote filled = (r', t', f')"
  shows "f' - filled = min remaining (depth seq) \<and> r' = remaining - (f' - filled)
     \<and> pl * (f' - filled) \<le> t' - total_quote \<and> t' - total_quote \<le> pu * (f' - filled)"
  using assms
proof (induction seq arbitrary: remaining total_quote filled)
  case Nil
  then show ?case by simp
next
  case (Cons l seq)
  obtain price qty where l: "l = (price, qty)" by (cases l)
  from Cons.prems(1) l have q: "0 \<le> qty" "pl \<le> price" "price \<le> pu" and ok: "levels_ok pl pu seq"
    by (simp_all add: levels_ok_def)
  show ?case
  proof (cases "remaining \<le> 0")
    case True
    with Cons.prems(2,3) l q(1) depth_nonneg [OF ok] show ?thesis by (simp add: min_def)
  next
    case False
    let ?take = "min remaining qty"
    from False q(1) have tk: "0 \<le> ?take" "?take \<le> remaining" by simp_all
    from Cons.prems(3) l False
    have w: "walk seq (remaining - ?take) (total_quote + ?take * price) (filled + ?take) = (r', t', f')"
      by (simp add: Let_def)
    from tk have "0 \<le> remaining - ?take" by simp
    note ih0 = Cons.IH [OF ok this w]
    have ih: "f' - (filled + ?take) = min (remaining - ?take) (depth seq)"
      "r' = remaining - ?take - (f' - (filled + ?take))"
      "pl * (f' - (filled + ?take)) \<le> t' - (total_quote + ?take * price)"
      "t' - (total_quote + ?take * price) \<le> pu * (f' - (filled + ?take))"
      using ih0 by blast+
    from q(2) tk(1) have "pl * ?take \<le> price * ?take" by (rule mult_right_mono)
    moreover from q(3) tk(1) have "price * ?take \<le> pu * ?take" by (rule mult_right_mono)
    ultimately have "pl * ?take \<le> ?take * price" "?take * price \<le> pu * ?take"
      by (simp_all only: mult.commute [of ?take price])
    with ih have "pl * (f' - filled) \<le> t' - total_quote" "t' - total_quote \<le> pu * (f' - filled)"
      by (simp_all add: algebra_simps)
    moreover from ih(1) depth_nonneg [OF ok] q(1) have "f' - filled = min remaining (depth (l # seq))"
      by (simp add: l min_def split: if_splits)
    moreover from ih(2) have "r' = remaining - (f' - filled)" by simp
    ultimately show ?thesis by simp
  qed
qed

text \<open>
  C26 (functional): the simulated execution. On a book whose quantities are
  not negative, an order of size \<open>base_qty \<ge> 0\<close> fills
  \<open>min base_qty depth\<close>; when anything is filled the average execution
  price lies between the lowest and the highest price of the book, and when
  nothing is filled it is reported as 0. The side is not used.
\<close>

theorem avg_exec_price_fill:
  assumes "levels_ok pl pu levels" "0 \<le> base_qty"
  shows "snd (avg_exec_price levels base_qty sd) = min base_qty (depth levels)
     \<and> (0 < snd (avg_exec_price levels base_qty sd) \<longrightarrow>
           pl \<le> fst (avg_exec_price levels base_qty sd) \<and> fst (avg_exec_price levels base_qty sd) \<le> pu)
     \<and> (snd (avg_exec_price levels base_qty sd) = 0 \<longrightarrow> fst (avg_exec_price levels base_qty sd) = 0)
     \<and> avg_exec_price levels base_qty Sell = avg_exec_price levels base_qty Buy"
proof -
  obtain r t f where w: "walk levels base_qty 0 0 = (r, t, f)" by (metis prod_cases3)
  note f0 = walk_fill [OF assms w, simplified diff_zero]
  have f: "f = min base_qty (depth levels)" "pl * f \<le> t" "t \<le> pu * f"
    using f0 by blast+
  have a: "avg_exec_price levels base_qty sd = (if 0 < f then t / f else 0, f)"
    by (simp add: avg_exec_price_def w)
  from f(2,3) have "pl \<le> t / f \<and> t / f \<le> pu" if "0 < f"
    using that by (simp add: pos_le_divide_eq pos_divide_le_eq)
  with f(1) show ?thesis by (simp add: a)
qed

theorem avg_exec_price_fill_witness:
  "avg_exec_price [(100, 1), (99, 2)] (150 / 100) Sell = (299 / 3, 3 / 2)
   \<and> levels_ok 99 100 [(100, 1), (99, 2)] \<and> depth [(100, 1), (99, 2)] = 3
   \<and> slip_pct (299 / 3) 100 = 1 / 300"
  using avg_exec_price_fill [of 99 100 "[(100, 1), (99, 2)]" "150 / 100" Sell]
  by (simp add: avg_exec_price_def levels_ok_def slip_pct_def Let_def)


section \<open>Errors of the endpoint\<close>

lemma api_simulate_unknown_pair:
  "find_pair pairs pair = None \<Longrightarrow>
     api_simulate pairs lighter_map fees_aster pair notional_usd pattern io
       = (Inl (HTTPException 404 ''pair not configured''), pairs)"
  by (simp add: api_simulate_def)

lemma simulate_zero_mid:
  assumes "exchange (leg_a pd) \<in> {''lighter'', ''aster''}" "exchange (leg_b pd) \<in> {''lighter'', ''aster''}"
    and "sim_mid_a io = Inr mid_a" "sim_mid_b io = Inr mid_b" "mid_a = 0 \<or> mid_b = 0"
  shows "simulate fees_aster pd notional_usd pattern io = Inl ZeroDivisionError"
  using assms by (auto simp: simulate_def py_div_def)

lemma simulate_invalid_pattern:
  assumes "exchange (leg_a pd) \<in> {''lighter'', ''aster''}" "exchange (leg_b pd) \<in> {''lighter'', ''aster''}"
    and "sim_mid_a io = Inr mid_a" "sim_mid_b io = Inr mid_b" "mid_a \<noteq> 0" "mid_b \<noteq> 0"
    and "sim_levels_a io = Inr la" "sim_levels_b io = Inr lb"
    and "pattern \<noteq> ''enter_short_A_long_B''" "pattern \<noteq> ''enter_long_A_short_B''"
  shows "simulate fees_aster pd notional_usd pattern io = Inl (HTTPException 400 ''invalid pattern'')"
  using assms by (simp add: simulate_def py_div_def sides_of_def)

section \<open>A book thinner than the order\<close>

definition thin_pairs :: "Pair list" where
  "thin_pairs = [\<lparr>pair_name = ''BTC'',
      leg_a = \<lparr>exchange = ''aster'', symbol = ''BTCUSDT'', market_id = None\<rparr>,
      leg_b = \<lparr>exchange = ''lighter'', symbol = ''BTC'', market_id = None\<rparr>\<rparr>]"

definition thin_io :: sim_io where
  "thin_io = \<lparr>sim_mid_a = Inr 100, sim_mid_b = Inr 100,
      sim_levels_a = Inr \<lparr>bids = [(100, 1)], asks = [(101, 1)]\<rparr>,
      sim_levels_b = Inr \<lparr>bids = [], asks = []\<rparr>,
      sim_fees_a = Inr None, sim_fees_b = Inr (Some 0)\<rparr>"

text \<open>
  The simulator does not notice a book that cannot fill
  the order. For a notional of 1000 at a mid price of 100 the order is 10
  units on either leg; with one unit bid at 100 on venue A and an empty book
  on venue B the answer reports one unit filled on A, none on B, no slippage
  on either leg and a total cost of the taker fee alone. The market id
  resolved for the second leg is written back to the configured pair.
\<close>

theorem simulate_thin_book:
  "api_simulate thin_pairs [''BTC'' \<mapsto> 1] (Some (5 / 10000)) ''BTC'' 1000 ''enter_short_A_long_B'' thin_io
     = (Inr \<lparr>r_mid_a = 100, r_mid_b = 100, avg_a = 100, avg_b = 0, slip_a_pct = 0, slip_b_pct = 0,
              slip_a_usd = 0, slip_b_usd = 0, fee_a_usd = 1 / 2, fee_b_usd = 0, total_cost_usd = 1 / 2,
              filled_base_a = 1, filled_base_b = 0\<rparr>,
        [\<lparr>pair_name = ''BTC'',
          leg_a = \<lparr>exchange = ''aster'', symbol = ''BTCUSDT'', market_id = None\<rparr>,
          leg_b = \<lparr>exchange = ''lighter'', symbol = ''BTC'', market_id = Some 1\<rparr>\<rparr>])"
  by (simp add: api_simulate_def find_pair_def thin_pairs_def resolve_market_def simulate_def
      thin_io_def py_div_def sides_of_def taker_of_def sim_costs_def avg_exec_price_def slip_pct_def
      Let_def)

end
