(* ===== verification/Connector_Base.thy ===== *)
theory Connector_Base
  imports Models Json Rate_Limiter
begin

text \<open>
  The abstract connector of \<^verbatim>\<open>src/arb/connectors/base.py\<close> and what its two
  subclasses share. The class \<^verbatim>\<open>Connector\<close> is a record that the subclasses
  extend. The rate limiter is one object shared by all connectors and by the
  admin endpoint of the panel, so it is not a field: a connector records only
  whether it was given one (\<open>has_limiter\<close>), and every method takes the
  limiter and returns it as it is after the call. The HTTP session is
  \<open>session_st\<close>. What the venue answers is an argument of each method, of
  type \<open>json result\<close>: the parsed body, or the exception raised by the
  request, by \<^verbatim>\<open>raise_for_status\<close> or by the JSON decoder. The outcome of an
  awaited method is a \<open>call\<close>: the value or exception, the connector and the
  limiter afterwards, the time at which the limiter released the call, and
  the requests sent; \<open>None\<close> in its place means that the limiter never
  released the call.
\<close>

section \<open>The base class\<close>

datatype session_state = No_session | Open_session | Closed_session

record Connector =
  name :: string
  config :: "(string \<times> json) list"
  has_limiter :: bool
  session_st :: session_state

definition Connector_init :: "string \<Rightarrow> (string \<times> json) list option \<Rightarrow> bool \<Rightarrow> Connector" where
  "Connector_init nm cfg limiter =
     \<lparr>name = nm, config = (case cfg of None \<Rightarrow> [] | Some c \<Rightarrow> c),
      has_limiter = limiter, session_st = No_session\<rparr>"

definition session :: "'a Connector_scheme \<Rightarrow> 'a Connector_scheme" where
  "session c = (if session_st c = No_session \<or> session_st c = Closed_session
                then c\<lparr>session_st := Open_session\<rparr> else c)"

definition close :: "'a Connector_scheme \<Rightarrow> 'a Connector_scheme" where
  "close c = (if session_st c \<noteq> No_session \<and> session_st c \<noteq> Closed_session
              then c\<lparr>session_st := Closed_session\<rparr> else c)"

definition create_order :: "'a Connector_scheme \<Rightarrow> unit result" where
  "create_order c = Inl NotImplementedError"

definition cancel_order :: "'a Connector_scheme \<Rightarrow> unit result" where
  "cancel_order c = Inl NotImplementedError"

section \<open>Requests and calls\<close>

record http_request =
  url :: string
  params :: "(string \<times> json) list"

record ('a, 'c) call =
  c_ret :: "'a result"
  c_conn :: 'c
  c_lim :: RateLimiter
  c_at :: real
  c_sent :: "http_request list"

text \<open>\<^verbatim>\<open>host.rstrip("/")\<close>.\<close>

definition rstrip_slash :: "string \<Rightarrow> string" where
  "rstrip_slash s = rev (dropWhile (\<lambda>c. c = CHR ''/'') (rev s))"

text \<open>\<^verbatim>\<open>if self.limiter: await self.limiter.allow(exchange, endpoint, 1)\<close>.\<close>

definition limited ::
  "(nat \<Rightarrow> real) \<Rightarrow> 'a Connector_scheme \<Rightarrow> RateLimiter \<Rightarrow> string \<Rightarrow> string \<Rightarrow> real
     \<Rightarrow> (RateLimiter \<times> real) option" where
  "limited lag c rl exch endpoint now =
     (if has_limiter c then allow lag rl exch endpoint 1 now else Some (rl, now))"

text \<open>
  The frame of a limited method: wait for the limiter, open the connector's
  session, send the request, and run the body of the method on the answer.
  \<open>fetch_direct\<close> is the frame of the methods that open a session of their
  own and do not ask the limiter.
\<close>

definition fetch ::
  "(nat \<Rightarrow> real) \<Rightarrow> 'c Connector_scheme \<Rightarrow> RateLimiter \<Rightarrow> string \<Rightarrow> string \<Rightarrow> real \<Rightarrow> http_request
     \<Rightarrow> json result \<Rightarrow> (json \<Rightarrow> 'a result) \<Rightarrow> ('a, 'c Connector_scheme) call option" where
  "fetch lag c rl exch endpoint now req resp body =
     (case limited lag c rl exch endpoint now of
        None \<Rightarrow> None
      | Some (rl', t) \<Rightarrow>
          Some \<lparr>c_ret = bind_result resp body, c_conn = session c, c_lim = rl', c_at = t, c_sent = [req]\<rparr>)"

definition fetch_direct ::
  "'c \<Rightarrow> RateLimiter \<Rightarrow> real \<Rightarrow> http_request \<Rightarrow> json result \<Rightarrow> (json \<Rightarrow> 'a result) \<Rightarrow> ('a, 'c) call" where
  "fetch_direct c rl now req resp body =
     \<lparr>c_ret = bind_result resp body, c_conn = c, c_lim = rl, c_at = now, c_sent = [req]\<rparr>"

text \<open>A method that raises before it does anything else.\<close>

definition refuse :: "'c \<Rightarrow> RateLimiter \<Rightarrow> real \<Rightarrow> py_error \<Rightarrow> ('a, 'c) call" where
  "refuse c rl now e = \<lparr>c_ret = Inl e, c_conn = c, c_lim = rl, c_at = now, c_sent = []\<rparr>"

text \<open>
  The limited calls of one connector for one bucket, in the order in which
  they reach the lock of the bucket: each call is the time at which the
  method is entered and the scheduling delays of its sleeps. The result is
  the list of the times at which the requests are sent.
\<close>

type_synonym entry = "real \<times> (nat \<Rightarrow> real)"

fun limited_run ::
  "'a Connector_scheme \<Rightarrow> RateLimiter \<Rightarrow> string \<Rightarrow> string \<Rightarrow> real \<Rightarrow> entry list
     \<Rightarrow> (real list \<times> RateLimiter) option" where
  "limited_run c rl exch endpoint free [] = Some ([], rl)"
| "limited_run c rl exch endpoint free ((entered, lag) # es) =
     (case limited lag c rl exch endpoint (max entered free) of
        None \<Rightarrow> None
      | Some (rl', t) \<Rightarrow>
          (case limited_run c rl' exch endpoint t es of
             None \<Rightarrow> None
           | Some (ts, rl'') \<Rightarrow> Some (t # ts, rl'')))"

section \<open>What an order-book summary promises\<close>

text \<open>
  The contract of \<^verbatim>\<open>get_order_book_summary\<close>, stated on the levels
  (price, quantity) of the two sides, best level first: the best prices, their
  difference, the difference relative to the mid price, and the quantity and
  notional of all levels given.
\<close>

definition depth_of :: "(real \<times> real) list \<Rightarrow> real \<times> real" where
  "depth_of ls = (\<Sum>(p, q)\<leftarrow>ls. q, \<Sum>(p, q)\<leftarrow>ls. p * q)"

definition summary_spec :: "(real \<times> real) list \<Rightarrow> (real \<times> real) list \<Rightarrow> ob_summary" where
  "summary_spec bs as =
     (let b = fst (hd bs); a = fst (hd as)
      in \<lparr>best_bid = b, best_ask = a, spread_abs = a - b, spread_pct = (a - b) / ((b + a) / 2),
          depth_qty = fst (depth_of bs) + fst (depth_of as),
          depth_notional = snd (depth_of bs) + snd (depth_of as)\<rparr>)"

lemmas connector_defs [arb_unfold] =
  Connector_init_def session_def close_def create_order_def cancel_order_def
  rstrip_slash_def limited_def fetch_def fetch_direct_def refuse_def

section \<open>The session\<close>

lemma session_open [simp]: "session_st (session c) = Open_session"
  by (cases "session_st c") (simp_all add: session_def)

lemma session_idem [simp]: "session (session c) = session c"
  by (simp add: session_def)

lemma close_not_open [simp]: "session_st (close c) \<noteq> Open_session"
  by (cases "session_st c") (simp_all add: close_def)

lemma close_idem [simp]: "close (close c) = close c"
  by (simp add: close_def)

lemma session_fields [simp]:
  "name (session c) = name c" "has_limiter (session c) = has_limiter c" "config (session c) = config c"
  "Connector.more (session c) = Connector.more c"
  by (simp_all add: session_def)

lemma rstrip_slash_idem [simp]: "rstrip_slash (rstrip_slash s) = rstrip_slash s"
proof -
  have "dropWhile (\<lambda>c. c = CHR ''/'') (dropWhile (\<lambda>c. c = CHR ''/'') xs) = dropWhile (\<lambda>c. c = CHR ''/'') xs"
    for xs :: string by (induction xs) simp_all
  then show ?thesis by (simp add: rstrip_slash_def)
qed

lemma rstrip_slash_last: "rstrip_slash s \<noteq> [] \<Longrightarrow> last (rstrip_slash s) \<noteq> CHR ''/''"
proof -
  assume "rstrip_slash s \<noteq> []"
  then have ne: "dropWhile (\<lambda>c. c = CHR ''/'') (rev s) \<noteq> []" by (simp add: rstrip_slash_def)
  then have "hd (dropWhile (\<lambda>c. c = CHR ''/'') (rev s)) \<noteq> CHR ''/''" by (rule hd_dropWhile)
  with ne show ?thesis by (simp add: rstrip_slash_def last_rev)
qed

section \<open>The limiter in front of a request\<close>

lemma limited_without [simp]: "\<not> has_limiter c \<Longrightarrow> limited lag c rl exch ep now = Some (rl, now)"
  by (simp add: limited_def)

lemma limited_with [simp]: "has_limiter c \<Longrightarrow> limited lag c rl exch ep now = allow lag rl exch ep 1 now"
  by (simp add: limited_def)

lemma depth_of_simps [simp]:
  "depth_of [] = (0, 0)"
  "depth_of ((p, q) # ls) = (q + fst (depth_of ls), p * q + snd (depth_of ls))"
  by (simp_all add: depth_of_def)

lemma depth_of_append:
  "depth_of (xs @ ys) = (fst (depth_of xs) + fst (depth_of ys), snd (depth_of xs) + snd (depth_of ys))"
  by (simp add: depth_of_def)

lemma depth_of_nonneg:
  "list_all (\<lambda>(p, q). 0 \<le> p \<and> 0 \<le> q) ls \<Longrightarrow> 0 \<le> fst (depth_of ls) \<and> 0 \<le> snd (depth_of ls)"
  by (induction ls) auto

lemma fetch_None: "fetch lag c rl exch ep now req resp body = None \<longleftrightarrow> limited lag c rl exch ep now = None"
  by (simp add: fetch_def split: option.splits)

lemma fetch_Some:
  "limited lag c rl exch ep now = Some (rl', t) \<Longrightarrow>
   fetch lag c rl exch ep now req resp body
     = Some \<lparr>c_ret = bind_result resp body, c_conn = session c, c_lim = rl', c_at = t, c_sent = [req]\<rparr>"
  by (simp add: fetch_def)

section \<open>A run of limited calls is a queue on the bucket\<close>

text \<open>The limiter with the bucket under one key replaced.\<close>

definition put_bucket :: "RateLimiter \<Rightarrow> string \<Rightarrow> TokenBucket \<Rightarrow> RateLimiter" where
  "put_bucket rl k b = rl\<lparr>buckets := (buckets rl)(k \<mapsto> b)\<rparr>"

lemma put_bucket_simps [simp]:
  "buckets (put_bucket rl k b) k = Some b"
  "k' \<noteq> k \<Longrightarrow> buckets (put_bucket rl k b) k' = buckets rl k'"
  "put_bucket (put_bucket rl k b1) k b2 = put_bucket rl k b2"
  "buckets rl k = Some b \<Longrightarrow> put_bucket rl k b = rl"
  "allow_key (put_bucket rl (allow_key rl exch ep) b) exch ep = allow_key rl exch ep"
  by (simp_all add: put_bucket_def fun_upd_idem allow_key_def)

lemma allow_configured:
  assumes "buckets rl (allow_key rl exch ep) = Some b"
  shows "allow lag rl exch ep w now
    = map_option (\<lambda>(b', t). (put_bucket rl (allow_key rl exch ep) b', t)) (consume lag b w now)"
proof -
  from assms have "allow_bucket rl exch ep now = b"
    by (auto simp: allow_bucket_def allow_key_def split: if_splits option.splits)
  then show ?thesis by (simp add: allow_def put_bucket_def split: option.splits)
qed

lemma limited_run_serve:
  assumes "has_limiter c" "buckets rl (allow_key rl exch ep) = Some b"
  shows "limited_run c rl exch ep free es
    = map_option (\<lambda>(ts, b'). (ts, put_bucket rl (allow_key rl exch ep) b'))
        (serve b free (map (\<lambda>(entered, lag). (entered, 1, lag)) es))"
  using assms(2)
proof (induction es arbitrary: rl b free)
  case Nil
  then show ?case by simp
next
  case (Cons e es)
  obtain entered lag where e: "e = (entered, lag)" by (cases e)
  let ?k = "allow_key rl exch ep"
  show ?case
  proof (cases "consume lag b 1 (max entered free)")
    case None
    with Cons.prems assms(1) e show ?thesis by (simp add: allow_configured)
  next
    case (Some r)
    obtain b1 t where r: "r = (b1, t)" by (cases r)
    have "buckets (put_bucket rl ?k b1) (allow_key (put_bucket rl ?k b1) exch ep) = Some b1" by simp
    from Cons.IH [OF this, of t] Some r Cons.prems assms(1) e show ?thesis
      by (simp add: allow_configured split: option.splits)
  qed
qed

lemma total_weight_unit: "total_weight (map (\<lambda>(entered, lag). (entered, 1, lag)) es) = real (length es)"
  by (induction es) (simp_all add: total_weight_def case_prod_beta)

lemma fair_unit:
  "list_all (\<lambda>(entered, lag). \<forall>k. 0 \<le> lag k) es
     \<Longrightarrow> fair_requests (map (\<lambda>(entered, lag). (entered, 1, lag)) es)"
  by (induction es) (simp_all add: fair_requests_def case_prod_beta)

text \<open>
  C6 (safety): the requests of a connector obey the limit of its bucket. When
  a connector with a limiter runs any sequence of limited calls against a
  configured bucket, every call that returns sends its request at the time
  the limiter releases it, the requests leave in the order of the calls, and
  their number never exceeds the capacity of the bucket plus its refill rate
  times the time that has passed; no other bucket of the limiter changes.
\<close>

theorem requests_rate_bound:
  assumes "has_limiter c" "buckets rl (allow_key rl exch ep) = Some b" "tb_inv b" "last_t b \<le> free"
    and "list_all (\<lambda>(entered, lag). \<forall>k. 0 \<le> lag k) es"
    and "limited_run c rl exch ep free es = Some (ts, rl')"
  shows "\<exists>b'. buckets rl' (allow_key rl exch ep) = Some b'
     \<and> (\<forall>k. k \<noteq> allow_key rl exch ep \<longrightarrow> buckets rl' k = buckets rl k)
     \<and> real (length es) \<le> real_of_int (capacity b) + refill_rate b * (last_t b' - last_t b)
     \<and> length ts = length es \<and> sorted ts \<and> (\<forall>t\<in>set ts. free \<le> t \<and> t \<le> last_t b') \<and> tb_inv b'"
proof -
  let ?rs = "map (\<lambda>(entered, lag). (entered, 1, lag)) es"
  from assms(6) limited_run_serve [OF assms(1,2), of free es] obtain b' where
    s: "serve b free ?rs = Some (ts, b')" and rl': "rl' = put_bucket rl (allow_key rl exch ep) b'"
    by auto
  from serve_bound_aux [OF s assms(3,4) fair_unit [OF assms(5)]]
  have w: "total_weight ?rs \<le> tokens b - tokens b' + refill_rate b * (last_t b' - last_t b)"
    and r: "tb_inv b'" "length ts = length ?rs" "\<forall>t\<in>set ts. free \<le> t \<and> t \<le> last_t b'" "sorted ts"
    by simp_all
  from assms(3) r(1) have "tokens b - tokens b' \<le> real_of_int (capacity b)"
    by (simp add: tb_inv_def)
  with w have "real (length es) \<le> real_of_int (capacity b) + refill_rate b * (last_t b' - last_t b)"
    by (simp add: total_weight_unit)
  with rl' r show ?thesis by auto
qed

section \<open>Three calls on a bucket of two tokens\<close>

definition demo_conn :: Connector where
  "demo_conn = Connector_init ''lighter'' None True"

definition demo_limiter :: RateLimiter where
  "demo_limiter = \<lparr>buckets = [''lighter:global'' \<mapsto> \<lparr>capacity = 2, refill_rate = 1, tokens = 2, last_t = 0\<rparr>]\<rparr>"

lemma demo_limited_run:
  "limited_run demo_conn demo_limiter ''lighter'' ''global'' 0 [(0, \<lambda>k. 0), (0, \<lambda>k. 0), (0, \<lambda>k. 0)]
     = Some ([0, 0, 1], put_bucket demo_limiter ''lighter:global''
                          \<lparr>capacity = 2, refill_rate = 1, tokens = 0, last_t = 1\<rparr>)"
proof -
  have k: "allow_key demo_limiter ''lighter'' ''global'' = ''lighter:global''"
    by (simp add: allow_key_def key_def demo_limiter_def)
  have b: "buckets demo_limiter (allow_key demo_limiter ''lighter'' ''global'')
      = Some \<lparr>capacity = 2, refill_rate = 1, tokens = 2, last_t = 0\<rparr>"
    by (simp add: k) (simp add: demo_limiter_def)
  have h: "has_limiter demo_conn" by (simp add: demo_conn_def Connector_init_def)
  show ?thesis
    unfolding limited_run_serve [OF h b] k by (simp add: bucket_defs Let_def)
qed

theorem requests_rate_bound_witness:
  "limited_run demo_conn demo_limiter ''lighter'' ''global'' 0 [(0, \<lambda>k. 0), (0, \<lambda>k. 0), (0, \<lambda>k. 0)]
     = Some ([0, 0, 1], put_bucket demo_limiter ''lighter:global''
                          \<lparr>capacity = 2, refill_rate = 1, tokens = 0, last_t = 1\<rparr>)
   \<and> real (length [(0 :: real, \<lambda>k :: nat. 0 :: real), (0, \<lambda>k. 0), (0, \<lambda>k. 0)]) \<le> real_of_int 2 + 1 * (1 - 0)
   \<and> sorted [0 :: real, 0, 1]"
proof -
  let ?b = "\<lparr>capacity = 2, refill_rate = 1, tokens = 2, last_t = 0\<rparr>"
  have k: "allow_key demo_limiter ''lighter'' ''global'' = ''lighter:global''"
    by (simp add: allow_key_def key_def demo_limiter_def)
  have b: "buckets demo_limiter (allow_key demo_limiter ''lighter'' ''global'') = Some ?b"
    by (simp add: k) (simp add: demo_limiter_def)
  have h: "has_limiter demo_conn" by (simp add: demo_conn_def Connector_init_def)
  have i: "tb_inv ?b" "last_t ?b \<le> 0" by (simp_all add: tb_inv_def)
  have f: "list_all (\<lambda>(entered, lag). \<forall>k. 0 \<le> lag k) [(0 :: real, \<lambda>k :: nat. 0 :: real), (0, \<lambda>k. 0), (0, \<lambda>k. 0)]"
    by simp
  from requests_rate_bound [OF h b i f demo_limited_run] demo_limited_run show ?thesis
    by (auto simp: k simp del: limited_run.simps)
qed

end
