(* ===== verification/Lighter.thy ===== *)
theory Lighter
  imports Connector_Base
begin

text \<open>
  The Lighter connector of \<^verbatim>\<open>src/arb/connectors/lighter.py\<close>. The class
  extends \<open>Connector\<close> by the host and the cache of the order-book list
  (\<^verbatim>\<open>_books_cache\<close>, \<open>JNull\<close> for \<^verbatim>\<open>None\<close>). Each method is the frame of
  \<open>Connector_Base\<close> around a body that reads the answer: \<open>mid_of_book\<close>,
  \<open>market_map_of\<close>, \<open>summary_of_book\<close>, \<open>levels_of_book\<close>,
  \<open>stats_of_details\<close>. The loops over orders and books are recursive
  functions that stop at the first element Python raises on.
\<close>

section \<open>The connector\<close>

record LighterConnector = Connector +
  l_host :: string
  books_cache :: json

definition LighterConnector_init :: "string \<Rightarrow> (string \<times> json) list option \<Rightarrow> bool \<Rightarrow> LighterConnector" where
  "LighterConnector_init host cfg limiter =
     Connector.extend (Connector_init ''lighter'' cfg limiter)
       (LighterConnector.fields host JNull)"

definition lighter_url :: "LighterConnector \<Rightarrow> string \<Rightarrow> string" where
  "lighter_url c path = rstrip_slash (l_host c) @ path"

section \<open>Mid price\<close>

text \<open>\<^verbatim>\<open>float(side[0]["price"]) if side else None\<close>.\<close>

definition best_price :: "py_conv \<Rightarrow> json \<Rightarrow> real option result" where
  "best_price cv side =
     (if truthy_json side
      then bind_result (item side 0) (\<lambda>top.
           bind_result (subscr top ''price'') (\<lambda>p.
           bind_result (py_float cv p) (\<lambda>x. Inr (Some x))))
      else Inr None)"

definition mid_of_book :: "py_conv \<Rightarrow> json \<Rightarrow> real result" where
  "mid_of_book cv data =
     bind_result (get_or data ''bids'' (JArray [])) (\<lambda>bids.
     bind_result (get_or data ''asks'' (JArray [])) (\<lambda>asks.
     bind_result (best_price cv bids) (\<lambda>best_bid.
     bind_result (best_price cv asks) (\<lambda>best_ask.
       case (best_bid, best_ask) of
         (None, None) \<Rightarrow> Inl (RuntimeError ''No bids/asks returned for market_id'')
       | (None, Some a) \<Rightarrow> Inr a
       | (Some b, None) \<Rightarrow> Inr b
       | (Some b, Some a) \<Rightarrow> Inr ((b + a) / 2)))))"

definition get_mid_price ::
  "py_conv \<Rightarrow> (nat \<Rightarrow> real) \<Rightarrow> LighterConnector \<Rightarrow> RateLimiter \<Rightarrow> int option \<Rightarrow> json result \<Rightarrow> real
     \<Rightarrow> (real, LighterConnector) call option" where
  "get_mid_price cv lag c rl m_id resp now =
     (case m_id of
        None \<Rightarrow> Some (refuse c rl now
                 (ValueError ''LighterConnector requires market_id for get_mid_price in MVP.''))
      | Some m \<Rightarrow>
          fetch lag c rl ''lighter'' ''global'' now
            \<lparr>url = lighter_url c ''/api/v1/orderBookOrders'',
             params = [(''market_id'', JInteger m), (''limit'', JInteger 1)]\<rparr>
            resp (mid_of_book cv))"

section \<open>The market map\<close>

definition market_entry :: "py_conv \<Rightarrow> json \<Rightarrow> (string \<times> int) result" where
  "market_entry cv ob =
     bind_result (get_or ob ''symbol'' JNull) (\<lambda>s.
     bind_result (get_or ob ''market_id'' JNull) (\<lambda>m.
     bind_result (py_int_of cv m) (\<lambda>mid. Inr (py_str cv s, mid))))"

fun market_loop :: "py_conv \<Rightarrow> json list \<Rightarrow> (string \<rightharpoonup> int) \<Rightarrow> (string \<rightharpoonup> int) result" where
  "market_loop cv [] mapping = Inr mapping"
| "market_loop cv (ob # obs) mapping =
     bind_result (market_entry cv ob) (\<lambda>(symb, mid). market_loop cv obs (mapping(symb \<mapsto> mid)))"

definition market_map_of :: "py_conv \<Rightarrow> json \<Rightarrow> (string \<rightharpoonup> int) result" where
  "market_map_of cv data =
     bind_result (get_or data ''order_books'' (JArray [])) (\<lambda>books.
     bind_result (iter_json books) (\<lambda>obs. market_loop cv obs Map.empty))"

text \<open>
  The cache is assigned before the loop runs: it holds the list of the answer
  even when the loop raises on one of its entries.
\<close>

definition cache_after :: "json \<Rightarrow> json result \<Rightarrow> json" where
  "cache_after old resp =
     (case bind_result resp (\<lambda>data. get_or data ''order_books'' (JArray [])) of
        Inl e \<Rightarrow> old
      | Inr books \<Rightarrow> books)"

definition fetch_market_map ::
  "py_conv \<Rightarrow> (nat \<Rightarrow> real) \<Rightarrow> LighterConnector \<Rightarrow> RateLimiter \<Rightarrow> json result \<Rightarrow> real
     \<Rightarrow> (string \<rightharpoonup> int, LighterConnector) call option" where
  "fetch_market_map cv lag c rl resp now =
     map_option (\<lambda>r. r\<lparr>c_conn := (c_conn r)\<lparr>books_cache := cache_after (books_cache c) resp\<rparr>\<rparr>)
       (fetch lag c rl ''lighter'' ''global'' now
          \<lparr>url = lighter_url c ''/api/v1/orderBooks'', params = []\<rparr> resp (market_map_of cv))"

section \<open>Order-book summary and levels\<close>

text \<open>One resting order as price and quantity.\<close>

definition lighter_level :: "py_conv \<Rightarrow> json \<Rightarrow> (real \<times> real) result" where
  "lighter_level cv ord =
     bind_result (get_or ord ''price'' JNull) (\<lambda>p.
     bind_result (py_float cv p) (\<lambda>price.
     bind_result (get_or ord ''initial_base_amount'' (JFloat 0)) (\<lambda>initial.
     bind_result (get_or ord ''remaining_base_amount'' initial) (\<lambda>q.
     bind_result (py_float cv q) (\<lambda>qty. Inr (price, qty))))))"

fun sum_loop :: "py_conv \<Rightarrow> json list \<Rightarrow> real \<Rightarrow> real \<Rightarrow> (real \<times> real) result" where
  "sum_loop cv [] total_qty total_notional = Inr (total_qty, total_notional)"
| "sum_loop cv (ord # ords) total_qty total_notional =
     bind_result (lighter_level cv ord) (\<lambda>(price, qty).
       sum_loop cv ords (total_qty + qty) (total_notional + price * qty))"

definition sum_levels :: "py_conv \<Rightarrow> int \<Rightarrow> json \<Rightarrow> (real \<times> real) result" where
  "sum_levels cv levels side = bind_result (elems_to side levels) (\<lambda>ords. sum_loop cv ords 0 0)"

definition summary_of_book :: "py_conv \<Rightarrow> int \<Rightarrow> json \<Rightarrow> ob_summary result" where
  "summary_of_book cv levels data =
     bind_result (get_or data ''bids'' (JArray [])) (\<lambda>bids.
     bind_result (get_or data ''asks'' (JArray [])) (\<lambda>asks.
     bind_result (best_price cv bids) (\<lambda>bb.
     bind_result (best_price cv asks) (\<lambda>ba.
       if bb = None \<and> ba = None then Inl (RuntimeError ''No bids/asks returned for market_id'')
       else
         let mid = (if bb \<noteq> None \<and> ba \<noteq> None then Some ((the bb + the ba) / 2) else None);
             sp = (if bb \<noteq> None \<and> ba \<noteq> None \<and> truthy mid then Some (the ba - the bb) else None);
             sp_pct = (if bb \<noteq> None \<and> ba \<noteq> None \<and> truthy mid then Some ((the ba - the bb) / the mid) else None)
         in bind_result (sum_levels cv levels bids) (\<lambda>(qty_bids, notional_bids).
            bind_result (sum_levels cv levels asks) (\<lambda>(qty_asks, notional_asks).
              Inr \<lparr>best_bid = or_else bb 0, best_ask = or_else ba 0,
                   spread_abs = or_else sp 0, spread_pct = or_else sp_pct 0,
                   depth_qty = qty_bids + qty_asks,
                   depth_notional = notional_bids + notional_asks\<rparr>))))))"

definition get_order_book_summary ::
  "py_conv \<Rightarrow> (nat \<Rightarrow> real) \<Rightarrow> LighterConnector \<Rightarrow> RateLimiter \<Rightarrow> int \<Rightarrow> int \<Rightarrow> json result \<Rightarrow> real
     \<Rightarrow> (ob_summary, LighterConnector) call option" where
  "get_order_book_summary cv lag c rl m_id levels resp now =
     fetch lag c rl ''lighter'' ''global'' now
       \<lparr>url = lighter_url c ''/api/v1/orderBookOrders'',
        params = [(''market_id'', JInteger m_id), (''limit'', JInteger levels)]\<rparr>
       resp (summary_of_book cv levels)"

definition levels_of_book :: "py_conv \<Rightarrow> int \<Rightarrow> json \<Rightarrow> ((real \<times> real) list \<times> (real \<times> real) list) result" where
  "levels_of_book cv levels data =
     bind_result (get_or data ''bids'' (JArray [])) (\<lambda>bids.
     bind_result (elems_to bids levels) (\<lambda>bid_orders.
     bind_result (map_result (lighter_level cv) bid_orders) (\<lambda>bs.
     bind_result (get_or data ''asks'' (JArray [])) (\<lambda>asks.
     bind_result (elems_to asks levels) (\<lambda>ask_orders.
     bind_result (map_result (lighter_level cv) ask_orders) (\<lambda>as. Inr (bs, as)))))))"

definition get_order_book_levels ::
  "py_conv \<Rightarrow> LighterConnector \<Rightarrow> RateLimiter \<Rightarrow> int \<Rightarrow> int \<Rightarrow> json result \<Rightarrow> real
     \<Rightarrow> ((real \<times> real) list \<times> (real \<times> real) list, LighterConnector) call" where
  "get_order_book_levels cv c rl m_id levels resp now =
     fetch_direct c rl now
       \<lparr>url = lighter_url c ''/api/v1/orderBookOrders'',
        params = [(''market_id'', JInteger m_id), (''limit'', JInteger levels)]\<rparr>
       resp (levels_of_book cv levels)"

section \<open>Fees\<close>

text \<open>
  The two assignments inside \<^verbatim>\<open>try\<close>: when the maker fee converts and the
  taker fee does not, the maker fee stays assigned.
\<close>

definition fee_pair :: "py_conv \<Rightarrow> json \<Rightarrow> real option \<times> real option" where
  "fee_pair cv ob =
     (case bind_result (get_or ob ''maker_fee'' JNull) (py_float cv) of
        Inl e \<Rightarrow> (None, None)
      | Inr maker \<Rightarrow>
          (case bind_result (get_or ob ''taker_fee'' JNull) (py_float cv) of
             Inl e \<Rightarrow> (Some maker, None)
           | Inr taker \<Rightarrow> (Some maker, Some taker)))"

fun find_fees :: "py_conv \<Rightarrow> json list \<Rightarrow> string \<Rightarrow> (real option \<times> real option) result" where
  "find_fees cv [] symb = Inr (None, None)"
| "find_fees cv (ob # obs) symb =
     bind_result (get_or ob ''symbol'' JNull) (\<lambda>s.
       if py_str cv s = symb then Inr (fee_pair cv ob) else find_fees cv obs symb)"

definition fees_of_cache :: "py_conv \<Rightarrow> json \<Rightarrow> string \<Rightarrow> (real option \<times> real option) result" where
  "fees_of_cache cv cache symb =
     (if \<not> truthy_json cache then Inr (None, None)
      else bind_result (iter_json cache) (\<lambda>obs. find_fees cv obs symb))"

definition get_fees ::
  "py_conv \<Rightarrow> (nat \<Rightarrow> real) \<Rightarrow> LighterConnector \<Rightarrow> RateLimiter \<Rightarrow> string \<Rightarrow> json result \<Rightarrow> real
     \<Rightarrow> (real option \<times> real option, LighterConnector) call option" where
  "get_fees cv lag c rl symb resp now =
     (if books_cache c = JNull then
        (case fetch_market_map cv lag c rl resp now of
           None \<Rightarrow> None
         | Some r \<Rightarrow>
             Some \<lparr>c_ret = bind_result (c_ret r) (\<lambda>m. fees_of_cache cv (books_cache (c_conn r)) symb),
                   c_conn = c_conn r, c_lim = c_lim r, c_at = c_at r, c_sent = c_sent r\<rparr>)
      else Some \<lparr>c_ret = fees_of_cache cv (books_cache c) symb, c_conn = c, c_lim = rl, c_at = now,
                 c_sent = []\<rparr>)"

section \<open>Daily volume\<close>

definition stats_of_details :: "py_conv \<Rightarrow> json \<Rightarrow> (real \<times> real) result" where
  "stats_of_details cv data =
     bind_result (get_or data ''order_book_details'' (JArray [])) (\<lambda>lst.
       if \<not> truthy_json lst then Inr (0, 0)
       else bind_result (item lst 0) (\<lambda>d.
            bind_result (get_or d ''daily_base_token_volume'' (JFloat 0)) (\<lambda>b.
            bind_result (py_float cv b) (\<lambda>daily_base.
            bind_result (get_or d ''daily_quote_token_volume'' (JFloat 0)) (\<lambda>q.
            bind_result (py_float cv q) (\<lambda>daily_quote. Inr (daily_base, daily_quote)))))))"

definition get_24h_stats ::
  "py_conv \<Rightarrow> LighterConnector \<Rightarrow> RateLimiter \<Rightarrow> int \<Rightarrow> json result \<Rightarrow> real
     \<Rightarrow> (real \<times> real, LighterConnector) call" where
  "get_24h_stats cv c rl m_id resp now =
     fetch_direct c rl now
       \<lparr>url = lighter_url c ''/api/v1/orderBookDetails'', params = [(''market_id'', JInteger m_id)]\<rparr>
       resp (stats_of_details cv)"

section \<open>Funding\<close>

text \<open>
  The rates come from the SDK as objects with the attributes \<^verbatim>\<open>exchange\<close>,
  \<^verbatim>\<open>symbol\<close> and \<^verbatim>\<open>rate\<close>. The next funding time is the next multiple of
  the cycle after the wall clock \<open>now_ms\<close>.
\<close>

record sdk_rate =
  rate_exchange :: string
  rate_symbol :: string
  rate_value :: json

definition rate_of :: "py_conv \<Rightarrow> sdk_rate list \<Rightarrow> string \<Rightarrow> real option" where
  "rate_of cv rates symb =
     (case find (\<lambda>fr. rate_exchange fr = ''lighter'' \<and> rate_symbol fr = symb) rates of
        None \<Rightarrow> None
      | Some fr \<Rightarrow> (case py_float cv (rate_value fr) of Inl e \<Rightarrow> None | Inr x \<Rightarrow> Some x))"

definition next_funding_ms :: "int \<Rightarrow> int \<Rightarrow> int result" where
  "next_funding_ms cycle_hours now_ms =
     (let period_ms = cycle_hours * 3600 * 1000
      in if period_ms = 0 then Inl ZeroDivisionError
         else Inr ((now_ms div period_ms + 1) * period_ms))"

definition get_funding_info ::
  "py_conv \<Rightarrow> sdk_rate list result \<Rightarrow> string \<Rightarrow> int \<Rightarrow> int \<Rightarrow> (real option \<times> real option) result" where
  "get_funding_info cv rates symb cycle_hours now_ms =
     bind_result rates (\<lambda>rs.
     bind_result (next_funding_ms cycle_hours now_ms) (\<lambda>next_time_ms.
       Inr (rate_of cv rs symb, Some (real_of_int next_time_ms))))"

lemmas lighter_defs [arb_unfold] =
  LighterConnector_init_def lighter_url_def best_price_def mid_of_book_def get_mid_price_def
  market_entry_def market_map_of_def cache_after_def fetch_market_map_def lighter_level_def
  sum_levels_def summary_of_book_def get_order_book_summary_def levels_of_book_def
  get_order_book_levels_def fee_pair_def fees_of_cache_def get_fees_def stats_of_details_def
  get_24h_stats_def rate_of_def next_funding_ms_def get_funding_info_def

section \<open>Orders and levels\<close>

lemma lighter_level_object:
  assumes "lighter_level cv ord = Inr (p, q)"
  obtains kvs v where "ord = JObject kvs" "map_of kvs ''price'' = Some v" "py_float cv v = Inr p"
proof -
  from assms obtain kvs where o: "ord = JObject kvs"
    by (cases ord) (simp_all add: lighter_level_def get_or_def)
  with assms have f: "py_float cv (case map_of kvs ''price'' of None \<Rightarrow> JNull | Some v \<Rightarrow> v) = Inr p"
    by (auto simp: lighter_level_def bind_result_eq_Inr)
  then obtain v where "map_of kvs ''price'' = Some v" by (cases "map_of kvs ''price''") simp_all
  with o f that show thesis by simp
qed

lemma best_price_empty [simp]: "best_price cv (JArray []) = Inr None"
  by (simp add: best_price_def)

lemma best_price_level:
  assumes "lighter_level cv ord = Inr (p, q)"
  shows "best_price cv (JArray (ord # ords)) = Inr (Some p)"
  using assms by (elim lighter_level_object) (simp add: best_price_def)

lemma sum_loop_eq:
  "sum_loop cv ords tq tn
     = bind_result (map_result (lighter_level cv) ords)
         (\<lambda>ls. Inr (tq + fst (depth_of ls), tn + snd (depth_of ls)))"
proof (induction ords arbitrary: tq tn)
  case Nil
  show ?case by simp
next
  case (Cons ord ords)
  show ?case
  proof (cases "lighter_level cv ord")
    case (Inl e)
    then show ?thesis by simp
  next
    case (Inr pq)
    obtain p q where "pq = (p, q)" by (cases pq)
    with Inr Cons.IH [of "tq + q" "tn + p * q"] show ?thesis
      by (cases "map_result (lighter_level cv) ords") (simp_all add: algebra_simps)
  qed
qed

lemma sum_levels_array:
  "sum_levels cv n (JArray xs)
     = bind_result (map_result (lighter_level cv) (slice_to xs n)) (\<lambda>ls. Inr (depth_of ls))"
  by (simp add: sum_levels_def sum_loop_eq)

text \<open>
  A side of the answer from which \<open>levels_of_book\<close> reads at least one
  level is a list, and the levels read are those of a prefix of it.
\<close>

lemma levels_side:
  assumes "elems_to side n = Inr ords" "map_result (lighter_level cv) ords = Inr ls" "ls \<noteq> []"
  obtains x xs where "side = JArray (x # xs)" "ords = slice_to (x # xs) n" "lighter_level cv x = Inr (hd ls)"
proof -
  from assms(2,3) obtain ord ords' l ls' where
    os: "ords = ord # ords'" "ls = l # ls'" "lighter_level cv ord = Inr l"
    by (cases ords; cases ls) (auto simp: bind_result_eq_Inr)
  have "\<exists>xs. side = JArray xs \<and> ords = slice_to xs n"
  proof (cases side)
    case (JString s)
    with assms(1) os(1) obtain c where "ord = JString [c]" by (auto simp: elems_to_def)
    with os(3) show ?thesis by (simp add: lighter_level_def get_or_def)
  qed (use assms(1) in \<open>simp_all add: elems_to_def\<close>)
  then obtain xs where xs: "side = JArray xs" "ords = slice_to xs n" by blast
  with os(1) obtain x xs' where c: "xs = x # xs'" by (cases xs) auto
  from slice_to_prefix [of xs n] obtain k where "slice_to xs n = take k xs" by blast
  with xs(2) os(1) c have "ord = x" by (cases k) simp_all
  with that [of x xs'] xs c os show thesis by simp
qed

lemma levels_of_bookE:
  assumes "levels_of_book cv n data = Inr (bs, as)"
  obtains bids asks bos aos where
    "get_or data ''bids'' (JArray []) = Inr bids" "get_or data ''asks'' (JArray []) = Inr asks"
    "elems_to bids n = Inr bos" "map_result (lighter_level cv) bos = Inr bs"
    "elems_to asks n = Inr aos" "map_result (lighter_level cv) aos = Inr as"
  using assms by (auto simp: levels_of_book_def bind_result_eq_Inr)

lemma side_summary:
  assumes "elems_to side n = Inr ords" "map_result (lighter_level cv) ords = Inr ls" "ls \<noteq> []"
  shows "best_price cv side = Inr (Some (fst (hd ls)))" "sum_levels cv n side = Inr (depth_of ls)"
proof -
  from assms obtain x xs where
    s: "side = JArray (x # xs)" "ords = slice_to (x # xs) n" "lighter_level cv x = Inr (hd ls)"
    by (rule levels_side)
  from s(3) have "lighter_level cv x = Inr (fst (hd ls), snd (hd ls))" by simp
  then show "best_price cv side = Inr (Some (fst (hd ls)))" unfolding s(1) by (rule best_price_level)
  from s(1,2) assms(2) show "sum_levels cv n side = Inr (depth_of ls)"
    by (simp add: sum_levels_array)
qed

section \<open>The summary against its contract\<close>

lemma summary_of_book_levels:
  assumes "levels_of_book cv n data = Inr (bs, as)" "bs \<noteq> []" "as \<noteq> []"
    and "fst (hd bs) + fst (hd as) \<noteq> 0"
  shows "summary_of_book cv n data = Inr (summary_spec bs as)"
proof -
  from assms(1) obtain bids asks bos aos where
    g: "get_or data ''bids'' (JArray []) = Inr bids" "get_or data ''asks'' (JArray []) = Inr asks"
    and b: "elems_to bids n = Inr bos" "map_result (lighter_level cv) bos = Inr bs"
    and a: "elems_to asks n = Inr aos" "map_result (lighter_level cv) aos = Inr as"
    by (rule levels_of_bookE)
  note sb = side_summary [OF b assms(2)] and sa = side_summary [OF a assms(3)]
  from assms(4) show ?thesis
    by (simp add: summary_of_book_def g sb sa summary_spec_def Let_def case_prod_beta)
qed

lemma mid_of_book_levels:
  assumes "levels_of_book cv n data = Inr (bs, as)" "bs \<noteq> []" "as \<noteq> []"
  shows "mid_of_book cv data = Inr ((fst (hd bs) + fst (hd as)) / 2)"
proof -
  from assms(1) obtain bids asks bos aos where
    g: "get_or data ''bids'' (JArray []) = Inr bids" "get_or data ''asks'' (JArray []) = Inr asks"
    and b: "elems_to bids n = Inr bos" "map_result (lighter_level cv) bos = Inr bs"
    and a: "elems_to asks n = Inr aos" "map_result (lighter_level cv) aos = Inr as"
    by (rule levels_of_bookE)
  note sb = side_summary(1) [OF b assms(2)] and sa = side_summary(1) [OF a assms(3)]
  show ?thesis by (simp add: mid_of_book_def g sb sa)
qed

section \<open>The next funding time\<close>

lemma next_funding_bounds:
  assumes "0 < cycle_hours"
  shows "\<exists>t. next_funding_ms cycle_hours now_ms = Inr t \<and> now_ms < t
     \<and> t \<le> now_ms + cycle_hours * 3600000 \<and> (cycle_hours * 3600000) dvd t"
proof -
  let ?p = "cycle_hours * 3600000"
  from assms have p: "0 < ?p" by simp
  have "now_ms = now_ms div ?p * ?p + now_ms mod ?p" by (rule div_mult_mod_eq [symmetric])
  moreover from p have "0 \<le> now_ms mod ?p" "now_ms mod ?p < ?p" by simp_all
  ultimately have b: "now_ms < (now_ms div ?p + 1) * ?p" "(now_ms div ?p + 1) * ?p \<le> now_ms + ?p"
    by (simp_all add: algebra_simps)
  note b
  moreover have "cycle_hours * 3600 * 1000 = ?p" by simp
  ultimately show ?thesis using p unfolding next_funding_ms_def Let_def by (simp only:) simp
qed

lemma get_funding_info_next:
  assumes "0 < cycle_hours"
  shows "\<exists>t. get_funding_info cv (Inr rates) symb cycle_hours now_ms
              = Inr (rate_of cv rates symb, Some (real_of_int t))
     \<and> now_ms < t \<and> t \<le> now_ms + cycle_hours * 3600000 \<and> (cycle_hours * 3600000) dvd t"
  using next_funding_bounds [OF assms, of now_ms] by (auto simp: get_funding_info_def)

lemma get_funding_info_zero_cycle:
  "get_funding_info cv (Inr rates) symb 0 now_ms = Inl ZeroDivisionError"
  by (simp add: get_funding_info_def next_funding_ms_def)

section \<open>The market map\<close>

lemma map_upd_add_rev: "mp(k \<mapsto> v) ++ map_of (rev es) = mp ++ map_of (rev ((k, v) # es))"
  by (auto simp: map_add_def fun_eq_iff split: option.splits)

lemma market_loop_eq:
  "market_loop cv obs mp
     = bind_result (map_result (market_entry cv) obs) (\<lambda>es. Inr (mp ++ map_of (rev es)))"
proof (induction obs arbitrary: mp)
  case Nil
  show ?case by simp
next
  case (Cons ob obs)
  show ?case
  proof (cases "market_entry cv ob")
    case (Inl e)
    then show ?thesis by simp
  next
    case (Inr sm)
    obtain s m where "sm = (s, m)" by (cases sm)
    with Inr have "market_loop cv (ob # obs) mp = market_loop cv obs (mp(s \<mapsto> m))" by simp
    also have "\<dots> = bind_result (map_result (market_entry cv) obs)
        (\<lambda>es. Inr (mp(s \<mapsto> m) ++ map_of (rev es)))"
      by (rule Cons.IH)
    also have "\<dots> = bind_result (map_result (market_entry cv) obs)
        (\<lambda>es. Inr (mp ++ map_of (rev ((s, m) # es))))"
      by (simp only: map_upd_add_rev)
    also from Inr \<open>sm = (s, m)\<close>
    have "\<dots> = bind_result (map_result (market_entry cv) (ob # obs)) (\<lambda>es. Inr (mp ++ map_of (rev es)))"
      by (cases "map_result (market_entry cv) obs") (simp_all del: rev.simps)
    finally show ?thesis .
  qed
qed

end
