(* ===== verification/Aster.thy ===== *)
theory Aster
  imports Connector_Base
begin

text \<open>
  The Aster connector of \<^verbatim>\<open>src/arb/connectors/aster.py\<close>. The class
  extends \<open>Connector\<close> by the host, stripped of trailing slashes by the
  constructor. The mid price is the last price of the ticker; the order book
  comes as lists \<^verbatim>\<open>[price, qty]\<close> of strings. The bodies of the methods are
  \<open>price_of_ticker\<close>, \<open>aster_summary_of_book\<close>, \<open>volumes_of_ticker\<close>,
  \<open>aster_levels_of_book\<close> and \<open>funding_of_index\<close>.
\<close>

section \<open>The connector\<close>

record AsterConnector = Connector +
  a_host :: string

definition AsterConnector_init :: "string \<Rightarrow> (string \<times> json) list option \<Rightarrow> bool \<Rightarrow> AsterConnector" where
  "AsterConnector_init host cfg limiter =
     Connector.extend (Connector_init ''aster'' cfg limiter) (AsterConnector.fields (rstrip_slash host))"

section \<open>Mid price\<close>

definition price_of_ticker :: "py_conv \<Rightarrow> json \<Rightarrow> real result" where
  "price_of_ticker cv data = bind_result (subscr data ''price'') (py_float cv)"

definition aster_get_mid_price ::
  "py_conv \<Rightarrow> (nat \<Rightarrow> real) \<Rightarrow> AsterConnector \<Rightarrow> RateLimiter \<Rightarrow> string \<Rightarrow> json result \<Rightarrow> real
     \<Rightarrow> (real, AsterConnector) call option" where
  "aster_get_mid_price cv lag c rl symb resp now =
     fetch lag c rl ''aster'' ''global'' now
       \<lparr>url = a_host c @ ''/fapi/v1/ticker/price'', params = [(''symbol'', JString symb)]\<rparr>
       resp (price_of_ticker cv)"

section \<open>Order-book summary and levels\<close>

text \<open>\<^verbatim>\<open>float(side[0][0]) if side else None\<close>.\<close>

definition aster_best :: "py_conv \<Rightarrow> json \<Rightarrow> real option result" where
  "aster_best cv side =
     (if truthy_json side
      then bind_result (item side 0) (\<lambda>top.
           bind_result (item top 0) (\<lambda>p.
           bind_result (py_float cv p) (\<lambda>x. Inr (Some x))))
      else Inr None)"

text \<open>\<^verbatim>\<open>sum(float(x[1]) for x in side[:levels]) if side else 0.0\<close>.\<close>

definition qty_of :: "py_conv \<Rightarrow> json \<Rightarrow> real result" where
  "qty_of cv x = bind_result (item x 1) (py_float cv)"

definition depth_qty_of :: "py_conv \<Rightarrow> int \<Rightarrow> json \<Rightarrow> real result" where
  "depth_qty_of cv levels side =
     (if truthy_json side
      then bind_result (elems_to side levels) (\<lambda>xs.
           bind_result (map_result (qty_of cv) xs) (\<lambda>qs. Inr (sum_list qs)))
      else Inr 0)"

text \<open>\<^verbatim>\<open>for p, q in side[:levels]\<close>: an element unpacks when it has two items.\<close>

definition unpack2 :: "json \<Rightarrow> (json \<times> json) result" where
  "unpack2 x =
     bind_result (iter_json x) (\<lambda>es.
       case es of
         [p, q] \<Rightarrow> Inr (p, q)
       | _ \<Rightarrow> Inl (ValueError ''wrong number of values to unpack''))"

definition aster_level :: "py_conv \<Rightarrow> json \<Rightarrow> (real \<times> real) result" where
  "aster_level cv x =
     bind_result (unpack2 x) (\<lambda>(p, q).
     bind_result (py_float cv p) (\<lambda>price.
     bind_result (py_float cv q) (\<lambda>qty. Inr (price, qty))))"

fun notional_loop :: "py_conv \<Rightarrow> json list \<Rightarrow> real \<Rightarrow> real result" where
  "notional_loop cv [] notional = Inr notional"
| "notional_loop cv (x # xs) notional =
     bind_result (aster_level cv x) (\<lambda>(price, qty). notional_loop cv xs (notional + price * qty))"

definition aster_summary_of_book :: "py_conv \<Rightarrow> int \<Rightarrow> json \<Rightarrow> ob_summary result" where
  "aster_summary_of_book cv levels data =
     bind_result (get_or data ''bids'' (JArray [])) (\<lambda>bids.
     bind_result (get_or data ''asks'' (JArray [])) (\<lambda>asks.
     bind_result (aster_best cv bids) (\<lambda>bb.
     bind_result (aster_best cv asks) (\<lambda>ba.
       let mid = (if bb \<noteq> None \<and> ba \<noteq> None then Some ((the bb + the ba) / 2) else None);
           sp = (if bb \<noteq> None \<and> ba \<noteq> None then Some (the ba - the bb) else None);
           sp_pct = (if bb \<noteq> None \<and> ba \<noteq> None \<and> truthy mid then Some ((the ba - the bb) / the mid)
                     else None)
       in bind_result (depth_qty_of cv levels bids) (\<lambda>depth_qty_bid.
          bind_result (depth_qty_of cv levels asks) (\<lambda>depth_qty_ask.
          bind_result (elems_to bids levels) (\<lambda>bs.
          bind_result (notional_loop cv bs 0) (\<lambda>n1.
          bind_result (elems_to asks levels) (\<lambda>as.
          bind_result (notional_loop cv as n1) (\<lambda>notional.
            Inr \<lparr>best_bid = or_else bb 0, best_ask = or_else ba 0,
                 spread_abs = or_else sp 0, spread_pct = or_else sp_pct 0,
                 depth_qty = depth_qty_bid + depth_qty_ask,
                 depth_notional = notional\<rparr>))))))))))"

definition aster_get_order_book_summary ::
  "py_conv \<Rightarrow> (nat \<Rightarrow> real) \<Rightarrow> AsterConnector \<Rightarrow> RateLimiter \<Rightarrow> string \<Rightarrow> int \<Rightarrow> json result \<Rightarrow> real
     \<Rightarrow> (ob_summary, AsterConnector) call option" where
  "aster_get_order_book_summary cv lag c rl symb levels resp now =
     fetch lag c rl ''aster'' ''depth'' now
       \<lparr>url = a_host c @ ''/fapi/v1/depth'',
        params = [(''symbol'', JString symb), (''limit'', JInteger levels)]\<rparr>
       resp (aster_summary_of_book cv levels)"

definition aster_levels_of_book ::
  "py_conv \<Rightarrow> int \<Rightarrow> json \<Rightarrow> ((real \<times> real) list \<times> (real \<times> real) list) result" where
  "aster_levels_of_book cv levels data =
     bind_result (get_or data ''bids'' (JArray [])) (\<lambda>bids.
     bind_result (elems_to bids levels) (\<lambda>bid_items.
     bind_result (map_result (aster_level cv) bid_items) (\<lambda>bs.
     bind_result (get_or data ''asks'' (JArray [])) (\<lambda>asks.
     bind_result (elems_to asks levels) (\<lambda>ask_items.
     bind_result (map_result (aster_level cv) ask_items) (\<lambda>as. Inr (bs, as)))))))"

definition aster_get_order_book_levels ::
  "py_conv \<Rightarrow> AsterConnector \<Rightarrow> RateLimiter \<Rightarrow> string \<Rightarrow> int \<Rightarrow> json result \<Rightarrow> real
     \<Rightarrow> ((real \<times> real) list \<times> (real \<times> real) list, AsterConnector) call" where
  "aster_get_order_book_levels cv c rl symb levels resp now =
     fetch_direct c rl now
       \<lparr>url = a_host c @ ''/fapi/v1/depth'',
        params = [(''symbol'', JString symb), (''limit'', JInteger levels)]\<rparr>
       resp (aster_levels_of_book cv levels)"

section \<open>Daily volume\<close>

definition volumes_of_ticker :: "py_conv \<Rightarrow> json \<Rightarrow> (real \<times> real) result" where
  "volumes_of_ticker cv data =
     bind_result (get_or data ''volume'' (JFloat 0)) (\<lambda>v.
     bind_result (py_float cv v) (\<lambda>volume.
     bind_result (get_or data ''quoteVolume'' (JFloat 0)) (\<lambda>q.
     bind_result (py_float cv q) (\<lambda>quoteVolume. Inr (volume, quoteVolume)))))"

definition aster_get_24h_stats ::
  "py_conv \<Rightarrow> (nat \<Rightarrow> real) \<Rightarrow> AsterConnector \<Rightarrow> RateLimiter \<Rightarrow> string \<Rightarrow> json result \<Rightarrow> real
     \<Rightarrow> (real \<times> real, AsterConnector) call option" where
  "aster_get_24h_stats cv lag c rl symb resp now =
     fetch lag c rl ''aster'' ''global'' now
       \<lparr>url = a_host c @ ''/fapi/v1/ticker/24hr'', params = [(''symbol'', JString symb)]\<rparr>
       resp (volumes_of_ticker cv)"

section \<open>Funding\<close>

text \<open>
  Each of the two fields is read inside its own \<^verbatim>\<open>try\<close>: whatever raises
  there leaves the field \<^verbatim>\<open>None\<close>, so the body always returns.
\<close>

definition opt_field :: "py_conv \<Rightarrow> json \<Rightarrow> string \<Rightarrow> real option" where
  "opt_field cv data k =
     (case catch_result (bind_result (get_or data k JNull) (float_opt cv)) (\<lambda>e. Inr None) of
        Inl e \<Rightarrow> None
      | Inr v \<Rightarrow> v)"

definition funding_of_index :: "py_conv \<Rightarrow> json \<Rightarrow> (real option \<times> real option) result" where
  "funding_of_index cv data = Inr (opt_field cv data ''lastFundingRate'', opt_field cv data ''nextFundingTime'')"

definition aster_get_funding_info ::
  "py_conv \<Rightarrow> (nat \<Rightarrow> real) \<Rightarrow> AsterConnector \<Rightarrow> RateLimiter \<Rightarrow> string \<Rightarrow> json result \<Rightarrow> real
     \<Rightarrow> (real option \<times> real option, AsterConnector) call option" where
  "aster_get_funding_info cv lag c rl symb resp now =
     fetch lag c rl ''aster'' ''global'' now
       \<lparr>url = a_host c @ ''/fapi/v1/premiumIndex'', params = [(''symbol'', JString symb)]\<rparr>
       resp (funding_of_index cv)"

lemmas aster_defs [arb_unfold] =
  AsterConnector_init_def price_of_ticker_def aster_get_mid_price_def aster_best_def qty_of_def
  depth_qty_of_def unpack2_def aster_level_def aster_summary_of_book_def
  aster_get_order_book_summary_def aster_levels_of_book_def aster_get_order_book_levels_def
  volumes_of_ticker_def aster_get_24h_stats_def opt_field_def funding_of_index_def
  aster_get_funding_info_def

section \<open>Levels\<close>

lemma unpack2E:
  assumes "unpack2 x = Inr (p, q)"
  obtains (arr) "x = JArray [p, q]"
    | (str) c d where "x = JString [c, d]" "p = JString [c]" "q = JString [d]"
    | (obj) kv kv' where "x = JObject [kv, kv']" "p = JString (fst kv)" "q = JString (fst kv')"
  using assms by (cases x) (auto simp: unpack2_def iter_json_def split: list.splits)

lemma aster_level_floats:
  assumes "aster_level cv x = Inr (p, q)"
  obtains jp jq where "unpack2 x = Inr (jp, jq)" "py_float cv jp = Inr p" "py_float cv jq = Inr q"
  using assms by (auto simp: aster_level_def bind_result_eq_Inr)

text \<open>
  Where \<^verbatim>\<open>x[0]\<close> and \<^verbatim>\<open>x[1]\<close> do not raise, they are the two values the
  unpacking yields.
\<close>

lemma aster_level_items:
  assumes "aster_level cv x = Inr (p, q)"
  shows "bind_result (item x 0) (py_float cv) = Inr p' \<Longrightarrow> p' = p"
    and "qty_of cv x = Inr q' \<Longrightarrow> q' = q"
proof -
  from assms obtain jp jq where
    u: "unpack2 x = Inr (jp, jq)" and f: "py_float cv jp = Inr p" "py_float cv jq = Inr q"
    by (rule aster_level_floats)
  from u show "bind_result (item x 0) (py_float cv) = Inr p' \<Longrightarrow> p' = p"
    by (cases rule: unpack2E) (use f in \<open>simp_all add: item_def\<close>)
  from u show "qty_of cv x = Inr q' \<Longrightarrow> q' = q"
    by (cases rule: unpack2E) (use f in \<open>simp_all add: item_def qty_of_def\<close>)
qed

lemma notional_loop_eq:
  "notional_loop cv xs acc
     = bind_result (map_result (aster_level cv) xs) (\<lambda>ls. Inr (acc + snd (depth_of ls)))"
proof (induction xs arbitrary: acc)
  case Nil
  show ?case by simp
next
  case (Cons x xs)
  show ?case
  proof (cases "aster_level cv x")
    case (Inl e)
    then show ?thesis by simp
  next
    case (Inr pq)
    obtain p q where "pq = (p, q)" by (cases pq)
    with Inr Cons.IH [of "acc + p * q"] show ?thesis
      by (cases "map_result (aster_level cv) xs") (simp_all add: algebra_simps)
  qed
qed

lemma qty_sum:
  assumes "map_result (aster_level cv) xs = Inr ls" "map_result (qty_of cv) xs = Inr qs"
  shows "sum_list qs = fst (depth_of ls)"
  using assms
proof (induction xs arbitrary: ls qs)
  case Nil
  then show ?case by simp
next
  case (Cons x xs)
  from Cons.prems obtain l ls' q' qs' where
    e: "ls = l # ls'" "aster_level cv x = Inr l" "map_result (aster_level cv) xs = Inr ls'"
      "qs = q' # qs'" "qty_of cv x = Inr q'" "map_result (qty_of cv) xs = Inr qs'"
    by (auto simp: bind_result_eq_Inr)
  obtain p q where l: "l = (p, q)" by (cases l)
  from aster_level_items(2) [of cv x p q q'] e(2,5) l have "q' = q" by simp
  with Cons.IH [OF e(3,6)] e(1,4) l show ?case by simp
qed

lemma aster_levels_side:
  assumes "elems_to side n = Inr xs" "map_result (aster_level cv) xs = Inr ls" "ls \<noteq> []"
  obtains y ys where "side = JArray (y # ys)" "xs = slice_to (y # ys) n" "aster_level cv y = Inr (hd ls)"
proof -
  from assms(2,3) obtain x xs' l ls' where
    os: "xs = x # xs'" "ls = l # ls'" "aster_level cv x = Inr l"
    by (cases xs; cases ls) (auto simp: bind_result_eq_Inr)
  have "\<exists>ys. side = JArray ys \<and> xs = slice_to ys n"
  proof (cases side)
    case (JString s)
    with assms(1) os(1) obtain c where "x = JString [c]" by (auto simp: elems_to_def)
    with os(3) show ?thesis by (simp add: aster_level_def unpack2_def iter_json_def)
  qed (use assms(1) in \<open>simp_all add: elems_to_def\<close>)
  then obtain ys where ys: "side = JArray ys" "xs = slice_to ys n" by blast
  with os(1) obtain y ys' where c: "ys = y # ys'" by (cases ys) auto
  from slice_to_prefix [of ys n] obtain k where "slice_to ys n = take k ys" by blast
  with ys(2) os(1) c have "x = y" by (cases k) simp_all
  with that [of y ys'] ys c os show thesis by simp
qed

lemma aster_side_summary:
  assumes "elems_to side n = Inr xs" "map_result (aster_level cv) xs = Inr ls" "ls \<noteq> []"
  shows "aster_best cv side = Inr bb \<Longrightarrow> bb = Some (fst (hd ls))"
    and "depth_qty_of cv n side = Inr d \<Longrightarrow> d = fst (depth_of ls)"
    and "notional_loop cv xs acc = Inr (acc + snd (depth_of ls))"
proof -
  from assms obtain y ys where
    s: "side = JArray (y # ys)" "xs = slice_to (y # ys) n" "aster_level cv y = Inr (hd ls)"
    by (rule aster_levels_side)
  from s(3) have l: "aster_level cv y = Inr (fst (hd ls), snd (hd ls))" by simp
  show "bb = Some (fst (hd ls))" if "aster_best cv side = Inr bb"
  proof -
    from that s(1) obtain p' where "bind_result (item y 0) (py_float cv) = Inr p'" "bb = Some p'"
      by (auto simp: aster_best_def bind_result_eq_Inr)
    with aster_level_items(1) [OF l] show ?thesis by simp
  qed
  show "d = fst (depth_of ls)" if "depth_qty_of cv n side = Inr d"
  proof -
    from that s(1,2) obtain qs where "map_result (qty_of cv) xs = Inr qs" "d = sum_list qs"
      by (auto simp: depth_qty_of_def bind_result_eq_Inr)
    with qty_sum [OF assms(2)] show ?thesis by simp
  qed
  from assms(2) show "notional_loop cv xs acc = Inr (acc + snd (depth_of ls))"
    by (simp add: notional_loop_eq)
qed

lemma aster_levels_of_bookE:
  assumes "aster_levels_of_book cv n data = Inr (bs, as)"
  obtains bids asks bxs axs where
    "get_or data ''bids'' (JArray []) = Inr bids" "get_or data ''asks'' (JArray []) = Inr asks"
    "elems_to bids n = Inr bxs" "map_result (aster_level cv) bxs = Inr bs"
    "elems_to asks n = Inr axs" "map_result (aster_level cv) axs = Inr as"
  using assms by (auto simp: aster_levels_of_book_def bind_result_eq_Inr)

section \<open>The summary against its contract\<close>

lemma aster_summary_of_book_levels:
  assumes "aster_levels_of_book cv n data = Inr (bs, as)" "bs \<noteq> []" "as \<noteq> []"
    and "fst (hd bs) + fst (hd as) \<noteq> 0"
    and "aster_summary_of_book cv n data = Inr s"
  shows "s = summary_spec bs as"
proof -
  from assms(1) obtain bids asks bxs axs where
    g: "get_or data ''bids'' (JArray []) = Inr bids" "get_or data ''asks'' (JArray []) = Inr asks"
    and b: "elems_to bids n = Inr bxs" "map_result (aster_level cv) bxs = Inr bs"
    and a: "elems_to asks n = Inr axs" "map_result (aster_level cv) axs = Inr as"
    by (rule aster_levels_of_bookE)
  note sb = aster_side_summary [OF b assms(2)] and sa = aster_side_summary [OF a assms(3)]
  from assms(5) g obtain bb ba qb qa where
    r: "aster_best cv bids = Inr bb" "aster_best cv asks = Inr ba"
      "depth_qty_of cv n bids = Inr qb" "depth_qty_of cv n asks = Inr qa"
    by (auto simp: aster_summary_of_book_def bind_result_eq_Inr Let_def)
  note v = sb(1) [OF r(1)] sa(1) [OF r(2)] sb(2) [OF r(3)] sa(2) [OF r(4)]
  from assms(4,5) show ?thesis
    by (auto simp: aster_summary_of_book_def g r v b a sb(3) sa(3) summary_spec_def Let_def)
qed

end
