(* ===== verification/Config.thy ===== *)
theory Config
  imports Models Json
begin

text \<open>
  The configuration of \<^verbatim>\<open>src/arb/config.py\<close> and the credential lookups of
  \<^verbatim>\<open>src/arb/credentials.py\<close>. The process environment is a partial map
  from names to strings; \<^verbatim>\<open>os.getenv(k, d)\<close> is \<open>getenv\<close>. The dictionary
  \<^verbatim>\<open>load_config\<close> returns is the record \<open>config\<close>, its nested \<^verbatim>\<open>auth\<close>
  dictionaries the records \<open>lighter_auth\<close> and \<open>aster_auth\<close>; the list of
  pairs stays a list of JSON objects, since \<^verbatim>\<open>build_pairs\<close> and the panel
  read it key by key. The argument \<^verbatim>\<open>path\<close> is not read by the code.
\<close>

section \<open>Environment\<close>

type_synonym env = "string \<rightharpoonup> string"

definition getenv :: "env \<Rightarrow> string \<Rightarrow> string \<Rightarrow> string" where
  "getenv e k dflt = (case e k of None \<Rightarrow> dflt | Some v \<Rightarrow> v)"

text \<open>
  \<^verbatim>\<open>_to_int\<close>: the integer a variable holds, \<^verbatim>\<open>None\<close> when it is unset,
  empty or not an integer literal.
\<close>

definition to_int :: "py_conv \<Rightarrow> string option \<Rightarrow> int option" where
  "to_int cv val =
     (case val of
        None \<Rightarrow> None
      | Some s \<Rightarrow> if s \<noteq> [] then conv_int cv s else None)"

section \<open>The configuration\<close>

record lighter_auth =
  private_key :: "string option"
  account_index :: "int option"
  api_key_index :: "int option"

record aster_auth =
  user :: "string option"
  signer :: "string option"
  ecdsa_private_key :: "string option"
  api_key :: "string option"
  api_secret :: "string option"

record config =
  cfg_lighter_host :: string
  cfg_aster_host :: string
  cfg_depth_levels :: int
  cfg_pairs :: "json list"
  cfg_lookback :: int
  cfg_ema_window :: int
  cfg_enter_z :: real
  cfg_exit_z :: real
  cfg_poll_ms :: int
  cfg_stale_ms_threshold :: int
  cfg_skew_ms_threshold :: int
  cfg_fees :: "(string \<times> real option \<times> real option) list"
  cfg_cycle_hours :: "(string \<times> int) list"
  cfg_notional_usd :: real
  cfg_auth_lighter :: lighter_auth
  cfg_auth_aster :: aster_auth
  cfg_auth_eth :: "string option"

definition default_pairs :: "json list" where
  "default_pairs =
     [JObject [(''name'', JString ''BTCUSDT''),
               (''a'', JObject [(''exchange'', JString ''lighter''), (''symbol'', JString ''BTC''),
                                (''market_id'', JNull)]),
               (''b'', JObject [(''exchange'', JString ''aster''), (''symbol'', JString ''BTCUSDT'')])]]"

definition load_config :: "py_conv \<Rightarrow> env \<Rightarrow> config result" where
  "load_config cv e =
     (case (case e ''DEPTH_LEVELS'' of None \<Rightarrow> Some 5 | Some s \<Rightarrow> conv_int cv s) of
        None \<Rightarrow> Inl (ValueError ''invalid literal for int()'')
      | Some levels \<Rightarrow>
          Inr \<lparr>cfg_lighter_host = getenv e ''LIGHTER_HOST'' ''https://mainnet.zklighter.elliot.ai'',
               cfg_aster_host = getenv e ''ASTER_HOST'' ''https://fapi.asterdex.com'',
               cfg_depth_levels = levels,
               cfg_pairs = default_pairs,
               cfg_lookback = 60,
               cfg_ema_window = 30,
               cfg_enter_z = 2,
               cfg_exit_z = 1 / 2,
               cfg_poll_ms = 1000,
               cfg_stale_ms_threshold = 3000,
               cfg_skew_ms_threshold = 500,
               cfg_fees = [(''aster'', None, None), (''lighter'', None, None)],
               cfg_cycle_hours = [(''aster'', 8), (''lighter'', 8)],
               cfg_notional_usd = 1000,
               cfg_auth_lighter =
                 \<lparr>private_key = e ''LIGHTER_API_KEY_PRIVATE_KEY'',
                  account_index = to_int cv (e ''LIGHTER_ACCOUNT_INDEX''),
                  api_key_index = to_int cv (e ''LIGHTER_API_KEY_INDEX'')\<rparr>,
               cfg_auth_aster =
                 \<lparr>user = e ''ASTER_USER'', signer = e ''ASTER_SIGNER'',
                  ecdsa_private_key = e ''ASTER_ECDSA_PRIVATE_KEY'',
                  api_key = e ''ASTER_API_KEY'', api_secret = e ''ASTER_API_SECRET''\<rparr>,
               cfg_auth_eth = e ''ETH_PRIVATE_KEY''\<rparr>)"

section \<open>Credentials\<close>

text \<open>\<^verbatim>\<open>not s\<close> on an optional string: unset or empty.\<close>

definition blank :: "string option \<Rightarrow> bool" where
  "blank s = (case s of None \<Rightarrow> True | Some v \<Rightarrow> v = [])"

definition get_lighter_signer_params :: "py_conv \<Rightarrow> env \<Rightarrow> (string \<times> int \<times> int) result" where
  "get_lighter_signer_params cv e =
     bind_result (load_config cv e) (\<lambda>cfg.
       let auth = cfg_auth_lighter cfg; pk = private_key auth; ai = account_index auth;
           ki = api_key_index auth
       in if blank pk \<or> ai = None \<or> ki = None
          then Inl (MissingCredentials ''Missing Lighter credentials'')
          else Inr (the pk, the ai, the ki))"

definition get_aster_futures_signer :: "py_conv \<Rightarrow> env \<Rightarrow> (string \<times> string \<times> string) result" where
  "get_aster_futures_signer cv e =
     bind_result (load_config cv e) (\<lambda>cfg.
       let auth = cfg_auth_aster cfg; u = user auth; s = signer auth; pk = ecdsa_private_key auth
       in if blank u \<or> blank s \<or> blank pk
          then Inl (MissingCredentials ''Missing Aster futures credentials'')
          else Inr (the u, the s, the pk))"

lemmas config_defs [arb_unfold] =
  getenv_def to_int_def default_pairs_def load_config_def blank_def
  get_lighter_signer_params_def get_aster_futures_signer_def

section \<open>What a loaded configuration satisfies\<close>

text \<open>
  The constraints the consumers of the configuration rely on: a window of at
  least two samples for the z-score, a positive EMA window, thresholds
  ordered as the action partition needs them, a positive poll period and
  funding cycle.
\<close>

definition config_ok :: "config \<Rightarrow> bool" where
  "config_ok cfg \<longleftrightarrow>
     2 \<le> cfg_lookback cfg \<and> 0 < cfg_ema_window cfg
     \<and> 0 \<le> cfg_exit_z cfg \<and> cfg_exit_z cfg < cfg_enter_z cfg
     \<and> 0 < cfg_poll_ms cfg \<and> 0 \<le> cfg_stale_ms_threshold cfg \<and> 0 \<le> cfg_skew_ms_threshold cfg
     \<and> 0 < cfg_notional_usd cfg \<and> list_all (\<lambda>(v, h). 0 < h) (cfg_cycle_hours cfg)
     \<and> cfg_pairs cfg \<noteq> []"

lemma to_int_total:
  "to_int cv None = None" "to_int cv (Some []) = None"
  "s \<noteq> [] \<Longrightarrow> to_int cv (Some s) = conv_int cv s"
  by (simp_all add: to_int_def)

lemma load_config_ok_iff:
  "is_ok (load_config cv e) \<longleftrightarrow> (case e ''DEPTH_LEVELS'' of None \<Rightarrow> True | Some s \<Rightarrow> conv_int cv s \<noteq> None)"
  by (auto simp: load_config_def split: option.splits)

lemma load_config_wf:
  assumes "load_config cv e = Inr cfg"
  shows "config_ok cfg"
  using assms by (auto simp: load_config_def config_ok_def default_pairs_def split: option.splits)

lemma lighter_credentials:
  assumes "load_config cv e = Inr cfg"
  shows "get_lighter_signer_params cv e
    = (case (e ''LIGHTER_API_KEY_PRIVATE_KEY'', to_int cv (e ''LIGHTER_ACCOUNT_INDEX''),
             to_int cv (e ''LIGHTER_API_KEY_INDEX'')) of
         (Some pk, Some ai, Some ki) \<Rightarrow>
           if pk = [] then Inl (MissingCredentials ''Missing Lighter credentials'') else Inr (pk, ai, ki)
       | _ \<Rightarrow> Inl (MissingCredentials ''Missing Lighter credentials''))"
  using assms
  by (auto simp: get_lighter_signer_params_def load_config_def blank_def Let_def split: option.splits)

end
