(* ===== verification/Panel.thy ===== *)
theory Panel
  imports Storage Rate_Limiter Lighter Aster Config
begin

text \<open>
  The ingestion and fan-out surface of the panel server
  (\<^verbatim>\<open>src/arb/panel/server.py\<close>): the WebSocket manager, the ingestion
  endpoint, the read endpoints over the storage layer and the admin
  endpoints of the rate limiter. A WebSocket is a natural number, its
  identity. The subscribers of a pair are a set; a pair that was never
  subscribed has the empty set, which is all \<^verbatim>\<open>active.get(pair, set())\<close>
  lets the code see. The snapshot \<^verbatim>\<open>list(set)\<close> a broadcast iterates is
  taken in ascending order of the identities: Python leaves the order
  open, and no lemma depends on it. What happens while a broadcast awaits a
  send (other clients connect and disconnect) is the step relation
  \<open>fan_step\<close>; the function \<open>broadcast\<close> is the run without such events.
  The state \<^verbatim>\<open>app.state\<close> is the record \<open>panel\<close>; \<open>on_startup\<close> builds it
  from the process environment, the database file and the answer of Lighter
  to the prefetch of its market list, which passes the limiter like every
  call of the connector. A payload whose \<^verbatim>\<open>pair\<close> is a number is stored
  under the text SQLite gives the number and pushed to nobody, since the
  subscribers are keyed by strings; one whose \<^verbatim>\<open>pair\<close> is null fails in the
  \<^verbatim>\<open>INSERT\<close>, after the schema has been migrated.
\<close>

section \<open>The WebSocket manager\<close>

type_synonym ws = nat

record WSManager =
  active :: "string \<Rightarrow> ws set"

definition WSManager_init :: WSManager where
  "WSManager_init = \<lparr>active = (\<lambda>pair. {})\<rparr>"

definition connect :: "WSManager \<Rightarrow> string \<Rightarrow> ws \<Rightarrow> WSManager" where
  "connect m pair w = m\<lparr>active := (active m)(pair := insert w (active m pair))\<rparr>"

definition disconnect :: "WSManager \<Rightarrow> string \<Rightarrow> ws \<Rightarrow> WSManager" where
  "disconnect m pair w = m\<lparr>active := (active m)(pair := active m pair - {w})\<rparr>"

fun broadcast_loop :: "ws list \<Rightarrow> (ws \<Rightarrow> bool) \<Rightarrow> string \<Rightarrow> WSManager \<Rightarrow> ws list \<Rightarrow> ws list \<times> WSManager" where
  "broadcast_loop [] send_ok pair m pushed = (pushed, m)"
| "broadcast_loop (w # conns) send_ok pair m pushed =
     (if send_ok w then broadcast_loop conns send_ok pair m (pushed @ [w])
      else broadcast_loop conns send_ok pair (disconnect m pair w) pushed)"

definition broadcast :: "WSManager \<Rightarrow> string \<Rightarrow> (ws \<Rightarrow> bool) \<Rightarrow> ws list \<times> WSManager" where
  "broadcast m pair send_ok = broadcast_loop (sorted_list_of_set (active m pair)) send_ok pair m []"

definition ws_stream :: "WSManager \<Rightarrow> string \<Rightarrow> ws \<Rightarrow> py_error option \<Rightarrow> py_error \<Rightarrow> WSManager" where
  "ws_stream m pair w accept_error receive_error =
     (case accept_error of
        Some e \<Rightarrow> m
      | None \<Rightarrow> if receive_error = WebSocketDisconnect
                 then disconnect (connect m pair w) pair w
                 else connect m pair w)"

section \<open>A broadcast among concurrent clients\<close>

datatype event = Connect string ws | Disconnect string ws | Sent ws | Failed ws

record fanout =
  mgr :: WSManager
  pending :: "ws list"
  sent :: "ws list"

definition begin_broadcast :: "WSManager \<Rightarrow> string \<Rightarrow> fanout" where
  "begin_broadcast m pair = \<lparr>mgr = m, pending = sorted_list_of_set (active m pair), sent = []\<rparr>"

inductive fan_step :: "string \<Rightarrow> fanout \<Rightarrow> event \<Rightarrow> fanout \<Rightarrow> bool" for pair where
  connects: "fan_step pair s (Connect p w) (s\<lparr>mgr := connect (mgr s) p w\<rparr>)"
| disconnects: "fan_step pair s (Disconnect p w) (s\<lparr>mgr := disconnect (mgr s) p w\<rparr>)"
| sends: "pending s = w # conns \<Longrightarrow> fan_step pair s (Sent w) (s\<lparr>pending := conns, sent := sent s @ [w]\<rparr>)"
| fails: "pending s = w # conns \<Longrightarrow>
     fan_step pair s (Failed w) (s\<lparr>pending := conns, mgr := disconnect (mgr s) pair w\<rparr>)"

inductive fan_run :: "string \<Rightarrow> fanout \<Rightarrow> event list \<Rightarrow> fanout \<Rightarrow> bool" for pair where
  run_nil: "fan_run pair s [] s"
| run_cons: "fan_step pair s ev s' \<Longrightarrow> fan_run pair s' evs s'' \<Longrightarrow> fan_run pair s (ev # evs) s''"

inductive_cases fan_stepE: "fan_step pair s ev s'"
inductive_cases fan_run_NilE: "fan_run pair s [] s'"
inductive_cases fan_run_ConsE: "fan_run pair s (ev # evs) s'"
inductive_simps fan_step_Sent: "fan_step pair s (Sent w) s'"
inductive_simps fan_step_Failed: "fan_step pair s (Failed w) s'"

code_pred fan_step .

lemmas ws_defs [arb_unfold] = WSManager_init_def connect_def disconnect_def broadcast_def ws_stream_def
  begin_broadcast_def


section \<open>Properties of the manager\<close>

lemma connect_active [simp]:
  "active (connect m pair w) p = (if p = pair then insert w (active m pair) else active m p)"
  by (simp add: connect_def)

lemma disconnect_active [simp]:
  "active (disconnect m pair w) p = (if p = pair then active m pair - {w} else active m p)"
  by (simp add: disconnect_def)

lemma broadcast_loop_value:
  "fst (broadcast_loop conns send_ok pair m pushed) = pushed @ filter send_ok conns"
  "active (snd (broadcast_loop conns send_ok pair m pushed))
     = (active m)(pair := active m pair - {w \<in> set conns. \<not> send_ok w})"
  by (induction conns arbitrary: m pushed) (auto simp: fun_eq_iff)

lemma broadcast_value:
  assumes "finite (active m pair)"
  shows "fst (broadcast m pair send_ok) = filter send_ok (sorted_list_of_set (active m pair))"
    "active (snd (broadcast m pair send_ok)) = (active m)(pair := {w \<in> active m pair. send_ok w})"
  using assms by (auto simp: broadcast_def broadcast_loop_value fun_eq_iff)

section \<open>Properties of the step relation\<close>

fun outcome :: "event \<Rightarrow> ws option" where
  "outcome (Sent w) = Some w"
| "outcome (Failed w) = Some w"
| "outcome (Connect p w) = None"
| "outcome (Disconnect p w) = None"

definition sent_of :: "event list \<Rightarrow> ws list" where
  "sent_of evs = List.map_filter (\<lambda>ev. case ev of Sent w \<Rightarrow> Some w | _ \<Rightarrow> None) evs"

definition failed_of :: "event list \<Rightarrow> ws list" where
  "failed_of evs = List.map_filter (\<lambda>ev. case ev of Failed w \<Rightarrow> Some w | _ \<Rightarrow> None) evs"

lemma trace_simps [simp]:
  "sent_of [] = []" "failed_of [] = []"
  "sent_of (ev # evs) = (case ev of Sent w \<Rightarrow> w # sent_of evs | _ \<Rightarrow> sent_of evs)"
  "failed_of (ev # evs) = (case ev of Failed w \<Rightarrow> w # failed_of evs | _ \<Rightarrow> failed_of evs)"
  by (simp_all add: sent_of_def failed_of_def List.map_filter_simps split: event.splits)

lemma outcomes_split:
  "set (List.map_filter outcome evs) = set (sent_of evs) \<union> set (failed_of evs)"
  "length (List.map_filter outcome evs) = length (sent_of evs) + length (failed_of evs)"
  by (induction evs; auto simp: List.map_filter_simps split: event.splits)+

lemma outcomes_distinct:
  "distinct (List.map_filter outcome evs) \<Longrightarrow>
     distinct (sent_of evs) \<and> distinct (failed_of evs) \<and> set (sent_of evs) \<inter> set (failed_of evs) = {}"
proof (induction evs)
  case Nil
  then show ?case by simp
next
  case (Cons ev evs)
  with outcomes_split(1) [of evs] show ?case
    by (cases ev) (auto simp: List.map_filter_simps)
qed

lemma fan_run_trace:
  assumes "fan_run pair s evs s'"
  shows "pending s = List.map_filter outcome evs @ pending s' \<and> sent s' = sent s @ sent_of evs"
  using assms
proof (induction rule: fan_run.induct)
  case (run_nil s)
  then show ?case by (simp add: List.map_filter_simps)
next
  case (run_cons s ev s' evs s'')
  from run_cons.hyps(1) run_cons.IH show ?case
    by (cases rule: fan_step.cases) (simp_all add: List.map_filter_simps)
qed

lemma fan_run_absent:
  assumes "fan_run pair s evs s'" "w \<notin> active (mgr s) pair" "Connect pair w \<notin> set evs"
  shows "w \<notin> active (mgr s') pair"
  using assms
proof (induction rule: fan_run.induct)
  case (run_nil s)
  then show ?case by simp
next
  case (run_cons s ev s' evs s'')
  from run_cons.hyps(1) run_cons.prems have "w \<notin> active (mgr s') pair"
    by (cases rule: fan_step.cases) (auto split: if_splits)
  with run_cons show ?case by simp
qed

lemma fan_run_dropped:
  assumes "fan_run pair s evs s'" "w \<in> set (failed_of evs)" "Connect pair w \<notin> set evs"
  shows "w \<notin> active (mgr s') pair"
  using assms
proof (induction rule: fan_run.induct)
  case (run_nil s)
  then show ?case by simp
next
  case (run_cons s ev s' evs s'')
  show ?case
  proof (cases "ev = Failed w")
    case True
    with run_cons.hyps(1) have "w \<notin> active (mgr s') pair"
      by (cases rule: fan_step.cases) auto
    with run_cons.hyps(2) run_cons.prems(2) show ?thesis
      by (intro fan_run_absent [of pair s' evs s'']) auto
  next
    case False
    with run_cons.prems have "w \<in> set (failed_of evs)" "Connect pair w \<notin> set evs"
      by (auto split: event.splits)
    then show ?thesis by (rule run_cons.IH)
  qed
qed

text \<open>
  C4 (safety): a broadcast among concurrent clients. Whatever clients
  connect and disconnect while the broadcast awaits its sends, the payload is
  pushed at most once to a subscriber, and only to subscribers of the pair
  at the time of the snapshot; when the broadcast has finished every one of
  these \<open>N\<close> subscribers was either pushed to or failed, so the pushes and
  the failures add up to \<open>N\<close>; and a subscriber whose send failed is no
  longer subscribed, unless it connected again in the meantime.
\<close>

theorem fan_run_partition:
  assumes "fan_run pair (begin_broadcast m pair) evs s" "finite (active m pair)"
  shows "distinct (sent s) \<and> set (sent s) \<subseteq> active m pair
     \<and> sent s = sent_of evs
     \<and> (pending s = [] \<longrightarrow>
           set (sent s) = active m pair - set (failed_of evs)
           \<and> length (sent s) + length (failed_of evs) = card (active m pair))
     \<and> (\<forall>w\<in>set (failed_of evs). Connect pair w \<notin> set evs \<longrightarrow> w \<notin> active (mgr s) pair)"
proof -
  let ?snap = "sorted_list_of_set (active m pair)"
  from fan_run_trace [OF assms(1)]
  have t: "?snap = List.map_filter outcome evs @ pending s" "sent s = sent_of evs"
    by (simp_all add: begin_broadcast_def)
  from assms(2) have snap: "distinct ?snap" "set ?snap = active m pair" "length ?snap = card (active m pair)"
    by simp_all
  from snap(1) have d: "distinct (List.map_filter outcome evs)" unfolding t(1) by simp
  note o = outcomes_split [of evs]
  note od = outcomes_distinct [OF d]
  from od have 1: "distinct (sent s)" by (simp add: t(2))
  from snap(2) o(1) have 2: "set (sent s) \<subseteq> active m pair" unfolding t by auto
  have 3: "set (sent s) = active m pair - set (failed_of evs)
      \<and> length (sent s) + length (failed_of evs) = card (active m pair)" if "pending s = []"
    using that snap(2,3) o(1,2) od unfolding t by auto
  from fan_run_dropped [OF assms(1)]
  have 4: "\<forall>w\<in>set (failed_of evs). Connect pair w \<notin> set evs \<longrightarrow> w \<notin> active (mgr s) pair" by blast
  from 1 2 3 4 t(2) show ?thesis by blast
qed


section \<open>Runs as a function of the events\<close>

fun apply_event :: "string \<Rightarrow> fanout \<Rightarrow> event \<Rightarrow> fanout option" where
  "apply_event pair s (Connect p w) = Some (s\<lparr>mgr := connect (mgr s) p w\<rparr>)"
| "apply_event pair s (Disconnect p w) = Some (s\<lparr>mgr := disconnect (mgr s) p w\<rparr>)"
| "apply_event pair s (Sent w) =
     (case pending s of
        w' # conns \<Rightarrow> if w' = w then Some (s\<lparr>pending := conns, sent := sent s @ [w]\<rparr>) else None
      | [] \<Rightarrow> None)"
| "apply_event pair s (Failed w) =
     (case pending s of
        w' # conns \<Rightarrow> if w' = w then Some (s\<lparr>pending := conns, mgr := disconnect (mgr s) pair w\<rparr>) else None
      | [] \<Rightarrow> None)"

fun apply_events :: "string \<Rightarrow> fanout \<Rightarrow> event list \<Rightarrow> fanout option" where
  "apply_events pair s [] = Some s"
| "apply_events pair s (ev # evs) =
     (case apply_event pair s ev of None \<Rightarrow> None | Some s' \<Rightarrow> apply_events pair s' evs)"

lemma fan_step_iff: "fan_step pair s ev s' \<longleftrightarrow> apply_event pair s ev = Some s'"
  by (cases ev) (auto simp: fan_step.simps split: list.splits)

lemma fan_run_iff: "fan_run pair s evs s' \<longleftrightarrow> apply_events pair s evs = Some s'"
proof (induction evs arbitrary: s)
  case Nil
  show ?case by (auto intro: fan_run.intros elim: fan_run_NilE)
next
  case (Cons ev evs)
  show ?case
    by (auto simp: fan_step_iff Cons.IH [symmetric] intro: fan_run.intros elim!: fan_run_ConsE
        split: option.splits)
qed

text \<open>
  C25 (refinement): the loop of \<^verbatim>\<open>WSManager.broadcast\<close> is the run of the
  step relation in which no client interferes: one event per subscriber of
  the snapshot, \<open>Sent\<close> or \<open>Failed\<close> as the send turns out, ending with the
  pushes and the manager the function returns.
\<close>

theorem broadcast_is_run:
  "fan_run pair (begin_broadcast m pair)
     (map (\<lambda>w. if send_ok w then Sent w else Failed w) (sorted_list_of_set (active m pair)))
     \<lparr>mgr = snd (broadcast m pair send_ok), pending = [], sent = fst (broadcast m pair send_ok)\<rparr>"
proof -
  have "apply_events pair s (map (\<lambda>w. if send_ok w then Sent w else Failed w) conns)
      = Some \<lparr>mgr = snd (broadcast_loop conns send_ok pair (mgr s) (sent s)), pending = [],
              sent = fst (broadcast_loop conns send_ok pair (mgr s) (sent s))\<rparr>"
    if "pending s = conns" for s conns
    using that
  proof (induction conns arbitrary: s)
    case Nil
    then show ?case by (cases s) simp
  next
    case (Cons w conns)
    from Cons.prems show ?case
      by (cases "send_ok w") (simp_all add: Cons.IH)
  qed
  from this [of "begin_broadcast m pair", OF refl] show ?thesis
    by (simp add: fan_run_iff broadcast_def begin_broadcast_def)
qed

definition demo_manager :: WSManager where
  "demo_manager = \<lparr>active = (\<lambda>pair. if pair = ''BTC'' then {1, 2, 3} else {})\<rparr>"

theorem fan_run_partition_witness:
  "fan_run ''BTC'' (begin_broadcast demo_manager ''BTC'')
     [Sent 1, Connect ''BTC'' 4, Failed 2, Sent 3]
     \<lparr>mgr = \<lparr>active = (\<lambda>pair. if pair = ''BTC'' then {1, 3, 4} else {})\<rparr>, pending = [], sent = [1, 3]\<rparr>
   \<and> finite (active demo_manager ''BTC'') \<and> card (active demo_manager ''BTC'') = 3
   \<and> failed_of [Sent 1, Connect ''BTC'' 4, Failed 2, Sent 3] = [2]"
proof -
  have s: "sorted_list_of_set {1, 2, 3 :: nat} = [1, 2, 3]"
    by (simp add: sorted_list_of_set.fold_insort_key.insert_remove insort_key.simps)
  have r: "fan_run ''BTC'' (begin_broadcast demo_manager ''BTC'')
     [Sent 1, Connect ''BTC'' 4, Failed 2, Sent 3]
     \<lparr>mgr = \<lparr>active = (\<lambda>pair. if pair = ''BTC'' then {1, 3, 4} else {})\<rparr>, pending = [], sent = [1, 3]\<rparr>"
    by (auto simp: fan_run_iff begin_broadcast_def demo_manager_def s connect_def disconnect_def fun_eq_iff)
  with fan_run_partition [OF r] show ?thesis by (simp add: demo_manager_def)
qed


section \<open>The state of the server and its read endpoints\<close>

datatype 'a field = Missing | Null | Present 'a

type_synonym admin_cfg = "ratelimit_config field"

record panel =
  p_db :: "admin_cfg db"
  p_cfg :: config
  p_manager :: WSManager
  p_ratelimiter :: RateLimiter
  p_lighter :: LighterConnector
  p_aster :: AsterConnector
  p_lighter_map :: "string \<rightharpoonup> int"

definition api_spreads :: "panel \<Rightarrow> string \<Rightarrow> int \<Rightarrow> payload list result" where
  "api_spreads s pair limit =
     (if pair = [] then Inl (HTTPException 400 ''pair is required'')
      else bind_result (get_spreads (p_db s) pair (min (max limit 1) 5000)) (\<lambda>rows. Inr (rev rows)))"

definition api_pairs :: "panel \<Rightarrow> json list result" where
  "api_pairs s =
     bind_result (get_pairs (p_db s)) (\<lambda>rows.
       if rows = [] then map_result (\<lambda>p. get_or p ''name'' JNull) (cfg_pairs (p_cfg s))
       else Inr (map JString rows))"

definition api_latest :: "panel \<Rightarrow> payload list result" where
  "api_latest s = get_latest_all (p_db s)"

section \<open>Ingestion\<close>

definition required :: "string list" where
  "required = [''pair'', ''ts_ms'', ''price_a'', ''price_b'', ''spread'', ''z'', ''mean'', ''std'']"

definition ingest_keys :: "string list" where
  "ingest_keys =
    [''ema'', ''center_dev'', ''ob_spread_a'', ''ob_spread_b'',
     ''ob_spread_pct_a'', ''ob_spread_pct_b'', ''vol_a'', ''vol_b'',
     ''depth_qty_a'', ''depth_qty_b'', ''depth_notional_a'', ''depth_notional_b'',
     ''maker_fee_a'', ''taker_fee_a'', ''maker_fee_b'', ''taker_fee_b'',
     ''fr_a'', ''fr_b'', ''fr_countdown_ms'', ''half_life_s'',
     ''t_exit_s'', ''advice'', ''net_funding_cycle_usd'', ''expect_funding_next_usd'',
     ''age_a_ms'', ''age_b_ms'', ''skew_ms'', ''latency_ms'',
     ''stale'']"

text \<open>
  What the column \<^verbatim>\<open>pair\<close> holds for the value bound to it: a string as it
  is, a number as text (\<^verbatim>\<open>TEXT\<close> affinity); null violates \<^verbatim>\<open>NOT NULL\<close>.
\<close>

definition pair_name_of :: "py_conv \<Rightarrow> jvalue \<Rightarrow> string result" where
  "pair_name_of cv v =
     (case v of
        JStr p \<Rightarrow> Inr p
      | JInt i \<Rightarrow> Inr (conv_text cv (JInteger i))
      | JNum x \<Rightarrow> Inr (conv_text cv (JFloat x))
      | JNone \<Rightarrow> Inl (IntegrityError ''NOT NULL constraint failed: spreads.pair''))"

text \<open>The keyword arguments of the call of \<^verbatim>\<open>insert_spread\<close>, converted in the order they are written.\<close>

definition ingest_values :: "py_conv \<Rightarrow> payload \<Rightarrow> (string \<Rightarrow> insert_args) result" where
  "ingest_values cv payload =
     bind_result (jint cv (dict_get payload ''ts_ms'')) (\<lambda>ts.
     bind_result (jfloat cv (dict_get payload ''price_a'')) (\<lambda>pa.
     bind_result (jfloat cv (dict_get payload ''price_b'')) (\<lambda>pb.
     bind_result (jfloat cv (dict_get payload ''spread'')) (\<lambda>sp.
     bind_result (jfloat cv (dict_get payload ''z'')) (\<lambda>zv.
     bind_result (jfloat cv (dict_get payload ''mean'')) (\<lambda>mv.
     bind_result (jfloat cv (dict_get payload ''std'')) (\<lambda>sd.
       Inr (\<lambda>p. \<lparr>st_pair = p, st_ts_ms = ts, st_price_a = pa, st_price_b = pb, st_spread = sp,
                  st_z = zv, st_mean = mv, st_std = sd,
                  st_extras = map (\<lambda>k. (k, dict_get payload k)) ingest_keys\<rparr>))))))))"

definition ingest_args :: "py_conv \<Rightarrow> payload \<Rightarrow> insert_args result" where
  "ingest_args cv payload =
     bind_result (ingest_values cv payload) (\<lambda>args.
     bind_result (pair_name_of cv (dict_get payload ''pair'')) (\<lambda>p. Inr (args p)))"

text \<open>\<^verbatim>\<open>manager.broadcast(pair, payload)\<close> on the value of the payload: the keys of \<^verbatim>\<open>active\<close> are strings.\<close>

definition broadcast_to :: "WSManager \<Rightarrow> jvalue \<Rightarrow> (ws \<Rightarrow> bool) \<Rightarrow> ws list \<times> WSManager" where
  "broadcast_to m v send_ok = (case v of JStr p \<Rightarrow> broadcast m p send_ok | _ \<Rightarrow> ([], m))"

definition ingest_spread :: "py_conv \<Rightarrow> panel \<Rightarrow> payload \<Rightarrow> (ws \<Rightarrow> bool) \<Rightarrow> ws list result \<times> panel" where
  "ingest_spread cv s payload send_ok =
     (case find (\<lambda>k. k \<notin> fst ` set payload) required of
        Some k \<Rightarrow> (Inl (HTTPException 400 (''missing field '' @ k)), s)
      | None \<Rightarrow>
          (case ingest_values cv payload of
             Inl e \<Rightarrow> (Inl e, s)
           | Inr args \<Rightarrow>
               (case pair_name_of cv (dict_get payload ''pair'') of
                  Inl e \<Rightarrow> (Inl e, s\<lparr>p_db := ensure_schema (p_db s)\<rparr>)
                | Inr p \<Rightarrow>
                    let db' = insert_spread (p_db s) (args p);
                        (pushed, m') = broadcast_to (p_manager s) (dict_get payload ''pair'') send_ok
                    in (Inr pushed, s\<lparr>p_db := db', p_manager := m'\<rparr>))))"

section \<open>The admin endpoints\<close>

definition default_admin :: admin_cfg where
  "default_admin = Present
     [(''aster'', [(''global'', \<lparr>conf_capacity = Some 20, conf_refill = Some 10\<rparr>)]),
      (''lighter'', [(''global'', \<lparr>conf_capacity = Some 20, conf_refill = Some 10\<rparr>)])]"

text \<open>
  The start of the server. \<open>file\<close> is the database found at \<^verbatim>\<open>DB_PATH\<close>,
  \<open>now\<close> the clock when the limiter is built, \<open>arrived\<close> the clock when
  the prefetch reaches it and \<open>resp\<close> what Lighter answers. The result is
  \<open>None\<close> when the prefetch never leaves the limiter, the \<^verbatim>\<open>ValueError\<close> of
  \<^verbatim>\<open>load_config\<close> when \<^verbatim>\<open>DEPTH_LEVELS\<close> is no integer; a prefetch that raises
  leaves an empty market map.
\<close>

definition startup_limiter :: "admin_cfg db \<Rightarrow> real \<Rightarrow> RateLimiter" where
  "startup_limiter db now =
     RateLimiter_init (case admin_get_config db of Some (Present c) \<Rightarrow> Some c | _ \<Rightarrow> None) now"

definition on_startup ::
  "py_conv \<Rightarrow> env \<Rightarrow> admin_cfg db option \<Rightarrow> (nat \<Rightarrow> real) \<Rightarrow> json result \<Rightarrow> real \<Rightarrow> real
     \<Rightarrow> panel result option" where
  "on_startup cv e file lag resp now arrived =
     (let db = open_db file
      in case load_config cv e of
           Inl err \<Rightarrow> Some (Inl err)
         | Inr cfg \<Rightarrow>
             let limiter = startup_limiter db now;
                 lighter = LighterConnector_init (cfg_lighter_host cfg) None True;
                 aster = AsterConnector_init (cfg_aster_host cfg) None True
             in case fetch_market_map cv lag lighter limiter resp arrived of
                  None \<Rightarrow> None
                | Some r \<Rightarrow>
                    Some (Inr \<lparr>p_db = db, p_cfg = cfg, p_manager = WSManager_init,
                               p_ratelimiter = c_lim r, p_lighter = c_conn r, p_aster = aster,
                               p_lighter_map = (case c_ret r of Inl err \<Rightarrow> Map.empty | Inr m \<Rightarrow> m)\<rparr>))"

text \<open>\<^verbatim>\<open>on_shutdown\<close>: the sessions of both connectors are closed; the database handle is not part of the model.\<close>

definition on_shutdown :: "panel \<Rightarrow> panel" where
  "on_shutdown s = s\<lparr>p_lighter := close (p_lighter s), p_aster := close (p_aster s)\<rparr>"

definition health :: "(string \<times> json) list" where
  "health = [(''status'', JString ''ok'')]"

definition api_admin_get :: "panel \<Rightarrow> admin_cfg" where
  "api_admin_get s = (case admin_get_config (p_db s) of None \<Rightarrow> default_admin | Some cfg \<Rightarrow> cfg)"

definition api_admin_set :: "panel \<Rightarrow> admin_cfg \<Rightarrow> real \<Rightarrow> unit result \<times> panel" where
  "api_admin_set s payload now =
     (case payload of
        Missing \<Rightarrow> (Inl (HTTPException 400 ''missing ratelimits''), s)
      | Null \<Rightarrow> (Inl (AttributeError ''NoneType has no attribute items''),
                  s\<lparr>p_db := admin_set_config (p_db s) payload\<rparr>)
      | Present c \<Rightarrow>
          (Inr (), s\<lparr>p_db := admin_set_config (p_db s) payload,
                     p_ratelimiter := RateLimiter_update (p_ratelimiter s) c now\<rparr>))"

lemmas panel_defs [arb_unfold] =
  api_spreads_def api_pairs_def api_latest_def required_def ingest_values_def ingest_args_def
  broadcast_to_def ingest_spread_def default_admin_def startup_limiter_def on_startup_def
  on_shutdown_def health_def api_admin_get_def api_admin_set_def pair_name_of_def


section \<open>Properties of the endpoints\<close>

lemma ingest_keys_eq: "ingest_keys = drop 8 insert_columns"
  by (simp add: ingest_keys_def insert_columns_def)

lemma api_spreads_ascending:
  assumes "api_spreads s pair limit = Inr rs"
  shows "sorted (map ts_of rs) \<and> length rs \<le> 5000 \<and> pair \<noteq> []"
proof -
  from assms obtain rows where r: "get_spreads (p_db s) pair (min (max limit 1) 5000) = Inr rows"
    and rs: "rs = rev rows" and p: "pair \<noteq> []"
    by (auto simp: api_spreads_def bind_result_eq_Inr split: if_splits)
  let ?m = "filter (\<lambda>r. dict_get r ''pair'' = JStr pair) (tbl_rows (p_db s))"
  from r have rows: "rows = map (project spreads_columns) (take (nat (min (max limit 1) 5000)) (rev (sort_key ts_of ?m)))"
    by (auto simp: get_spreads_def Let_def split: if_splits)
  have "map ts_of rows = take (nat (min (max limit 1) 5000)) (rev (map ts_of (sort_key ts_of ?m)))"
    by (simp add: rows comp_def take_map rev_map)
  then have "sorted (rev (map ts_of rows))" by (simp add: sorted_rev_take_rev)
  moreover have "length rows \<le> 5000" by (simp add: rows)
  ultimately show ?thesis using p by (simp add: rs rev_map)
qed

lemma ingest_spread_value:
  assumes "find (\<lambda>k. k \<notin> fst ` set payload) required = None" "ingest_args cv payload = Inr a"
  shows "ingest_spread cv s payload send_ok
     = (Inr (fst (broadcast_to (p_manager s) (dict_get payload ''pair'') send_ok)),
        s\<lparr>p_db := insert_spread (p_db s) a,
          p_manager := snd (broadcast_to (p_manager s) (dict_get payload ''pair'') send_ok)\<rparr>)"
  using assms
  by (auto simp: ingest_spread_def ingest_args_def bind_result_eq_Inr split_beta Let_def)

lemma ingest_args_pair:
  "ingest_args cv payload = Inr a \<Longrightarrow> dict_get payload ''pair'' = JStr p \<Longrightarrow> st_pair a = p"
  by (auto simp: ingest_args_def ingest_values_def pair_name_of_def bind_result_eq_Inr)

lemma broadcast_to_simps [simp]:
  "broadcast_to m (JStr p) send_ok = broadcast m p send_ok"
  "broadcast_to m JNone send_ok = ([], m)" "broadcast_to m (JInt i) send_ok = ([], m)"
  "broadcast_to m (JNum x) send_ok = ([], m)"
  by (simp_all add: broadcast_to_def)

text \<open>
  C19 (functional): ingestion and fan-out. A payload that carries the
  required keys with values that convert is stored as one new row. When its
  pair is a string it is pushed to exactly the subscribers of that pair whose
  send succeeds, once each: with \<open>N\<close> subscribers and no failure, \<open>N\<close>
  pushes; the subscribers whose send failed are dropped from the pair. When
  its pair is a number nobody is pushed. The subscribers of other pairs and
  the rate limiter are untouched.
\<close>

theorem ingest_fanout:
  assumes "find (\<lambda>k. k \<notin> fst ` set payload) required = None" "ingest_args cv payload = Inr a"
    and "finite (active (p_manager s) (st_pair a))" "db_inv (p_db s)"
  shows "\<exists>pushed s'. ingest_spread cv s payload send_ok = (Inr pushed, s')
     \<and> tbl_rows (p_db s') = tbl_rows (p_db s) @ [stored_row a]
     \<and> p_ratelimiter s' = p_ratelimiter s
     \<and> (case dict_get payload ''pair'' of
          JStr p \<Rightarrow>
            st_pair a = p \<and> distinct pushed
            \<and> set pushed = {w \<in> active (p_manager s) (st_pair a). send_ok w}
            \<and> ((\<forall>w\<in>active (p_manager s) (st_pair a). send_ok w) \<longrightarrow>
                  length pushed = card (active (p_manager s) (st_pair a)))
            \<and> active (p_manager s') = (active (p_manager s))
                  (st_pair a := {w \<in> active (p_manager s) (st_pair a). send_ok w})
        | _ \<Rightarrow> pushed = [] \<and> p_manager s' = p_manager s)"
proof (cases "dict_get payload ''pair''")
  case (JStr p)
  let ?subs = "active (p_manager s) (st_pair a)"
  let ?b = "broadcast (p_manager s) (st_pair a) send_ok"
  from ingest_args_pair [OF assms(2) JStr] have p: "st_pair a = p" .
  note b = broadcast_value [OF assms(3), of send_ok]
  note i = ingest_spread_value [OF assms(1,2), of s send_ok]
  from assms(3) have d: "distinct (fst ?b)" "set (fst ?b) = {w \<in> ?subs. send_ok w}"
    by (simp_all add: b(1))
  have "length (fst ?b) = card ?subs" if "\<forall>w\<in>?subs. send_ok w"
  proof -
    from that assms(3) have "filter send_ok (sorted_list_of_set ?subs) = sorted_list_of_set ?subs"
      by (intro filter_True) simp
    with assms(3) show ?thesis by (simp add: b(1))
  qed
  with i d b(2) insert_spread_fields(1) [OF assms(4), of a] JStr p show ?thesis by simp
qed (use ingest_spread_value [OF assms(1,2), of s send_ok] insert_spread_fields(1) [OF assms(4), of a]
      in simp_all)

section \<open>What ingestion accepts\<close>

text \<open>The values \<^verbatim>\<open>float()\<close> and \<^verbatim>\<open>int()\<close> accept: a number, or a string that is a literal.\<close>

definition float_literal :: "py_conv \<Rightarrow> jvalue \<Rightarrow> bool" where
  "float_literal cv v \<longleftrightarrow> (case v of JNone \<Rightarrow> False | JStr x \<Rightarrow> conv_float cv x \<noteq> None | _ \<Rightarrow> True)"

definition int_literal :: "py_conv \<Rightarrow> jvalue \<Rightarrow> bool" where
  "int_literal cv v \<longleftrightarrow> (case v of JNone \<Rightarrow> False | JStr x \<Rightarrow> conv_int cv x \<noteq> None | _ \<Rightarrow> True)"

lemma float_literal_iff: "is_ok (jfloat cv v) \<longleftrightarrow> float_literal cv v"
  by (cases v) (simp_all add: float_literal_def split: option.splits)

lemma int_literal_iff: "is_ok (jint cv v) \<longleftrightarrow> int_literal cv v"
  by (cases v) (simp_all add: int_literal_def split: option.splits)

lemma required_present:
  "find (\<lambda>k. k \<notin> fst ` set payload) required = None \<longleftrightarrow>
     {''pair'', ''ts_ms'', ''price_a'', ''price_b'', ''spread'', ''z'', ''mean'', ''std''} \<subseteq> fst ` set payload"
  by (auto simp: find_None_iff required_def)

lemma ingest_values_ok_iff:
  "is_ok (ingest_values cv payload) \<longleftrightarrow>
     int_literal cv (dict_get payload ''ts_ms'')
     \<and> (\<forall>k\<in>{''price_a'', ''price_b'', ''spread'', ''z'', ''mean'', ''std''}. float_literal cv (dict_get payload k))"
  by (auto simp: ingest_values_def is_ok_iff bind_result_eq_Inr
      float_literal_iff [symmetric] int_literal_iff [symmetric])

lemma ingest_missing:
  assumes "find (\<lambda>k. k \<notin> fst ` set payload) required = Some k"
  shows "ingest_spread cv s payload send_ok = (Inl (HTTPException 400 (''missing field '' @ k)), s)"
    "k \<in> set required" "k \<notin> fst ` set payload"
  using assms by (simp add: ingest_spread_def, auto simp: find_Some_iff)

text \<open>
  C30 (error): what ingestion rejects. A payload is stored exactly when it
  carries the eight keys pair, ts_ms, price_a, price_b, spread, z, mean and
  std, its \<^verbatim>\<open>ts_ms\<close> is a number or a string \<^verbatim>\<open>int()\<close> reads, its six floats
  are numbers or strings \<^verbatim>\<open>float()\<close> reads (so the string "100" is
  accepted), and its pair is not null. A payload that lacks one of the eight
  keys is answered with status 400 naming a missing key and leaves the state
  as it was. Every rejected payload leaves the rows, the subscribers and the
  limiter as they were. Nothing else is checked: the stored spread is the
  payload's, whatever \<^verbatim>\<open>price_a - price_b\<close> is.
\<close>

theorem ingest_rejects:
  "(is_ok (fst (ingest_spread cv s payload send_ok)) \<longleftrightarrow>
      {''pair'', ''ts_ms'', ''price_a'', ''price_b'', ''spread'', ''z'', ''mean'', ''std''} \<subseteq> fst ` set payload
      \<and> int_literal cv (dict_get payload ''ts_ms'')
      \<and> (\<forall>k\<in>{''price_a'', ''price_b'', ''spread'', ''z'', ''mean'', ''std''}. float_literal cv (dict_get payload k))
      \<and> dict_get payload ''pair'' \<noteq> JNone)
   \<and> (\<forall>k\<in>{''pair'', ''ts_ms'', ''price_a'', ''price_b'', ''spread'', ''z'', ''mean'', ''std''}.
        k \<notin> fst ` set payload \<longrightarrow>
          (\<exists>k'. k' \<notin> fst ` set payload
             \<and> ingest_spread cv s payload send_ok = (Inl (HTTPException 400 (''missing field '' @ k')), s)))
   \<and> (\<not> is_ok (fst (ingest_spread cv s payload send_ok)) \<longrightarrow>
        tbl_rows (p_db (snd (ingest_spread cv s payload send_ok))) = tbl_rows (p_db s)
        \<and> p_manager (snd (ingest_spread cv s payload send_ok)) = p_manager s
        \<and> p_ratelimiter (snd (ingest_spread cv s payload send_ok)) = p_ratelimiter s)
   \<and> (\<forall>a x. ingest_args cv payload = Inr a \<and> dict_get payload ''spread'' = JNum x \<longrightarrow> st_spread a = x)"
proof -
  let ?r = "ingest_spread cv s payload send_ok"
  let ?keys = "{''pair'', ''ts_ms'', ''price_a'', ''price_b'', ''spread'', ''z'', ''mean'', ''std''}"
  show ?thesis
  proof (cases "find (\<lambda>k. k \<notin> fst ` set payload) required")
    case None
    then have k: "?keys \<subseteq> fst ` set payload" by (simp only: required_present)
    from None have "is_ok (fst ?r) \<longleftrightarrow> is_ok (ingest_values cv payload) \<and> dict_get payload ''pair'' \<noteq> JNone"
      by (cases "dict_get payload ''pair''")
        (auto simp: ingest_spread_def pair_name_of_def split_beta Let_def split: sum.splits)
    moreover from None have "\<not> is_ok (fst ?r) \<Longrightarrow> tbl_rows (p_db (snd ?r)) = tbl_rows (p_db s)
        \<and> p_manager (snd ?r) = p_manager s \<and> p_ratelimiter (snd ?r) = p_ratelimiter s"
      by (auto simp: ingest_spread_def split_beta Let_def split: sum.splits)
    moreover have "st_spread a = x" if "ingest_args cv payload = Inr a" "dict_get payload ''spread'' = JNum x" for a x
      using that by (auto simp: ingest_args_def ingest_values_def bind_result_eq_Inr)
    ultimately show ?thesis using k by (auto simp: ingest_values_ok_iff)
  next
    case (Some k)
    note m = ingest_missing(1) [where cv = cv and s = s and send_ok = send_ok, OF Some]
      ingest_missing(2,3) [OF Some]
    from Some have "\<not> ?keys \<subseteq> fst ` set payload"
      by (metis option.distinct(1) required_present)
    moreover have "st_spread a = x" if "ingest_args cv payload = Inr a" "dict_get payload ''spread'' = JNum x" for a x
      using that by (auto simp: ingest_args_def ingest_values_def bind_result_eq_Inr)
    ultimately show ?thesis using m by auto
  qed
qed


section \<open>Worked examples of ingestion\<close>

definition demo_conv :: py_conv where
  "demo_conv = \<lparr>conv_float = map_of [(''100'', 100)], conv_int = map_of [(''1040'', 1040)],
                conv_repr = (\<lambda>v. ''?''), conv_text = (\<lambda>v. ''?'')\<rparr>"

definition demo_panel :: panel where
  "demo_panel = \<lparr>p_db = open_db None,
      p_cfg = (case load_config demo_conv Map.empty of Inr cfg \<Rightarrow> cfg),
      p_manager = demo_manager,
      p_ratelimiter = RateLimiter_init None 0,
      p_lighter = LighterConnector_init ''https://mainnet.zklighter.elliot.ai'' None True,
      p_aster = AsterConnector_init ''https://fapi.asterdex.com'' None True,
      p_lighter_map = Map.empty\<rparr>"

definition demo_payload :: payload where
  "demo_payload = [(''pair'', JStr ''BTC''), (''ts_ms'', JInt 1040), (''price_a'', JNum 100),
      (''price_b'', JNum 99), (''spread'', JNum 5), (''z'', JNum 2), (''mean'', JNum (3 / 10)),
      (''std'', JNum (1 / 10)), (''stale'', JInt 0)]"

definition demo_ingested :: insert_args where
  "demo_ingested = \<lparr>st_pair = ''BTC'', st_ts_ms = 1040, st_price_a = 100, st_price_b = 99,
      st_spread = 5, st_z = 2, st_mean = 3 / 10, st_std = 1 / 10,
      st_extras = map (\<lambda>k. (k, dict_get demo_payload k)) ingest_keys\<rparr>"

lemma demo_payload_ok:
  "find (\<lambda>k. k \<notin> fst ` set demo_payload) required = None" "ingest_args cv demo_payload = Inr demo_ingested"
  by (simp_all add: required_def demo_payload_def ingest_args_def ingest_values_def demo_ingested_def
      pair_name_of_def)

theorem ingest_fanout_witness:
  "(\<exists>pushed s'. ingest_spread demo_conv demo_panel demo_payload (\<lambda>w. w \<noteq> 2) = (Inr pushed, s')
      \<and> set pushed = {1, 3} \<and> active (p_manager s') ''BTC'' = {1, 3}
      \<and> tbl_rows (p_db s') = [stored_row demo_ingested])
   \<and> db_inv (p_db demo_panel) \<and> active (p_manager demo_panel) ''BTC'' = {1, 2, 3}"
proof -
  have f: "finite (active (p_manager demo_panel) (st_pair demo_ingested))"
    and a: "active (p_manager demo_panel) (st_pair demo_ingested) = {1, 2, 3}"
    and d: "db_inv (p_db demo_panel)" and r: "tbl_rows (p_db demo_panel) = []"
    and p: "dict_get demo_payload ''pair'' = JStr ''BTC''"
    by (simp_all add: demo_panel_def demo_manager_def demo_ingested_def open_db_inv demo_payload_def)
      (simp add: open_db_def)
  have "{w \<in> {1, 2, 3 :: nat}. w \<noteq> 2} = {1, 3}" by auto
  with ingest_fanout [where cv = demo_conv and send_ok = "\<lambda>w. w \<noteq> 2", OF demo_payload_ok f d] a d r p show ?thesis
    by (auto simp: demo_ingested_def)
qed

theorem ingest_rejects_witness:
  "ingest_spread demo_conv demo_panel (filter (\<lambda>(k, v). k \<noteq> ''z'' \<and> k \<noteq> ''std'') demo_payload) (\<lambda>w. True)
     = (Inl (HTTPException 400 ''missing field z''), demo_panel)
   \<and> is_ok (fst (ingest_spread demo_conv demo_panel ((''price_a'', JStr ''100'') # demo_payload) (\<lambda>w. True)))
   \<and> \<not> is_ok (fst (ingest_spread demo_conv demo_panel ((''price_a'', JStr ''abc'') # demo_payload) (\<lambda>w. True)))
   \<and> \<not> is_ok (fst (ingest_spread demo_conv demo_panel ((''price_a'', JNone) # demo_payload) (\<lambda>w. True)))
   \<and> tbl_rows (p_db (snd (ingest_spread demo_conv demo_panel ((''price_a'', JNone) # demo_payload) (\<lambda>w. True)))) = []
   \<and> ingest_args demo_conv demo_payload = Inr demo_ingested
   \<and> st_spread demo_ingested = 5 \<and> st_price_a demo_ingested - st_price_b demo_ingested = 1"
proof -
  let ?p1 = "filter (\<lambda>(k, v). k \<noteq> ''z'' \<and> k \<noteq> ''std'') demo_payload"
  let ?p2 = "(''price_a'', JStr ''100'') # demo_payload"
  let ?p3 = "(''price_a'', JStr ''abc'') # demo_payload"
  let ?p4 = "(''price_a'', JNone) # demo_payload"
  have 1: "ingest_spread demo_conv demo_panel ?p1 (\<lambda>w. True)
      = (Inl (HTTPException 400 ''missing field z''), demo_panel)"
    by (simp add: ingest_spread_def required_def demo_payload_def)
  have r: "tbl_rows (p_db demo_panel) = []" by (simp add: demo_panel_def open_db_def)
  note a = ingest_rejects [of demo_conv demo_panel ?p2 "\<lambda>w. True", THEN conjunct1]
  note b = ingest_rejects [of demo_conv demo_panel ?p3 "\<lambda>w. True", THEN conjunct1]
  note c = ingest_rejects [of demo_conv demo_panel ?p4 "\<lambda>w. True"]
  from c have c1: "\<not> is_ok (fst (ingest_spread demo_conv demo_panel ?p4 (\<lambda>w. True)))"
    by (simp add: demo_payload_def float_literal_def)
  with c r have "tbl_rows (p_db (snd (ingest_spread demo_conv demo_panel ?p4 (\<lambda>w. True)))) = []" by simp
  moreover have "st_spread demo_ingested = 5" "st_price_a demo_ingested - st_price_b demo_ingested = 1"
    by (simp_all add: demo_ingested_def)
  moreover from a have "is_ok (fst (ingest_spread demo_conv demo_panel ?p2 (\<lambda>w. True)))"
    by (simp add: demo_payload_def float_literal_def int_literal_def demo_conv_def)
  moreover from b have "\<not> is_ok (fst (ingest_spread demo_conv demo_panel ?p3 (\<lambda>w. True)))"
    by (simp add: demo_payload_def float_literal_def int_literal_def demo_conv_def)
  ultimately show ?thesis using 1 c1 demo_payload_ok(2) by simp
qed

section \<open>The admin endpoints and the limiter\<close>

lemma admin_roundtrip [simp]:
  "admin_get_config (admin_set_config db cfg) = Some cfg"
  "tbl_rows (admin_set_config db cfg) = tbl_rows db" "tbl_cols (admin_set_config db cfg) = tbl_cols db"
  "admin_get_config (open_db None) = None"
  by (simp_all add: admin_get_config_def admin_set_config_def open_db_def)

definition s6_config :: ratelimit_config where
  "s6_config = [(''aster'', [(''global'', \<lparr>conf_capacity = Some 2, conf_refill = Some 1\<rparr>)])]"

definition three_allows :: "RateLimiter \<Rightarrow> string \<Rightarrow> string \<Rightarrow> real \<Rightarrow> real list option" where
  "three_allows rl exch endpoint now =
     (case allow (\<lambda>k. 0) rl exch endpoint 1 now of
        None \<Rightarrow> None
      | Some (rl1, t1) \<Rightarrow>
          (case allow (\<lambda>k. 0) rl1 exch endpoint 1 t1 of
             None \<Rightarrow> None
           | Some (rl2, t2) \<Rightarrow>
               (case allow (\<lambda>k. 0) rl2 exch endpoint 1 t2 of
                  None \<Rightarrow> None
                | Some (rl3, t3) \<Rightarrow> Some [t1, t2, t3])))"

lemma s6_bucket:
  "buckets (RateLimiter_update rl s6_config now) (key ''aster'' ''global'')
     = Some \<lparr>capacity = 2, refill_rate = 1, tokens = 2, last_t = now\<rparr>"
  "k \<noteq> key ''aster'' ''global'' \<Longrightarrow> buckets (RateLimiter_update rl s6_config now) k = buckets rl k"
  by (simp_all add: RateLimiter_update_def s6_config_def bucket_of_conf_def TokenBucket_init_def)

lemma fresh_lighter_allow:
  assumes "buckets rl (key ''lighter'' ''global'') = None"
  shows "allow lag rl ''lighter'' ''global'' 1 t
    = Some (rl\<lparr>buckets := (buckets rl)(key ''lighter'' ''global'' \<mapsto>
              \<lparr>capacity = 1000, refill_rate = 1000, tokens = 999, last_t = t\<rparr>)\<rparr>, t)"
  using assms
  by (simp add: allow_def allow_bucket_def allow_key_def TokenBucket_init_def consume_no_wait refill_def)

lemma on_startup_value:
  assumes "load_config cv e = Inr cfg" "buckets (startup_limiter (open_db file) now) (key ''lighter'' ''global'') = None"
  shows "on_startup cv e file lag resp now arrived =
    Some (Inr \<lparr>p_db = open_db file, p_cfg = cfg, p_manager = WSManager_init,
               p_ratelimiter = (startup_limiter (open_db file) now)
                 \<lparr>buckets := (buckets (startup_limiter (open_db file) now))(key ''lighter'' ''global'' \<mapsto>
                    \<lparr>capacity = 1000, refill_rate = 1000, tokens = 999, last_t = arrived\<rparr>)\<rparr>,
               p_lighter = (session (LighterConnector_init (cfg_lighter_host cfg) None True))
                 \<lparr>books_cache := cache_after JNull resp\<rparr>,
               p_aster = AsterConnector_init (cfg_aster_host cfg) None True,
               p_lighter_map = (case bind_result resp (market_map_of cv) of Inl err \<Rightarrow> Map.empty | Inr m \<Rightarrow> m)\<rparr>)"
proof -
  let ?c = "LighterConnector_init (cfg_lighter_host cfg) None True"
  have h: "has_limiter ?c" "books_cache ?c = JNull"
    by (simp_all add: LighterConnector_init_def Connector_init_def Connector.extend_def
        LighterConnector.fields_def)
  from h(1) fresh_lighter_allow [OF assms(2), of lag arrived]
  have l: "limited lag ?c (startup_limiter (open_db file) now) ''lighter'' ''global'' arrived
    = Some ((startup_limiter (open_db file) now)
        \<lparr>buckets := (buckets (startup_limiter (open_db file) now))(key ''lighter'' ''global'' \<mapsto>
           \<lparr>capacity = 1000, refill_rate = 1000, tokens = 999, last_t = arrived\<rparr>)\<rparr>, arrived)"
    by simp
  from h(2) assms(1) show ?thesis
    by (simp add: on_startup_def fetch_market_map_def Let_def fetch_Some [OF l])
qed

text \<open>
  C34 (functional): an admin update takes effect at once and survives a
  restart. After \<^verbatim>\<open>POST /api/admin/config\<close> sets the global bucket of Aster
  to capacity 2 and refill 1/s, the configuration read back is the one
  posted; of three requests made at once to an endpoint of Aster without a
  bucket of its own, two pass immediately and the third a second later; and
  a server started on the same database, in an environment whose
  configuration loads, holds that bucket, full, next to the bucket of
  capacity 1000 that the prefetch of Lighter's market list has created and
  charged with one token, and no other bucket.
\<close>

theorem admin_set_takes_effect:
  assumes "buckets (p_ratelimiter s) (key ''aster'' endpoint) = None"
    and "key ''aster'' endpoint \<noteq> key ''aster'' ''global''"
    and "load_config cv e = Inr cfg"
  shows "fst (api_admin_set s (Present s6_config) now) = Inr ()
     \<and> api_admin_get (snd (api_admin_set s (Present s6_config) now)) = Present s6_config
     \<and> three_allows (p_ratelimiter (snd (api_admin_set s (Present s6_config) now))) ''aster'' endpoint now
         = Some [now, now, now + 1]
     \<and> (\<exists>s'. on_startup cv e (Some (p_db (snd (api_admin_set s (Present s6_config) now)))) lag resp now' arrived
              = Some (Inr s')
          \<and> api_admin_get s' = Present s6_config
          \<and> buckets (p_ratelimiter s')
              = [key ''aster'' ''global'' \<mapsto> \<lparr>capacity = 2, refill_rate = 1, tokens = 2, last_t = now'\<rparr>,
                 key ''lighter'' ''global'' \<mapsto>
                   \<lparr>capacity = 1000, refill_rate = 1000, tokens = 999, last_t = arrived\<rparr>])"
proof -
  let ?rl = "RateLimiter_update (p_ratelimiter s) s6_config now"
  let ?g = "key ''aster'' ''global''"
  let ?db = "admin_set_config (p_db s) (Present s6_config)"
  have s': "snd (api_admin_set s (Present s6_config) now) = s\<lparr>p_db := ?db, p_ratelimiter := ?rl\<rparr>"
    "fst (api_admin_set s (Present s6_config) now) = Inr ()"
    by (simp_all add: api_admin_set_def)
  from assms have b: "buckets ?rl (key ''aster'' endpoint) = None" by (simp add: s6_bucket(2))
  have a1: "allow (\<lambda>k. 0) ?rl ''aster'' endpoint 1 now
      = Some (?rl\<lparr>buckets := (buckets ?rl)(?g \<mapsto> \<lparr>capacity = 2, refill_rate = 1, tokens = 1, last_t = now\<rparr>)\<rparr>, now)"
    using b by (simp add: allow_def allow_bucket_def allow_key_def s6_bucket(1) consume_no_wait refill_def)
  let ?rl1 = "?rl\<lparr>buckets := (buckets ?rl)(?g \<mapsto> \<lparr>capacity = 2, refill_rate = 1, tokens = 1, last_t = now\<rparr>)\<rparr>"
  from assms(2) b have a2: "allow (\<lambda>k. 0) ?rl1 ''aster'' endpoint 1 now
      = Some (?rl1\<lparr>buckets := (buckets ?rl1)(?g \<mapsto> \<lparr>capacity = 2, refill_rate = 1, tokens = 0, last_t = now\<rparr>)\<rparr>, now)"
    by (simp add: allow_def allow_bucket_def allow_key_def consume_no_wait refill_def)
  let ?rl2 = "?rl1\<lparr>buckets := (buckets ?rl1)(?g \<mapsto> \<lparr>capacity = 2, refill_rate = 1, tokens = 0, last_t = now\<rparr>)\<rparr>"
  let ?b2 = "\<lparr>capacity = 2, refill_rate = 1, tokens = 0, last_t = now\<rparr>"
  have ct: "consume_time (\<lambda>k. 0) ?b2 1 now = now + 1"
    by (simp add: consume_time_def refill_def sleep_time_def)
  have "\<exists>b'. consume (\<lambda>k. 0) ?b2 1 now = Some (b', now + 1)"
    using consume_one_wait [of ?b2 1 now "\<lambda>k. 0"] by (simp add: ct refill_def)
  with assms(2) b have a3: "\<exists>rl3. allow (\<lambda>k. 0) ?rl2 ''aster'' endpoint 1 now = Some (rl3, now + 1)"
    by (auto simp: allow_def allow_bucket_def allow_key_def)
  from a1 a2 a3 have three: "three_allows ?rl ''aster'' endpoint now = Some [now, now, now + 1]"
    by (auto simp: three_allows_def)
  have l: "startup_limiter ?db now' = RateLimiter_init (Some s6_config) now'"
    by (simp add: startup_limiter_def)
  have i: "buckets (RateLimiter_init (Some s6_config) now')
      = [?g \<mapsto> \<lparr>capacity = 2, refill_rate = 1, tokens = 2, last_t = now'\<rparr>]"
    by (simp add: RateLimiter_init_def RateLimiter_update_def s6_config_def bucket_of_conf_def
        TokenBucket_init_def)
  then have "buckets (startup_limiter (open_db (Some ?db)) now') (key ''lighter'' ''global'') = None"
    by (simp add: l key_def open_db_def)
  from on_startup_value [OF assms(3) this, of lag resp arrived] three show ?thesis
    by (simp add: s' api_admin_get_def l i open_db_def)
qed

theorem admin_set_takes_effect_witness:
  "buckets (p_ratelimiter demo_panel) (key ''aster'' ''depth'') = None
   \<and> three_allows (p_ratelimiter (snd (api_admin_set demo_panel (Present s6_config) 10)))
        ''aster'' ''depth'' 10 = Some [10, 10, 11]
   \<and> api_admin_get (snd (api_admin_set demo_panel (Present s6_config) 10)) = Present s6_config
   \<and> (\<exists>s'. on_startup demo_conv Map.empty (Some (p_db (snd (api_admin_set demo_panel (Present s6_config) 10))))
               (\<lambda>k. 0) (Inl (ClientError ''timeout'')) 20 21 = Some (Inr s')
          \<and> buckets (p_ratelimiter s') ''aster:global''
              = Some \<lparr>capacity = 2, refill_rate = 1, tokens = 2, last_t = 20\<rparr>
          \<and> buckets (p_ratelimiter s') ''lighter:global''
              = Some \<lparr>capacity = 1000, refill_rate = 1000, tokens = 999, last_t = 21\<rparr>)"
proof -
  have h: "buckets (p_ratelimiter demo_panel) (key ''aster'' ''depth'') = None"
    "key ''aster'' ''depth'' \<noteq> key ''aster'' ''global''"
    by (simp_all add: demo_panel_def RateLimiter_init_def key_def)
  obtain cfg where c: "load_config demo_conv Map.empty = Inr cfg" by (simp add: load_config_def)
  from admin_set_takes_effect [OF h c, of 10 "\<lambda>k. 0" "Inl (ClientError ''timeout'')" 20 21] h(1)
  show ?thesis by (auto simp: key_def)
qed

text \<open>
  The limits the admin endpoint displays on a fresh server are not the
  limits in force. With nothing stored, \<^verbatim>\<open>GET /api/admin/config\<close> answers
  capacity 20 and refill 10/s for either venue, while the limiter was built
  without any bucket: the prefetch has created the permissive bucket of
  capacity 1000 and refill 1000/s for Lighter, and Aster gets the same at its
  first call. A posted configuration whose \<^verbatim>\<open>ratelimits\<close> is null is stored
  and then fails in the limiter.
\<close>

theorem startup_limits_not_displayed:
  assumes "load_config cv e = Inr cfg"
  shows "\<exists>s'. on_startup cv e None lag resp now arrived = Some (Inr s')
   \<and> api_admin_get s' = default_admin
   \<and> buckets (p_ratelimiter s')
       = [key ''lighter'' ''global'' \<mapsto> \<lparr>capacity = 1000, refill_rate = 1000, tokens = 999, last_t = arrived\<rparr>]
   \<and> allow_bucket (p_ratelimiter s') ''aster'' endpoint t = TokenBucket_init 1000 1000 t
   \<and> api_admin_set s Null t
       = (Inl (AttributeError ''NoneType has no attribute items''), s\<lparr>p_db := admin_set_config (p_db s) Null\<rparr>)
   \<and> api_admin_set s Missing t = (Inl (HTTPException 400 ''missing ratelimits''), s)"
proof -
  have "buckets (startup_limiter (open_db None) now) = Map.empty"
    by (simp add: startup_limiter_def RateLimiter_init_def)
  then have l: "buckets (startup_limiter (open_db None) now) (key ''lighter'' ''global'') = None" by simp
  from on_startup_value [OF assms l, of lag resp arrived] show ?thesis
    by (simp add: api_admin_get_def startup_limiter_def RateLimiter_init_def allow_bucket_def
        api_admin_set_def key_def)
qed

end
