(* ===== verification/Runner.thy ===== *)
theory Runner
  imports Poller Lighter Aster Config Panel
begin

text \<open>
  The start-up of the runner and the console poller of
  \<^verbatim>\<open>src/arb/runner_reminder.py\<close>: \<^verbatim>\<open>build_connectors\<close>, \<^verbatim>\<open>build_pairs\<close>,
  \<^verbatim>\<open>poll_pair\<close> and \<^verbatim>\<open>main\<close>, and the calls by which a poller obtains
  its prices from the connectors. \<open>main\<close> is the function up to the
  creation of the poller tasks: it returns the connectors, the limiter, the
  pairs with the market ids it discovered, the database and the initial
  window of every poller. \<^verbatim>\<open>Market\<close> is a typed record, so \<open>build_pairs\<close>
  refuses with \<^verbatim>\<open>TypeError\<close> a pair definition whose exchange or symbol is
  not a string or whose market id is not an integer, where Python builds the
  object; the configuration \<open>load_config\<close> returns has no such pair.
\<close>

section \<open>Connectors and pairs\<close>

record conns =
  conn_lighter :: LighterConnector
  conn_aster :: AsterConnector

definition build_connectors :: "config \<Rightarrow> bool \<Rightarrow> conns" where
  "build_connectors cfg limiter =
     \<lparr>conn_lighter = LighterConnector_init (cfg_lighter_host cfg) None limiter,
      conn_aster = AsterConnector_init (cfg_aster_host cfg) None limiter\<rparr>"

definition as_string :: "json \<Rightarrow> string result" where
  "as_string v = (case v of JString s \<Rightarrow> Inr s | _ \<Rightarrow> Inl (TypeError ''not a string''))"

definition as_int_opt :: "json \<Rightarrow> int option result" where
  "as_int_opt v =
     (case v of JNull \<Rightarrow> Inr None | JInteger i \<Rightarrow> Inr (Some i) | _ \<Rightarrow> Inl (TypeError ''not an integer''))"

text \<open>\<^verbatim>\<open>Market(exchange=a["exchange"], symbol=a.get("symbol"), market_id=a.get("market_id"))\<close>.\<close>

definition market_fields :: "json \<Rightarrow> (json \<times> json \<times> json) result" where
  "market_fields a =
     bind_result (subscr a ''exchange'') (\<lambda>ex.
     bind_result (get_or a ''symbol'' JNull) (\<lambda>sy.
     bind_result (get_or a ''market_id'' JNull) (\<lambda>mi. Inr (ex, sy, mi))))"

definition typed_market :: "json \<times> json \<times> json \<Rightarrow> Market result" where
  "typed_market f =
     (case f of (ex, sy, mi) \<Rightarrow>
        bind_result (as_string ex) (\<lambda>e.
        bind_result (as_string sy) (\<lambda>s.
        bind_result (as_int_opt mi) (\<lambda>m. Inr \<lparr>exchange = e, symbol = s, market_id = m\<rparr>))))"

definition build_pair :: "json \<Rightarrow> Pair result" where
  "build_pair p =
     bind_result (subscr p ''a'') (\<lambda>a.
     bind_result (subscr p ''b'') (\<lambda>b.
     bind_result (subscr p ''name'') (\<lambda>nm.
     bind_result (market_fields a) (\<lambda>fa.
     bind_result (market_fields b) (\<lambda>fb.
     bind_result (as_string nm) (\<lambda>n.
     bind_result (typed_market fa) (\<lambda>ma.
     bind_result (typed_market fb) (\<lambda>mb. Inr \<lparr>pair_name = n, leg_a = ma, leg_b = mb\<rparr>))))))))"

definition build_pairs :: "config \<Rightarrow> Pair list result" where
  "build_pairs cfg = map_result build_pair (cfg_pairs cfg)"

section \<open>The console poller\<close>

record console_line =
  ln_ts :: int
  ln_price_a :: real
  ln_price_b :: real
  ln_spread :: real
  ln_z :: real
  ln_mean :: real
  ln_std :: real
  ln_action :: action

text \<open>
  One iteration of \<^verbatim>\<open>poll_pair\<close>: the line it prints, or the exception its
  \<^verbatim>\<open>except\<close> clause reports, and the window afterwards.
\<close>

definition poll_pair_step ::
  "real \<Rightarrow> real \<Rightarrow> Pair \<Rightarrow> RollingZScore \<Rightarrow> real result \<Rightarrow> real result \<Rightarrow> int
     \<Rightarrow> console_line result \<times> RollingZScore" where
  "poll_pair_step enter ex pr z pa pb now =
     (if \<not> known_exchange (exchange (leg_a pr)) then (Inl (KeyError (exchange (leg_a pr))), z)
      else if \<not> known_exchange (exchange (leg_b pr)) then (Inl (KeyError (exchange (leg_b pr))), z)
      else case pa of Inl e \<Rightarrow> (Inl e, z) | Inr price_a \<Rightarrow>
           case pb of Inl e \<Rightarrow> (Inl e, z) | Inr price_b \<Rightarrow>
           case RollingZScore_update z (price_a - price_b) of
             Inl e \<Rightarrow> (Inl e, z)
           | Inr ((zs, m, sd), z') \<Rightarrow>
               (Inr \<lparr>ln_ts = now, ln_price_a = price_a, ln_price_b = price_b,
                     ln_spread = price_a - price_b, ln_z = zs, ln_mean = m, ln_std = sd,
                     ln_action = decide_action zs enter ex\<rparr>, z'))"

fun poll_pair ::
  "real \<Rightarrow> real \<Rightarrow> Pair \<Rightarrow> RollingZScore \<Rightarrow> (real result \<times> real result \<times> int) list
     \<Rightarrow> console_line result list \<times> RollingZScore" where
  "poll_pair enter ex pr z [] = ([], z)"
| "poll_pair enter ex pr z ((pa, pb, now) # ios) =
     (let (r, z') = poll_pair_step enter ex pr z pa pb now;
          (rs, z'') = poll_pair enter ex pr z' ios
      in (r # rs, z''))"

section \<open>The price of a leg\<close>

text \<open>
  \<^verbatim>\<open>conns[m.exchange].get_mid_price(symbol=m.symbol, market_id=m.market_id)\<close>:
  the Lighter connector reads the market id, the Aster connector the symbol.
\<close>

definition leg_mid_price ::
  "py_conv \<Rightarrow> (nat \<Rightarrow> real) \<Rightarrow> conns \<Rightarrow> RateLimiter \<Rightarrow> Market \<Rightarrow> json result \<Rightarrow> real
     \<Rightarrow> (real, conns) call option" where
  "leg_mid_price cv lag cs rl m resp now =
     (if exchange m = ''lighter'' then
        map_option (\<lambda>r. \<lparr>c_ret = c_ret r, c_conn = cs\<lparr>conn_lighter := c_conn r\<rparr>, c_lim = c_lim r,
                          c_at = c_at r, c_sent = c_sent r\<rparr>)
          (get_mid_price cv lag (conn_lighter cs) rl (market_id m) resp now)
      else if exchange m = ''aster'' then
        map_option (\<lambda>r. \<lparr>c_ret = c_ret r, c_conn = cs\<lparr>conn_aster := c_conn r\<rparr>, c_lim = c_lim r,
                          c_at = c_at r, c_sent = c_sent r\<rparr>)
          (aster_get_mid_price cv lag (conn_aster cs) rl (symbol m) resp now)
      else Some (refuse cs rl now (KeyError (exchange m))))"

text \<open>\<^verbatim>\<open>timed(coro)\<close>: the value with the clock reading after it and the duration.\<close>

definition timed_result :: "int \<Rightarrow> int \<Rightarrow> 'a result \<Rightarrow> ('a \<times> int \<times> int) result" where
  "timed_result t0 t1 r = bind_result r (\<lambda>v. Inr (timed t0 t1 v))"

section \<open>Start-up\<close>

text \<open>
  The limiter of the runner: empty, and updated with the limits of the panel
  when \<^verbatim>\<open>PANEL_ADMIN_URL\<close> is set and the panel answers with status 200 and a
  non-empty \<^verbatim>\<open>ratelimits\<close> entry. The answer \<open>adm\<close> is \<open>None\<close> when the
  variable is unset, \<open>Inl\<close> when the request fails.
\<close>

definition main_limiter :: "admin_cfg result option \<Rightarrow> real \<Rightarrow> RateLimiter" where
  "main_limiter adm now =
     (case adm of
        Some (Inr (Present c)) \<Rightarrow>
          if c \<noteq> [] then RateLimiter_update (RateLimiter_init None now) c now
          else RateLimiter_init None now
      | _ \<Rightarrow> RateLimiter_init None now)"

definition discover :: "(string \<rightharpoonup> int) \<Rightarrow> Market \<Rightarrow> Market" where
  "discover lighter_map m =
     (if exchange m = ''lighter'' \<and> market_id m = None then
        (case lighter_map (symbol m) of None \<Rightarrow> m | Some i \<Rightarrow> m\<lparr>market_id := Some i\<rparr>)
      else m)"

definition discover_pair :: "(string \<rightharpoonup> int) \<Rightarrow> Pair \<Rightarrow> Pair" where
  "discover_pair lighter_map p =
     p\<lparr>leg_a := discover lighter_map (leg_a p), leg_b := discover lighter_map (leg_b p)\<rparr>"

text \<open>The values \<^verbatim>\<open>poll_pair_with_store\<close> reads before its loop.\<close>

definition poller_cfg_of :: "config \<Rightarrow> env \<Rightarrow> poller_cfg" where
  "poller_cfg_of cfg e =
     \<lparr>enter_z = cfg_enter_z cfg, exit_z = cfg_exit_z cfg, poll_ms = cfg_poll_ms cfg,
      depth_levels = cfg_depth_levels cfg, stale_ms_th = cfg_stale_ms_threshold cfg,
      skew_ms_th = cfg_skew_ms_threshold cfg, notional_usd = cfg_notional_usd cfg,
      cycle_hours_lighter = (case map_of (cfg_cycle_hours cfg) ''lighter'' of None \<Rightarrow> 8 | Some h \<Rightarrow> h),
      fees_aster = (case map_of (cfg_fees cfg) ''aster'' of None \<Rightarrow> (None, None) | Some f \<Rightarrow> f),
      panel_ingest_url = e ''PANEL_INGEST_URL''\<rparr>"

definition poller_init :: "config \<Rightarrow> RollingZScore \<Rightarrow> poller result" where
  "poller_init cfg z = bind_result (EMA_init (cfg_ema_window cfg)) (\<lambda>em. Inr \<lparr>rz = z, ema_calc = em\<rparr>)"

record runner =
  run_cfg :: config
  run_conns :: conns
  run_limiter :: RateLimiter
  run_pairs :: "Pair list"
  run_db :: "admin_cfg db"
  run_windows :: "RollingZScore list"
  run_at :: real

definition main ::
  "py_conv \<Rightarrow> env \<Rightarrow> admin_cfg result option \<Rightarrow> (nat \<Rightarrow> real) \<Rightarrow> json result \<Rightarrow> admin_cfg db option
     \<Rightarrow> real \<Rightarrow> runner result option" where
  "main cv e adm lag resp file now =
     (case load_config cv e of Inl err \<Rightarrow> Some (Inl err) | Inr cfg \<Rightarrow>
      let limiter = main_limiter adm now; cs = build_connectors cfg True
      in case build_pairs cfg of Inl err \<Rightarrow> Some (Inl err) | Inr pairs \<Rightarrow>
         case fetch_market_map cv lag (conn_lighter cs) limiter resp now of
           None \<Rightarrow> None
         | Some r \<Rightarrow>
             let lighter_map = (case c_ret r of Inl err \<Rightarrow> Map.empty | Inr m \<Rightarrow> m);
                 ps = map (discover_pair lighter_map) pairs
             in Some (bind_result (map_result (\<lambda>p. RollingZScore_init (cfg_lookback cfg)) ps) (\<lambda>zs.
                  Inr \<lparr>run_cfg = cfg, run_conns = cs\<lparr>conn_lighter := c_conn r\<rparr>,
                       run_limiter = c_lim r, run_pairs = ps, run_db = open_db file,
                       run_windows = zs, run_at = c_at r\<rparr>)))"

lemmas runner_defs [arb_unfold] =
  build_connectors_def as_string_def as_int_opt_def market_fields_def typed_market_def
  build_pair_def build_pairs_def poll_pair_step_def leg_mid_price_def timed_result_def
  main_limiter_def discover_def discover_pair_def poller_cfg_of_def poller_init_def main_def

section \<open>The configured pair\<close>

definition btc_pair :: "int option \<Rightarrow> Pair" where
  "btc_pair i =
     \<lparr>pair_name = ''BTCUSDT'',
      leg_a = \<lparr>exchange = ''lighter'', symbol = ''BTC'', market_id = i\<rparr>,
      leg_b = \<lparr>exchange = ''aster'', symbol = ''BTCUSDT'', market_id = None\<rparr>\<rparr>"

lemma build_pairs_default:
  assumes "load_config cv e = Inr cfg"
  shows "build_pairs cfg = Inr [btc_pair None]"
proof -
  from assms have "cfg_pairs cfg = default_pairs"
    by (auto simp: load_config_def split: option.splits)
  then show ?thesis
    by (simp add: build_pairs_def build_pair_def default_pairs_def market_fields_def typed_market_def
        as_string_def as_int_opt_def btc_pair_def)
qed

lemma discover_market_id:
  "market_id (discover mp m)
     = (if exchange m = ''lighter'' \<and> market_id m = None then mp (symbol m) else market_id m)"
  "exchange (discover mp m) = exchange m" "symbol (discover mp m) = symbol m"
  by (simp_all add: discover_def split: option.splits)

lemma discover_idem: "discover mp (discover mp m) = discover mp m"
  by (simp add: discover_def split: option.splits)

lemma discover_btc_pair: "discover_pair mp (btc_pair None) = btc_pair (mp ''BTC'')"
  by (simp add: discover_pair_def discover_def btc_pair_def split: option.splits)

section \<open>What start-up returns\<close>

lemma main_value:
  assumes "load_config cv e = Inr cfg"
    and "limited lag (conn_lighter (build_connectors cfg True)) (main_limiter adm now)
           ''lighter'' ''global'' now = Some (rl, t)"
  shows "\<exists>r. main cv e adm lag resp file now = Some (Inr r)
     \<and> run_pairs r = [btc_pair (case bind_result resp (market_map_of cv) of Inl err \<Rightarrow> None
                                                                         | Inr m \<Rightarrow> m ''BTC'')]
     \<and> run_limiter r = rl \<and> run_at r = t \<and> run_cfg r = cfg \<and> run_db r = open_db file
     \<and> run_windows r = [\<lparr>window = 60, buf = []\<rparr>]
     \<and> session_st (conn_lighter (run_conns r)) = Open_session
     \<and> session_st (conn_aster (run_conns r)) = No_session"
proof -
  let ?c = "conn_lighter (build_connectors cfg True)"
  from assms(1) have lb: "cfg_lookback cfg = 60" by (auto simp: load_config_def split: option.splits)
  have m: "(case bind_result resp (market_map_of cv) of Inl err \<Rightarrow> Map.empty | Inr m \<Rightarrow> m) ''BTC''
      = (case bind_result resp (market_map_of cv) of Inl err \<Rightarrow> None | Inr m \<Rightarrow> m ''BTC'')"
    by (simp split: sum.splits)
  have f: "fetch_market_map cv lag ?c (main_limiter adm now) resp now
      = Some \<lparr>c_ret = bind_result resp (market_map_of cv),
              c_conn = (session ?c)\<lparr>books_cache := cache_after (books_cache ?c) resp\<rparr>,
              c_lim = rl, c_at = t,
              c_sent = [\<lparr>url = lighter_url ?c ''/api/v1/orderBooks'', params = []\<rparr>]\<rparr>"
    by (simp add: fetch_market_map_def fetch_Some [OF assms(2)])
  have a: "session_st (conn_aster (build_connectors cfg True)) = No_session"
    by (simp add: build_connectors_def AsterConnector_init_def Connector_init_def Connector.extend_def)
  show ?thesis
    by (simp add: main_def assms(1) build_pairs_default [OF assms(1)] Let_def f m a
        discover_btc_pair lb RollingZScore_init_def)
qed

section \<open>A leg without a market id\<close>

lemma leg_unresolved:
  assumes "exchange m = ''lighter''" "market_id m = None"
  shows "leg_mid_price cv lag cs rl m resp now
    = Some (refuse cs rl now (ValueError ''LighterConnector requires market_id for get_mid_price in MVP.''))"
  using assms by (simp add: leg_mid_price_def get_mid_price_def refuse_def)

lemma leg_resolved:
  assumes "exchange m = ''lighter''" "market_id m = Some i"
    and "limited lag (conn_lighter cs) rl ''lighter'' ''global'' now = Some (rl', t)"
  shows "leg_mid_price cv lag cs rl m resp now
    = Some \<lparr>c_ret = bind_result resp (mid_of_book cv),
            c_conn = cs\<lparr>conn_lighter := session (conn_lighter cs)\<rparr>, c_lim = rl', c_at = t,
            c_sent = [\<lparr>url = lighter_url (conn_lighter cs) ''/api/v1/orderBookOrders'',
                       params = [(''market_id'', JInteger i), (''limit'', JInteger 1)]\<rparr>]\<rparr>"
  using assms by (simp add: leg_mid_price_def get_mid_price_def fetch_Some)

section \<open>The console poller and the storing poller\<close>

definition price_only :: "(real \<times> int \<times> int) result \<Rightarrow> real result" where
  "price_only r = bind_result r (\<lambda>(v, t, d). Inr v)"

lemma price_only_simps [simp]: "price_only (Inl e) = Inl e" "price_only (Inr (v, t, d)) = Inr v"
  by (simp_all add: price_only_def)

lemma poll_pair_step_window:
  "snd (poll_pair_step enter ex pr (rz p) (price_only (mid_a io)) (price_only (mid_b io)) now)
     = rz (snd (tick cfg pr p io))"
  by (auto simp: poll_pair_step_def tick_def signals_def Let_def bind_result_def
      split: sum.splits prod.splits)

text \<open>
  What the two pollers report on the same prices: an exception of the console
  poller is the exception of the storing one, and a stored sample carries the
  statistics of the printed line, with the action of the line unless the
  sample is stale.
\<close>

definition same_signal :: "console_line result \<Rightarrow> tick_result \<Rightarrow> bool" where
  "same_signal line res =
     (case line of
        Inl e \<Rightarrow> res = Tick_failed e
      | Inr l \<Rightarrow>
          (case res of
             Tick_failed e \<Rightarrow> True
           | Tick_ok a post act \<Rightarrow>
               st_price_a a = ln_price_a l \<and> st_price_b a = ln_price_b l \<and> st_spread a = ln_spread l
               \<and> st_z a = ln_z l \<and> st_mean a = ln_mean l \<and> st_std a = ln_std l
               \<and> act = (if dict_get (st_extras a) ''stale'' = JInt 0 then ln_action l else Hold)))"

definition console_io :: "tick_io \<times> int \<Rightarrow> real result \<times> real result \<times> int" where
  "console_io x = (price_only (mid_a (fst x)), price_only (mid_b (fst x)), snd x)"

lemma poll_pair_step_signal:
  "same_signal
     (fst (poll_pair_step (enter_z cfg) (exit_z cfg) pr (rz p) (price_only (mid_a io))
             (price_only (mid_b io)) now))
     (fst (tick cfg pr p io))"
proof (cases "fst (tick cfg pr p io)")
  case (Tick_failed e)
  then show ?thesis
    by (auto simp: same_signal_def poll_pair_step_def tick_def signals_def Let_def bind_result_def
        split: sum.splits prod.splits if_splits)
next
  case (Tick_ok a post act)
  then obtain p' where t: "tick cfg pr p io = (Tick_ok a post act, p')"
    by (cases "tick cfg pr p io") simp
  from t have k: "known_exchange (exchange (leg_a pr))" "known_exchange (exchange (leg_b pr))"
    by (auto simp: tick_def split: if_splits)
  from t obtain price_a ts_a dur_a price_b ts_b dur_b s xa xb where
    m: "mid_a io = Inr (price_a, ts_a, dur_a)" "mid_b io = Inr (price_b, ts_b, dur_b)"
    and sg: "signals p price_a price_b = Inr (s, p')"
    and a: "a = store_args pr (max ts_a ts_b) price_a price_b s xa xb
                  (snd (freshness_of cfg ts_a ts_b dur_a dur_b))"
    and act: "act = final_action (stale (snd (freshness_of cfg ts_a ts_b dur_a dur_b)))
                      (decide_action (zscore s) (enter_z cfg) (exit_z cfg))"
    by (rule tick_okE)
  from sg have s: "spread s = price_a - price_b"
    and u: "RollingZScore_update (rz p) (price_a - price_b)
              = Inr ((zscore s, z_mean s, z_std s), rz p')"
    by (auto simp: signals_def Let_def bind_result_eq_Inr split_beta)
  from stale_01 [of cfg ts_a ts_b dur_a dur_b] show ?thesis
    by (auto simp: same_signal_def poll_pair_step_def k m u s a act Tick_ok final_action_def)
qed

text \<open>
  C24 (equivalence): the console poller is the storing poller without its
  enrichment. Fed the same prices, \<^verbatim>\<open>poll_pair\<close> and
  \<^verbatim>\<open>poll_pair_with_store\<close> end with the same window, tick by tick an
  exception of the console poller is the failure of the storing one, and
  every sample stored carries the prices, spread, z-score, mean and deviation
  of the printed line, with the action of the line unless the sample is
  stale, when it is \<open>hold\<close>.
\<close>

theorem console_poller_agrees:
  "snd (poll_pair (enter_z cfg) (exit_z cfg) pr (rz p) (map console_io xs))
     = rz (snd (run_ticks cfg pr p (map fst xs)))
   \<and> list_all2 same_signal
        (fst (poll_pair (enter_z cfg) (exit_z cfg) pr (rz p) (map console_io xs)))
        (fst (run_ticks cfg pr p (map fst xs)))"
proof (induction xs arbitrary: p)
  case Nil
  show ?case by simp
next
  case (Cons x xs)
  obtain io now where x: "x = (io, now)" by (cases x)
  note w = poll_pair_step_window [of "enter_z cfg" "exit_z cfg" pr p io now cfg]
    and g = poll_pair_step_signal [of cfg pr p io now]
  from Cons.IH [of "snd (tick cfg pr p io)"] w g show ?case
    by (simp add: x console_io_def case_prod_beta Let_def)
qed

section \<open>The configuration as the pollers need it\<close>

definition plain_conv :: py_conv where
  "plain_conv = \<lparr>conv_float = map_of [(''100.5'', 201 / 2), (''100'', 100), (''101'', 101), (''2'', 2), (''3'', 3)],
                 conv_int = map_of [(''5'', 5), (''7'', 7)], conv_repr = (\<lambda>v. ''?''),
                 conv_text = (\<lambda>v. ''?'')\<rparr>"

lemma load_config_env:
  assumes "load_config cv e = Inr cfg"
  shows "Some (cfg_depth_levels cfg) = (case e ''DEPTH_LEVELS'' of None \<Rightarrow> Some 5 | Some v \<Rightarrow> conv_int cv v)"
    "cfg_lighter_host cfg = getenv e ''LIGHTER_HOST'' ''https://mainnet.zklighter.elliot.ai''"
    "cfg_aster_host cfg = getenv e ''ASTER_HOST'' ''https://fapi.asterdex.com''"
    "account_index (cfg_auth_lighter cfg) = to_int cv (e ''LIGHTER_ACCOUNT_INDEX'')"
    "api_key_index (cfg_auth_lighter cfg) = to_int cv (e ''LIGHTER_API_KEY_INDEX'')"
    "cfg_lookback cfg = 60" "cfg_ema_window cfg = 30" "cfg_enter_z cfg = 2" "cfg_exit_z cfg = 1 / 2"
    "cfg_poll_ms cfg = 1000" "cfg_cycle_hours cfg = [(''aster'', 8), (''lighter'', 8)]"
  using assms by (auto simp: load_config_def split: option.splits)

lemma load_config_Inl:
  "\<not> is_ok (load_config cv e) \<Longrightarrow> load_config cv e = Inl (ValueError ''invalid literal for int()'')"
  by (auto simp: load_config_def split: option.splits)

text \<open>
  C31 (functional): what the environment decides of a loaded configuration.
  \<^verbatim>\<open>load_config\<close> succeeds exactly when \<^verbatim>\<open>DEPTH_LEVELS\<close> is unset or holds
  a string \<^verbatim>\<open>int()\<close> reads; otherwise it raises \<^verbatim>\<open>ValueError\<close> and \<^verbatim>\<open>main\<close>
  ends with that error before any request. In a configuration it returns,
  the depth is 5 when the variable is unset and the integer it holds
  otherwise, zero and negative values included, and that is the depth the
  poller asks the order books for; the hosts are those of \<^verbatim>\<open>LIGHTER_HOST\<close>
  and \<^verbatim>\<open>ASTER_HOST\<close> or the defaults, and the connectors are built on them
  (Aster's without its trailing slashes); the account and key indices are
  the integers of their variables, and \<^verbatim>\<open>None\<close> when a variable is unset,
  empty or not an integer; the configuration satisfies \<open>config_ok\<close>, its
  pair list builds into the one typed pair, and the constructors of the
  rolling window and of the EMA accept its windows and return objects that
  satisfy their invariants.
\<close>

theorem loaded_config_well_formed:
  "(is_ok (load_config cv e) \<longleftrightarrow> (\<forall>v. e ''DEPTH_LEVELS'' = Some v \<longrightarrow> conv_int cv v \<noteq> None))
   \<and> (\<not> is_ok (load_config cv e) \<longrightarrow>
        load_config cv e = Inl (ValueError ''invalid literal for int()'')
        \<and> main cv e adm lag resp file now = Some (Inl (ValueError ''invalid literal for int()'')))
   \<and> (\<forall>cfg. load_config cv e = Inr cfg \<longrightarrow>
        Some (cfg_depth_levels cfg) = (case e ''DEPTH_LEVELS'' of None \<Rightarrow> Some 5 | Some v \<Rightarrow> conv_int cv v)
        \<and> depth_levels (poller_cfg_of cfg e) = cfg_depth_levels cfg
        \<and> cfg_lighter_host cfg
            = (case e ''LIGHTER_HOST'' of None \<Rightarrow> ''https://mainnet.zklighter.elliot.ai'' | Some h \<Rightarrow> h)
        \<and> cfg_aster_host cfg = (case e ''ASTER_HOST'' of None \<Rightarrow> ''https://fapi.asterdex.com'' | Some h \<Rightarrow> h)
        \<and> l_host (conn_lighter (build_connectors cfg True)) = cfg_lighter_host cfg
        \<and> a_host (conn_aster (build_connectors cfg True)) = rstrip_slash (cfg_aster_host cfg)
        \<and> account_index (cfg_auth_lighter cfg)
            = (case e ''LIGHTER_ACCOUNT_INDEX'' of None \<Rightarrow> None | Some v \<Rightarrow> if v = [] then None else conv_int cv v)
        \<and> api_key_index (cfg_auth_lighter cfg)
            = (case e ''LIGHTER_API_KEY_INDEX'' of None \<Rightarrow> None | Some v \<Rightarrow> if v = [] then None else conv_int cv v)
        \<and> config_ok cfg \<and> build_pairs cfg = Inr [btc_pair None]
        \<and> (\<exists>z em. RollingZScore_init (cfg_lookback cfg) = Inr z \<and> rz_inv z
              \<and> poller_init cfg z = Inr \<lparr>rz = z, ema_calc = em\<rparr> \<and> ema_inv em \<and> ema_value em = None)
        \<and> panel_ingest_url (poller_cfg_of cfg e) = e ''PANEL_INGEST_URL'')"
proof -
  have ok: "is_ok (load_config cv e) \<longleftrightarrow> (\<forall>v. e ''DEPTH_LEVELS'' = Some v \<longrightarrow> conv_int cv v \<noteq> None)"
    by (auto simp: load_config_ok_iff split: option.splits)
  have bad: "main cv e adm lag resp file now = Some (Inl (ValueError ''invalid literal for int()''))"
    if "\<not> is_ok (load_config cv e)"
    using load_config_Inl [OF that] by (simp add: main_def)
  have good: "Some (cfg_depth_levels cfg) = (case e ''DEPTH_LEVELS'' of None \<Rightarrow> Some 5 | Some v \<Rightarrow> conv_int cv v)
        \<and> depth_levels (poller_cfg_of cfg e) = cfg_depth_levels cfg
        \<and> cfg_lighter_host cfg
            = (case e ''LIGHTER_HOST'' of None \<Rightarrow> ''https://mainnet.zklighter.elliot.ai'' | Some h \<Rightarrow> h)
        \<and> cfg_aster_host cfg = (case e ''ASTER_HOST'' of None \<Rightarrow> ''https://fapi.asterdex.com'' | Some h \<Rightarrow> h)
        \<and> l_host (conn_lighter (build_connectors cfg True)) = cfg_lighter_host cfg
        \<and> a_host (conn_aster (build_connectors cfg True)) = rstrip_slash (cfg_aster_host cfg)
        \<and> account_index (cfg_auth_lighter cfg)
            = (case e ''LIGHTER_ACCOUNT_INDEX'' of None \<Rightarrow> None | Some v \<Rightarrow> if v = [] then None else conv_int cv v)
        \<and> api_key_index (cfg_auth_lighter cfg)
            = (case e ''LIGHTER_API_KEY_INDEX'' of None \<Rightarrow> None | Some v \<Rightarrow> if v = [] then None else conv_int cv v)
        \<and> config_ok cfg \<and> build_pairs cfg = Inr [btc_pair None]
        \<and> (\<exists>z em. RollingZScore_init (cfg_lookback cfg) = Inr z \<and> rz_inv z
              \<and> poller_init cfg z = Inr \<lparr>rz = z, ema_calc = em\<rparr> \<and> ema_inv em \<and> ema_value em = None)
        \<and> panel_ingest_url (poller_cfg_of cfg e) = e ''PANEL_INGEST_URL''"
    if l: "load_config cv e = Inr cfg" for cfg
  proof -
    note v = load_config_env [OF l]
    have z: "RollingZScore_init 60 = Inr \<lparr>window = 60, buf = []\<rparr>" "rz_inv \<lparr>window = 60, buf = []\<rparr>"
      by (simp_all add: RollingZScore_init_def rz_inv_def)
    obtain em where em: "EMA_init 30 = Inr em" by (simp add: EMA_init_def)
    have c: "l_host (conn_lighter (build_connectors cfg True)) = cfg_lighter_host cfg"
      "a_host (conn_aster (build_connectors cfg True)) = rstrip_slash (cfg_aster_host cfg)"
      by (simp_all add: build_connectors_def LighterConnector_init_def AsterConnector_init_def
          Connector.extend_def LighterConnector.fields_def AsterConnector.fields_def)
    from EMA_init_inv [OF em] load_config_wf [OF l] build_pairs_default [OF l] z em c v(1) show ?thesis
      by (simp add: v(2-) poller_init_def poller_cfg_of_def getenv_def to_int_def split: option.splits)
  qed
  from ok bad good load_config_Inl [of cv e] show ?thesis by blast
qed

definition loaded :: config where
  "loaded = (case load_config plain_conv [''DEPTH_LEVELS'' \<mapsto> ''7''] of Inr cfg \<Rightarrow> cfg)"

lemma load_config_demo: "load_config plain_conv [''DEPTH_LEVELS'' \<mapsto> ''7''] = Inr loaded"
  by (simp add: loaded_def load_config_def plain_conv_def)

theorem loaded_config_well_formed_witness:
  "load_config plain_conv [''DEPTH_LEVELS'' \<mapsto> ''7''] = Inr loaded
   \<and> cfg_depth_levels loaded = 7 \<and> depth_levels (poller_cfg_of loaded [''DEPTH_LEVELS'' \<mapsto> ''7'']) = 7
   \<and> config_ok loaded \<and> build_pairs loaded = Inr [btc_pair None]
   \<and> cfg_aster_host loaded = ''https://fapi.asterdex.com''
   \<and> \<not> is_ok (load_config plain_conv [''DEPTH_LEVELS'' \<mapsto> ''five''])
   \<and> main plain_conv [''DEPTH_LEVELS'' \<mapsto> ''five''] None (\<lambda>k. 0) (Inr JNull) None 0
       = Some (Inl (ValueError ''invalid literal for int()''))"
proof -
  note a = loaded_config_well_formed [of plain_conv "[''DEPTH_LEVELS'' \<mapsto> ''7'']"]
  note b = loaded_config_well_formed [of plain_conv "[''DEPTH_LEVELS'' \<mapsto> ''five'']" None "\<lambda>k. 0"
      "Inr JNull" None 0]
  from b have 1: "\<not> is_ok (load_config plain_conv [''DEPTH_LEVELS'' \<mapsto> ''five''])"
    by (simp add: plain_conv_def)
  with b have 2: "main plain_conv [''DEPTH_LEVELS'' \<mapsto> ''five''] None (\<lambda>k. 0) (Inr JNull) None 0
       = Some (Inl (ValueError ''invalid literal for int()''))" by simp
  from a load_config_demo have "cfg_depth_levels loaded = 7"
    "depth_levels (poller_cfg_of loaded [''DEPTH_LEVELS'' \<mapsto> ''7'']) = 7"
    "config_ok loaded" "build_pairs loaded = Inr [btc_pair None]"
    "cfg_aster_host loaded = ''https://fapi.asterdex.com''"
    by (simp_all add: plain_conv_def)
  with 1 2 load_config_demo show ?thesis by simp
qed

section \<open>A pair whose market id was not discovered\<close>

text \<open>
  The prices of a tick are fed by the connectors when the answer for leg A is
  what \<open>leg_mid_price\<close> returns for it, whatever the limiter, the venue and
  the clock do.
\<close>

definition fed_by :: "py_conv \<Rightarrow> Pair \<Rightarrow> tick_io \<Rightarrow> bool" where
  "fed_by cv pr io \<longleftrightarrow>
     (\<exists>lag cs rl resp now t0 t1 c.
        leg_mid_price cv lag cs rl (leg_a pr) resp now = Some c \<and> mid_a io = timed_result t0 t1 (c_ret c))"

lemma main_okE:
  assumes "main cv e adm lag resp file now = Some (Inr r)"
  obtains cfg rl t where "load_config cv e = Inr cfg"
    "limited lag (conn_lighter (build_connectors cfg True)) (main_limiter adm now)
       ''lighter'' ''global'' now = Some (rl, t)"
  using assms
  by (auto simp: main_def Let_def fetch_market_map_def fetch_def split: sum.splits option.splits)

lemma unresolved_tick:
  assumes "fed_by cv (btc_pair None) io"
  shows "tick cfg (btc_pair None) p io
    = (Tick_failed (ValueError ''LighterConnector requires market_id for get_mid_price in MVP.''), p)"
proof -
  from assms obtain lag cs rl resp now t0 t1 c where
    c: "leg_mid_price cv lag cs rl (leg_a (btc_pair None)) resp now = Some c"
    and m: "mid_a io = timed_result t0 t1 (c_ret c)"
    by (auto simp: fed_by_def)
  have "exchange (leg_a (btc_pair None)) = ''lighter''" "market_id (leg_a (btc_pair None)) = None"
    by (simp_all add: btc_pair_def)
  from leg_unresolved [OF this] c m
  have "mid_a io = Inl (ValueError ''LighterConnector requires market_id for get_mid_price in MVP.'')"
    by (auto simp: refuse_def timed_result_def)
  then show ?thesis by (simp add: tick_def known_exchange_def btc_pair_def)
qed

text \<open>
  C13 (liveness): a market id that start-up does not discover is never
  discovered. When the request for the market map fails at start-up, or the
  map does not list the symbol, the configured pair keeps a Lighter leg
  without market id; from then on every tick of its poller fails with the
  \<^verbatim>\<open>ValueError\<close> of \<^verbatim>\<open>get_mid_price\<close> before a request is sent, the loop
  goes on, and no sample is ever produced: the window is never fed.
\<close>

theorem unresolved_leg_never_samples:
  assumes "main cv e adm lag resp file now = Some (Inr r)"
    and "(case bind_result resp (market_map_of cv) of Inl err \<Rightarrow> None | Inr m \<Rightarrow> m ''BTC'') = None"
    and "list_all (fed_by cv (btc_pair None)) ios"
  shows "run_pairs r = [btc_pair None]
     \<and> run_ticks cfg (btc_pair None) p ios
         = (map (\<lambda>io. Tick_failed (ValueError ''LighterConnector requires market_id for get_mid_price in MVP.'')) ios, p)"
proof -
  from assms(1) obtain c rl t where "load_config cv e = Inr c"
    "limited lag (conn_lighter (build_connectors c True)) (main_limiter adm now)
       ''lighter'' ''global'' now = Some (rl, t)"
    by (rule main_okE)
  from main_value [OF this, of resp "file"] assms(1,2) have "run_pairs r = [btc_pair None]" by auto
  moreover from assms(3) have "run_ticks cfg (btc_pair None) p ios
      = (map (\<lambda>io. Tick_failed (ValueError ''LighterConnector requires market_id for get_mid_price in MVP.'')) ios, p)"
    by (induction ios) (simp_all add: unresolved_tick [of cv])
  ultimately show ?thesis by simp
qed

definition dead_io :: tick_io where
  "dead_io =
     \<lparr>mid_a = Inl (ValueError ''LighterConnector requires market_id for get_mid_price in MVP.''),
      mid_b = Inr (100, 0, 0),
      enr_a = \<lparr>io_summary = Inl (ClientError ''timeout''), io_stats = Inl (ClientError ''timeout''),
               io_fees = Inl (ClientError ''timeout'')\<rparr>,
      enr_b = \<lparr>io_summary = Inl (ClientError ''timeout''), io_stats = Inl (ClientError ''timeout''),
               io_fees = Inl (ClientError ''timeout'')\<rparr>,
      io_insert = Inr (), fund_a = Inl (ClientError ''timeout''), fund_b = Inl (ClientError ''timeout'')\<rparr>"

lemma dead_io_fed: "fed_by plain_conv (btc_pair None) dead_io"
proof -
  have "exchange (leg_a (btc_pair None)) = ''lighter''" "market_id (leg_a (btc_pair None)) = None"
    by (simp_all add: btc_pair_def)
  from leg_unresolved [OF this, of plain_conv "\<lambda>k. 0" "build_connectors loaded True"
      "RateLimiter_init None 0" "Inl (ClientError ''timeout'')" 0]
  show ?thesis
    unfolding fed_by_def
    by (intro exI [of _ "\<lambda>k. 0"] exI [of _ "build_connectors loaded True"]
        exI [of _ "RateLimiter_init None 0"] exI [of _ "Inl (ClientError ''timeout'')"] exI [of _ "0 :: real"]
        exI [of _ "0 :: int"] exI [of _ "0 :: int"]
        exI [of _ "refuse (build_connectors loaded True) (RateLimiter_init None 0) 0
          (ValueError ''LighterConnector requires market_id for get_mid_price in MVP.'')"])
      (simp add: refuse_def timed_result_def dead_io_def)
qed

lemma main_demo:
  "\<exists>r. main plain_conv Map.empty None (\<lambda>k. 0) (Inl (ClientError ''timeout'')) None 0 = Some (Inr r)
     \<and> run_pairs r = [btc_pair None]"
proof -
  obtain cfg where c: "load_config plain_conv Map.empty = Inr cfg"
    by (simp add: load_config_def)
  have l: "limited (\<lambda>k. 0) (conn_lighter (build_connectors cfg True)) (main_limiter None 0)
      ''lighter'' ''global'' 0
    = Some (fst (the (allow (\<lambda>k. 0) (RateLimiter_init None 0) ''lighter'' ''global'' 1 0)), 0)"
    by (simp add: limited_def build_connectors_def LighterConnector_init_def Connector_init_def
        Connector.extend_def main_limiter_def limiter_defs bucket_defs Let_def)
  from main_value [OF c l, of "Inl (ClientError ''timeout'')" None] show ?thesis by auto
qed

theorem unresolved_leg_never_samples_witness:
  "\<exists>r. main plain_conv Map.empty None (\<lambda>k. 0) (Inl (ClientError ''timeout'')) None 0 = Some (Inr r)
     \<and> run_pairs r = [btc_pair None]
     \<and> run_ticks (poller_cfg_of loaded Map.empty) (btc_pair None)
          \<lparr>rz = \<lparr>window = 60, buf = []\<rparr>, ema_calc = \<lparr>ema_window = 30, alpha = 2 / 31, ema_value = None\<rparr>\<rparr>
          [dead_io, dead_io]
        = ([Tick_failed (ValueError ''LighterConnector requires market_id for get_mid_price in MVP.''),
            Tick_failed (ValueError ''LighterConnector requires market_id for get_mid_price in MVP.'')],
           \<lparr>rz = \<lparr>window = 60, buf = []\<rparr>, ema_calc = \<lparr>ema_window = 30, alpha = 2 / 31, ema_value = None\<rparr>\<rparr>)"
proof -
  from main_demo obtain r where
    m: "main plain_conv Map.empty None (\<lambda>k. 0) (Inl (ClientError ''timeout'')) None 0 = Some (Inr r)"
    by blast
  have n: "(case bind_result (Inl (ClientError ''timeout'')) (market_map_of plain_conv) of
      Inl err \<Rightarrow> None | Inr m \<Rightarrow> m ''BTC'') = None" by simp
  have f: "list_all (fed_by plain_conv (btc_pair None)) [dead_io, dead_io]"
    by (simp add: dead_io_fed)
  from unresolved_leg_never_samples [OF m n f] m show ?thesis by simp
qed

section \<open>Both connectors against the contract of the summary\<close>

text \<open>
  C17 (equivalence): the two connectors compute the same order-book summary.
  When the Lighter answer and the Aster answer hold the same levels, at least
  one on each side, and the best prices do not cancel, the summary of the
  Lighter connector is the one the contract \<open>summary_spec\<close> gives for these
  levels, the summary of the Aster connector, when it returns, is the same,
  and the Lighter mid price is the mean of its best bid and best ask.
\<close>

theorem summaries_meet_contract:
  assumes "levels_of_book cv n dl = Inr (bs, as)" "aster_levels_of_book cv n da = Inr (bs, as)"
    and "bs \<noteq> []" "as \<noteq> []" "fst (hd bs) + fst (hd as) \<noteq> 0"
    and "is_ok (aster_summary_of_book cv n da)"
  shows "summary_of_book cv n dl = Inr (summary_spec bs as)
     \<and> aster_summary_of_book cv n da = Inr (summary_spec bs as)
     \<and> mid_of_book cv dl = Inr ((best_bid (summary_spec bs as) + best_ask (summary_spec bs as)) / 2)"
proof -
  from assms(6) obtain s where s: "aster_summary_of_book cv n da = Inr s" by (auto simp: is_ok_iff)
  from aster_summary_of_book_levels [OF assms(2-5) s] s
    summary_of_book_levels [OF assms(1,3-5)] mid_of_book_levels [OF assms(1,3,4)]
  show ?thesis by (simp add: summary_spec_def Let_def)
qed

definition lighter_book :: json where
  "lighter_book =
     JObject [(''bids'', JArray [JObject [(''price'', JString ''100''), (''remaining_base_amount'', JString ''2'')]]),
              (''asks'', JArray [JObject [(''price'', JString ''101''), (''remaining_base_amount'', JString ''3'')]])]"

definition aster_book :: json where
  "aster_book =
     JObject [(''bids'', JArray [JArray [JString ''100'', JString ''2'']]),
              (''asks'', JArray [JArray [JString ''101'', JString ''3'']])]"

lemma demo_books:
  "levels_of_book plain_conv 5 lighter_book = Inr ([(100, 2)], [(101, 3)])"
  "aster_levels_of_book plain_conv 5 aster_book = Inr ([(100, 2)], [(101, 3)])"
  "aster_summary_of_book plain_conv 5 aster_book
     = Inr \<lparr>best_bid = 100, best_ask = 101, spread_abs = 1, spread_pct = 2 / 201, depth_qty = 5,
            depth_notional = 503\<rparr>"
  by (simp_all add: levels_of_book_def aster_levels_of_book_def aster_summary_of_book_def
      lighter_book_def aster_book_def plain_conv_def lighter_level_def aster_level_def unpack2_def
      aster_best_def depth_qty_of_def qty_of_def item_def Let_def)

theorem summaries_meet_contract_witness:
  "summary_of_book plain_conv 5 lighter_book
     = Inr \<lparr>best_bid = 100, best_ask = 101, spread_abs = 1, spread_pct = 2 / 201, depth_qty = 5,
            depth_notional = 503\<rparr>
   \<and> aster_summary_of_book plain_conv 5 aster_book = summary_of_book plain_conv 5 lighter_book
   \<and> mid_of_book plain_conv lighter_book = Inr (201 / 2)"
proof -
  have "is_ok (aster_summary_of_book plain_conv 5 aster_book)" by (simp add: demo_books(3))
  from summaries_meet_contract [OF demo_books(1,2) _ _ _ this] show ?thesis
    by (simp add: summary_spec_def)
qed

section \<open>The funding countdown of a Lighter leg\<close>

text \<open>
  C32 (bounds): the funding countdown of a Lighter leg. With a positive cycle
  of \<open>h\<close> hours \<^verbatim>\<open>get_funding_info\<close> returns the next multiple of the cycle
  after the wall clock, and the countdown the poller derives from it for a
  sample stamped \<open>ts \<le> now\<close> is positive and at most one cycle plus the age
  of the sample. With a cycle of zero hours the call raises
  \<^verbatim>\<open>ZeroDivisionError\<close>.
\<close>

theorem lighter_countdown_bounds:
  assumes "0 < h" "0 \<le> ts" "ts \<le> now_ms"
  shows "\<exists>cd. countdown_of (snd (funding_info (get_funding_info cv (Inr rates) symb h now_ms))) None ts = Some cd
     \<and> 0 < cd \<and> cd \<le> real_of_int (h * 3600000 + (now_ms - ts))
     \<and> get_funding_info cv (Inr rates) symb 0 now_ms = Inl ZeroDivisionError"
proof -
  from get_funding_info_next [OF assms(1), of cv rates symb now_ms] obtain t where
    g: "get_funding_info cv (Inr rates) symb h now_ms = Inr (rate_of cv rates symb, Some (real_of_int t))"
    and t: "now_ms < t" "t \<le> now_ms + h * 3600000"
    by blast
  from t assms(2,3) have "t \<noteq> 0" "0 < real_of_int t - real_of_int ts"
    "real_of_int t - real_of_int ts \<le> real_of_int (h * 3600000 + (now_ms - ts))"
    by simp_all
  then show ?thesis
    by (simp add: g funding_info_def countdown_of_def get_funding_info_zero_cycle)
qed

theorem lighter_countdown_bounds_witness:
  "countdown_of (snd (funding_info (get_funding_info plain_conv (Inr []) ''BTC'' 8 2000))) None 1000
     = Some 28799000
   \<and> (0 :: int) < 8 \<and> (1000 :: int) \<le> 2000"
proof -
  have "get_funding_info plain_conv (Inr []) ''BTC'' 8 2000 = Inr (None, Some 28800000)"
    by (simp add: get_funding_info_def next_funding_ms_def rate_of_def)
  with lighter_countdown_bounds [of 8 1000 2000 plain_conv "[]" "''BTC''"] show ?thesis
    by (simp add: funding_info_def countdown_of_def)
qed

section \<open>Where the two connectors differ\<close>

text \<open>
  On an answer without bids and asks the Lighter connector raises and the
  Aster connector returns a summary of zeros; a Lighter fee that does not
  convert leaves the fee before it assigned; the cache of order books is set
  before the market map is built, so a later \<^verbatim>\<open>get_fees\<close> does not fetch
  again after a failed \<^verbatim>\<open>fetch_market_map\<close>.
\<close>

lemma empty_book_summaries:
  "summary_of_book cv n (JObject []) = Inl (RuntimeError ''No bids/asks returned for market_id'')"
  "aster_summary_of_book cv n (JObject [])
     = Inr \<lparr>best_bid = 0, best_ask = 0, spread_abs = 0, spread_pct = 0, depth_qty = 0, depth_notional = 0\<rparr>"
  by (simp_all add: summary_of_book_def aster_summary_of_book_def aster_best_def depth_qty_of_def
      slice_to_def)

lemma fee_pair_partial:
  "fee_pair plain_conv (JObject [(''symbol'', JString ''BTC''), (''maker_fee'', JString ''2'')]) = (Some 2, None)"
  by (simp add: fee_pair_def plain_conv_def)

lemma cache_set_before_failure:
  assumes "limited lag c rl ''lighter'' ''global'' now = Some (rl', t)"
  shows "\<exists>r. fetch_market_map plain_conv lag c rl
            (Inr (JObject [(''order_books'', JArray [JObject [(''symbol'', JString ''BTC'')]])])) now = Some r
     \<and> \<not> is_ok (c_ret r)
     \<and> books_cache (c_conn r) = JArray [JObject [(''symbol'', JString ''BTC'')]]
     \<and> get_fees plain_conv lag (c_conn r) rl' ''BTC'' resp' t
         = Some \<lparr>c_ret = Inr (None, None), c_conn = c_conn r, c_lim = rl', c_at = t, c_sent = []\<rparr>"
  by (simp add: fetch_market_map_def fetch_Some [OF assms] market_map_of_def market_entry_def
      cache_after_def get_fees_def fees_of_cache_def fee_pair_def plain_conv_def)

end
