(* ===== verification/Depth.thy ===== *)
theory Depth
  imports Simulator Runner
begin

text \<open>
  The depth endpoint \<^verbatim>\<open>api_depth\<close> of \<^verbatim>\<open>src/arb/panel/server.py\<close>: it looks
  the pair up, resolves the Lighter market ids from the map fetched at
  start-up, and returns the levels of both venues. As in \<open>Simulator\<close> the
  configured pairs are typed records, and the ids the handler writes into the
  configuration are returned as the updated list of pairs. The two requests
  are sent by \<^verbatim>\<open>get_order_book_levels\<close>, which does not ask the limiter.
\<close>

section \<open>The handler\<close>

definition resolve_or_400 :: "(string \<rightharpoonup> int) \<Rightarrow> string \<Rightarrow> Market \<Rightarrow> Market result" where
  "resolve_or_400 lighter_map leg m =
     (if exchange m = ''lighter'' \<and> market_id m = None then
        (case lighter_map (symbol m) of
           None \<Rightarrow> Inl (HTTPException 400 (''lighter market_id not resolved for '' @ leg))
         | Some i \<Rightarrow> Inr (m\<lparr>market_id := Some i\<rparr>))
      else Inr m)"

definition leg_levels ::
  "py_conv \<Rightarrow> conns \<Rightarrow> RateLimiter \<Rightarrow> Market \<Rightarrow> int \<Rightarrow> json result \<Rightarrow> real \<Rightarrow> book result" where
  "leg_levels cv cs rl m levels resp now =
     bind_result
       (if exchange m = ''lighter''
        then (case market_id m of
                None \<Rightarrow> Inl (KeyError ''market_id'')
              | Some i \<Rightarrow> c_ret (get_order_book_levels cv (conn_lighter cs) rl i levels resp now))
        else c_ret (aster_get_order_book_levels cv (conn_aster cs) rl (symbol m) levels resp now))
       (\<lambda>(bs, as). Inr \<lparr>bids = bs, asks = as\<rparr>)"

definition api_depth ::
  "py_conv \<Rightarrow> Pair list \<Rightarrow> (string \<rightharpoonup> int) \<Rightarrow> conns \<Rightarrow> RateLimiter \<Rightarrow> string \<Rightarrow> int
     \<Rightarrow> json result \<Rightarrow> json result \<Rightarrow> real \<Rightarrow> (book \<times> book) result \<times> Pair list" where
  "api_depth cv pairs lighter_map cs rl pair levels resp_a resp_b now =
     (if pair = [] then (Inl (HTTPException 400 ''pair is required''), pairs)
      else case find_pair pairs pair of
        None \<Rightarrow> (Inl (HTTPException 404 ''pair not configured''), pairs)
      | Some pdef \<Rightarrow>
          (case resolve_or_400 lighter_map ''A'' (leg_a pdef) of
             Inl e \<Rightarrow> (Inl e, pairs)
           | Inr a \<Rightarrow>
               (case resolve_or_400 lighter_map ''B'' (leg_b pdef) of
                  Inl e \<Rightarrow> (Inl e, store_pair pairs (pdef\<lparr>leg_a := a\<rparr>))
                | Inr b \<Rightarrow>
                    (bind_result (leg_levels cv cs rl a levels resp_a now) (\<lambda>la.
                     bind_result (leg_levels cv cs rl b levels resp_b now) (\<lambda>lb. Inr (la, lb))),
                     store_pair pairs (pdef\<lparr>leg_a := a, leg_b := b\<rparr>)))))"

lemmas depth_defs [arb_unfold] = resolve_or_400_def leg_levels_def api_depth_def

section \<open>Properties\<close>

lemma resolve_or_400_discover:
  "resolve_or_400 mp leg m = Inr m' \<Longrightarrow> m' = discover mp m \<and> m' = resolve_market mp m"
  by (auto simp: resolve_or_400_def discover_def resolve_market_def split: if_splits option.splits)

lemma resolve_or_400_resolved:
  "resolve_or_400 mp leg m = Inr m' \<Longrightarrow> exchange m' = ''lighter'' \<Longrightarrow> market_id m' \<noteq> None"
  by (auto simp: resolve_or_400_def split: if_splits option.splits)

lemma levels_of_book_length:
  assumes "levels_of_book cv n data = Inr (bs, as)" "0 \<le> n"
  shows "length bs \<le> nat n \<and> length as \<le> nat n"
proof -
  from assms(1) obtain bids asks bos aos where
    b: "elems_to bids n = Inr bos" "map_result (lighter_level cv) bos = Inr bs"
    and a: "elems_to asks n = Inr aos" "map_result (lighter_level cv) aos = Inr as"
    by (rule levels_of_bookE)
  have "length xs \<le> nat n" if "elems_to side n = Inr xs" for side xs
    using that assms(2) by (cases side) (auto simp: elems_to_def)
  from this [OF b(1)] this [OF a(1)] map_result_length [OF b(2)] map_result_length [OF a(2)]
  show ?thesis by simp
qed

lemma aster_levels_of_book_length:
  assumes "aster_levels_of_book cv n data = Inr (bs, as)" "0 \<le> n"
  shows "length bs \<le> nat n \<and> length as \<le> nat n"
proof -
  from assms(1) obtain bids asks bxs axs where
    b: "elems_to bids n = Inr bxs" "map_result (aster_level cv) bxs = Inr bs"
    and a: "elems_to asks n = Inr axs" "map_result (aster_level cv) axs = Inr as"
    by (rule aster_levels_of_bookE)
  have "length xs \<le> nat n" if "elems_to side n = Inr xs" for side xs
    using that assms(2) by (cases side) (auto simp: elems_to_def)
  from this [OF b(1)] this [OF a(1)] map_result_length [OF b(2)] map_result_length [OF a(2)]
  show ?thesis by simp
qed

lemma leg_levels_length:
  assumes "leg_levels cv cs rl m n resp now = Inr bk" "0 \<le> n"
  shows "length (bids bk) \<le> nat n \<and> length (asks bk) \<le> nat n"
proof (cases "exchange m = ''lighter''")
  case True
  with assms(1) obtain i data bs as where
    "levels_of_book cv n data = Inr (bs, as)" "bk = \<lparr>bids = bs, asks = as\<rparr>"
    by (auto simp: leg_levels_def get_order_book_levels_def fetch_direct_def bind_result_eq_Inr
        split: option.splits)
  with levels_of_book_length [OF _ assms(2)] show ?thesis by auto
next
  case False
  with assms(1) obtain data bs as where
    "aster_levels_of_book cv n data = Inr (bs, as)" "bk = \<lparr>bids = bs, asks = as\<rparr>"
    by (auto simp: leg_levels_def aster_get_order_book_levels_def fetch_direct_def bind_result_eq_Inr)
  with aster_levels_of_book_length [OF _ assms(2)] show ?thesis by auto
qed

lemma api_depth_errors:
  "api_depth cv pairs mp cs rl [] n ra rb now = (Inl (HTTPException 400 ''pair is required''), pairs)"
  "pair \<noteq> [] \<Longrightarrow> find_pair pairs pair = None \<Longrightarrow>
     api_depth cv pairs mp cs rl pair n ra rb now = (Inl (HTTPException 404 ''pair not configured''), pairs)"
  by (simp_all add: api_depth_def)

lemma api_depth_okE:
  assumes "api_depth cv pairs mp cs rl pair n ra rb now = (Inr (la, lb), pairs')"
  obtains pdef a b where "find_pair pairs pair = Some pdef"
    "resolve_or_400 mp ''A'' (leg_a pdef) = Inr a" "resolve_or_400 mp ''B'' (leg_b pdef) = Inr b"
    "leg_levels cv cs rl a n ra now = Inr la" "leg_levels cv cs rl b n rb now = Inr lb"
    "pairs' = store_pair pairs (pdef\<lparr>leg_a := a, leg_b := b\<rparr>)"
  using assms
  by (auto simp: api_depth_def bind_result_eq_Inr split: if_splits option.splits sum.splits)

text \<open>
  C28 (bounds): what the depth endpoint returns. With \<open>levels \<ge> 0\<close> an answer
  of \<^verbatim>\<open>api_depth\<close> holds at most \<open>levels\<close> bids and \<open>levels\<close> asks for
  each leg; the pair was found, every Lighter leg of it has a market id, the
  ids missing before are those of the market map, and the configured pair is
  updated with them. The two requests do not pass the limiter, which the
  handler leaves as it is.
\<close>

theorem api_depth_levels:
  assumes "0 \<le> n" "api_depth cv pairs mp cs rl pair n ra rb now = (Inr (la, lb), pairs')"
  shows "length (bids la) \<le> nat n \<and> length (asks la) \<le> nat n
     \<and> length (bids lb) \<le> nat n \<and> length (asks lb) \<le> nat n
     \<and> (\<exists>pdef. find_pair pairs pair = Some pdef
           \<and> pairs' = store_pair pairs (discover_pair mp pdef)
           \<and> (exchange (leg_a pdef) = ''lighter'' \<longrightarrow> market_id (leg_a (discover_pair mp pdef)) \<noteq> None)
           \<and> (exchange (leg_b pdef) = ''lighter'' \<longrightarrow> market_id (leg_b (discover_pair mp pdef)) \<noteq> None))
     \<and> c_lim (get_order_book_levels cv (conn_lighter cs) rl i n ra now) = rl
     \<and> c_lim (aster_get_order_book_levels cv (conn_aster cs) rl s n rb now) = rl"
proof -
  from assms(2) obtain pdef a b where
    f: "find_pair pairs pair = Some pdef"
    and r: "resolve_or_400 mp ''A'' (leg_a pdef) = Inr a" "resolve_or_400 mp ''B'' (leg_b pdef) = Inr b"
    and l: "leg_levels cv cs rl a n ra now = Inr la" "leg_levels cv cs rl b n rb now = Inr lb"
    and p: "pairs' = store_pair pairs (pdef\<lparr>leg_a := a, leg_b := b\<rparr>)"
    by (rule api_depth_okE)
  from r have d: "a = discover mp (leg_a pdef)" "b = discover mp (leg_b pdef)"
    by (simp_all add: resolve_or_400_discover)
  from resolve_or_400_resolved [OF r(1)] resolve_or_400_resolved [OF r(2)] d
  have "exchange (leg_a pdef) = ''lighter'' \<longrightarrow> market_id a \<noteq> None"
    "exchange (leg_b pdef) = ''lighter'' \<longrightarrow> market_id b \<noteq> None"
    by (simp_all add: discover_market_id)
  with leg_levels_length [OF l(1) assms(1)] leg_levels_length [OF l(2) assms(1)] f p d show ?thesis
    by (simp add: discover_pair_def get_order_book_levels_def aster_get_order_book_levels_def
        fetch_direct_def)
qed

section \<open>A request for one level\<close>

definition two_bids :: json where
  "two_bids =
     JObject [(''bids'', JArray [JObject [(''price'', JString ''100''), (''remaining_base_amount'', JString ''2'')],
                                 JObject [(''price'', JString ''100''), (''remaining_base_amount'', JString ''3'')]]),
              (''asks'', JArray [JObject [(''price'', JString ''101''), (''remaining_base_amount'', JString ''3'')]])]"

lemma demo_depth:
  "api_depth plain_conv [btc_pair None] [''BTC'' \<mapsto> 1] (build_connectors loaded True)
     (RateLimiter_init None 0) ''BTCUSDT'' 1 (Inr two_bids) (Inr aster_book) 0
   = (Inr (\<lparr>bids = [(100, 2)], asks = [(101, 3)]\<rparr>, \<lparr>bids = [(100, 2)], asks = [(101, 3)]\<rparr>),
      [btc_pair (Some 1)])"
  by (simp add: api_depth_def find_pair_def btc_pair_def resolve_or_400_def leg_levels_def
      get_order_book_levels_def aster_get_order_book_levels_def fetch_direct_def
      levels_of_book_def aster_levels_of_book_def two_bids_def aster_book_def plain_conv_def
      lighter_level_def aster_level_def unpack2_def)

text \<open>A negative \<open>levels\<close> is a slice from the end: all levels but the last.\<close>

lemma negative_levels:
  "levels_of_book plain_conv (- 1) two_bids = Inr ([(100, 2)], [])"
  by (simp add: levels_of_book_def two_bids_def plain_conv_def lighter_level_def slice_to_def)

theorem api_depth_levels_witness:
  "api_depth plain_conv [btc_pair None] [''BTC'' \<mapsto> 1] (build_connectors loaded True)
     (RateLimiter_init None 0) ''BTCUSDT'' 1 (Inr two_bids) (Inr aster_book) 0
   = (Inr (\<lparr>bids = [(100, 2)], asks = [(101, 3)]\<rparr>, \<lparr>bids = [(100, 2)], asks = [(101, 3)]\<rparr>),
      [btc_pair (Some 1)])
   \<and> length [(100 :: real, 2 :: real)] \<le> nat 1
   \<and> [btc_pair (Some 1)] = store_pair [btc_pair None] (discover_pair [''BTC'' \<mapsto> 1] (btc_pair None))"
proof -
  have "find_pair [btc_pair None] ''BTCUSDT'' = Some (btc_pair None)"
    by (simp add: find_pair_def btc_pair_def)
  with api_depth_levels [OF _ demo_depth, of 0 "[]"] demo_depth show ?thesis by simp
qed

end
