(* ===== verification/Tick_Requests.thy ===== *)
theory Tick_Requests
  imports Runner
begin

text \<open>
  The requests of one tick of \<^verbatim>\<open>poll_pair_with_store\<close>
  (\<^verbatim>\<open>src/arb/runner_reminder.py\<close>): the calls of the connectors in the order
  the loop body makes them, composed with the limiter. \<open>Poller.tick\<close> takes
  the answers of the venues as a record \<open>tick_io\<close>; here that record is
  produced by the connectors from the bodies of the HTTP answers, and the
  connectors, the limiter and the list of requests sent are threaded through
  the calls as the record \<open>world\<close>. Each call comes with the reading of the
  monotonic clock at which it reaches the limiter and the scheduling delays
  of its sleeps (\<open>answer\<close>). A call that is not reached, because an earlier
  one raised, leaves its field of \<open>tick_io\<close> at \<open>not_requested\<close>, which
  \<open>tick\<close> does not read.

  Calls that are awaited together (\<^verbatim>\<open>asyncio.gather\<close>) are both sent, also
  when the first one raises. A bucket of the limiter holds a lock for the
  whole of \<^verbatim>\<open>consume\<close>, its sleeps included, so a call that arrives while
  another one is being served reads the clock only when that one has
  returned: at \<open>lock_time\<close>, the later of its arrival and the bucket's last
  refill. With that, running the gathered calls one after the other gives
  the bucket the states the interleaved run gives it.
\<close>

section \<open>The world of a poller\<close>

record world =
  w_conns :: conns
  w_lim :: RateLimiter
  w_sent :: "http_request list"

record answer =
  entered :: real
  lag_of :: "nat \<Rightarrow> real"
  body :: "json result"

definition after_lighter :: "world \<Rightarrow> ('a, LighterConnector) call \<Rightarrow> 'a result \<times> world" where
  "after_lighter w r =
     (c_ret r, \<lparr>w_conns = (w_conns w)\<lparr>conn_lighter := c_conn r\<rparr>, w_lim = c_lim r,
               w_sent = w_sent w @ c_sent r\<rparr>)"

definition after_aster :: "world \<Rightarrow> ('a, AsterConnector) call \<Rightarrow> 'a result \<times> world" where
  "after_aster w r =
     (c_ret r, \<lparr>w_conns = (w_conns w)\<lparr>conn_aster := c_conn r\<rparr>, w_lim = c_lim r,
               w_sent = w_sent w @ c_sent r\<rparr>)"

definition lock_time :: "RateLimiter \<Rightarrow> string \<Rightarrow> string \<Rightarrow> real \<Rightarrow> real" where
  "lock_time rl exch endpoint arrived = max arrived (last_t (allow_bucket rl exch endpoint arrived))"

definition not_requested :: "'a result" where
  "not_requested = Inl (RuntimeError ''not requested'')"

section \<open>The calls of a leg\<close>

definition at_lock :: "world \<Rightarrow> string \<Rightarrow> string \<Rightarrow> answer \<Rightarrow> real" where
  "at_lock w exch endpoint ans = lock_time (w_lim w) exch endpoint (entered ans)"

definition leg_price :: "py_conv \<Rightarrow> Market \<Rightarrow> answer \<Rightarrow> world \<Rightarrow> (real result \<times> world) option" where
  "leg_price cv m ans w =
     (if exchange m = ''lighter'' then
        map_option (after_lighter w)
          (get_mid_price cv (lag_of ans) (conn_lighter (w_conns w)) (w_lim w) (market_id m) (body ans)
             (at_lock w ''lighter'' ''global'' ans))
      else
        map_option (after_aster w)
          (aster_get_mid_price cv (lag_of ans) (conn_aster (w_conns w)) (w_lim w) (symbol m) (body ans)
             (at_lock w ''aster'' ''global'' ans)))"

text \<open>
  A Lighter market without an id: the request is refused by the HTTP
  library, which takes no parameter \<^verbatim>\<open>None\<close>, after the limiter has been
  charged. A tick does not get here, since \<^verbatim>\<open>get_mid_price\<close> has raised
  before (\<open>tick_via_unresolved\<close>).
\<close>

definition summary_without_id :: "answer \<Rightarrow> world \<Rightarrow> (ob_summary result \<times> world) option" where
  "summary_without_id ans w =
     (case limited (lag_of ans) (conn_lighter (w_conns w)) (w_lim w) ''lighter'' ''global''
             (at_lock w ''lighter'' ''global'' ans) of
        None \<Rightarrow> None
      | Some (rl, t) \<Rightarrow>
          Some (Inl (TypeError ''market_id''),
                \<lparr>w_conns = (w_conns w)\<lparr>conn_lighter := session (conn_lighter (w_conns w))\<rparr>,
                 w_lim = rl, w_sent = w_sent w\<rparr>))"

definition leg_summary ::
  "py_conv \<Rightarrow> int \<Rightarrow> Market \<Rightarrow> answer \<Rightarrow> world \<Rightarrow> (ob_summary result \<times> world) option" where
  "leg_summary cv levels m ans w =
     (if exchange m = ''lighter'' then
        (case market_id m of
           None \<Rightarrow> summary_without_id ans w
         | Some i \<Rightarrow>
             map_option (after_lighter w)
               (get_order_book_summary cv (lag_of ans) (conn_lighter (w_conns w)) (w_lim w) i levels
                  (body ans) (at_lock w ''lighter'' ''global'' ans)))
      else
        map_option (after_aster w)
          (aster_get_order_book_summary cv (lag_of ans) (conn_aster (w_conns w)) (w_lim w) (symbol m)
             levels (body ans) (at_lock w ''aster'' ''depth'' ans)))"

text \<open>The volume the poller stores: \<^verbatim>\<open>daily_quote\<close> of Lighter, \<^verbatim>\<open>quoteVolume\<close> of Aster.\<close>

definition quote_of :: "(real \<times> real) result \<times> world \<Rightarrow> real result \<times> world" where
  "quote_of = (\<lambda>(r, w). (bind_result r (\<lambda>(base_volume, quote_volume). Inr quote_volume), w))"

definition leg_stats :: "py_conv \<Rightarrow> Market \<Rightarrow> answer \<Rightarrow> world \<Rightarrow> (real result \<times> world) option" where
  "leg_stats cv m ans w =
     (if exchange m = ''lighter'' then
        (case market_id m of
           None \<Rightarrow> Some (Inl (TypeError ''market_id''), w)
         | Some i \<Rightarrow>
             Some (quote_of (after_lighter w
               (get_24h_stats cv (conn_lighter (w_conns w)) (w_lim w) i (body ans) (entered ans)))))
      else
        map_option (quote_of \<circ> after_aster w)
          (aster_get_24h_stats cv (lag_of ans) (conn_aster (w_conns w)) (w_lim w) (symbol m) (body ans)
             (at_lock w ''aster'' ''global'' ans)))"

definition lighter_fees ::
  "py_conv \<Rightarrow> Market \<Rightarrow> answer \<Rightarrow> world \<Rightarrow> ((real option \<times> real option) result \<times> world) option" where
  "lighter_fees cv m ans w =
     map_option (after_lighter w)
       (get_fees cv (lag_of ans) (conn_lighter (w_conns w)) (w_lim w) (symbol m) (body ans)
          (at_lock w ''lighter'' ''global'' ans))"

record leg_answers =
  ans_mid :: answer
  ans_book :: answer
  ans_stats :: answer
  ans_books :: answer
  ans_fund :: answer
  ans_rates :: "sdk_rate list result"
  ans_wall :: int
  ans_t0 :: int
  ans_t1 :: int

text \<open>
  The enrichment of one leg: summary and statistics are awaited together, so
  both requests are sent even when the first one fails; Lighter's fees are
  asked only after both have returned a value, Aster's are read from the
  configuration. A leg of another venue asks nothing.
\<close>

definition no_enrichment :: enrich_io where
  "no_enrichment = \<lparr>io_summary = not_requested, io_stats = not_requested, io_fees = not_requested\<rparr>"

definition enrich_via :: "py_conv \<Rightarrow> poller_cfg \<Rightarrow> Market \<Rightarrow> leg_answers \<Rightarrow> world \<Rightarrow> (enrich_io \<times> world) option" where
  "enrich_via cv cfg m la w =
     (if exchange m = ''lighter'' \<or> exchange m = ''aster'' then
        case leg_summary cv (depth_levels cfg) m (ans_book la) w of None \<Rightarrow> None | Some (ob, w1) \<Rightarrow>
        case leg_stats cv m (ans_stats la) w1 of None \<Rightarrow> None | Some (st, w2) \<Rightarrow>
          if exchange m = ''lighter'' \<and> is_ok ob \<and> is_ok st then
            (case lighter_fees cv m (ans_books la) w2 of
               None \<Rightarrow> None
             | Some (fe, w3) \<Rightarrow> Some (\<lparr>io_summary = ob, io_stats = st, io_fees = fe\<rparr>, w3))
          else Some (\<lparr>io_summary = ob, io_stats = st, io_fees = not_requested\<rparr>, w2)
      else Some (no_enrichment, w))"

definition leg_funding ::
  "py_conv \<Rightarrow> poller_cfg \<Rightarrow> Market \<Rightarrow> leg_answers \<Rightarrow> world
     \<Rightarrow> ((real option \<times> real option) result \<times> world) option" where
  "leg_funding cv cfg m la w =
     (if exchange m = ''aster'' then
        map_option (after_aster w)
          (aster_get_funding_info cv (lag_of (ans_fund la)) (conn_aster (w_conns w)) (w_lim w) (symbol m)
             (body (ans_fund la)) (at_lock w ''aster'' ''global'' (ans_fund la)))
      else Some (get_funding_info cv (ans_rates la) (symbol m) (cycle_hours_lighter cfg) (ans_wall la), w))"

section \<open>One tick\<close>

text \<open>
  The connectors of both legs are looked up first. The two prices are awaited
  together; the enrichment of leg B starts when that of leg A has succeeded,
  the storage write (whose outcome is \<open>ins\<close>) when both have, the funding
  calls when the write has and the poller posts to a panel.
\<close>

definition unasked :: tick_io where
  "unasked = \<lparr>mid_a = not_requested, mid_b = not_requested, enr_a = no_enrichment, enr_b = no_enrichment,
              io_insert = not_requested, fund_a = not_requested, fund_b = not_requested\<rparr>"

definition tick_via ::
  "py_conv \<Rightarrow> poller_cfg \<Rightarrow> Pair \<Rightarrow> poller \<Rightarrow> leg_answers \<Rightarrow> leg_answers \<Rightarrow> unit result \<Rightarrow> world
     \<Rightarrow> (tick_io \<times> world) option" where
  "tick_via cv cfg pr p la lb ins w =
     (if \<not> (known_exchange (exchange (leg_a pr)) \<and> known_exchange (exchange (leg_b pr)))
      then Some (unasked, w)
      else
      case leg_price cv (leg_a pr) (ans_mid la) w of None \<Rightarrow> None | Some (pa, w1) \<Rightarrow>
      case leg_price cv (leg_b pr) (ans_mid lb) w1 of None \<Rightarrow> None | Some (pb, w2) \<Rightarrow>
      let io0 = unasked\<lparr>mid_a := timed_result (ans_t0 la) (ans_t1 la) pa,
                        mid_b := timed_result (ans_t0 lb) (ans_t1 lb) pb\<rparr>
      in
      if \<not> (is_ok pa \<and> is_ok pb \<and> is_ok (signals p (projr pa) (projr pb))) then Some (io0, w2)
      else
      case enrich_via cv cfg (leg_a pr) la w2 of None \<Rightarrow> None | Some (ea, w3) \<Rightarrow>
      if \<not> is_ok (enrich_leg cfg (leg_a pr) ea) then Some (io0\<lparr>enr_a := ea\<rparr>, w3)
      else
      case enrich_via cv cfg (leg_b pr) lb w3 of None \<Rightarrow> None | Some (eb, w4) \<Rightarrow>
      if \<not> is_ok (enrich_leg cfg (leg_b pr) eb) then Some (io0\<lparr>enr_a := ea, enr_b := eb\<rparr>, w4)
      else if \<not> (is_ok ins \<and> posting cfg)
      then Some (io0\<lparr>enr_a := ea, enr_b := eb, io_insert := ins\<rparr>, w4)
      else
      case leg_funding cv cfg (leg_a pr) la w4 of None \<Rightarrow> None | Some (fa, w5) \<Rightarrow>
      case leg_funding cv cfg (leg_b pr) lb w5 of None \<Rightarrow> None | Some (fb, w6) \<Rightarrow>
        Some (io0\<lparr>enr_a := ea, enr_b := eb, io_insert := ins, fund_a := fa, fund_b := fb\<rparr>, w6))"

section \<open>The loop\<close>

text \<open>
  The ticks of one poller: each tick gets the answers of the venues and of
  the storage, and hands the window it leaves to the next one.
\<close>

type_synonym tick_answers = "leg_answers \<times> leg_answers \<times> unit result"

fun run_via ::
  "py_conv \<Rightarrow> poller_cfg \<Rightarrow> Pair \<Rightarrow> poller \<Rightarrow> tick_answers list \<Rightarrow> world
     \<Rightarrow> (tick_result list \<times> poller \<times> world) option" where
  "run_via cv cfg pr p [] w = Some ([], p, w)"
| "run_via cv cfg pr p ((la, lb, ins) # rest) w =
     (case tick_via cv cfg pr p la lb ins w of
        None \<Rightarrow> None
      | Some (io, w1) \<Rightarrow>
          (case tick cfg pr p io of (r, p1) \<Rightarrow>
             map_option (\<lambda>(rs, p2, w2). (r # rs, p2, w2)) (run_via cv cfg pr p1 rest w1)))"

lemmas tick_requests_defs [arb_unfold] =
  after_lighter_def after_aster_def not_requested_def lock_time_def at_lock_def leg_price_def
  summary_without_id_def leg_summary_def quote_of_def leg_stats_def lighter_fees_def no_enrichment_def
  enrich_via_def leg_funding_def unasked_def tick_via_def

section \<open>The requests of a tick\<close>

text \<open>
  The hosts the connectors were built with, the cache of Lighter's market
  list, and a request to either venue.
\<close>

definition hosts :: "world \<Rightarrow> string \<times> string" where
  "hosts w = (l_host (conn_lighter (w_conns w)), a_host (conn_aster (w_conns w)))"

definition cached :: "world \<Rightarrow> json" where
  "cached w = books_cache (conn_lighter (w_conns w))"

definition lighter_request :: "world \<Rightarrow> string \<Rightarrow> (string \<times> json) list \<Rightarrow> http_request" where
  "lighter_request w path ps = \<lparr>url = rstrip_slash (fst (hosts w)) @ path, params = ps\<rparr>"

definition aster_request :: "world \<Rightarrow> string \<Rightarrow> (string \<times> json) list \<Rightarrow> http_request" where
  "aster_request w path ps = \<lparr>url = snd (hosts w) @ path, params = ps\<rparr>"

section \<open>A tick on answered requests\<close>

text \<open>
  A world whose limiter holds the buckets of the example in
  \<^verbatim>\<open>RateLimiter\<close>'s documentation, and the answers of both venues to one tick
  of the default pair.
\<close>

definition quiet :: "json \<Rightarrow> answer" where
  "quiet b = \<lparr>entered = 0, lag_of = (\<lambda>k. 0), body = Inr b\<rparr>"

definition tick_world :: world where
  "tick_world =
     \<lparr>w_conns = \<lparr>conn_lighter = LighterConnector_init ''https://lighter/'' None True,
                  conn_aster = AsterConnector_init ''https://aster'' None True\<rparr>,
      w_lim = \<lparr>buckets = [''lighter:global'' \<mapsto> TokenBucket_init 20 10 0,
                         ''aster:global'' \<mapsto> TokenBucket_init 20 10 0,
                         ''aster:depth'' \<mapsto> TokenBucket_init 10 5 0]\<rparr>, w_sent = []\<rparr>"

definition lighter_answers :: leg_answers where
  "lighter_answers =
     \<lparr>ans_mid = quiet lighter_book, ans_book = quiet lighter_book,
      ans_stats = quiet (JObject [(''order_book_details'',
                    JArray [JObject [(''daily_quote_token_volume'', JFloat 5000)]])]),
      ans_books = quiet (JObject [(''order_books'',
                    JArray [JObject [(''symbol'', JString ''BTC''), (''market_id'', JInteger 1),
                                     (''maker_fee'', JFloat (1 / 1000))]])]),
      ans_fund = quiet JNull, ans_rates = Inr [], ans_wall = 0, ans_t0 = 970, ans_t1 = 1000\<rparr>"

definition aster_answers :: leg_answers where
  "aster_answers =
     \<lparr>ans_mid = quiet (JObject [(''price'', JString ''100'')]), ans_book = quiet aster_book,
      ans_stats = quiet (JObject [(''quoteVolume'', JFloat 7000)]),
      ans_books = quiet JNull, ans_fund = quiet (JObject []), ans_rates = Inr [], ans_wall = 0,
      ans_t0 = 970, ans_t1 = 1040\<rparr>"


section \<open>A limiter that always answers\<close>

text \<open>
  Every bucket keeps \<open>0 \<le> tokens \<le> capacity\<close>, refills at a positive rate and
  can hold the one token a call asks for; the scheduler never wakes a sleeper
  early.
\<close>

definition live :: "RateLimiter \<Rightarrow> bool" where
  "live rl \<longleftrightarrow> (\<forall>k b. buckets rl k = Some b \<longrightarrow> tb_inv b \<and> 0 < refill_rate b \<and> 1 \<le> capacity b)"

definition fair :: "answer \<Rightarrow> bool" where
  "fair ans \<longleftrightarrow> (\<forall>k. 0 \<le> lag_of ans k)"

definition fair_leg :: "leg_answers \<Rightarrow> bool" where
  "fair_leg la \<longleftrightarrow> fair (ans_mid la) \<and> fair (ans_book la) \<and> fair (ans_stats la) \<and> fair (ans_books la)
     \<and> fair (ans_fund la)"

text \<open>\<open>grows n w w'\<close>: \<open>w'\<close> has a limiter that answers and at most \<open>n\<close> requests more than \<open>w\<close>.\<close>

definition grows :: "nat \<Rightarrow> world \<Rightarrow> world \<Rightarrow> bool" where
  "grows n w w' \<longleftrightarrow> live (w_lim w') \<and> (\<exists>rs. w_sent w' = w_sent w @ rs \<and> length rs \<le> n)"

lemma grows_refl [simp]: "live (w_lim w) \<Longrightarrow> grows n w w"
  by (simp add: grows_def)

lemma grows_trans: "grows n w w1 \<Longrightarrow> grows m w1 w2 \<Longrightarrow> grows (n + m) w w2"
  by (auto simp: grows_def)

lemma grows_mono: "grows n w w' \<Longrightarrow> n \<le> m \<Longrightarrow> grows m w w'"
  by (auto simp: grows_def)

lemma grows_live: "grows n w w' \<Longrightarrow> live (w_lim w')"
  by (simp add: grows_def)

lemma consume_unit_live:
  assumes "tb_inv b" "0 < refill_rate b" "1 \<le> capacity b" "last_t b \<le> now" "\<forall>k. 0 \<le> lag k"
  shows "\<exists>b' t. consume lag b 1 now = Some (b', t) \<and> tb_inv b' \<and> 0 < refill_rate b' \<and> 1 \<le> capacity b'"
proof -
  have "\<exists>b' t. consume lag b 1 now = Some (b', t)"
  proof (cases "real_of_int 1 \<le> tokens (refill b now)")
    case True
    from consume_no_wait [OF this] show ?thesis by blast
  next
    case False
    with assms consume_one_wait [of b 1 now lag] show ?thesis by simp
  qed
  then obtain b' t where c: "consume lag b 1 now = Some (b', t)" by blast
  from consume_post [OF c assms(1,4,5)] assms(2,3) c show ?thesis by simp
qed

lemma lock_time_bucket:
  "last_t (allow_bucket rl exch ep (lock_time rl exch ep arrived)) \<le> lock_time rl exch ep arrived"
  by (simp add: lock_time_def allow_bucket_def TokenBucket_init_def split: option.splits)

lemma live_bucket:
  "live rl \<Longrightarrow> tb_inv (allow_bucket rl exch ep now) \<and> 0 < refill_rate (allow_bucket rl exch ep now)
     \<and> 1 \<le> capacity (allow_bucket rl exch ep now)"
  by (auto simp: live_def allow_bucket_def TokenBucket_init_def tb_inv_def split: option.splits)

lemma allow_live:
  assumes "live rl" "\<forall>k. 0 \<le> lag k"
  shows "\<exists>rl' t. allow lag rl exch ep 1 (lock_time rl exch ep arrived) = Some (rl', t) \<and> live rl'"
proof -
  let ?now = "lock_time rl exch ep arrived"
  from live_bucket [OF assms(1), of exch ep ?now] lock_time_bucket [of rl exch ep arrived] assms(2)
  obtain b' t where "consume lag (allow_bucket rl exch ep ?now) 1 ?now = Some (b', t)"
    "tb_inv b'" "0 < refill_rate b'" "1 \<le> capacity b'"
    using consume_unit_live [of "allow_bucket rl exch ep ?now" ?now lag] by blast
  with assms(1) show ?thesis by (auto simp: allow_def live_def)
qed

lemma limited_live:
  assumes "live rl" "\<forall>k. 0 \<le> lag k"
  shows "\<exists>rl' t. limited lag c rl exch ep (lock_time rl exch ep arrived) = Some (rl', t) \<and> live rl'"
  using allow_live [OF assms] assms(1) by (cases "has_limiter c") simp_all

lemma fetch_live:
  assumes "live rl" "\<forall>k. 0 \<le> lag k"
  shows "\<exists>r. fetch lag c rl exch ep (lock_time rl exch ep arrived) req resp f = Some r
    \<and> live (c_lim r) \<and> c_sent r = [req]"
proof -
  from limited_live [OF assms] obtain rl' t
    where "limited lag c rl exch ep (lock_time rl exch ep arrived) = Some (rl', t)" "live rl'" by blast
  then show ?thesis by (simp add: fetch_Some)
qed

text \<open>\<open>served r\<close>: the call has returned with a limiter that answers, having sent at most one request.\<close>

definition served :: "('a, 'c) call \<Rightarrow> bool" where
  "served r \<longleftrightarrow> live (c_lim r) \<and> length (c_sent r) \<le> 1"

lemma fetch_served:
  "live rl \<Longrightarrow> \<forall>k. 0 \<le> lag k
     \<Longrightarrow> \<exists>r. fetch lag c rl exch ep (lock_time rl exch ep arrived) req resp f = Some r \<and> served r"
  using fetch_live [of rl lag c exch ep arrived req resp f] by (auto simp: served_def)

lemma direct_served [simp]: "served (fetch_direct c rl now req resp f) = live rl"
  by (simp add: served_def fetch_direct_def)

lemma refuse_served [simp]: "served (refuse c rl now e) = live rl"
  by (simp add: served_def refuse_def)

lemma after_lighter_grows: "served r \<Longrightarrow> \<exists>x w'. after_lighter w r = (x, w') \<and> grows 1 w w'"
  by (simp add: after_lighter_def served_def grows_def)

lemma after_aster_grows: "served r \<Longrightarrow> \<exists>x w'. after_aster w r = (x, w') \<and> grows 1 w w'"
  by (simp add: after_aster_def served_def grows_def)

lemma get_fees_served:
  assumes "live rl" "\<forall>k. 0 \<le> lag k"
  shows "\<exists>r. get_fees cv lag c rl symb resp (lock_time rl ''lighter'' ''global'' arrived) = Some r \<and> served r"
proof (cases "books_cache c = JNull")
  case True
  from fetch_served [OF assms] obtain r where
    "fetch lag c rl ''lighter'' ''global'' (lock_time rl ''lighter'' ''global'' arrived)
       \<lparr>url = lighter_url c ''/api/v1/orderBooks'', params = []\<rparr> resp (market_map_of cv) = Some r" "served r"
    by blast
  with True show ?thesis by (simp add: get_fees_def fetch_market_map_def served_def)
next
  case False
  with assms(1) show ?thesis by (simp add: get_fees_def served_def)
qed

lemma leg_price_live:
  assumes "live (w_lim w)" "fair ans"
  shows "\<exists>r w'. leg_price cv m ans w = Some (r, w') \<and> grows 1 w w'"
proof -
  from assms(2) have lag: "\<forall>k. 0 \<le> lag_of ans k" by (simp add: fair_def)
  show ?thesis
  proof (cases "exchange m = ''lighter''")
    case True
    have "\<exists>r. get_mid_price cv (lag_of ans) (conn_lighter (w_conns w)) (w_lim w) (market_id m) (body ans)
        (at_lock w ''lighter'' ''global'' ans) = Some r \<and> served r"
      using assms(1)
      by (simp add: get_mid_price_def at_lock_def fetch_served [OF assms(1) lag] split: option.splits)
    with True after_lighter_grows show ?thesis by (fastforce simp: leg_price_def)
  next
    case False
    have "\<exists>r. aster_get_mid_price cv (lag_of ans) (conn_aster (w_conns w)) (w_lim w) (symbol m) (body ans)
        (at_lock w ''aster'' ''global'' ans) = Some r \<and> served r"
      by (simp add: aster_get_mid_price_def at_lock_def fetch_served [OF assms(1) lag])
    with False after_aster_grows show ?thesis by (fastforce simp: leg_price_def)
  qed
qed

lemma leg_summary_live:
  assumes "live (w_lim w)" "fair ans"
  shows "\<exists>r w'. leg_summary cv levels m ans w = Some (r, w') \<and> grows 1 w w'"
proof -
  from assms(2) have lag: "\<forall>k. 0 \<le> lag_of ans k" by (simp add: fair_def)
  show ?thesis
  proof (cases "exchange m = ''lighter''")
    case True
    show ?thesis
    proof (cases "market_id m")
      case None
      from limited_live [OF assms(1) lag] obtain rl t
        where "limited (lag_of ans) (conn_lighter (w_conns w)) (w_lim w) ''lighter'' ''global''
          (lock_time (w_lim w) ''lighter'' ''global'' (entered ans)) = Some (rl, t)" "live rl" by blast
      with True None show ?thesis
        by (simp add: leg_summary_def summary_without_id_def at_lock_def grows_def)
    next
      case (Some i)
      have "\<exists>r. get_order_book_summary cv (lag_of ans) (conn_lighter (w_conns w)) (w_lim w) i levels (body ans)
          (at_lock w ''lighter'' ''global'' ans) = Some r \<and> served r"
        by (simp add: get_order_book_summary_def at_lock_def fetch_served [OF assms(1) lag])
      with True Some after_lighter_grows show ?thesis by (fastforce simp: leg_summary_def)
    qed
  next
    case False
    have "\<exists>r. aster_get_order_book_summary cv (lag_of ans) (conn_aster (w_conns w)) (w_lim w) (symbol m) levels
        (body ans) (at_lock w ''aster'' ''depth'' ans) = Some r \<and> served r"
      by (simp add: aster_get_order_book_summary_def at_lock_def fetch_served [OF assms(1) lag])
    with False after_aster_grows show ?thesis by (fastforce simp: leg_summary_def)
  qed
qed

lemma quote_of_grows: "\<exists>x w'. y = (x, w') \<and> grows 1 w w' \<Longrightarrow> \<exists>x w'. quote_of y = (x, w') \<and> grows 1 w w'"
  by (auto simp: quote_of_def)

lemma leg_stats_live:
  assumes "live (w_lim w)" "fair ans"
  shows "\<exists>r w'. leg_stats cv m ans w = Some (r, w') \<and> grows 1 w w'"
proof -
  from assms(2) have lag: "\<forall>k. 0 \<le> lag_of ans k" by (simp add: fair_def)
  show ?thesis
  proof (cases "exchange m = ''lighter''")
    case True
    show ?thesis
    proof (cases "market_id m")
      case None
      with True assms(1) show ?thesis by (simp add: leg_stats_def)
    next
      case (Some i)
      from assms(1) have "served (get_24h_stats cv (conn_lighter (w_conns w)) (w_lim w) i (body ans) (entered ans))"
        by (simp add: get_24h_stats_def)
      from quote_of_grows [OF after_lighter_grows [OF this]] True Some show ?thesis
        by (simp add: leg_stats_def)
    qed
  next
    case False
    have "\<exists>r. aster_get_24h_stats cv (lag_of ans) (conn_aster (w_conns w)) (w_lim w) (symbol m) (body ans)
        (at_lock w ''aster'' ''global'' ans) = Some r \<and> served r"
      by (simp add: aster_get_24h_stats_def at_lock_def fetch_served [OF assms(1) lag])
    then obtain r where "aster_get_24h_stats cv (lag_of ans) (conn_aster (w_conns w)) (w_lim w) (symbol m)
        (body ans) (at_lock w ''aster'' ''global'' ans) = Some r" "served r" by blast
    with False quote_of_grows [OF after_aster_grows] show ?thesis by (simp add: leg_stats_def)
  qed
qed

lemma lighter_fees_live:
  assumes "live (w_lim w)" "fair ans"
  shows "\<exists>r w'. lighter_fees cv m ans w = Some (r, w') \<and> grows 1 w w'"
proof -
  from assms(2) have "\<forall>k. 0 \<le> lag_of ans k" by (simp add: fair_def)
  from get_fees_served [OF assms(1) this] after_lighter_grows show ?thesis
    by (fastforce simp: lighter_fees_def at_lock_def)
qed

lemma enrich_via_live:
  assumes "live (w_lim w)" "fair_leg la"
  shows "\<exists>e w'. enrich_via cv cfg m la w = Some (e, w') \<and> grows 3 w w'"
proof -
  from assms(2) have f: "fair (ans_book la)" "fair (ans_stats la)" "fair (ans_books la)"
    by (simp_all add: fair_leg_def)
  from leg_summary_live [OF assms(1) f(1)] obtain ob w1
    where 1: "leg_summary cv (depth_levels cfg) m (ans_book la) w = Some (ob, w1)" "grows 1 w w1" by blast
  from leg_stats_live [OF grows_live [OF 1(2)] f(2)] obtain st w2
    where 2: "leg_stats cv m (ans_stats la) w1 = Some (st, w2)" "grows 1 w1 w2" by blast
  from lighter_fees_live [OF grows_live [OF 2(2)] f(3)] obtain fe w3
    where 3: "lighter_fees cv m (ans_books la) w2 = Some (fe, w3)" "grows 1 w2 w3" by blast
  from grows_trans [OF 1(2) 2(2)] have w2: "grows 3 w w2" by (rule grows_mono) simp
  from grows_trans [OF grows_trans [OF 1(2) 2(2)] 3(2)] have "grows 3 w w3" by (rule grows_mono) simp
  with w2 1(1) 2(1) 3(1) assms(1) show ?thesis by (simp add: enrich_via_def)
qed

lemma leg_funding_live:
  assumes "live (w_lim w)" "fair_leg la"
  shows "\<exists>r w'. leg_funding cv cfg m la w = Some (r, w') \<and> grows 1 w w'"
proof (cases "exchange m = ''aster''")
  case True
  from assms(2) have lag: "\<forall>k. 0 \<le> lag_of (ans_fund la) k" by (simp add: fair_leg_def fair_def)
  have "\<exists>r. aster_get_funding_info cv (lag_of (ans_fund la)) (conn_aster (w_conns w)) (w_lim w) (symbol m)
      (body (ans_fund la)) (at_lock w ''aster'' ''global'' (ans_fund la)) = Some r \<and> served r"
    by (simp add: aster_get_funding_info_def at_lock_def fetch_served [OF assms(1) lag])
  with True after_aster_grows show ?thesis by (fastforce simp: leg_funding_def)
next
  case False
  with assms(1) show ?thesis by (simp add: leg_funding_def)
qed

lemma tick_via_live:
  assumes "live (w_lim w)" "fair_leg la" "fair_leg lb"
  shows "\<exists>io w'. tick_via cv cfg pr p la lb ins w = Some (io, w') \<and> grows 10 w w'"
proof -
  from assms(2,3) have f: "fair (ans_mid la)" "fair (ans_mid lb)" by (simp_all add: fair_leg_def)
  from leg_price_live [OF assms(1) f(1)] obtain pa w1
    where 1: "leg_price cv (leg_a pr) (ans_mid la) w = Some (pa, w1)" "grows 1 w w1" by blast
  from leg_price_live [OF grows_live [OF 1(2)] f(2)] obtain pb w2
    where 2: "leg_price cv (leg_b pr) (ans_mid lb) w1 = Some (pb, w2)" "grows 1 w1 w2" by blast
  from enrich_via_live [OF grows_live [OF 2(2)] assms(2)] obtain ea w3
    where 3: "enrich_via cv cfg (leg_a pr) la w2 = Some (ea, w3)" "grows 3 w2 w3" by blast
  from enrich_via_live [OF grows_live [OF 3(2)] assms(3)] obtain eb w4
    where 4: "enrich_via cv cfg (leg_b pr) lb w3 = Some (eb, w4)" "grows 3 w3 w4" by blast
  from leg_funding_live [OF grows_live [OF 4(2)] assms(2)] obtain fa w5
    where 5: "leg_funding cv cfg (leg_a pr) la w4 = Some (fa, w5)" "grows 1 w4 w5" by blast
  from leg_funding_live [OF grows_live [OF 5(2)] assms(3)] obtain fb w6
    where 6: "leg_funding cv cfg (leg_b pr) lb w5 = Some (fb, w6)" "grows 1 w5 w6" by blast
  note g2 = grows_trans [OF 1(2) 2(2)]
  note g3 = grows_trans [OF g2 3(2)]
  note g4 = grows_trans [OF g3 4(2)]
  note g6 = grows_trans [OF grows_trans [OF g4 5(2)] 6(2)]
  have "grows 10 w w" "grows 10 w w2" "grows 10 w w3" "grows 10 w w4" "grows 10 w w6"
    using assms(1) g2 g3 g4 g6 by (simp_all add: grows_mono)
  with 1(1) 2(1) 3(1) 4(1) 5(1) 6(1) show ?thesis by (simp add: tick_via_def Let_def)
qed

lemma grows_sent: "grows n w w' \<Longrightarrow> length (w_sent w') \<le> length (w_sent w) + n"
  by (auto simp: grows_def)

section \<open>The loop returns from every tick\<close>

text \<open>
  C8 (liveness): the loop of a poller never hangs in the limiter. When every
  bucket of the limiter keeps \<open>0 \<le> tokens \<le> capacity\<close>, refills at a positive
  rate and has a capacity of at least one token, and no sleep ends early, then
  whatever the venues and the storage answer, every tick of
  \<^verbatim>\<open>poll_pair_with_store\<close> comes back: the run yields one result per tick,
  leaves a limiter with the same property, and has sent at most ten requests
  per tick.
\<close>

theorem run_via_returns:
  assumes "live (w_lim w)" "list_all (\<lambda>(la, lb, ins). fair_leg la \<and> fair_leg lb) ticks"
  shows "\<exists>rs p' w'. run_via cv cfg pr p ticks w = Some (rs, p', w') \<and> length rs = length ticks
    \<and> live (w_lim w') \<and> length (w_sent w') \<le> length (w_sent w) + 10 * length ticks"
  using assms
proof (induction ticks arbitrary: p w)
  case Nil
  then show ?case by simp
next
  case (Cons x ticks)
  obtain la lb ins where x: "x = (la, lb, ins)" by (cases x)
  with Cons.prems have f: "fair_leg la" "fair_leg lb" by simp_all
  from tick_via_live [OF Cons.prems(1) f] obtain io w1
    where t: "tick_via cv cfg pr p la lb ins w = Some (io, w1)" "grows 10 w w1" by blast
  obtain r p1 where r: "tick cfg pr p io = (r, p1)" by (cases "tick cfg pr p io")
  from Cons.prems(2) have "list_all (\<lambda>(la, lb, ins). fair_leg la \<and> fair_leg lb) ticks" by simp
  from Cons.IH [OF grows_live [OF t(2)] this, of p1] obtain rs p' w'
    where "run_via cv cfg pr p1 ticks w1 = Some (rs, p', w')" "length rs = length ticks"
      "live (w_lim w')" "length (w_sent w') \<le> length (w_sent w1) + 10 * length ticks" by blast
  with grows_sent [OF t(2)] x t(1) r show ?case by simp
qed

theorem run_via_returns_witness:
  "\<exists>rs p' w'. run_via plain_conv demo_cfg demo_pair demo_poller [(lighter_answers, aster_answers, Inr ())]
       tick_world = Some (rs, p', w')
     \<and> length rs = 1 \<and> length (w_sent w') \<le> 10"
proof -
  have l: "live (w_lim tick_world)"
    by (auto simp: live_def tick_world_def tb_inv_def TokenBucket_init_def split: if_splits)
  have f: "list_all (\<lambda>(la, lb, ins). fair_leg la \<and> fair_leg lb) [(lighter_answers, aster_answers, Inr ())]"
    by (simp add: fair_leg_def fair_def lighter_answers_def aster_answers_def quiet_def)
  have s: "w_sent tick_world = []" by (simp add: tick_world_def)
  from run_via_returns [OF l f, of plain_conv demo_cfg demo_pair demo_poller] show ?thesis
    by (auto simp: s simp del: run_via.simps)
qed

section \<open>What a stored tick has asked\<close>

lemma timed_result_ok [simp]: "is_ok (timed_result t0 t1 r) = is_ok r"
  by (cases r) (simp_all add: timed_result_def)

lemma timed_result_value [simp]: "is_ok r \<Longrightarrow> fst (projr (timed_result t0 t1 r)) = projr r"
  by (cases r) (simp_all add: timed_result_def timed_def)

lemma tick_via_okE:
  assumes "tick_via cv cfg pr p la lb ins w = Some (io, w')"
    and "tick cfg pr p io = (Tick_ok a post act, p')"
  obtains pa w1 pb w2 ea w3 eb w4 where
    "leg_price cv (leg_a pr) (ans_mid la) w = Some (pa, w1)" "is_ok pa"
    "leg_price cv (leg_b pr) (ans_mid lb) w1 = Some (pb, w2)" "is_ok pb"
    "enrich_via cv cfg (leg_a pr) la w2 = Some (ea, w3)" "is_ok (enrich_leg cfg (leg_a pr) ea)"
    "enrich_via cv cfg (leg_b pr) lb w3 = Some (eb, w4)" "is_ok (enrich_leg cfg (leg_b pr) eb)"
    "if posting cfg
     then \<exists>fa w5 fb. leg_funding cv cfg (leg_a pr) la w4 = Some (fa, w5)
            \<and> leg_funding cv cfg (leg_b pr) lb w5 = Some (fb, w')
     else w' = w4"
    "mid_a io = timed_result (ans_t0 la) (ans_t1 la) pa" "mid_b io = timed_result (ans_t0 lb) (ans_t1 lb) pb"
    "enr_a io = ea" "enr_b io = eb"
  using assms(1) tick_ok_answers [OF assms(2)]
  by (auto simp: tick_via_def Let_def unasked_def no_enrichment_def not_requested_def
      split: option.splits if_splits)

lemma fetchE:
  assumes "fetch lag c rl exch ep now req resp f = Some r"
  shows "c_sent r = [req] \<and> c_conn r = session c \<and> c_ret r = bind_result resp f"
  using assms by (auto simp: fetch_def split: option.splits)

lemma session_hosts [simp]: "l_host (session c) = l_host c" "books_cache (session c) = books_cache c"
  "a_host (session d) = a_host d"
  by (simp_all add: session_def)

lemma leg_price_lighter:
  assumes "leg_price cv m ans w = Some (r, w')" "exchange m = ''lighter''" "market_id m = Some i"
  shows "w_sent w' = w_sent w
      @ [lighter_request w ''/api/v1/orderBookOrders'' [(''market_id'', JInteger i), (''limit'', JInteger 1)]]"
    "hosts w' = hosts w" "cached w' = cached w"
  using assms
  by (auto simp: leg_price_def get_mid_price_def after_lighter_def hosts_def cached_def lighter_request_def
      lighter_url_def dest!: fetchE)

lemma leg_price_aster:
  assumes "leg_price cv m ans w = Some (r, w')" "exchange m = ''aster''"
  shows "w_sent w' = w_sent w @ [aster_request w ''/fapi/v1/ticker/price'' [(''symbol'', JString (symbol m))]]"
    "hosts w' = hosts w" "cached w' = cached w"
  using assms
  by (auto simp: leg_price_def aster_get_mid_price_def after_aster_def hosts_def cached_def aster_request_def
      dest!: fetchE)


lemma enrich_leg_okD:
  assumes "is_ok (enrich_leg cfg m e)" "exchange m = ''lighter'' \<or> exchange m = ''aster''"
  shows "is_ok (io_summary e) \<and> is_ok (io_stats e) \<and> (exchange m = ''lighter'' \<longrightarrow> is_ok (io_fees e))"
  using assms by (cases "io_summary e"; cases "io_stats e"; cases "io_fees e") (auto simp: enrich_leg_def)

lemma leg_summary_lighter:
  assumes "leg_summary cv n m ans w = Some (r, w')" "exchange m = ''lighter''" "market_id m = Some i"
  shows "w_sent w' = w_sent w
      @ [lighter_request w ''/api/v1/orderBookOrders'' [(''market_id'', JInteger i), (''limit'', JInteger n)]]
    \<and> hosts w' = hosts w \<and> cached w' = cached w"
  using assms
  by (auto simp: leg_summary_def get_order_book_summary_def after_lighter_def hosts_def cached_def
      lighter_request_def lighter_url_def dest!: fetchE)

lemma leg_stats_lighter:
  assumes "leg_stats cv m ans w = Some (r, w')" "exchange m = ''lighter''" "market_id m = Some i"
  shows "w_sent w' = w_sent w @ [lighter_request w ''/api/v1/orderBookDetails'' [(''market_id'', JInteger i)]]
    \<and> hosts w' = hosts w \<and> cached w' = cached w"
  using assms
  by (auto simp: leg_stats_def get_24h_stats_def fetch_direct_def quote_of_def after_lighter_def hosts_def
      cached_def lighter_request_def lighter_url_def)

lemma lighter_fees_sent:
  assumes "lighter_fees cv m ans w = Some (r, w')"
  shows "w_sent w' = w_sent w @ (if cached w = JNull then [lighter_request w ''/api/v1/orderBooks'' []] else [])
    \<and> hosts w' = hosts w"
  using assms
  by (auto simp: lighter_fees_def get_fees_def fetch_market_map_def after_lighter_def hosts_def cached_def
      lighter_request_def lighter_url_def split: if_splits option.splits dest!: fetchE)

lemma leg_summary_aster:
  assumes "leg_summary cv n m ans w = Some (r, w')" "exchange m = ''aster''"
  shows "w_sent w' = w_sent w
      @ [aster_request w ''/fapi/v1/depth'' [(''symbol'', JString (symbol m)), (''limit'', JInteger n)]]
    \<and> hosts w' = hosts w \<and> cached w' = cached w"
  using assms
  by (auto simp: leg_summary_def aster_get_order_book_summary_def after_aster_def hosts_def cached_def
      aster_request_def dest!: fetchE)

lemma leg_stats_aster:
  assumes "leg_stats cv m ans w = Some (r, w')" "exchange m = ''aster''"
  shows "w_sent w' = w_sent w @ [aster_request w ''/fapi/v1/ticker/24hr'' [(''symbol'', JString (symbol m))]]
    \<and> hosts w' = hosts w \<and> cached w' = cached w"
  using assms
  by (auto simp: leg_stats_def aster_get_24h_stats_def quote_of_def after_aster_def hosts_def cached_def
      aster_request_def dest!: fetchE)

lemma leg_funding_sent:
  assumes "leg_funding cv cfg m la w = Some (r, w')"
  shows "w_sent w' = w_sent w
      @ (if exchange m = ''aster''
         then [aster_request w ''/fapi/v1/premiumIndex'' [(''symbol'', JString (symbol m))]] else [])
    \<and> hosts w' = hosts w \<and> cached w' = cached w"
  using assms
  by (auto simp: leg_funding_def aster_get_funding_info_def after_aster_def hosts_def cached_def
      aster_request_def split: if_splits dest!: fetchE)


lemma request_cong:
  assumes "hosts w' = hosts w"
  shows "lighter_request w' = lighter_request w" "aster_request w' = aster_request w"
  using assms by (simp_all add: lighter_request_def aster_request_def fun_eq_iff)

lemma leg_price_unresolved:
  "exchange m = ''lighter'' \<Longrightarrow> market_id m = None
     \<Longrightarrow> leg_price cv m ans w
       = Some (Inl (ValueError ''LighterConnector requires market_id for get_mid_price in MVP.''), w)"
  by (simp add: leg_price_def get_mid_price_def refuse_def after_lighter_def)

lemma enrich_via_lighter:
  assumes "enrich_via cv cfg m la w = Some (e, w')" "exchange m = ''lighter''" "market_id m = Some i"
    and "is_ok (enrich_leg cfg m e)"
  shows "w_sent w' = w_sent w
      @ [lighter_request w ''/api/v1/orderBookOrders''
           [(''market_id'', JInteger i), (''limit'', JInteger (depth_levels cfg))],
         lighter_request w ''/api/v1/orderBookDetails'' [(''market_id'', JInteger i)]]
      @ (if cached w = JNull then [lighter_request w ''/api/v1/orderBooks'' []] else [])
    \<and> hosts w' = hosts w"
proof -
  from assms(1,2) enrich_leg_okD [OF assms(4)] obtain ob w1 st w2 fe
    where 1: "leg_summary cv (depth_levels cfg) m (ans_book la) w = Some (ob, w1)"
      and 2: "leg_stats cv m (ans_stats la) w1 = Some (st, w2)"
      and 3: "lighter_fees cv m (ans_books la) w2 = Some (fe, w')"
    by (auto simp: enrich_via_def not_requested_def split: option.splits if_splits)
  note a = leg_summary_lighter [OF 1 assms(2,3)]
  note b = leg_stats_lighter [OF 2 assms(2,3)]
  note c = lighter_fees_sent [OF 3]
  from a b have h: "hosts w1 = hosts w" "hosts w2 = hosts w" "cached w2 = cached w" by simp_all
  from a b c h request_cong [OF h(1)] request_cong [OF h(2)] show ?thesis by simp
qed

lemma enrich_via_aster:
  assumes "enrich_via cv cfg m la w = Some (e, w')" "exchange m = ''aster''"
  shows "w_sent w' = w_sent w
      @ [aster_request w ''/fapi/v1/depth''
           [(''symbol'', JString (symbol m)), (''limit'', JInteger (depth_levels cfg))],
         aster_request w ''/fapi/v1/ticker/24hr'' [(''symbol'', JString (symbol m))]]
    \<and> hosts w' = hosts w \<and> cached w' = cached w"
proof -
  from assms obtain ob w1 st
    where 1: "leg_summary cv (depth_levels cfg) m (ans_book la) w = Some (ob, w1)"
      and 2: "leg_stats cv m (ans_stats la) w1 = Some (st, w')"
    by (auto simp: enrich_via_def split: option.splits)
  note a = leg_summary_aster [OF 1 assms(2)]
  note b = leg_stats_aster [OF 2 assms(2)]
  from a have "hosts w1 = hosts w" by simp
  from a b request_cong [OF this] show ?thesis by simp
qed

text \<open>
  C18 (functional): the requests behind a stored sample. When a tick of a pair
  with leg A on Lighter and leg B on Aster stores its sample, Lighter's market
  id was known and the tick has sent, in this order: Lighter's order book with
  limit 1 (the mid price), Aster's ticker price, Lighter's order book again
  with limit \<^verbatim>\<open>depth_levels\<close> (the summary), Lighter's order-book details,
  Lighter's market list when the connector had not cached it, Aster's depth,
  Aster's 24-hour ticker and, when the poller posts to a panel, Aster's
  premium index. Nothing else is sent; Lighter's funding comes from the SDK.
\<close>

theorem tick_ok_requests:
  assumes "tick_via cv cfg pr p la lb ins w = Some (io, w')"
    and "tick cfg pr p io = (Tick_ok a post act, p')"
    and "exchange (leg_a pr) = ''lighter''" "exchange (leg_b pr) = ''aster''"
  shows "\<exists>i. market_id (leg_a pr) = Some i \<and> w_sent w' = w_sent w
      @ [lighter_request w ''/api/v1/orderBookOrders'' [(''market_id'', JInteger i), (''limit'', JInteger 1)],
         aster_request w ''/fapi/v1/ticker/price'' [(''symbol'', JString (symbol (leg_b pr)))],
         lighter_request w ''/api/v1/orderBookOrders''
           [(''market_id'', JInteger i), (''limit'', JInteger (depth_levels cfg))],
         lighter_request w ''/api/v1/orderBookDetails'' [(''market_id'', JInteger i)]]
      @ (if cached w = JNull then [lighter_request w ''/api/v1/orderBooks'' []] else [])
      @ [aster_request w ''/fapi/v1/depth''
           [(''symbol'', JString (symbol (leg_b pr))), (''limit'', JInteger (depth_levels cfg))],
         aster_request w ''/fapi/v1/ticker/24hr'' [(''symbol'', JString (symbol (leg_b pr)))]]
      @ (if posting cfg
         then [aster_request w ''/fapi/v1/premiumIndex'' [(''symbol'', JString (symbol (leg_b pr)))]]
         else [])"
proof -
  from assms(1,2) obtain pa w1 pb w2 ea w3 eb w4 where
    1: "leg_price cv (leg_a pr) (ans_mid la) w = Some (pa, w1)" "is_ok pa" and
    2: "leg_price cv (leg_b pr) (ans_mid lb) w1 = Some (pb, w2)" and
    3: "enrich_via cv cfg (leg_a pr) la w2 = Some (ea, w3)" "is_ok (enrich_leg cfg (leg_a pr) ea)" and
    4: "enrich_via cv cfg (leg_b pr) lb w3 = Some (eb, w4)" and
    5: "if posting cfg
        then \<exists>fa w5 fb. leg_funding cv cfg (leg_a pr) la w4 = Some (fa, w5)
               \<and> leg_funding cv cfg (leg_b pr) lb w5 = Some (fb, w')
        else w' = w4"
    by (rule tick_via_okE)
  from 1 assms(3) obtain i where i: "market_id (leg_a pr) = Some i"
    by (cases "market_id (leg_a pr)") (auto simp: leg_price_unresolved)
  note a = leg_price_lighter [OF 1(1) assms(3) i]
  note b = leg_price_aster [OF 2 assms(4)]
  note c = enrich_via_lighter [OF 3(1) assms(3) i 3(2)]
  note d = enrich_via_aster [OF 4 assms(4)]
  from a b c have h: "hosts w1 = hosts w" "hosts w2 = hosts w" "hosts w3 = hosts w" "cached w2 = cached w"
    by simp_all
  with d have h4: "hosts w4 = hosts w" by simp
  have "w_sent w' = w_sent w4
      @ (if posting cfg
         then [aster_request w ''/fapi/v1/premiumIndex'' [(''symbol'', JString (symbol (leg_b pr)))]]
         else [])"
  proof (cases "posting cfg")
    case True
    with 5 obtain fa w5 fb where f: "leg_funding cv cfg (leg_a pr) la w4 = Some (fa, w5)"
      "leg_funding cv cfg (leg_b pr) lb w5 = Some (fb, w')" by auto
    from leg_funding_sent [OF f(1)] assms(3) h4 have "hosts w5 = hosts w" "w_sent w5 = w_sent w4" by simp_all
    with leg_funding_sent [OF f(2)] assms(4) True request_cong [OF this(1)] show ?thesis by simp
  next
    case False
    with 5 show ?thesis by simp
  qed
  with a b c d h i request_cong [OF h(1)] request_cong [OF h(2)] request_cong [OF h(3)]
  show ?thesis by simp
qed

lemmas tick_world_defs =
  demo_pair_def demo_cfg_def lighter_answers_def aster_answers_def quiet_def tick_world_def
  tick_requests_defs lighter_defs aster_defs json_defs
  fetch_def fetch_direct_def refuse_def limited_def allow_def allow_bucket_def allow_key_def key_def
  TokenBucket_init_def consume_no_wait refill_def Connector_init_def session_def
  Connector.extend_def LighterConnector.fields_def AsterConnector.fields_def rstrip_slash_def
  lighter_book_def aster_book_def plain_conv_def known_exchange_def posting_def timed_result_def
  timed_def enrich_leg_def Let_def

lemma demo_signals_ok: "is_ok (signals demo_poller (201 / 2) 100)"
  by (simp add: signals_def demo_poller_def zscore_defs Let_def split_beta)

lemma demo_tick_via:
  "\<exists>io w'. tick_via plain_conv demo_cfg demo_pair demo_poller lighter_answers aster_answers (Inr ()) tick_world
       = Some (io, w')
     \<and> mid_a io = Inr (201 / 2, 1000, 30) \<and> mid_b io = Inr (100, 1040, 70)
     \<and> is_ok (enrich_leg demo_cfg (leg_a demo_pair) (enr_a io))
     \<and> is_ok (enrich_leg demo_cfg (leg_b demo_pair) (enr_b io)) \<and> io_insert io = Inr ()"
  by (simp add: tick_world_defs demo_signals_ok)

lemma demo_tick_ok:
  obtains io w' a post act p' where
    "tick_via plain_conv demo_cfg demo_pair demo_poller lighter_answers aster_answers (Inr ()) tick_world
       = Some (io, w')"
    "tick demo_cfg demo_pair demo_poller io = (Tick_ok a post act, p')"
proof -
  from demo_tick_via obtain io w' where
    t: "tick_via plain_conv demo_cfg demo_pair demo_poller lighter_answers aster_answers (Inr ()) tick_world
          = Some (io, w')"
    and io: "mid_a io = Inr (201 / 2, 1000, 30)" "mid_b io = Inr (100, 1040, 70)"
      "is_ok (enrich_leg demo_cfg (leg_a demo_pair) (enr_a io))"
      "is_ok (enrich_leg demo_cfg (leg_b demo_pair) (enr_b io))" "io_insert io = Inr ()"
    by blast
  from io demo_signals_ok obtain a post act p'
    where "tick demo_cfg demo_pair demo_poller io = (Tick_ok a post act, p')"
    using tick_okI [of demo_pair io demo_poller demo_cfg] by (auto simp: known_exchange_def demo_pair_def)
  with t that show ?thesis by blast
qed

lemma demo_legs: "exchange (leg_a demo_pair) = ''lighter''" "exchange (leg_b demo_pair) = ''aster''"
  by (simp_all add: demo_pair_def)

theorem tick_ok_requests_witness:
  "\<exists>io w'. tick_via plain_conv demo_cfg demo_pair demo_poller lighter_answers aster_answers (Inr ()) tick_world
       = Some (io, w')
     \<and> w_sent w' =
         [\<lparr>url = ''https://lighter/api/v1/orderBookOrders'',
            params = [(''market_id'', JInteger 1), (''limit'', JInteger 1)]\<rparr>,
          \<lparr>url = ''https://aster/fapi/v1/ticker/price'', params = [(''symbol'', JString ''BTCUSDT'')]\<rparr>,
          \<lparr>url = ''https://lighter/api/v1/orderBookOrders'',
            params = [(''market_id'', JInteger 1), (''limit'', JInteger 5)]\<rparr>,
          \<lparr>url = ''https://lighter/api/v1/orderBookDetails'', params = [(''market_id'', JInteger 1)]\<rparr>,
          \<lparr>url = ''https://lighter/api/v1/orderBooks'', params = []\<rparr>,
          \<lparr>url = ''https://aster/fapi/v1/depth'',
            params = [(''symbol'', JString ''BTCUSDT''), (''limit'', JInteger 5)]\<rparr>,
          \<lparr>url = ''https://aster/fapi/v1/ticker/24hr'', params = [(''symbol'', JString ''BTCUSDT'')]\<rparr>]"
proof -
  obtain io w' a post act p' where
    t: "tick_via plain_conv demo_cfg demo_pair demo_poller lighter_answers aster_answers (Inr ()) tick_world
          = Some (io, w')"
    and ok: "tick demo_cfg demo_pair demo_poller io = (Tick_ok a post act, p')"
    by (rule demo_tick_ok)
  from tick_ok_requests [OF t ok demo_legs] t show ?thesis
    by (simp add: demo_pair_def demo_cfg_def tick_world_def hosts_def cached_def lighter_request_def
        aster_request_def posting_def LighterConnector_init_def AsterConnector_init_def
        Connector.extend_def LighterConnector.fields_def AsterConnector.fields_def Connector_init_def
        rstrip_slash_def)
qed

section \<open>A stored sample is what the venues answered\<close>

lemma leg_price_value:
  assumes "leg_price cv m ans w = Some (r, w')"
  shows "exchange m = ''lighter'' \<Longrightarrow> market_id m = Some i \<Longrightarrow> r = bind_result (body ans) (mid_of_book cv)"
    and "exchange m = ''aster'' \<Longrightarrow> r = bind_result (body ans) (price_of_ticker cv)"
  using assms
  by (auto simp: leg_price_def get_mid_price_def aster_get_mid_price_def after_lighter_def after_aster_def
      dest!: fetchE)

lemma enrich_via_summary:
  assumes "enrich_via cv cfg m la w = Some (e, w')" "exchange m = ''lighter''" "market_id m = Some i"
  shows "io_summary e = bind_result (body (ans_book la)) (summary_of_book cv (depth_levels cfg))"
  using assms
  by (auto simp: enrich_via_def leg_summary_def get_order_book_summary_def after_lighter_def
      split: option.splits if_splits dest!: fetchE)


lemma enrich_leg_lighter:
  assumes "enrich_leg cfg m e = Inr x" "exchange m = ''lighter''" "io_summary e = Inr ob"
  shows "x_ob_spread x = Some (spread_abs ob)" "x_ob_spread_pct x = Some (spread_pct ob)"
    "x_depth_qty x = Some (depth_qty ob)" "x_depth_notional x = Some (depth_notional ob)"
  using assms
  by (cases "io_stats e"; cases "io_fees e"; auto simp: enrich_leg_def extras_of_def)+

text \<open>
  C5 (refinement): from the bodies of the answers to the row handed to the
  storage. When a tick of a pair with leg A on Lighter and leg B on Aster
  stores its sample, the stored price of leg A is the mid price of the body
  answered to the first order-book request, the stored price of leg B the
  price of Aster's ticker, the stored spread their difference; and when the
  body answered to the second order-book request holds the bids \<open>bs\<close> and
  asks \<open>as\<close> within \<^verbatim>\<open>depth_levels\<close>, the stored order-book spread of leg A
  is best ask minus best bid and the stored depth is the sum of the
  quantities, and of price times quantity, over these levels. Price and
  order-book spread of one sample thus come from two snapshots of the book.
\<close>

theorem stored_sample_of_answers:
  assumes "tick_via cv cfg pr p la lb ins w = Some (io, w')"
    and "tick cfg pr p io = (Tick_ok a post act, p')"
    and "exchange (leg_a pr) = ''lighter''" "exchange (leg_b pr) = ''aster''"
    and "body (ans_book la) = Inr dl" "levels_of_book cv (depth_levels cfg) dl = Inr (bs, as)"
    and "bs \<noteq> []" "as \<noteq> []" "fst (hd bs) + fst (hd as) \<noteq> 0"
  shows "bind_result (body (ans_mid la)) (mid_of_book cv) = Inr (st_price_a a)
    \<and> bind_result (body (ans_mid lb)) (price_of_ticker cv) = Inr (st_price_b a)
    \<and> st_spread a = st_price_a a - st_price_b a
    \<and> dict_get (st_extras a) ''ob_spread_a'' = JNum (fst (hd as) - fst (hd bs))
    \<and> dict_get (st_extras a) ''depth_qty_a'' = JNum (fst (depth_of bs) + fst (depth_of as))
    \<and> dict_get (st_extras a) ''depth_notional_a'' = JNum (snd (depth_of bs) + snd (depth_of as))"
proof -
  from assms(1,2) obtain pa w1 pb w2 ea w3 where
    1: "leg_price cv (leg_a pr) (ans_mid la) w = Some (pa, w1)" "is_ok pa" and
    2: "leg_price cv (leg_b pr) (ans_mid lb) w1 = Some (pb, w2)" and
    3: "enrich_via cv cfg (leg_a pr) la w2 = Some (ea, w3)" and
    io: "mid_a io = timed_result (ans_t0 la) (ans_t1 la) pa" "mid_b io = timed_result (ans_t0 lb) (ans_t1 lb) pb"
      "enr_a io = ea"
    by (rule tick_via_okE)
  from 1 assms(3) obtain i where i: "market_id (leg_a pr) = Some i"
    by (cases "market_id (leg_a pr)") (auto simp: leg_price_unresolved)
  from assms(2) obtain price_a ts_a dur_a price_b ts_b dur_b s xa xb where
    t: "mid_a io = Inr (price_a, ts_a, dur_a)" "mid_b io = Inr (price_b, ts_b, dur_b)"
      "signals p price_a price_b = Inr (s, p')" "enrich_leg cfg (leg_a pr) (enr_a io) = Inr xa"
      "a = store_args pr (max ts_a ts_b) price_a price_b s xa xb (snd (freshness_of cfg ts_a ts_b dur_a dur_b))"
    by (rule tick_okE)
  from t(1,2) io(1,2) leg_price_value(1) [OF 1(1) assms(3) i] leg_price_value(2) [OF 2 assms(4)]
  have prices: "bind_result (body (ans_mid la)) (mid_of_book cv) = Inr price_a"
    "bind_result (body (ans_mid lb)) (price_of_ticker cv) = Inr price_b"
    by (auto simp: timed_result_def timed_def bind_result_eq_Inr)
  from t(3) have sp: "spread s = price_a - price_b"
    by (auto simp: signals_def Let_def bind_result_eq_Inr split_beta)
  from enrich_via_summary [OF 3 assms(3) i] assms(5) summary_of_book_levels [OF assms(6-9)] io(3)
  have "io_summary (enr_a io) = Inr (summary_spec bs as)" by simp
  note x = enrich_leg_lighter [OF t(4) assms(3) this]
  from prices sp x show ?thesis
    by (simp add: t(5) store_args_def store_extras_def summary_spec_def Let_def jnum_def)
qed


theorem stored_sample_of_answers_witness:
  "\<exists>io w' a post act p'.
     tick_via plain_conv demo_cfg demo_pair demo_poller lighter_answers aster_answers (Inr ()) tick_world
       = Some (io, w')
     \<and> tick demo_cfg demo_pair demo_poller io = (Tick_ok a post act, p')
     \<and> st_price_a a = 201 / 2 \<and> st_price_b a = 100 \<and> st_spread a = 1 / 2
     \<and> dict_get (st_extras a) ''ob_spread_a'' = JNum 1
     \<and> dict_get (st_extras a) ''depth_qty_a'' = JNum 5
     \<and> dict_get (st_extras a) ''depth_notional_a'' = JNum 503"
proof -
  obtain io w' a post act p' where
    t: "tick_via plain_conv demo_cfg demo_pair demo_poller lighter_answers aster_answers (Inr ()) tick_world
          = Some (io, w')"
    and ok: "tick demo_cfg demo_pair demo_poller io = (Tick_ok a post act, p')"
    by (rule demo_tick_ok)
  have b: "body (ans_book lighter_answers) = Inr lighter_book"
    "levels_of_book plain_conv (depth_levels demo_cfg) lighter_book = Inr ([(100, 2)], [(101, 3)])"
    by (simp_all add: lighter_answers_def quiet_def demo_cfg_def demo_books)
  have m: "bind_result (body (ans_mid lighter_answers)) (mid_of_book plain_conv) = Inr (201 / 2)"
    "bind_result (body (ans_mid aster_answers)) (price_of_ticker plain_conv) = Inr 100"
    by (simp_all add: lighter_answers_def aster_answers_def quiet_def lighter_defs aster_defs json_defs
        lighter_book_def plain_conv_def)
  from stored_sample_of_answers [OF t ok demo_legs b] m t ok show ?thesis
    by (auto simp: depth_of_def)
qed

end
