(* ===== verification/Spec2Isabelle.thy ===== *)
theory Spec2Isabelle
  imports ZScore Rate_Limiter Poller Storage Bin_Stats Simulator Panel
    Json Connector_Base Lighter Aster Config Runner Depth Tick_Requests
begin

text \<open>
  \<^bold>\<open>A verification development for the cross-venue spread monitor\<close>
  (\<^verbatim>\<open>src/arb\<close>).

  \<^bold>\<open>The program.\<close> For every configured pair of perpetual-futures markets
  a poller task (\<^verbatim>\<open>runner_reminder.py\<close>) fetches both mid prices through
  the venue connectors (\<^verbatim>\<open>connectors/\<close>), each call passing the token-bucket
  rate limiter (\<^verbatim>\<open>rate_limiter.py\<close>); it feeds the spread to a rolling
  z-score and an EMA (\<^verbatim>\<open>signal/zscore.py\<close>), decides an action, marks stale
  ticks, estimates the reversion time, and writes the sample to SQLite
  (\<^verbatim>\<open>storage/sqlite.py\<close>) and to the panel server (\<^verbatim>\<open>panel/server.py\<close>),
  which stores it again and broadcasts it to the WebSocket subscribers of the
  pair. The panel also answers queries on the stored samples (history, latest
  row per pair, statistics of the time the z-score needs to come back, per
  bin of \<open>|z|\<close>), simulates the cost of an execution against the order books
  and edits the rate limits.

  \<^bold>\<open>Theories\<close>, in the order of their imports.

  \<^item> \<open>Arb_Prelude\<close>: what the components share. Python exceptions are the
    datatype \<open>py_error\<close>, a computation that may raise has type
    \<open>py_error + 'a\<close> (\<open>Inl\<close> the exception); \<open>truthy\<close> and \<open>or_else\<close> are
    the truth value of an optional number and \<^verbatim>\<open>x or d\<close>; \<open>py_int\<close> and
    \<open>py_round\<close> are \<^verbatim>\<open>int()\<close> and \<^verbatim>\<open>round()\<close>; \<open>deque_append\<close> is
    \<^verbatim>\<open>deque(maxlen=w).append\<close>, with \<open>last_n\<close> as its specification. The
    fact collections \<open>arb_unfold\<close>, \<open>arb_inv\<close> and \<open>py_simps\<close>, and the
    lemmas on sums, means, convex combinations and sorting by a key, carry the
    component proofs.

  \<^item> \<open>Models\<close>: \<^verbatim>\<open>models.py\<close>. The dataclasses \<^verbatim>\<open>Market\<close> and \<^verbatim>\<open>Pair\<close>
    as records, the four action strings as the datatype \<open>action\<close>, JSON and
    SQL values as \<open>jvalue\<close>, dictionaries and rows as association lists
    (\<open>payload\<close>) read by \<open>dict_get\<close>; \<open>jfloat\<close> and \<open>jint\<close> are
    \<^verbatim>\<open>float()\<close> and \<^verbatim>\<open>int()\<close> on such a value: a number converts, a
    string converts when it is a literal of the grammar \<open>py_conv\<close> and
    raises \<^verbatim>\<open>ValueError\<close> otherwise, \<^verbatim>\<open>None\<close> raises \<^verbatim>\<open>TypeError\<close>.

  \<^item> \<open>ZScore\<close>: \<^verbatim>\<open>signal/zscore.py\<close>. The classes are the records
    \<open>RollingZScore\<close> (\<open>window\<close>, \<open>buf\<close>) and \<open>EMA\<close> (\<open>ema_window\<close>,
    \<open>alpha\<close>, \<open>ema_value\<close>); \<open>RollingZScore_init\<close> and \<open>EMA_init\<close> are
    the constructors with their \<^verbatim>\<open>ValueError\<close>, \<open>RollingZScore_update\<close> and
    \<open>EMA_update\<close> the \<^verbatim>\<open>update\<close> methods, returning the result and the
    object afterwards. Lemmas: the window is the last \<open>window\<close> values fed
    (a refinement of the list specification), mean, standard deviation and
    z-score of every update, absence of the division by zero for every object
    the constructor returns, the EMA between the least and greatest input,
    and the two worked examples of the specification.

  \<^item> \<open>Rate_Limiter\<close>: \<^verbatim>\<open>rate_limiter.py\<close>. \<open>TokenBucket\<close> is a record (its
    field \<^verbatim>\<open>_last\<close> is \<open>last_t\<close>); \<open>refill\<close>, \<open>sleep_time\<close>,
    \<open>wait_tokens\<close> and \<open>consume\<close> are the body of \<^verbatim>\<open>TokenBucket.consume\<close>.
    The monotonic clock is an argument and a result (the time at which the
    call returns), and every sleep is prolonged by a scheduling delay
    \<open>lag k \<ge> 0\<close> chosen by the environment. The lock is the sequential
    order of \<open>serve\<close> over the list of pending calls. \<open>RateLimiter\<close> holds
    the dictionary of buckets; \<open>RateLimiter_update\<close> and \<open>allow\<close> are its
    methods. Lemmas: \<open>0 \<le> tokens \<le> capacity\<close> is invariant, the tokens
    granted over any run are bounded by \<open>capacity + rate \<cdot> elapsed\<close>,
    termination and its failure, the fallback chain of \<open>allow\<close>, the
    override semantics of \<open>update\<close>, and the ambiguity of the bucket key.

  \<^item> \<open>Reversion\<close>: \<^verbatim>\<open>estimate_reversion_times\<close> of \<^verbatim>\<open>runner_reminder.py\<close>.
    \<open>ols_num\<close> and \<open>ols_den\<close> are the two sums of the regression. Lemmas:
    the value returned on every branch, positivity of the half-life, that a
    geometric decay is recovered exactly, and the cases without an estimate.

  \<^item> \<open>Poller\<close>: \<^verbatim>\<open>poll_pair_with_store\<close> of \<^verbatim>\<open>runner_reminder.py\<close>. The
    configuration read before the loop is the record \<open>poller_cfg\<close>, the
    objects that live across iterations the record \<open>poller\<close>. The blocks of
    the loop body are \<open>signals\<close>, \<open>freshness_of\<close>, \<open>decide_action\<close>,
    \<open>final_action\<close>, \<open>enrich_leg\<close>, \<open>store_args\<close>, \<open>funding_of\<close>
    (with \<open>countdown_of\<close>, \<open>net_rate_of\<close>, \<open>advise\<close>) and \<open>payload_of\<close>;
    \<open>tick\<close> composes them in the order of the code and returns
    \<open>Tick_failed e\<close> where the \<^verbatim>\<open>except\<close> clause of the loop catches \<open>e\<close>.
    Everything a tick awaits is an argument: the record \<open>tick_io\<close> holds
    the answers of the two timed price fetches, of the enrichment calls, of
    the storage write and of the funding calls. \<open>run_ticks\<close> is the loop
    over a list of such answers. The two price fetches are awaited together;
    when both raise, \<open>tick\<close> reports the exception of leg A, where the
    code reports the one raised first. The theorems on failed ticks speak of
    the state after the tick, which is the same for either, or of the
    \<^verbatim>\<open>ValueError\<close> of a Lighter leg A without market id, which is raised
    before anything is awaited and so is the first in the code as well.
    Lemmas: the invariants of every stored
    sample, the payload as an extension of the stored row, the stale flag,
    the partition of the z axis into actions, the state after a failed tick
    (the window keeps the spread of a tick that failed after the update),
    the window after any run, soundness of the funding advice.

  \<^item> \<open>Storage\<close>: \<^verbatim>\<open>storage/sqlite.py\<close>. The database is the record \<open>db\<close>:
    the typed columns of the table \<^verbatim>\<open>spreads\<close>, its rows in the order of
    insertion, and the one row of \<^verbatim>\<open>admin_config\<close> (its JSON text is a type
    parameter). SQL statements are modelled by their results: a statement
    that names a column the table lacks is \<^verbatim>\<open>OperationalError\<close>, a value
    is stored under the affinity of its column (\<open>affinity\<close>), \<^verbatim>\<open>ORDER BY
    ts_ms DESC\<close> is the reverse of a stable sort. \<open>open_db\<close> is
    \<^verbatim>\<open>CREATE TABLE IF NOT EXISTS\<close> with the 30 columns of the statement,
    \<open>ensure_schema\<close> the migration to the 37 expected columns,
    \<open>insert_spread\<close>, \<open>get_spreads\<close>, \<open>get_pairs\<close>, \<open>get_latest_all\<close>,
    \<open>admin_get_config\<close> and \<open>admin_set_config\<close> the functions of the same
    names. The invariant \<open>db_inv\<close> says that the columns are distinct, that
    \<^verbatim>\<open>pair\<close> and \<^verbatim>\<open>ts_ms\<close> exist, that the expected columns have their
    declared types and that every row has a text pair and an integer
    timestamp. Lemmas: every operation preserves \<open>db_inv\<close>; a written
    sample is read back first and unchanged; the order and the filter of
    \<open>get_spreads\<close>; the newest row of every pair in \<open>get_latest_all\<close>;
    that a write migrates an old database; and that the queries of a
    database nobody has written to fail, since only \<open>insert_spread\<close> calls
    \<open>ensure_schema\<close>. Among rows of equal timestamp SQLite leaves the order
    open; the model returns the later insertion first. The Python set
    \<^verbatim>\<open>EXPECTED_COLUMNS\<close> is a list in the order of the source text, so the
    order in which a migration appends the missing columns is one of the
    orders the code may take; columns are read by name throughout.
    \<open>affinity\<close> is behaviour of the SQLite engine, restricted to the
    conversions between integers and floats: a numeric string written to a
    numeric column and a number written to the text column \<^verbatim>\<open>advice\<close> are
    stored unconverted by the model.

  \<^item> \<open>Bin_Stats\<close>: \<^verbatim>\<open>api_stats_bins\<close> of \<^verbatim>\<open>panel/server.py\<close>.
    \<open>parse_edges\<close> reads the comma-separated edges (\<^verbatim>\<open>float()\<close> is the
    argument \<open>float_of\<close>) and falls back to the default bins; \<open>scan_bin\<close>
    is the \<^verbatim>\<open>while\<close> loop over the samples of one bin, \<open>scan_step\<close> its
    body, \<open>first_exit\<close> the inner search for the exit, \<open>pct\<close> the
    percentile by index, \<open>stats_of\<close> the statistics of a bin and
    \<open>api_stats_bins\<close> the endpoint on a database. Lemmas: the scan returns
    when the exit threshold is below the lower edge of the bin, with at most
    one duration per sample and none of them negative; it does not return
    when a sample enters the bin while \<open>|z|\<close> is already at or below the
    exit threshold (the index is not advanced); \<open>p50 \<le> p90\<close> and both
    between the least and greatest duration; the answer of the endpoint on a
    worked database, and the request on which it hangs.

  \<^item> \<open>Simulator\<close>: \<^verbatim>\<open>_avg_exec_price\<close> and \<^verbatim>\<open>api_simulate\<close> of
    \<^verbatim>\<open>panel/server.py\<close>. \<open>walk\<close> is the loop over the levels,
    \<open>resolve_market\<close> and \<open>store_pair\<close> the market id written back into
    the configured pair, \<open>sides_of\<close> the pattern, \<open>sim_costs\<close> slippage
    and fees; the awaited venue calls are the record \<open>sim_io\<close>. Lemmas:
    the fill is \<open>min(base_qty, depth)\<close> and the average lies between the
    extreme prices; the errors for an unknown pair, a zero mid price and an
    invalid pattern; the answer on a book that cannot fill the order.

  \<^item> \<open>Panel\<close>: the rest of \<^verbatim>\<open>panel/server.py\<close>. \<open>WSManager\<close> with
    \<open>connect\<close>, \<open>disconnect\<close> and \<open>broadcast\<close> (the loop is
    \<open>broadcast_loop\<close> over the snapshot of the subscriber set; whether a
    send succeeds is the argument \<open>send_ok\<close>). Between two sends of a
    broadcast other tasks run: \<open>fan_step\<close> is the inductive step relation
    of a broadcast in progress (a client connects, a client disconnects, the
    next send succeeds or fails), \<open>fan_run\<close> its runs, \<open>apply_events\<close>
    the same as a function. The state of the application is the record
    \<open>panel\<close>, the attributes of \<^verbatim>\<open>app.state\<close> (database, configuration,
    manager, limiter, the two connectors, Lighter's market map);
    \<open>on_startup\<close>, \<open>on_shutdown\<close>, \<open>health\<close>, \<open>ingest_spread\<close>,
    \<open>api_spreads\<close>, \<open>api_pairs\<close>, \<open>api_latest\<close>, \<open>api_admin_get\<close>
    and \<open>api_admin_set\<close> are the handlers of the same names.
    \<open>on_startup\<close> loads the configuration from the environment, builds
    the limiter from the stored admin row and the connectors on it, and
    prefetches Lighter's market list through the limiter, an error of the
    prefetch leaving the map empty. \<open>ingest_spread\<close> converts the
    required fields with \<open>jint\<close> and \<open>jfloat\<close>, passes the pair to the
    storage as it is (\<open>pair_name_of\<close>: a number is stored as its text, a
    null violates \<^verbatim>\<open>NOT NULL\<close> after the migration has run) and
    broadcasts under the pair of the payload (\<open>broadcast_to\<close>: a pair that
    is not a string has no subscribers). Lemmas: under any interleaving a payload is
    pushed at most once, only to subscribers of the snapshot, pushes and
    failures partition the snapshot, and failed subscribers are dropped; the
    sequential \<open>broadcast\<close> is the run without interference; ingestion
    stores one row and pushes it to the N subscribers of the pair; which
    payloads ingestion accepts, and that a rejected one leaves rows,
    subscribers and limiter as they were; an admin update reads back, limits
    the requests and survives a restart, where it stands next to the bucket
    the prefetch has created; the limits displayed on a fresh server are not
    the ones in force.

  \<^item> \<open>Json\<close>: the parsed bodies of the venues' answers as the nested
    datatype \<open>json\<close>, and the Python operations the connectors apply to
    them (\<open>get_or\<close> for \<^verbatim>\<open>d.get(k, default)\<close>, \<open>subscr\<close> and \<open>item\<close> for
    \<^verbatim>\<open>x[k]\<close> and \<^verbatim>\<open>x[i]\<close>, \<open>slice_to\<close> and \<open>elems_to\<close> for
    \<^verbatim>\<open>x[:n]\<close>, \<open>iter_json\<close>, \<open>truthy_json\<close>, \<open>py_float\<close>,
    \<open>py_int_of\<close>, \<open>py_str\<close>), each raising on the values Python raises
    on. The grammars of numeric literals (\<open>conv_float\<close>,
    \<open>conv_int\<close>) and the texts of numbers (\<open>conv_repr\<close> of Python,
    \<open>conv_text\<close> of SQLite) are the record \<open>py_conv\<close>, an argument:
    the theorems hold for every such grammar.

  \<^item> \<open>Connector_Base\<close>: \<^verbatim>\<open>connectors/base.py\<close>. The class \<^verbatim>\<open>Connector\<close> is
    an extensible record (\<open>name\<close>, \<open>config\<close>, \<open>has_limiter\<close>,
    \<open>session_st\<close>) with \<open>session\<close> and \<open>close\<close>; the limiter is shared
    by all connectors and the admin endpoint, so it is passed alongside and
    returned. \<open>fetch\<close> is the frame every limited method repeats (wait for
    the limiter, open the session, send the request, decode the answer),
    \<open>fetch_direct\<close> the frame of the methods that use a session of their
    own; the outcome of a method is a \<open>call\<close>, and \<open>None\<close> in its place
    means that the limiter never released it. \<open>limited_run\<close> is a sequence
    of limited calls. Lemmas: a run of limited calls on a configured bucket is
    a queue on that bucket (\<open>limited_run_serve\<close>), so the requests sent
    never exceed \<open>capacity + rate \<cdot> elapsed\<close>; \<open>summary_spec\<close> is the
    contract of the order-book summary.

  \<^item> \<open>Lighter\<close> and \<open>Aster\<close>: \<^verbatim>\<open>connectors/lighter.py\<close> and
    \<^verbatim>\<open>connectors/aster.py\<close>. The classes extend \<open>Connector\<close>; each method
    is a frame around a body that reads the answer (\<open>mid_of_book\<close>,
    \<open>market_map_of\<close>, \<open>summary_of_book\<close>, \<open>levels_of_book\<close>,
    \<open>fees_of_cache\<close>, \<open>stats_of_details\<close>, \<open>next_funding_ms\<close> for
    Lighter; \<open>price_of_ticker\<close>, \<open>aster_summary_of_book\<close>,
    \<open>aster_levels_of_book\<close>, \<open>volumes_of_ticker\<close>, \<open>funding_of_index\<close>
    for Aster). Lemmas: the loops over orders equal a sum over the decoded
    levels, both summaries meet \<open>summary_spec\<close> on the levels the level
    methods return, the mid price is the mean of the best prices, the market
    map is the map of the listed entries with later entries winning, the next
    funding time is the next multiple of the cycle.

  \<^item> \<open>Config\<close>: \<^verbatim>\<open>config.py\<close> and \<^verbatim>\<open>credentials.py\<close>. The environment is
    a partial map; \<open>load_config\<close> returns the record \<open>config\<close> or the
    \<^verbatim>\<open>ValueError\<close> of \<^verbatim>\<open>int(DEPTH_LEVELS)\<close>; \<open>to_int\<close> is \<^verbatim>\<open>_to_int\<close>;
    the two credential lookups raise \<^verbatim>\<open>MissingCredentials\<close>. Lemmas: when
    loading succeeds, that the result satisfies \<open>config_ok\<close>, and the value
    of the credential lookups. What the environment decides of the
    configuration (depth, hosts, indices) is \<open>loaded_config_well_formed\<close>
    in \<open>Runner\<close>, where its consumers are.

  \<^item> \<open>Runner\<close>: the rest of \<^verbatim>\<open>runner_reminder.py\<close>. \<open>build_connectors\<close>,
    \<open>build_pairs\<close>, the console poller \<open>poll_pair\<close> (one iteration is
    \<open>poll_pair_step\<close>), the call by which a poller asks a connector for the
    price of a leg (\<open>leg_mid_price\<close>), and \<open>main\<close> up to the creation of
    the poller tasks (\<open>main_limiter\<close>, \<open>discover_pair\<close>, the windows).
    Lemmas: the value of \<open>main\<close> on every environment in which the
    configuration loads; a leg left without market id fails every tick; the
    console poller and the storing poller agree on the window and the
    signal; the funding countdown of a Lighter leg; where the two connectors
    differ.

  \<^item> \<open>Depth\<close>: \<^verbatim>\<open>api_depth\<close> of \<^verbatim>\<open>panel/server.py\<close>, on the typed pairs of
    \<open>Simulator\<close> and the connectors of \<open>Runner\<close>. Lemmas: the error
    answers, the bound on the levels returned, the market ids written back.

  \<^item> \<open>Tick_Requests\<close>: one iteration of \<^verbatim>\<open>poll_pair_with_store\<close> with
    its calls made through the connectors. The record \<open>world\<close> holds what
    the calls of a poller share and change: the two connectors (session,
    market-list cache), the limiter and the list of requests sent. Each call
    of the loop body is a function on it (\<open>leg_price\<close>, \<open>leg_summary\<close>,
    \<open>leg_stats\<close>, \<open>lighter_fees\<close>, \<open>leg_funding\<close>); \<open>enrich_via\<close> is
    the enrichment of one leg, \<open>tick_via\<close> the body of the loop up to the
    values \<open>Poller.tick\<close> computes with, \<open>run_via\<close> the loop. The lock
    of a bucket is \<open>lock_time\<close>: a call reads the clock when the call
    before it on the same bucket has returned. Lemmas and theorems: under a
    limiter all of whose buckets refill, every tick returns and sends at most
    ten requests (\<open>run_via_returns\<close>); the exact requests behind a stored
    sample (\<open>tick_ok_requests\<close>); the stored prices, spread and depth as
    functions of the bodies the venues answered
    (\<open>stored_sample_of_answers\<close>).

  \<^item> \<open>Spec2Isabelle\<close> (this theory): the path of a sample across the
    components. \<open>deliver\<close> composes the outcome of a tick with the poller's
    storage write and the ingestion endpoint on the shared database. The
    theorem \<open>tick_delivered_twice\<close> shows that the posted payload of every
    tick is accepted, pushed to the subscribers and stored as a second row
    that agrees with the first.

  \<^bold>\<open>Numbers.\<close> Python floats are modelled as reals: every theorem is about
  exact arithmetic and says nothing about rounding error. Python integers are
  \<open>int\<close>. Times are milliseconds as \<open>int\<close> in the poller and the storage,
  seconds as \<open>real\<close> in the rate limiter, as in the code.

  \<^bold>\<open>Loops.\<close> Two loops of the program may not end: the token wait of
  \<^verbatim>\<open>TokenBucket.consume\<close> and the scan of \<^verbatim>\<open>api_stats_bins\<close>. Both are
  \<open>partial_function (option)\<close>, which gives the value \<open>None\<close> to a run
  without end and needs no fuel: that the loop returns is proved as
  \<open>= Some \<dots>\<close> under the stated condition, and that it does not as
  \<open>= None\<close>. The inner search \<open>first_exit\<close> is a total function with a
  termination proof; the loops over the order-book levels, over the orders
  and books of a venue answer and over the subscribers are structural
  recursions. The poller's \<^verbatim>\<open>while True\<close> is
  a recursion over the finite list of the environment's answers:
  \<open>run_ticks\<close> consumes it entirely, which is the statement that the loop
  never leaves by itself.

  \<^bold>\<open>The environment.\<close> Nothing is assumed of the outside world beyond
  the types of its answers: clock readings, scheduling delays, venue answers
  (\<open>tick_io\<close>, \<open>sim_io\<close>, and for the connectors the body of each HTTP
  answer as \<open>json result\<close>, with the time it is asked at and the delays
  of its sleeps in \<open>answer\<close>), the process environment, the success of each
  WebSocket send and the arrival of the poller's POST are arguments, and the
  theorems quantify over them. The set of subscribers iterates in the order of
  \<open>sorted_list_of_set\<close>; the theorems on the fan-out speak of the set of
  sockets pushed and do not depend on that order.

  \<^bold>\<open>Names.\<close> Definitions carry the names of the code. Where a name clashes
  with a constant of HOL or is a single letter, it is changed: \<^verbatim>\<open>_last\<close> is
  \<open>last_t\<close>; \<^verbatim>\<open>Pair.name\<close>, \<^verbatim>\<open>.a\<close>, \<^verbatim>\<open>.b\<close> are \<open>pair_name\<close>, \<open>leg_a\<close>,
  \<open>leg_b\<close>; \<^verbatim>\<open>EMA.window\<close> and \<^verbatim>\<open>.value\<close> are \<open>ema_window\<close> and
  \<open>ema_value\<close>; \<^verbatim>\<open>_avg_exec_price\<close> is \<open>avg_exec_price\<close>; \<^verbatim>\<open>_to_int\<close> is
  \<open>to_int\<close>; \<^verbatim>\<open>_session\<close>, \<^verbatim>\<open>_books_cache\<close> and the two \<^verbatim>\<open>host\<close>
  attributes are \<open>session_st\<close>, \<open>books_cache\<close>, \<open>l_host\<close> and
  \<open>a_host\<close>; the methods of the Lighter connector hold the plain names
  and those of the Aster connector are \<open>aster_\<close>\<^emph>\<open>method\<close>; the attributes
  of \<^verbatim>\<open>app.state\<close> are the fields \<open>p_db\<close>, \<open>p_cfg\<close>, \<open>p_manager\<close>,
  \<open>p_ratelimiter\<close>, \<open>p_lighter\<close>, \<open>p_aster\<close> and \<open>p_lighter_map\<close>.
  The two advice sentences of the code
  are Chinese string literals; they are the constructors of \<open>advice\<close>,
  rendered in English.

  \<^bold>\<open>Typed records.\<close> \<^verbatim>\<open>Market\<close> and \<^verbatim>\<open>Pair\<close> are typed records. Where the
  code builds them from dictionaries (\<open>build_pairs\<close>), a field of another
  type is refused by the model with \<^verbatim>\<open>TypeError\<close>, where Python would build
  the object and fail at its first use; the configuration \<open>load_config\<close>
  returns has no such field. The handlers of the panel that read the pair
  dictionaries directly (\<open>api_simulate\<close>, \<open>api_depth\<close>) are modelled on
  the typed pairs.

  \<^bold>\<open>Not modelled.\<close> The HTTP transport beneath the connectors (a request
  is the value \<open>http_request\<close>, its answer an argument) and the objects of
  the Lighter SDK; the SQLite engine beneath the statements; the FastAPI
  routing and the HTML dashboard of the panel;
  the scheduling of the poller tasks by \<^verbatim>\<open>asyncio.gather\<close> (each poller is
  modelled by itself; requests awaited together are made in the order the
  code lists them, which the lock of a bucket makes exact for the limiter);
  the console output of the pollers; the dataclasses \<^verbatim>\<open>SpreadSample\<close> and
  \<^verbatim>\<open>ZScoreSignal\<close>, which the program never constructs. Floating-point
  rounding, NaN and the infinities are outside the model. The grammars of
  \<^verbatim>\<open>float()\<close> and \<^verbatim>\<open>int()\<close> on strings are not fixed: they are the
  argument \<open>py_conv\<close>.

  \<^bold>\<open>Extensions planned.\<close> Several pollers on one limiter, as a queue of
  their calls on each bucket; the panel's depth and simulation endpoints on
  the same \<open>world\<close> as the pollers; the statistics of the window (bounds on
  the z-score, closed form of the EMA).
\<close>

section \<open>From the poller to the subscribers\<close>

text \<open>
  What becomes of the outcome of a tick: the poller's own storage write
  reaches the database, and the payload, when the poller posts one and the
  request arrives, is handled by the ingestion endpoint of the panel, which
  stores it again and pushes it to the subscribers of the pair. The poller
  and the panel open the same database file by default.
\<close>

definition deliver ::
  "py_conv \<Rightarrow> panel \<Rightarrow> tick_result \<Rightarrow> bool \<Rightarrow> (ws \<Rightarrow> bool) \<Rightarrow> ws list result option \<times> panel" where
  "deliver cv s r arrives send_ok =
     (case r of
        Tick_failed e \<Rightarrow> (None, s)
      | Tick_ok a post act \<Rightarrow>
          let s1 = s\<lparr>p_db := insert_spread (p_db s) a\<rparr>
          in (case post of
                None \<Rightarrow> (None, s1)
              | Some py \<Rightarrow>
                  if arrives then (let (res, s2) = ingest_spread cv s1 py send_ok in (Some res, s2))
                  else (None, s1)))"

lemma payload_has_required:
  "find (\<lambda>k. k \<notin> fst ` set (payload_of pr ts price_a price_b s xa xb f h)) required = None"
  by (simp add: payload_of_def required_def)

lemma payload_ingest_args:
  "ingest_args cv (payload_of pr ts price_a price_b s xa xb f h)
     = Inr \<lparr>st_pair = pair_name pr, st_ts_ms = ts, st_price_a = price_a, st_price_b = price_b,
            st_spread = spread s, st_z = zscore s, st_mean = z_mean s, st_std = z_std s,
            st_extras = map (\<lambda>k. (k, dict_get (payload_of pr ts price_a price_b s xa xb f h) k)) ingest_keys\<rparr>"
  by (simp add: ingest_args_def ingest_values_def payload_required pair_name_of_def)

lemma store_keys_columns:
  "dict_get (store_extras s xa xb f) k \<noteq> JNone \<Longrightarrow> k \<in> set ingest_keys"
  by (drule store_extras_keys) (auto simp: ingest_keys_def)

lemma ingested_row_extends:
  assumes "dict_get (store_extras s xa xb f) k \<noteq> JNone"
  shows "dict_get (stored_row \<lparr>st_pair = p, st_ts_ms = ts, st_price_a = price_a, st_price_b = price_b,
            st_spread = sp, st_z = zv, st_mean = mv, st_std = sd,
            st_extras = map (\<lambda>k. (k, dict_get (payload_of pr ts price_a price_b s xa xb f h) k)) ingest_keys\<rparr>) k
       = dict_get (stored_row (store_args pr ts price_a price_b s xa xb f)) k"
proof -
  from store_keys_columns [OF assms] have k: "k \<in> set (drop 8 insert_columns)" "k \<in> set ingest_keys"
    by (simp_all add: ingest_keys_eq)
  with payload_extends_store [OF assms] show ?thesis
    by (simp add: stored_row_extras dict_get_map_keys store_args_def)
qed

text \<open>
  C12 (refinement): the two ways a sample reaches the store agree, and the
  store receives it twice. When a tick posts its payload and the request
  arrives, the ingestion endpoint accepts it, pushes it to every subscriber
  of the pair whose send succeeds, and appends a second row after the row of
  the poller's own write: same pair, same timestamp, same prices and
  statistics, with \<open>spread = price_a - price_b\<close>, and the same value in
  every column the first row holds.
\<close>

theorem tick_delivered_twice:
  assumes "rz_inv (rz p)" "db_inv (p_db s)" "finite (active (p_manager s) (pair_name pr))"
    and "tick cfg pr p io = (Tick_ok a (Some py) act, p')"
  shows "\<exists>pushed s' a'. deliver cv s (Tick_ok a (Some py) act) True send_ok = (Some (Inr pushed), s')
     \<and> set pushed = {w \<in> active (p_manager s) (pair_name pr). send_ok w}
     \<and> tbl_rows (p_db s') = tbl_rows (p_db s) @ [stored_row a, stored_row a']
     \<and> ingest_args cv py = Inr a'
     \<and> st_pair a' = st_pair a \<and> st_ts_ms a' = st_ts_ms a \<and> st_z a' = st_z a
     \<and> st_spread a' = st_price_a a' - st_price_b a' \<and> st_spread a' = st_spread a
     \<and> (\<forall>k. dict_get (st_extras a) k \<noteq> JNone \<longrightarrow> dict_get (stored_row a') k = dict_get (stored_row a) k)"
proof -
  from assms(4) obtain price_a ts_a dur_a price_b ts_b dur_b st xa xb f h where
    sg: "signals p price_a price_b = Inr (st, p')"
    and a: "a = store_args pr (max ts_a ts_b) price_a price_b st xa xb f"
    and py: "py = payload_of pr (max ts_a ts_b) price_a price_b st xa xb f h"
    by (elim tick_okE) (auto split: if_splits)
  let ?ts = "max ts_a ts_b"
  let ?a' = "\<lparr>st_pair = pair_name pr, st_ts_ms = ?ts, st_price_a = price_a, st_price_b = price_b,
      st_spread = spread st, st_z = zscore st, st_mean = z_mean st, st_std = z_std st,
      st_extras = map (\<lambda>k. (k, dict_get py k)) ingest_keys\<rparr>"
  let ?s1 = "s\<lparr>p_db := insert_spread (p_db s) a\<rparr>"
  let ?b = "broadcast (p_manager s) (pair_name pr) send_ok"
  have ia: "ingest_args cv py = Inr ?a'" unfolding py by (rule payload_ingest_args)
  have pp: "dict_get py ''pair'' = JStr (pair_name pr)" unfolding py by (rule payload_required)
  have req: "find (\<lambda>k. k \<notin> fst ` set py) required = None" unfolding py by (rule payload_has_required)
  note i = ingest_spread_value [OF req ia, of ?s1 send_ok]
  note b = broadcast_value [OF assms(3), of send_ok]
  from assms(2) have inv1: "db_inv (insert_spread (p_db s) a)" by (rule insert_spread_inv)
  have rows: "tbl_rows (insert_spread (insert_spread (p_db s) a) ?a') = tbl_rows (p_db s) @ [stored_row a, stored_row ?a']"
    by (simp add: insert_spread_fields(1) [OF inv1] insert_spread_fields(1) [OF assms(2)])
  have d: "deliver cv s (Tick_ok a (Some py) act) True send_ok
      = (Some (Inr (fst ?b)), ?s1\<lparr>p_db := insert_spread (insert_spread (p_db s) a) ?a', p_manager := snd ?b\<rparr>)"
    by (simp add: deliver_def Let_def i pp)
  have e: "dict_get (stored_row ?a') k = dict_get (stored_row a) k" if "dict_get (st_extras a) k \<noteq> JNone" for k
    using that unfolding a py by (intro ingested_row_extends) (simp add: store_args_def)
  from signals_sample(1) [OF assms(1) sg] have sp: "spread st = price_a - price_b" .
  from assms(3) b(1) have "set (fst ?b) = {w \<in> active (p_manager s) (pair_name pr). send_ok w}" by simp
  with d rows ia e sp show ?thesis
    by (simp add: a store_args_def)
qed


section \<open>A tick delivered\<close>

definition posting_cfg :: poller_cfg where
  "posting_cfg = demo_cfg\<lparr>panel_ingest_url := Some ''http://localhost:8000/api/ingest/spread''\<rparr>"

definition stream_panel :: panel where
  "stream_panel = demo_panel\<lparr>p_manager := \<lparr>active = (\<lambda>pair. if pair = ''BTCUSDT'' then {1, 2, 3} else {})\<rparr>\<rparr>"

lemma posting_tick:
  "\<exists>h. tick posting_cfg demo_pair demo_poller demo_io =
     (Tick_ok (store_args demo_pair 1040 100 (199 / 2) demo_stats
                 (extras_of demo_ob 5000 (Some (1 / 1000)) None) (extras_of demo_ob 7000 None None)
                 demo_fresh)
        (Some (payload_of demo_pair 1040 100 (199 / 2) demo_stats
                 (extras_of demo_ob 5000 (Some (1 / 1000)) None) (extras_of demo_ob 7000 None None)
                 demo_fresh h))
        Enter_short_A_long_B,
      \<lparr>rz = \<lparr>window = 60, buf = [1 / 4, 1 / 4, 1 / 4, 1 / 4, 3 / 10, 1 / 2]\<rparr>,
       ema_calc = \<lparr>ema_window = 30, alpha = 2 / 31, ema_value = Some (97 / 310)\<rparr>\<rparr>)"
proof -
  have f: "snd (freshness_of posting_cfg 1000 1040 30 70) = demo_fresh"
    by (simp add: freshness_of_def demo_defs posting_cfg_def Let_def)
  have k: "known_exchange (exchange (leg_a demo_pair))" "known_exchange (exchange (leg_b demo_pair))"
    by (simp_all add: known_exchange_def demo_pair_def)
  have m: "mid_a demo_io = Inr (100, 1000, 30)" "mid_b demo_io = Inr (199 / 2, 1040, 70)"
    by (simp_all add: demo_io_def)
  have e: "enrich_leg posting_cfg (leg_a demo_pair) (enr_a demo_io) = Inr (extras_of demo_ob 5000 (Some (1 / 1000)) None)"
    "enrich_leg posting_cfg (leg_b demo_pair) (enr_b demo_io) = Inr (extras_of demo_ob 7000 None None)"
    by (simp_all add: enrich_leg_def demo_pair_def demo_io_def demo_cfg_def posting_cfg_def)
  have c: "poller_cfg.enter_z posting_cfg = 2" "poller_cfg.exit_z posting_cfg = 1 / 2" "posting posting_cfg"
    "io_insert demo_io = Inr ()"
    by (simp_all add: demo_cfg_def posting_cfg_def posting_def demo_io_def)
  have a: "final_action (stale demo_fresh) (decide_action (zscore demo_stats) 2 (1 / 2))
      = Enter_short_A_long_B"
    by (simp add: final_action_def decide_action_def demo_defs)
  show ?thesis
    unfolding tick_after_signals [OF k m demo_signals]
    by (simp add: f e a c Let_def) blast
qed

theorem tick_delivered_twice_witness:
  "rz_inv (rz demo_poller) \<and> db_inv (p_db stream_panel)
   \<and> (\<exists>a py act p' pushed s'.
         tick posting_cfg demo_pair demo_poller demo_io = (Tick_ok a (Some py) act, p')
         \<and> deliver demo_conv stream_panel (Tick_ok a (Some py) act) True (\<lambda>w. True) = (Some (Inr pushed), s')
         \<and> set pushed = {1, 2, 3} \<and> length (tbl_rows (p_db s')) = 2
         \<and> map pair_of (tbl_rows (p_db s')) = [''BTCUSDT'', ''BTCUSDT'']
         \<and> map ts_of (tbl_rows (p_db s')) = [1040, 1040])"
proof -
  have i: "rz_inv (rz demo_poller)" by (simp add: rz_inv_def demo_poller_def)
  have d: "db_inv (p_db stream_panel)" "tbl_rows (p_db stream_panel) = []"
    by (simp_all add: stream_panel_def demo_panel_def open_db_inv) (simp add: open_db_def)
  have f: "finite (active (p_manager stream_panel) (pair_name demo_pair))"
    "active (p_manager stream_panel) (pair_name demo_pair) = {1, 2, 3}"
    by (simp_all add: stream_panel_def demo_pair_def)
  from posting_tick obtain a py act p' where
    t: "tick posting_cfg demo_pair demo_poller demo_io = (Tick_ok a (Some py) act, p')"
    and a: "st_pair a = ''BTCUSDT''" "st_ts_ms a = 1040"
    by (auto simp: store_args_def demo_pair_def)
  from tick_delivered_twice [OF i d(1) f(1) t, of demo_conv "\<lambda>w. True"] obtain pushed s' a' where
    "deliver demo_conv stream_panel (Tick_ok a (Some py) act) True (\<lambda>w. True) = (Some (Inr pushed), s')"
    "set pushed = {w \<in> active (p_manager stream_panel) (pair_name demo_pair). True}"
    "tbl_rows (p_db s') = tbl_rows (p_db stream_panel) @ [stored_row a, stored_row a']"
    "st_pair a' = st_pair a" "st_ts_ms a' = st_ts_ms a"
    by blast
  with t a d(2) f(2) i d(1) show ?thesis by auto
qed

end
